(* ===== verification/Go_Prelude.thy ===== *)
theory Go_Prelude
  imports Complex_Main "HOL-Library.Word" "HOL-Library.Signed_Division" "HOL-Library.Multiset"
begin

unbundle bit_operations_syntax

text \<open>
  The shared vocabulary of the development: Go's machine integers, byte slices, error values,
  the functions of Go's standard library that the repository calls (\<open>strings\<close>,
  \<open>path/filepath\<close>, \<open>encoding/binary\<close>, \<open>encoding/hex\<close>, \<open>math/big\<close>,
  \<open>sync.Map\<close>), the key-value interface that LevelDB and the in-memory maps share, and the
  generic lemmas about them.

  A Go \<open>string\<close> is a list of bytes and so is HOL's \<open>string\<close>; a \<open>[]byte\<close> is a list of
  \<open>8 word\<close>. A Go \<open>int\<close> and \<open>int64\<close> is a \<open>64 word\<close> read with \<open>sint\<close> where its
  width matters, and a HOL number where it is the length or an index of a slice.
  A run-time panic is \<open>None\<close> of an \<open>option\<close>.
\<close>

section \<open>Types\<close>

type_synonym bytes = "8 word list"
type_synonym u32 = "32 word"
type_synonym u64 = "64 word"
type_synonym i64 = "64 word"

text \<open>
  An \<open>error\<close> is the text it was made with; \<open>errors.Wrap\<close> of the package
  \<open>github.com/pkg/errors\<close> is documented to prefix a message to an error and to return \<open>nil\<close>
  for a \<open>nil\<close> error.
\<close>

datatype goerr = Errorf string | Wrapped string goerr

type_synonym 'a or_err = "goerr + 'a"

definition errors_Wrap :: "goerr option \<Rightarrow> string \<Rightarrow> goerr option" where
  "errors_Wrap e msg = map_option (Wrapped msg) e"

text \<open>The text of an error: \<open>errors.Wrap\<close> puts its message and a colon in front.\<close>

fun error_text :: "goerr \<Rightarrow> string" where
  "error_text (Errorf s) = s"
| "error_text (Wrapped m e) = m @ '': '' @ error_text e"

section \<open>Strings and paths\<close>

text \<open>\<open>strings.Split\<close> with a separator of one byte.\<close>

fun split_on :: "char \<Rightarrow> string \<Rightarrow> string list" where
  "split_on c [] = [[]]"
| "split_on c (x # xs) =
     (if x = c then [] # split_on c xs
      else (case split_on c xs of [] \<Rightarrow> [[x]] | p # ps \<Rightarrow> (x # p) # ps))"

text \<open>\<open>strings.Join\<close>.\<close>

fun strings_Join :: "string list \<Rightarrow> string \<Rightarrow> string" where
  "strings_Join [] sep = []"
| "strings_Join [x] sep = x"
| "strings_Join (x # y # zs) sep = x @ sep @ strings_Join (y # zs) sep"

fun has_prefix :: "string \<Rightarrow> string \<Rightarrow> bool" where
  "has_prefix s [] = True"
| "has_prefix [] (p # ps) = False"
| "has_prefix (s # ss) (p # ps) = (s = p \<and> has_prefix ss ps)"

text \<open>\<open>strings.Contains s sub\<close>.\<close>

fun strings_Contains :: "string \<Rightarrow> string \<Rightarrow> bool" where
  "strings_Contains [] sub = (sub = [])"
| "strings_Contains (c # s) sub = (has_prefix (c # s) sub \<or> strings_Contains s sub)"

definition strings_TrimPrefix :: "string \<Rightarrow> string \<Rightarrow> string" where
  "strings_TrimPrefix s p = (if has_prefix s p then drop (length p) s else s)"

text \<open>
  \<open>filepath.Clean\<close> (and \<open>path.Clean\<close>: the separator is a slash on the systems the node runs
  on): the components are pushed on a stack; empty ones and dots are dropped, a double dot pops
  the component below it, is dropped at the root and kept at the start of a relative path.
\<close>

fun clean_push :: "bool \<Rightarrow> string list \<Rightarrow> string \<Rightarrow> string list" where
  "clean_push rooted stack cmp =
     (if cmp = '''' \<or> cmp = ''.'' then stack
      else if cmp = ''..'' then
        (case stack of
           [] \<Rightarrow> (if rooted then [] else [''..''])
         | t # rest \<Rightarrow> (if t = ''..'' then ''..'' # stack else rest))
      else cmp # stack)"

fun clean_loop :: "bool \<Rightarrow> string list \<Rightarrow> string list \<Rightarrow> string list" where
  "clean_loop rooted stack [] = rev stack"
| "clean_loop rooted stack (c # cs) = clean_loop rooted (clean_push rooted stack c) cs"

definition path_Clean :: "string \<Rightarrow> string" where
  "path_Clean p =
     (let rooted = (p \<noteq> [] \<and> hd p = CHR ''/'');
          out = strings_Join (clean_loop rooted [] (split_on (CHR ''/'') p)) ''/''
      in if rooted then ''/'' @ out else if out = [] then ''.'' else out)"

text \<open>\<open>filepath.Join\<close> / \<open>path.Join\<close>: leading empty elements are skipped, the rest is joined and cleaned.\<close>

fun path_Join :: "string list \<Rightarrow> string" where
  "path_Join [] = []"
| "path_Join (e # es) = (if e = [] then path_Join es else path_Clean (strings_Join (e # es) ''/''))"

text \<open>\<open>filepath.Split\<close>: the directory part keeps its trailing slash.\<close>

definition path_Split :: "string \<Rightarrow> string \<times> string" where
  "path_Split p =
     (let r = rev p; f = takeWhile (\<lambda>c. c \<noteq> CHR ''/'') r
      in (rev (drop (length f) r), rev f))"

definition path_Dir :: "string \<Rightarrow> string" where
  "path_Dir p = path_Clean (fst (path_Split p))"

definition path_Base :: "string \<Rightarrow> string" where
  "path_Base p =
     (if p = [] then ''.''
      else let q = rev (dropWhile (\<lambda>c. c = CHR ''/'') (rev p));
               b = snd (path_Split q)
           in if b = [] then ''/'' else b)"

section \<open>Bytes, hexadecimal digits and big-endian words\<close>

definition string_bytes :: "string \<Rightarrow> bytes" where
  "string_bytes s = map of_char s"

definition bytes_string :: "bytes \<Rightarrow> string" where
  "bytes_string bs = map (\<lambda>b. char_of (unat b)) bs"

text \<open>\<open>binary.BigEndian.PutUint32\<close> into a four-byte buffer, and \<open>binary.BigEndian.Uint32\<close>.\<close>

definition be_put32 :: "u32 \<Rightarrow> bytes" where
  "be_put32 w = [ucast (drop_bit 24 w), ucast (drop_bit 16 w), ucast (drop_bit 8 w), ucast w]"

fun be_get32 :: "bytes \<Rightarrow> u32" where
  "be_get32 (a # b # c # d # rest) =
     push_bit 24 (ucast a) OR push_bit 16 (ucast b) OR push_bit 8 (ucast c) OR ucast d"
| "be_get32 _ = 0"

definition hex_digit :: "nat \<Rightarrow> char" where
  "hex_digit n = (if n < 10 then char_of (48 + n) else char_of (87 + n))"

definition hex_value :: "char \<Rightarrow> nat option" where
  "hex_value c =
     (let n = (of_char c :: nat)
      in if 48 \<le> n \<and> n \<le> 57 then Some (n - 48)
         else if 97 \<le> n \<and> n \<le> 102 then Some (n - 87)
         else if 65 \<le> n \<and> n \<le> 70 then Some (n - 55) else None)"

text \<open>\<open>hex.EncodeToString\<close> and \<open>hex.DecodeString\<close>.\<close>

fun hex_EncodeToString :: "bytes \<Rightarrow> string" where
  "hex_EncodeToString [] = []"
| "hex_EncodeToString (b # bs) =
     hex_digit (unat b div 16) # hex_digit (unat b mod 16) # hex_EncodeToString bs"

fun hex_DecodeString :: "string \<Rightarrow> bytes or_err" where
  "hex_DecodeString [] = Inr []"
| "hex_DecodeString [c] =
     (case hex_value c of None \<Rightarrow> Inl (Errorf ''invalid byte'') | Some _ \<Rightarrow> Inl (Errorf ''odd length hex string''))"
| "hex_DecodeString (c # d # s) =
     (case (hex_value c, hex_value d) of
        (Some h, Some l) \<Rightarrow>
          (case hex_DecodeString s of
             Inl e \<Rightarrow> Inl e
           | Inr bs \<Rightarrow> Inr (word_of_nat (16 * h + l) # bs))
      | _ \<Rightarrow> Inl (Errorf ''invalid byte''))"

section \<open>math/big\<close>

definition dec_value :: "char \<Rightarrow> nat option" where
  "dec_value c = (let n = (of_char c :: nat) in if 48 \<le> n \<and> n \<le> 57 then Some (n - 48) else None)"

fun dec_digits :: "nat \<Rightarrow> string \<Rightarrow> nat option" where
  "dec_digits acc [] = Some acc"
| "dec_digits acc (c # cs) =
     (case dec_value c of None \<Rightarrow> None | Some d \<Rightarrow> dec_digits (10 * acc + d) cs)"

definition dec_nat :: "string \<Rightarrow> nat option" where
  "dec_nat s = (if s = [] then None else dec_digits 0 s)"

text \<open>\<open>SetString(s, 10)\<close>: an optional sign, then one or more decimal digits and nothing else.\<close>

fun big_SetString :: "string \<Rightarrow> int option" where
  "big_SetString [] = None"
| "big_SetString (c # cs) =
     (if c = CHR ''-'' then map_option (\<lambda>n. - int n) (dec_nat cs)
      else if c = CHR ''+'' then map_option int (dec_nat cs)
      else map_option int (dec_nat (c # cs)))"

fun nat_dec :: "nat \<Rightarrow> string" where
  "nat_dec n = (if n < 10 then [char_of (48 + n)] else nat_dec (n div 10) @ [char_of (48 + n mod 10)])"

declare nat_dec.simps [simp del]

definition big_String :: "int \<Rightarrow> string" where
  "big_String x = (if x < 0 then CHR ''-'' # nat_dec (nat (- x)) else nat_dec (nat x))"

text \<open>\<open>Int64\<close> and \<open>Uint64\<close>: the low 64 bits of the magnitude; \<open>Int64\<close> applies the sign to them.\<close>

definition big_Uint64 :: "int \<Rightarrow> u64" where
  "big_Uint64 x = word_of_int \<bar>x\<bar>"

definition big_Int64 :: "int \<Rightarrow> i64" where
  "big_Int64 x = (if x < 0 then - word_of_int \<bar>x\<bar> else word_of_int x)"

text \<open>\<open>Div\<close>: Euclidean division; it panics on a zero divisor.\<close>

definition big_Div :: "int \<Rightarrow> int \<Rightarrow> int option" where
  "big_Div x y = (if y = 0 then None else if 0 < y then Some (x div y) else Some (- (x div (- y))))"

section \<open>Signed 64-bit remainder\<close>

text \<open>Go's \<open>%\<close> on \<open>int\<close> takes the sign of the dividend; a zero divisor panics.\<close>

definition int64_rem :: "i64 \<Rightarrow> i64 \<Rightarrow> i64 option" where
  "int64_rem a b = (if b = 0 then None else Some (word_of_int (sint a smod sint b)))"

definition uint64_div :: "u64 \<Rightarrow> u64 \<Rightarrow> u64 option" where
  "uint64_div a b = (if b = 0 then None else Some (a div b))"

section \<open>sync.Map and LevelDB\<close>

text \<open>The methods of \<open>sync.Map\<close> the repository uses, on the map's contents.\<close>

definition smap_Load :: "(string \<rightharpoonup> 'v) \<Rightarrow> string \<Rightarrow> 'v option" where
  "smap_Load m k = m k"

definition smap_Store :: "(string \<rightharpoonup> 'v) \<Rightarrow> string \<Rightarrow> 'v \<Rightarrow> (string \<rightharpoonup> 'v)" where
  "smap_Store m k v = m(k \<mapsto> v)"

definition smap_Delete :: "(string \<rightharpoonup> 'v) \<Rightarrow> string \<Rightarrow> (string \<rightharpoonup> 'v)" where
  "smap_Delete m k = m(k := None)"

text \<open>\<open>LoadOrStore\<close>: the actual value, and whether it was loaded.\<close>

definition smap_LoadOrStore :: "(string \<rightharpoonup> 'v) \<Rightarrow> string \<Rightarrow> 'v \<Rightarrow> (string \<rightharpoonup> 'v) \<times> 'v \<times> bool" where
  "smap_LoadOrStore m k v = (case m k of Some u \<Rightarrow> (m, u, True) | None \<Rightarrow> (m(k \<mapsto> v), v, False))"

text \<open>
  \<open>goleveldb\<close> is not part of the repository: \<open>Get\<close> and \<open>Put\<close> are parameters over an opaque
  database type. \<open>Get\<close> fails with \<open>ErrNotFound\<close> or with another error.
\<close>

datatype ldb_error = ErrNotFound | LdbErr string

record 'db leveldb =
  ldb_Get :: "'db \<Rightarrow> string \<Rightarrow> ldb_error + bytes"
  ldb_Put :: "'db \<Rightarrow> string \<Rightarrow> bytes \<Rightarrow> 'db \<times> ldb_error option"


text \<open>A path component that \<open>filepath.Clean\<close> leaves alone, such as a hexadecimal hash.\<close>

definition plain :: "string \<Rightarrow> bool" where
  "plain c \<longleftrightarrow> c \<noteq> [] \<and> CHR ''/'' \<notin> set c \<and> c \<noteq> ''.'' \<and> c \<noteq> ''..''"

section \<open>Collections\<close>

named_theorems go_defs \<open>definitions of the run-time library that component proofs unfold\<close>
named_theorems path_simps \<open>laws of joining, splitting and cleaning paths\<close>

lemmas [go_defs] = errors_Wrap_def smap_Load_def smap_Store_def smap_Delete_def smap_LoadOrStore_def

lemma errors_Wrap_simps [simp]:
  "errors_Wrap None m = None" "errors_Wrap (Some e) m = Some (Wrapped m e)"
  by (simp_all add: errors_Wrap_def)

section \<open>The key-value interface\<close>

text \<open>
  What the components rely on when they keep records under string keys: after a write that
  reports success the key reads back as written, and no write touches another key. It is the
  documented contract of LevelDB, which the development takes as a hypothesis, and a law of the
  download queue, for which it is proved.
\<close>

locale kv_store =
  fixes get :: "'s \<Rightarrow> string \<Rightarrow> 'e + 'v"
    and put :: "'s \<Rightarrow> string \<Rightarrow> 'v \<Rightarrow> 's \<times> 'e option"
  assumes get_put_same: "put s k v = (s', None) \<Longrightarrow> get s' k = Inr v"
    and get_put_other: "put s k v = (s', e) \<Longrightarrow> k' \<noteq> k \<Longrightarrow> get s' k' = get s k'"
begin

lemma get_after_put:
  assumes "put s k v = (s', None)"
  shows "get s' k' = (if k' = k then Inr v else get s k')"
  using get_put_same [OF assms] get_put_other [OF assms] by simp

lemma put_put_swap:
  assumes "put s k v = (s1, None)" and "put s1 l u = (s2, None)" and "k \<noteq> l"
  shows "get s2 k = Inr v" "get s2 l = Inr u"
  using assms get_put_same get_put_other by metis+

end

interpretation smap: kv_store
  "\<lambda>m k. case smap_Load m k of None \<Rightarrow> Inl () | Some v \<Rightarrow> Inr v"
  "\<lambda>m k v. (smap_Store m k v, None)"
  by unfold_locales (auto simp: go_defs)

section \<open>Laws of strings and paths\<close>

lemma split_on_not_Nil [simp]: "split_on c s \<noteq> []"
  by (induction s) (auto split: list.splits)

lemma split_on_no_sep: "c \<notin> set s \<Longrightarrow> split_on c s = [s]"
  by (induction s) auto

lemma split_on_append: "c \<notin> set s \<Longrightarrow> split_on c (s @ c # t) = s # split_on c t"
  by (induction s) (auto split: list.splits)

lemma split_on_append_all: "split_on c (s @ c # t) = split_on c s @ split_on c t"
  by (induction s) (auto split: list.splits)

lemma split_on_Join [path_simps]:
  "ps \<noteq> [] \<Longrightarrow> (\<forall>p \<in> set ps. CHR ''/'' \<notin> set p) \<Longrightarrow>
   split_on (CHR ''/'') (strings_Join ps ''/'') = ps"
  by (induction ps "''/''" rule: strings_Join.induct)
     (auto simp: split_on_no_sep split_on_append)

lemma split_on_set: "p \<in> set (split_on c s) \<Longrightarrow> c \<notin> set p"
proof (induction s arbitrary: p)
  case Nil
  then show ?case by simp
next
  case (Cons x xs)
  then show ?case by (cases "split_on c xs") (auto split: if_splits)
qed

lemma strings_Join_split: "strings_Join (split_on c s) [c] = s"
proof (induction s)
  case Nil
  then show ?case by simp
next
  case (Cons x xs)
  then show ?case by (cases "split_on c xs"; cases "tl (split_on c xs)") auto
qed

lemma clean_loop_plain:
  "(\<forall>p \<in> set ps. plain p) \<Longrightarrow> clean_loop r st ps = rev st @ ps"
  by (induction ps arbitrary: st) (auto simp: plain_def)

lemma strings_Join_hd:
  "ps \<noteq> [] \<Longrightarrow> hd ps \<noteq> [] \<Longrightarrow>
   strings_Join ps sep \<noteq> [] \<and> hd (strings_Join ps sep) = hd (hd ps)"
  by (cases "(ps, sep)" rule: strings_Join.cases) auto

lemma path_Clean_plain:
  assumes "ps \<noteq> []" and "\<forall>p \<in> set ps. plain p"
  shows "path_Clean (strings_Join ps ''/'') = strings_Join ps ''/''"
proof -
  have hd: "plain (hd ps)" using assms by simp
  then have ne: "strings_Join ps ''/'' \<noteq> []" "hd (strings_Join ps ''/'') \<noteq> CHR ''/''"
    using strings_Join_hd [OF assms(1), of "''/''"] hd_in_set [of "hd ps"] unfolding plain_def by metis+
  have "split_on (CHR ''/'') (strings_Join ps ''/'') = ps"
    using assms by (auto simp: path_simps plain_def)
  then show ?thesis using ne assms by (simp add: path_Clean_def clean_loop_plain)
qed

lemma path_Join_plain [path_simps]:
  "ps \<noteq> [] \<Longrightarrow> \<forall>p \<in> set ps. plain p \<Longrightarrow> path_Join ps = strings_Join ps ''/''"
  using path_Clean_plain [of ps] by (cases ps) (auto simp: plain_def)

lemma takeWhile_no_slash:
  "CHR ''/'' \<notin> set f \<Longrightarrow> takeWhile (\<lambda>c. c \<noteq> CHR ''/'') (rev f) = rev f"
  by (rule takeWhile_eq_all_conv [THEN iffD2]) auto

lemma path_Split_slash [path_simps]:
  "CHR ''/'' \<notin> set f \<Longrightarrow> path_Split (d @ CHR ''/'' # f) = (d @ ''/'', f)"
  by (auto simp: path_Split_def Let_def takeWhile_append)

lemma path_Split_noslash [path_simps]:
  "CHR ''/'' \<notin> set f \<Longrightarrow> path_Split f = ([], f)"
  by (simp add: path_Split_def Let_def takeWhile_no_slash)

lemma path_Split_dir: "fst (path_Split p) = [] \<or> last (fst (path_Split p)) = CHR ''/''"
proof -
  let ?P = "\<lambda>c. c \<noteq> CHR ''/''"
  have "drop (length (takeWhile ?P (rev p))) (rev p) = dropWhile ?P (rev p)"
    by (simp add: dropWhile_eq_drop)
  then show ?thesis
    using hd_dropWhile [of ?P "rev p"]
    by (auto simp: path_Split_def Let_def last_rev simp del: drop_rev)
qed

lemma path_Split_append: "fst (path_Split p) @ snd (path_Split p) = p"
proof -
  let ?P = "\<lambda>c. c \<noteq> CHR ''/''"
  have "fst (path_Split p) = rev (dropWhile ?P (rev p))" "snd (path_Split p) = rev (takeWhile ?P (rev p))"
    unfolding path_Split_def Let_def by (simp_all only: fst_conv snd_conv dropWhile_eq_drop [symmetric])
  then have "fst (path_Split p) @ snd (path_Split p) = rev (takeWhile ?P (rev p) @ dropWhile ?P (rev p))"
    by (simp only: rev_append)
  then show ?thesis by (simp only: takeWhile_dropWhile_id rev_rev_ident)
qed

lemma strings_Join_last:
  "ps \<noteq> [] \<Longrightarrow> last ps \<noteq> [] \<Longrightarrow>
   strings_Join ps sep \<noteq> [] \<and> last (strings_Join ps sep) = last (last ps)"
  by (induction ps sep rule: strings_Join.induct) auto

lemma clean_push_comps:
  assumes "\<forall>p \<in> set st. p \<noteq> [] \<and> CHR ''/'' \<notin> set p" and "CHR ''/'' \<notin> set c"
  shows "\<forall>p \<in> set (clean_push r st c). p \<noteq> [] \<and> CHR ''/'' \<notin> set p"
  using assms by (auto split: list.splits)

lemma clean_loop_comps:
  assumes "\<forall>p \<in> set st. p \<noteq> [] \<and> CHR ''/'' \<notin> set p" and "\<forall>p \<in> set cs. CHR ''/'' \<notin> set p"
  shows "\<forall>p \<in> set (clean_loop r st cs). p \<noteq> [] \<and> CHR ''/'' \<notin> set p"
  using assms
proof (induction cs arbitrary: st)
  case Nil
  then show ?case by simp
next
  case (Cons c cs)
  have "\<forall>p \<in> set (clean_push r st c). p \<noteq> [] \<and> CHR ''/'' \<notin> set p"
    using Cons.prems by (intro clean_push_comps) auto
  from Cons.IH [OF this] Cons.prems(2) show ?case unfolding clean_loop.simps by (meson list.set_intros(2))
qed

text \<open>A cleaned path ends with a slash only if it is the root.\<close>

lemma path_Clean_last: "path_Clean p = ''/'' \<or> (path_Clean p \<noteq> [] \<and> last (path_Clean p) \<noteq> CHR ''/'')"
proof -
  let ?cs = "\<lambda>r. clean_loop r [] (split_on (CHR ''/'') p)"
  let ?j = "\<lambda>r. strings_Join (?cs r) ''/''"
  have c: "\<forall>q \<in> set (?cs r). q \<noteq> [] \<and> CHR ''/'' \<notin> set q" for r
    by (rule clean_loop_comps) (auto dest: split_on_set)
  have j: "?j r = [] \<or> last (?j r) \<noteq> CHR ''/''" for r
  proof (cases "?cs r = []")
    case False
    then have "last (?cs r) \<in> set (?cs r)" by simp
    then have "last (?cs r) \<noteq> []" "CHR ''/'' \<notin> set (last (?cs r))" using c by blast+
    then show ?thesis using strings_Join_last [OF False] last_in_set [of "last (?cs r)"] by metis
  qed simp
  show ?thesis using j [of True] j [of False] by (auto simp: path_Clean_def Let_def)
qed

lemma path_Join_last: "path_Join ps = [] \<or> path_Join ps = ''/'' \<or> last (path_Join ps) \<noteq> CHR ''/''"
proof (induction ps)
  case (Cons e es)
  then show ?case using path_Clean_last [of "strings_Join (e # es) ''/''"] by auto
qed simp

lemma path_Base_plain [path_simps]: "plain b \<Longrightarrow> path_Base (d @ CHR ''/'' # b) = b"
proof -
  assume b: "plain b"
  then obtain x y where xy: "rev b = x # y" by (cases "rev b") (auto simp: plain_def)
  with b have "x \<noteq> CHR ''/''"
    by (metis list.set_intros(1) plain_def set_rev)
  moreover have "rev (d @ CHR ''/'' # b) = x # y @ CHR ''/'' # rev d" using xy by simp
  ultimately have "dropWhile (\<lambda>c. c = CHR ''/'') (rev (d @ CHR ''/'' # b)) = rev (d @ CHR ''/'' # b)"
    by (simp only: dropWhile.simps if_False)
  then have "rev (dropWhile (\<lambda>c. c = CHR ''/'') (rev (d @ CHR ''/'' # b))) = d @ CHR ''/'' # b"
    by (simp only: rev_rev_ident)
  moreover have "snd (path_Split (d @ CHR ''/'' # b)) = b"
    using b by (simp add: path_simps plain_def)
  ultimately show ?thesis using b by (simp add: path_Base_def plain_def)
qed

text \<open>The base of a joined path is its last element, whatever the directory.\<close>

lemma clean_loop_snoc: "plain h \<Longrightarrow> clean_loop r st (cs @ [h]) = clean_loop r st cs @ [h]"
  by (induction cs arbitrary: st) (auto simp: plain_def)

lemma strings_Join_snoc: "strings_Join (ps @ [h]) sep = (if ps = [] then h else strings_Join ps sep @ sep @ h)"
  by (induction ps sep rule: strings_Join.induct) auto

lemma path_Base_noslash: "plain b \<Longrightarrow> path_Base b = b"
proof -
  assume b: "plain b"
  then obtain x y where xy: "rev b = x # y" by (cases "rev b") (auto simp: plain_def)
  with b have "x \<noteq> CHR ''/''" by (metis list.set_intros(1) plain_def set_rev)
  then have "dropWhile (\<lambda>c. c = CHR ''/'') (rev b) = rev b"
    by (simp only: xy dropWhile.simps if_False)
  then have "rev (dropWhile (\<lambda>c. c = CHR ''/'') (rev b)) = b"
    by (simp only: rev_rev_ident)
  moreover have "path_Split b = ([], b)" using b by (simp add: path_Split_noslash plain_def)
  ultimately show ?thesis using b by (simp add: path_Base_def plain_def)
qed

lemma path_Base_Join [path_simps]:
  assumes "plain h" and "d \<noteq> []"
  shows "path_Base (path_Join [d, h]) = h"
proof -
  let ?p = "d @ CHR ''/'' # h" and ?cs = "\<lambda>r. clean_loop r [] (split_on (CHR ''/'') d)"
  have "split_on (CHR ''/'') ?p = split_on (CHR ''/'') d @ [h]"
    using assms(1) by (simp add: split_on_append_all split_on_no_sep plain_def)
  then have j: "strings_Join (clean_loop r [] (split_on (CHR ''/'') ?p)) ''/'' =
      (if ?cs r = [] then h else strings_Join (?cs r) ''/'' @ CHR ''/'' # h)" for r
    using assms(1) by (simp add: clean_loop_snoc strings_Join_snoc)
  have base: "path_Base (x @ CHR ''/'' # h) = h" "path_Base h = h" for x
    using assms(1) by (simp_all add: path_Base_plain path_Base_noslash)
  have "h \<noteq> []" using assms(1) by (simp add: plain_def)
  then show ?thesis
    using assms(2) j [of True] j [of False] base(1) [of "[]"] base(1) [of "CHR ''/'' # strings_Join (?cs True) ''/''"]
      base(1) [of "strings_Join (?cs False) ''/''"] base(2)
    by (auto simp: path_Join.simps path_Clean_def Let_def simp del: clean_loop.simps)
qed

lemma path_Join_inject: "plain h \<Longrightarrow> plain k \<Longrightarrow> d \<noteq> [] \<Longrightarrow> path_Join [d, h] = path_Join [d, k] \<longleftrightarrow> h = k"
  using path_Base_Join [of h d] path_Base_Join [of k d] by metis

text \<open>What every step keeps holds in all states that the steps lead to.\<close>

lemma rtranclp_invariant:
  assumes "step\<^sup>*\<^sup>* s t" and "I s" and "\<And>s t. step s t \<Longrightarrow> I s \<Longrightarrow> I t"
  shows "I t"
  using assms(1) by (induction rule: rtranclp_induct) (auto intro: assms(2,3))

section \<open>Round trips of the encodings\<close>

lemma be_put32_length [simp]: "length (be_put32 w) = 4"
  by (simp add: be_put32_def)

lemma be_get_put32 [simp]: "be_get32 (be_put32 w @ rest) = w"
proof (rule bit_word_eqI)
  fix n assume "n < LENGTH(32)"
  then show "bit (be_get32 (be_put32 w @ rest)) n \<longleftrightarrow> bit w n"
    unfolding be_put32_def append.simps be_get32.simps
    by (cases "n < 8"; cases "n < 16"; cases "n < 24") (auto simp: bit_simps not_less)
qed

lemma be_get_put32' [simp]: "be_get32 (be_put32 w) = w"
  using be_get_put32 [of w "[]"] by simp

lemma hex_value_digit: "n < 16 \<Longrightarrow> hex_value (hex_digit n) = Some n"
  by (auto simp: hex_value_def hex_digit_def Let_def)

lemma unat_byte_less: "unat (b :: 8 word) < 256"
  using unsigned_less [of b, where ?'a = nat] by simp

lemma hex_roundtrip: "hex_DecodeString (hex_EncodeToString bs) = Inr bs"
proof (induction bs)
  case (Cons b bs)
  have "unat b div 16 < 16" using unat_byte_less [of b] by simp
  then show ?case using Cons by (simp add: hex_value_digit)
qed simp

lemma hex_encode_length: "length (hex_EncodeToString bs) = 2 * length bs"
  by (induction bs) auto

lemma dec_value_digit: "n < 10 \<Longrightarrow> dec_value (char_of (48 + n)) = Some n"
  by (auto simp: dec_value_def Let_def)

lemma dec_digits_append:
  "dec_digits acc (xs @ ys) =
     (case dec_digits acc xs of None \<Rightarrow> None | Some a \<Rightarrow> dec_digits a ys)"
  by (induction xs arbitrary: acc) (auto split: option.splits)

lemma nat_dec_digits: "dec_digits 0 (nat_dec n) = Some n"
proof (induction n rule: nat_dec.induct)
  case (1 n)
  then show ?case
    by (cases "n < 10")
       (simp_all add: nat_dec.simps [of n] dec_digits_append dec_value_digit)
qed

lemma nat_dec_ne [simp]: "nat_dec n \<noteq> []"
  by (subst nat_dec.simps) simp

lemma nat_dec_hd: "\<exists>d < (10::nat). hd (nat_dec n) = char_of (48 + d)"
proof (induction n rule: nat_dec.induct)
  case (1 n)
  then show ?case by (cases "n < 10") (auto simp: nat_dec.simps [of n])
qed

lemma big_SetString_String: "big_SetString (big_String x) = Some x"
proof -
  have neg: "big_SetString (CHR ''-'' # nat_dec m) = Some (- int m)" for m
    by (simp add: dec_nat_def nat_dec_digits)
  note big_SetString.simps [simp del]
  have pos: "big_SetString (nat_dec m) = Some (int m)" for m
  proof -
    obtain d :: nat where d: "d < 10" "hd (nat_dec m) = char_of (48 + d)" using nat_dec_hd by blast
    obtain c cs where c: "nat_dec m = c # cs" by (cases "nat_dec m") auto
    have "(of_char c :: nat) = 48 + d" using c d by simp
    then have "c \<noteq> CHR ''-''" "c \<noteq> CHR ''+''" by auto
    then show ?thesis using nat_dec_digits [of m] by (simp add: c dec_nat_def big_SetString.simps)
  qed
  show ?thesis by (auto simp: big_String_def neg pos)
qed

lemma big_Div_pos: "0 < y \<Longrightarrow> big_Div x y = Some (x div y)"
  by (simp add: big_Div_def)

lemma sint_of_int64:
  "- (2 ^ 63) \<le> k \<Longrightarrow> k < 2 ^ 63 \<Longrightarrow> sint (word_of_int k :: i64) = k"
  by (simp add: int_word_sint)

lemma unat_u64_less: "unat (x :: u64) < 2 ^ 64"
  using unsigned_less [of x, where ?'a = nat] by simp

lemma unat_sub_wrap:
  "unat ((a :: u64) - b) = (if unat b \<le> unat a then unat a - unat b else unat a + 2 ^ 64 - unat b)"
  using unat_sub_if_size [of a b] by (simp add: word_size)

text \<open>The components reason about joined paths through the laws only.\<close>

declare path_Join.simps [simp del]

end
