(* ===== verification/Cdn_Types.thy ===== *)
theory Cdn_Types
  imports Go_Prelude
begin

text \<open>
  \<open>cd2n-lib/types/types.go\<close>: the constants of the cache protocol and the messages that cache
  nodes and clients exchange. \<open>LoadRatio\<close> is a Go \<open>float64\<close>, a real number here. The field
  \<open>Data\<close> of a \<open>Response\<close> has the Go type \<open>any\<close>; the node puts an error text or a
  \<open>CacheResponse\<close> in it.
\<close>

definition RECORD_FRAGMENTS :: string where "RECORD_FRAGMENTS = ''-fragments''"
definition RECORD_REQUESTS :: string where "RECORD_REQUESTS = ''-requests''"

definition OPTION_QUERY :: string where "OPTION_QUERY = ''query''"
definition OPTION_DOWNLOAD :: string where "OPTION_DOWNLOAD = ''download''"
definition OPTION_DAIL :: string where "OPTION_DAIL = ''dail''"

definition STATUS_HIT :: string where "STATUS_HIT = ''hit''"
definition STATUS_MISS :: string where "STATUS_MISS = ''miss''"
definition STATUS_LOADING :: string where "STATUS_LOADING = ''loading''"
definition STATUS_FROZEN :: string where "STATUS_FROZEN = ''frozen''"
definition STATUS_ERROR :: string where "STATUS_ERROR = ''error''"
definition STATUS_OK :: string where "STATUS_OK = ''ok''"

definition CACHE_BUSY :: string where "CACHE_BUSY = ''busy''"
definition CACHE_IDLE :: string where "CACHE_IDLE = ''idle''"

definition FragmentSize :: i64 where "FragmentSize = 8 * 1024 * 1024"

record CacheInfo =
  ci_LoadRatio :: real
  ci_Status :: string
  ci_Price :: string
  ci_Account :: bytes
  ci_PeerId :: string
  ci_CreditLimit :: i64
  ci_CreditPoints :: i64

record CacheRequest =
  rq_Option :: string
  rq_WantUrl :: string
  rq_WantFile :: string
  rq_AccountId :: bytes
  rq_Data :: bytes
  rq_Sign :: bytes

record CacheResponse =
  rs_Status :: string
  rs_CachedFiles :: "string list"
  rs_Info :: CacheInfo

datatype response_data = DataText string | DataCache CacheResponse

record Response =
  rp_Status :: string
  rp_Data :: response_data

text \<open>The zero values that Go gives to a variable declared without an initialiser.\<close>

definition CacheInfo_zero :: CacheInfo where
  "CacheInfo_zero = \<lparr>ci_LoadRatio = 0, ci_Status = '''', ci_Price = '''', ci_Account = [],
     ci_PeerId = '''', ci_CreditLimit = 0, ci_CreditPoints = 0\<rparr>"

definition CacheRequest_zero :: CacheRequest where
  "CacheRequest_zero = \<lparr>rq_Option = '''', rq_WantUrl = '''', rq_WantFile = '''',
     rq_AccountId = [], rq_Data = [], rq_Sign = []\<rparr>"

definition CacheResponse_zero :: CacheResponse where
  "CacheResponse_zero = \<lparr>rs_Status = '''', rs_CachedFiles = [], rs_Info = CacheInfo_zero\<rparr>"

text \<open>The constants are unfolded together.\<close>

named_theorems cdn_consts \<open>the constants of the cache protocol\<close>

lemmas [cdn_consts] =
  RECORD_FRAGMENTS_def RECORD_REQUESTS_def
  OPTION_QUERY_def OPTION_DOWNLOAD_def OPTION_DAIL_def
  STATUS_HIT_def STATUS_MISS_def STATUS_LOADING_def STATUS_FROZEN_def STATUS_ERROR_def STATUS_OK_def
  CACHE_BUSY_def CACHE_IDLE_def FragmentSize_def

lemma status_distinct [simp]:
  "STATUS_HIT \<noteq> STATUS_MISS" "STATUS_MISS \<noteq> STATUS_HIT"
  "STATUS_HIT \<noteq> STATUS_LOADING" "STATUS_LOADING \<noteq> STATUS_HIT"
  "STATUS_HIT \<noteq> STATUS_FROZEN" "STATUS_FROZEN \<noteq> STATUS_HIT"
  "STATUS_HIT \<noteq> STATUS_OK" "STATUS_OK \<noteq> STATUS_HIT"
  "STATUS_MISS \<noteq> STATUS_LOADING" "STATUS_LOADING \<noteq> STATUS_MISS"
  "STATUS_MISS \<noteq> STATUS_FROZEN" "STATUS_FROZEN \<noteq> STATUS_MISS"
  "STATUS_MISS \<noteq> STATUS_OK" "STATUS_OK \<noteq> STATUS_MISS"
  "STATUS_LOADING \<noteq> STATUS_FROZEN" "STATUS_FROZEN \<noteq> STATUS_LOADING"
  "STATUS_LOADING \<noteq> STATUS_OK" "STATUS_OK \<noteq> STATUS_LOADING"
  "STATUS_FROZEN \<noteq> STATUS_OK" "STATUS_OK \<noteq> STATUS_FROZEN"
  by (simp_all add: cdn_consts)

lemma option_distinct [simp]:
  "OPTION_QUERY \<noteq> OPTION_DAIL" "OPTION_DAIL \<noteq> OPTION_QUERY"
  "OPTION_DOWNLOAD \<noteq> OPTION_DAIL" "OPTION_DAIL \<noteq> OPTION_DOWNLOAD"
  "OPTION_DOWNLOAD \<noteq> OPTION_QUERY" "OPTION_QUERY \<noteq> OPTION_DOWNLOAD"
  by (simp_all add: cdn_consts)

lemma record_types_distinct [simp]:
  "RECORD_FRAGMENTS \<noteq> RECORD_REQUESTS" "RECORD_REQUESTS \<noteq> RECORD_FRAGMENTS"
  by (simp_all add: cdn_consts)

end
