(* ===== verification/Actors.thy ===== *)
theory Actors
  imports Cdn_Types
begin

text \<open>
  \<open>cd2n-node/actors/actor.go\<close> and \<open>p2p_ts_actor.go\<close>: the registry of the node's actors and the
  actor that hands messages to registered handlers, with the messages of \<open>resource_actor.go\<close> that
  the cache actor and the resource actor exchange.

  The actor system of protoactor-go is the parameter type \<open>'sys\<close>, its process ids are \<open>'pid\<close>. A
  \<open>nil\<close> Go map is \<open>None\<close>: reading it finds nothing, writing to it panics.
\<close>

section \<open>The registry\<close>

definition CACHE_ACTOR :: string where "CACHE_ACTOR = ''cache_actor''"
definition P2P_TS_ACTOR :: string where "P2P_TS_ACTOR = ''p2p_ts_actor''"
definition RESOURCE_ACTOR :: string where "RESOURCE_ACTOR = ''resource_actor''"

record ('sys, 'pid) ActorSystem =
  as_ActorSystem :: 'sys
  as_Actors :: "string \<rightharpoonup> 'pid"

definition NewActorSystem :: "'sys \<Rightarrow> ('sys, 'pid) ActorSystem" where
  "NewActorSystem actorSys = \<lparr>as_ActorSystem = actorSys, as_Actors = Map.empty\<rparr>"

text \<open>The global variable is the argument; \<open>fresh\<close> is what \<open>actor.NewActorSystem()\<close> returns.\<close>

definition GetGlobalActorSystem ::
  "'sys \<Rightarrow> ('sys, 'pid) ActorSystem option \<Rightarrow> ('sys, 'pid) ActorSystem \<times> ('sys, 'pid) ActorSystem option" where
  "GetGlobalActorSystem fresh glob =
     (case glob of
        None \<Rightarrow> (NewActorSystem fresh, Some (NewActorSystem fresh))
      | Some as \<Rightarrow> (as, glob))"

definition InitGlobalActorSystem ::
  "'sys \<Rightarrow> ('sys, 'pid) ActorSystem option \<Rightarrow> ('sys, 'pid) ActorSystem option" where
  "InitGlobalActorSystem actorSys glob = Some (NewActorSystem actorSys)"

definition RegisterActor ::
  "('sys, 'pid) ActorSystem \<Rightarrow> string \<Rightarrow> 'pid option \<Rightarrow> ('sys, 'pid) ActorSystem" where
  "RegisterActor as name pid =
     (case pid of None \<Rightarrow> as | Some p \<Rightarrow> as\<lparr>as_Actors := (as_Actors as)(name \<mapsto> p)\<rparr>)"

definition GetActor :: "('sys, 'pid) ActorSystem \<Rightarrow> string \<Rightarrow> 'pid option" where
  "GetActor as name = as_Actors as name"

section \<open>The peer-to-peer actor\<close>

text \<open>A handler runs on the message and the host; what it does is the value it returns.\<close>

record P2pMessage =
  pm_Option :: string
  pm_Data :: bytes

record ('host, 'act) P2pNodeActor =
  pn_Host :: 'host
  pn_handleMap :: "(string \<rightharpoonup> (P2pMessage \<Rightarrow> 'host \<Rightarrow> 'act)) option"

definition NewP2pNodeActor :: "'host \<Rightarrow> ('host, 'act) P2pNodeActor" where
  "NewP2pNodeActor node = \<lparr>pn_Host = node, pn_handleMap = None\<rparr>"

definition RegisterMessageHandle ::
  "('host, 'act) P2pNodeActor \<Rightarrow> string \<Rightarrow> (P2pMessage \<Rightarrow> 'host \<Rightarrow> 'act) \<Rightarrow> ('host, 'act) P2pNodeActor option" where
  "RegisterMessageHandle p opt handle =
     (case pn_handleMap p of
        None \<Rightarrow> None
      | Some m \<Rightarrow> Some (p\<lparr>pn_handleMap := Some (m(opt \<mapsto> handle))\<rparr>))"

text \<open>A message of another type is \<open>None\<close>; the result is the handler's action, if one ran.\<close>

definition P2pNodeActor_Receive :: "('host, 'act) P2pNodeActor \<Rightarrow> P2pMessage option \<Rightarrow> 'act option" where
  "P2pNodeActor_Receive p message =
     (case message of
        None \<Rightarrow> None
      | Some msg \<Rightarrow>
          (case pn_handleMap p of
             None \<Rightarrow> None
           | Some m \<Rightarrow>
               (case m (pm_Option msg) of None \<Rightarrow> None | Some handle \<Rightarrow> Some (handle msg (pn_Host p)))))"

section \<open>Messages between the cache actor and the resource actor\<close>

definition ORIGIN_SITE_TAG :: string where "ORIGIN_SITE_TAG = ''origin_site_tag''"
definition SITE_RESOURCE_CACHE :: string where "SITE_RESOURCE_CACHE = ''site resource cache''"
definition NODE_RESOURCE_CACHE :: string where "NODE_RESOURCE_CACHE = ''node resource cache''"

record DownloadResponse =
  dr_ResrcPath :: string
  dr_Key :: string
  dr_OriginNode :: bytes

text \<open>The field \<open>Data\<close> has the type \<open>any\<close>; \<open>None\<close> is anything that is no \<open>CacheRequest\<close>.\<close>

record DownloadRequest =
  dq_Option :: string
  dq_Data :: "CacheRequest option"

lemmas [cdn_consts] = ORIGIN_SITE_TAG_def SITE_RESOURCE_CACHE_def NODE_RESOURCE_CACHE_def

lemma resource_options_distinct [simp]:
  "SITE_RESOURCE_CACHE \<noteq> NODE_RESOURCE_CACHE" "NODE_RESOURCE_CACHE \<noteq> SITE_RESOURCE_CACHE"
  by (simp_all add: cdn_consts)

section \<open>Laws\<close>

text \<open>The registry is a key-value store.\<close>

interpretation registry: kv_store
  "\<lambda>as name. case GetActor as name of None \<Rightarrow> Inl () | Some pid \<Rightarrow> Inr pid"
  "\<lambda>as name pid. (RegisterActor as name (Some pid), None)"
  by unfold_locales (auto simp: GetActor_def RegisterActor_def)

lemma GetActor_Register:
  "GetActor (RegisterActor as n pid) m = (if m = n \<and> pid \<noteq> None then pid else GetActor as m)"
  by (auto simp: GetActor_def RegisterActor_def split: option.splits)

lemma GetActor_Register_all:
  "GetActor (foldl (\<lambda>as (n, p). RegisterActor as n p) as regs) m =
     (case find (\<lambda>(n, p). n = m \<and> p \<noteq> None) (rev regs) of Some (n, p) \<Rightarrow> p | None \<Rightarrow> GetActor as m)"
proof (induction regs rule: rev_induct)
  case (snoc r regs)
  then show ?case by (cases r) (auto simp: GetActor_Register)
qed simp

section \<open>Properties\<close>

text \<open>Looking an actor up after any sequence of registrations in a fresh global registry gives
  the last process registered under its name; registering no process changes nothing; and
  initialising the registry again forgets every actor.\<close>

theorem registry_last_registration:
  assumes "GetGlobalActorSystem fresh None = (as, g)"
  shows "GetActor (foldl (\<lambda>as (n, p). RegisterActor as n p) as regs) m =
      (case find (\<lambda>(n, p). n = m \<and> p \<noteq> None) (rev regs) of Some (n, p) \<Rightarrow> p | None \<Rightarrow> None) \<and>
    fst (GetGlobalActorSystem fresh (InitGlobalActorSystem sys g)) = NewActorSystem sys"
proof -
  have "GetActor as m = None" using assms by (auto simp: GetGlobalActorSystem_def NewActorSystem_def GetActor_def)
  then show ?thesis
    by (simp only: GetActor_Register_all) (simp add: InitGlobalActorSystem_def GetGlobalActorSystem_def)
qed

theorem registry_last_registration_witness:
  "GetActor (RegisterActor (RegisterActor (NewActorSystem () :: (unit, nat) ActorSystem)
     CACHE_ACTOR (Some 1)) CACHE_ACTOR (Some 2)) CACHE_ACTOR = Some 2"
  using registry_last_registration [of "()" "NewActorSystem ()" "Some (NewActorSystem ())"
      "[(CACHE_ACTOR, Some (1 :: nat)), (CACHE_ACTOR, Some 2)]" CACHE_ACTOR "()"]
  by (simp add: GetGlobalActorSystem_def)

text \<open>The peer-to-peer actor that the node creates never has a handler map: registering any
  handler with it panics, and every message it receives is dropped.\<close>

theorem p2p_actor_has_no_handlers:
  "RegisterMessageHandle (NewP2pNodeActor node) opt handle = None \<and>
   P2pNodeActor_Receive (NewP2pNodeActor node) message = None"
  by (simp add: RegisterMessageHandle_def NewP2pNodeActor_def P2pNodeActor_Receive_def split: option.split)

end
