(* ===== verification/Credit.thy ===== *)
theory Credit
  imports Cdn_Types
begin

text \<open>
  \<open>cd2n-lib/credit/credit.go\<close>: the credit manager of a node. For every account it keeps, in a
  LevelDB database, how much it sent to the account and how much it received from it, and derives
  a trust level and a debt limit from the two counters. \<open>uint64\<close> arithmetic wraps, as in Go.

  The LevelDB handle, the JSON codec of \<open>RecordItem\<close>, the clock, the public-key functions of
  go-ethereum and the order handle (\<open>protocol.Order2Credit\<close>) are parameters; \<open>'w\<close> is the state
  of the chain behind the handle.
\<close>

section \<open>Data\<close>

definition LEVEL_UNTRUST :: i64 where "LEVEL_UNTRUST = 3"
definition LEVEL_COMMON :: i64 where "LEVEL_COMMON = 2"
definition LEVEL_TRUST :: i64 where "LEVEL_TRUST = 1"
definition LEVEL_OWNER :: i64 where "LEVEL_OWNER = 0"
definition DEFALUT_RESOURCE_LIMIT :: u64 where "DEFALUT_RESOURCE_LIMIT = 4 * 8 * 1024 * 1024"

record 'db Credit =
  cr_Price :: string
  cr_Owner :: string
  cr_ResourceLimit :: u64
  cr_Record :: 'db

text \<open>\<open>LastAccess\<close> is a \<open>time.Time\<close>; it is kept as the 64-bit count of its Unix nanoseconds.\<close>

record RecordItem =
  ri_Level :: i64
  ri_SentResource :: u64
  ri_ReceivedResource :: u64
  ri_CheckedTimes :: u64
  ri_LastAccess :: i64

definition RecordItem_zero :: RecordItem where
  "RecordItem_zero = \<lparr>ri_Level = 0, ri_SentResource = 0, ri_ReceivedResource = 0,
     ri_CheckedTimes = 0, ri_LastAccess = 0\<rparr>"

text \<open>
  The interface \<open>Order2Credit\<close>: \<open>CreateCreditOrder\<close> returns a transaction hash, an order id
  and an error, \<open>CheckCreditOrder\<close> the value of the order and an error; both may panic.
\<close>

record 'w Order2Credit =
  o2c_Create :: "'w \<Rightarrow> string \<Rightarrow> string \<Rightarrow> string \<Rightarrow> ((string \<times> string \<times> goerr option) \<times> 'w) option"
  o2c_Check :: "'w \<Rightarrow> bytes \<Rightarrow> bytes \<Rightarrow> bytes \<Rightarrow> ((string \<times> goerr option) \<times> 'w) option"

text \<open>What the credit manager takes from outside the repository.\<close>

record 'db credit_env =
  ce_db :: "'db leveldb"
  ce_marshal :: "RecordItem \<Rightarrow> bytes"
  ce_unmarshal :: "bytes \<Rightarrow> RecordItem \<times> goerr option"
  ce_now :: i64
  ce_DecompressPubkey :: "bytes \<Rightarrow> bytes or_err"
  ce_AddressHex :: "bytes \<Rightarrow> string"

section \<open>Operations\<close>

definition NewCreditManager ::
  "(string \<Rightarrow> 'db or_err) \<Rightarrow> string \<Rightarrow> string \<Rightarrow> string \<Rightarrow> u64 \<Rightarrow> ('db Credit) or_err" where
  "NewCreditManager openFile owner dbPath orderPrice limit =
     (case openFile dbPath of
        Inl e \<Rightarrow> Inl (Wrapped ''new credit manager error'' e)
      | Inr db \<Rightarrow>
          Inr \<lparr>cr_Price = orderPrice, cr_Owner = owner,
               cr_ResourceLimit = (if limit = 0 then DEFALUT_RESOURCE_LIMIT else limit),
               cr_Record = db\<rparr>)"

definition GetCreditRecord :: "'db credit_env \<Rightarrow> 'db Credit \<Rightarrow> string \<Rightarrow> RecordItem \<times> bool" where
  "GetCreditRecord E c key =
     (case ldb_Get (ce_db E) (cr_Record c) key of
        Inl _ \<Rightarrow> (RecordItem_zero, False)
      | Inr res \<Rightarrow>
          (if res \<noteq> []
           then (case ce_unmarshal E res of (record, err) \<Rightarrow> (record, err \<noteq> None))
           else (RecordItem_zero, False)))"

definition PutCreditRecord ::
  "'db credit_env \<Rightarrow> 'db Credit \<Rightarrow> string \<Rightarrow> RecordItem \<Rightarrow> 'db Credit \<times> ldb_error option" where
  "PutCreditRecord E c key record =
     (case ldb_Put (ce_db E) (cr_Record c) key (ce_marshal E (record\<lparr>ri_LastAccess := ce_now E\<rparr>)) of
        (db, err) \<Rightarrow> (c\<lparr>cr_Record := db\<rparr>, err))"

text \<open>
  \<open>1 + int(record.SentResource/(record.ReceivedResource+1))%LEVEL_UNTRUST\<close>: the remainder
  binds tighter than the sum, and the division panics when the sum below it wraps to zero.
\<close>

definition credit_level :: "u64 \<Rightarrow> u64 \<Rightarrow> i64 option" where
  "credit_level sent received =
     (case uint64_div sent (received + 1) of
        None \<Rightarrow> None
      | Some q \<Rightarrow> map_option (\<lambda>m. 1 + m) (int64_rem q LEVEL_UNTRUST))"

definition AddCreditPoint ::
  "'db credit_env \<Rightarrow> 'db Credit \<Rightarrow> string \<Rightarrow> i64 \<Rightarrow> 'db Credit option" where
  "AddCreditPoint E c key resource =
     (let record = fst (GetCreditRecord E c key);
          record1 = (if resource <s 0
                     then record\<lparr>ri_SentResource := ri_SentResource record + (- resource)\<rparr>
                     else record\<lparr>ri_ReceivedResource := ri_ReceivedResource record + resource\<rparr>)
      in (case credit_level (ri_SentResource record1) (ri_ReceivedResource record1) of
            None \<Rightarrow> None
          | Some lv \<Rightarrow> Some (fst (PutCreditRecord E c key (record1\<lparr>ri_Level := lv\<rparr>)))))"

definition calcLimit :: "'db Credit \<Rightarrow> RecordItem \<Rightarrow> u64 \<times> bool" where
  "calcLimit c record =
     (let sent = ri_SentResource record; received = ri_ReceivedResource record;
          limit = cr_ResourceLimit c
      in if sent - received > limit then (sent - received - limit, True)
         else if sent > received then (limit - (sent - received), False)
         else (received - (sent - limit), False))"

definition IsLimited :: "'db credit_env \<Rightarrow> 'db Credit \<Rightarrow> string \<Rightarrow> (u64 \<times> bool) \<times> 'db Credit" where
  "IsLimited E c key =
     (case GetCreditRecord E c key of
        (record, ok) \<Rightarrow>
          (if \<not> ok then ((cr_ResourceLimit c, False), fst (PutCreditRecord E c key record))
           else (calcLimit c record, c)))"

text \<open>
  The units a payment buys, written out in both \<open>CheckCredit\<close> and \<open>PaymentCreditBill\<close>: a
  price whose \<open>Int64\<close> is zero is replaced by one.
\<close>

definition bill_units :: "int \<Rightarrow> int \<Rightarrow> u64 option" where
  "bill_units v p = map_option big_Uint64 (big_Div v (if big_Int64 p = 0 then 1 else p))"

definition CheckCredit ::
  "'db credit_env \<Rightarrow> 'w Order2Credit \<Rightarrow> 'w \<Rightarrow> 'db Credit \<Rightarrow> bytes \<Rightarrow> bytes \<Rightarrow> bytes \<Rightarrow>
   (bool \<times> 'db Credit \<times> 'w) option" where
  "CheckCredit E H w c pubkey data sign =
     (case ce_DecompressPubkey E pubkey of
        Inl _ \<Rightarrow> Some (False, c, w)
      | Inr pk \<Rightarrow>
          (let key = ce_AddressHex E pk in
           case GetCreditRecord E c key of
             (record, ok) \<Rightarrow>
               (if \<not> ok then Some (True, fst (PutCreditRecord E c key record), w)
                else let limited = snd (calcLimit c record) in
                  if data = [] \<or> sign = [] then Some (\<not> limited, c, w)
                  else (case o2c_Check H w pubkey data sign of
                     None \<Rightarrow> None
                   | Some ((value, Some err), w1) \<Rightarrow> Some (\<not> limited, c, w1)
                   | Some ((value, None), w1) \<Rightarrow>
                       (case big_SetString value of
                          None \<Rightarrow> Some (\<not> limited, c, w1)
                        | Some v \<Rightarrow>
                            (case big_SetString (cr_Price c) of
                               None \<Rightarrow> Some (\<not> limited, c, w1)
                             | Some p \<Rightarrow>
                                 (case bill_units v p of
                                    None \<Rightarrow> None
                                  | Some units \<Rightarrow>
                                      (let record1 = record\<lparr>ri_ReceivedResource :=
                                             ri_ReceivedResource record + units\<rparr>
                                       in case credit_level (ri_SentResource record1)
                                                 (ri_ReceivedResource record1) of
                                            None \<Rightarrow> None
                                          | Some lv \<Rightarrow>
                                              (let record2 = record1\<lparr>ri_Level := lv\<rparr>
                                               in Some (\<not> snd (calcLimit c record2),
                                                    fst (PutCreditRecord E c key record2), w1))))))))))"

definition PaymentCreditBill ::
  "'db credit_env \<Rightarrow> 'w Order2Credit \<Rightarrow> 'w \<Rightarrow> 'db Credit \<Rightarrow> string \<Rightarrow> string \<Rightarrow> string \<Rightarrow>
   ((string \<times> string \<times> goerr option) \<times> 'db Credit \<times> 'w) option" where
  "PaymentCreditBill E H w c key nodeId value =
     (let record = fst (GetCreditRecord E c key) in
      case o2c_Create H w key nodeId value of
        None \<Rightarrow> None
      | Some ((hash, orderId, Some err), w1) \<Rightarrow>
          Some ((hash, orderId, Some (Wrapped ''payment credit bill error'' err)), c, w1)
      | Some ((hash, orderId, None), w1) \<Rightarrow>
          (case big_SetString value of
             None \<Rightarrow> Some ((hash, orderId,
                       Some (Wrapped ''payment credit bill error'' (Errorf ''bad order value''))), c, w1)
           | Some v \<Rightarrow>
               (case big_SetString (cr_Price c) of
                  None \<Rightarrow> Some ((hash, orderId,
                            Some (Wrapped ''payment credit bill error'' (Errorf ''bad order price''))), c, w1)
                | Some p \<Rightarrow>
                    (case bill_units v p of
                       None \<Rightarrow> None
                     | Some units \<Rightarrow>
                         (let record1 = record\<lparr>ri_SentResource := ri_SentResource record + units\<rparr>
                          in case credit_level (ri_SentResource record1) (ri_ReceivedResource record1) of
                               None \<Rightarrow> None
                             | Some lv \<Rightarrow>
                                 Some ((hash, orderId, None),
                                   fst (PutCreditRecord E c key (record1\<lparr>ri_Level := lv\<rparr>)), w1))))))"

section \<open>The ledger behind the records\<close>

text \<open>
  The abstract view of an account: what was sent to it and what was received from it, modulo
  \<open>2^64\<close>. A negative amount is added to the first counter, any other to the second.
\<close>

definition ledger_post :: "u64 \<times> u64 \<Rightarrow> i64 \<Rightarrow> u64 \<times> u64" where
  "ledger_post b r = (if r <s 0 then (fst b - r, snd b) else (fst b, snd b + r))"

definition credit_balance :: "'db credit_env \<Rightarrow> 'db Credit \<Rightarrow> string \<Rightarrow> u64 \<times> u64" where
  "credit_balance E c key =
     (let r = fst (GetCreditRecord E c key) in (ri_SentResource r, ri_ReceivedResource r))"

fun run_adds :: "('c \<Rightarrow> string \<Rightarrow> i64 \<Rightarrow> 'c option) \<Rightarrow> 'c \<Rightarrow> (string \<times> i64) list \<Rightarrow> 'c option" where
  "run_adds add c [] = Some c"
| "run_adds add c ((k, r) # ops) = (case add c k r of None \<Rightarrow> None | Some c' \<Rightarrow> run_adds add c' ops)"

text \<open>The records a manager holds all decode: what the operations themselves maintain.\<close>

definition credit_wf :: "'db credit_env \<Rightarrow> 'db Credit \<Rightarrow> bool" where
  "credit_wf E c \<longleftrightarrow> (\<forall>key. \<not> snd (GetCreditRecord E c key))"

text \<open>Every way the program changes a manager's records, in any order.\<close>

inductive credit_step ::
  "'db credit_env \<Rightarrow> 'w Order2Credit \<Rightarrow> 'db Credit \<times> 'w \<Rightarrow> 'db Credit \<times> 'w \<Rightarrow> bool"
  for E :: "'db credit_env" and H :: "'w Order2Credit" where
  step_add: "AddCreditPoint E c key resource = Some c' \<Longrightarrow> credit_step E H (c, w) (c', w)"
| step_limited: "IsLimited E c key = (res, c') \<Longrightarrow> credit_step E H (c, w) (c', w)"
| step_check: "CheckCredit E H w c pubkey data sign = Some (ok, c', w') \<Longrightarrow>
     credit_step E H (c, w) (c', w')"
| step_pay: "PaymentCreditBill E H w c key nodeId value = Some (res, c', w') \<Longrightarrow>
     credit_step E H (c, w) (c', w')"

text \<open>
  A database in memory and a binary codec, used to show that the hypotheses on the parameters can
  hold together.
\<close>

definition be_put64 :: "u64 \<Rightarrow> bytes" where
  "be_put64 w = be_put32 (ucast (drop_bit 32 w)) @ be_put32 (ucast w)"

definition be_get64 :: "bytes \<Rightarrow> u64" where
  "be_get64 bs = push_bit 32 (ucast (be_get32 bs)) OR ucast (be_get32 (drop 4 bs))"

definition mem_leveldb :: "(string \<rightharpoonup> bytes) leveldb" where
  "mem_leveldb = \<lparr>ldb_Get = (\<lambda>m k. case m k of None \<Rightarrow> Inl ErrNotFound | Some v \<Rightarrow> Inr v),
                  ldb_Put = (\<lambda>m k v. (m(k \<mapsto> v), None))\<rparr>"

definition mem_marshal :: "RecordItem \<Rightarrow> bytes" where
  "mem_marshal r = be_put64 (ri_Level r) @ be_put64 (ri_SentResource r) @
     be_put64 (ri_ReceivedResource r) @ be_put64 (ri_CheckedTimes r) @ be_put64 (ri_LastAccess r)"

definition mem_unmarshal :: "bytes \<Rightarrow> RecordItem \<times> goerr option" where
  "mem_unmarshal bs =
     (if length bs = 40
      then (\<lparr>ri_Level = be_get64 bs, ri_SentResource = be_get64 (drop 8 bs),
             ri_ReceivedResource = be_get64 (drop 16 bs), ri_CheckedTimes = be_get64 (drop 24 bs),
             ri_LastAccess = be_get64 (drop 32 bs)\<rparr>, None)
      else (RecordItem_zero, Some (Errorf ''unexpected end of input'')))"

definition mem_credit_env :: "(string \<rightharpoonup> bytes) credit_env" where
  "mem_credit_env = \<lparr>ce_db = mem_leveldb, ce_marshal = mem_marshal, ce_unmarshal = mem_unmarshal,
     ce_now = 0, ce_DecompressPubkey = (\<lambda>pk. if pk = [] then Inl (Errorf ''invalid public key'') else Inr pk),
     ce_AddressHex = hex_EncodeToString\<rparr>"

definition mem_credit0 :: "(string \<rightharpoonup> bytes) Credit" where
  "mem_credit0 = \<lparr>cr_Price = ''10'', cr_Owner = ''0xowner'',
     cr_ResourceLimit = DEFALUT_RESOURCE_LIMIT, cr_Record = Map.empty\<rparr>"

definition mem_orders :: "unit Order2Credit" where
  "mem_orders = \<lparr>o2c_Create = (\<lambda>w key nodeId value. Some ((''tx'', ''order'', None), w)),
     o2c_Check = (\<lambda>w pubkey data sign. Some ((''1000'', None), w))\<rparr>"

section \<open>Interfaces\<close>

text \<open>What the node relies on when it charges accounts: postings act on one account and add up.\<close>

locale credit_ledger =
  fixes balance :: "'c \<Rightarrow> string \<Rightarrow> u64 \<times> u64"
    and add :: "'c \<Rightarrow> string \<Rightarrow> i64 \<Rightarrow> 'c option"
  assumes balance_add: "add c k r = Some c' \<Longrightarrow>
    balance c' k' = (if k' = k then ledger_post (balance c k) r else balance c k')"
begin

lemma balance_run:
  "run_adds add c ops = Some c' \<Longrightarrow>
   balance c' k = foldl ledger_post (balance c k) (map snd (filter (\<lambda>op. fst op = k) ops))"
  by (induction ops arbitrary: c) (auto split: option.splits simp: balance_add)

lemma untouched: "run_adds add c ops = Some c' \<Longrightarrow> k \<notin> fst ` set ops \<Longrightarrow> balance c' k = balance c k"
  by (induction ops arbitrary: c) (auto split: option.splits simp: balance_add)

end

text \<open>
  The hypotheses on the parameters of the credit manager: the database keeps what is written, a record that is marshalled
  and unmarshalled comes back, and no write fails. The last is a restriction to runs without database faults.
\<close>

locale credit_db = kv_store "ldb_Get (ce_db E)" "ldb_Put (ce_db E)"
  for E :: "'db credit_env" +
  assumes put_ok: "\<exists>db'. ldb_Put (ce_db E) db k v = (db', None)"
    and codec: "ce_unmarshal E (ce_marshal E r) = (r, None)"
    and codec_ne: "ce_marshal E r \<noteq> []"
begin

lemma Get_Put:
  "GetCreditRecord E (fst (PutCreditRecord E c k r)) k' =
     (if k' = k then (r\<lparr>ri_LastAccess := ce_now E\<rparr>, False) else GetCreditRecord E c k')"
proof -
  obtain db' where db': "ldb_Put (ce_db E) (cr_Record c) k
      (ce_marshal E (r\<lparr>ri_LastAccess := ce_now E\<rparr>)) = (db', None)"
    using put_ok by blast
  from get_after_put [OF this, of k'] show ?thesis
    by (simp add: GetCreditRecord_def PutCreditRecord_def db' codec codec_ne)
qed

lemma balance_Put:
  "credit_balance E (fst (PutCreditRecord E c k r)) k' =
     (if k' = k then (ri_SentResource r, ri_ReceivedResource r) else credit_balance E c k')"
  by (simp add: credit_balance_def Get_Put)

lemma wf_Put: "credit_wf E c \<Longrightarrow> credit_wf E (fst (PutCreditRecord E c k r))"
  by (simp add: credit_wf_def Get_Put)

lemma balance_AddCreditPoint:
  assumes "AddCreditPoint E c k r = Some c'"
  shows "credit_balance E c' k' =
    (if k' = k then ledger_post (credit_balance E c k) r else credit_balance E c k')"
  using assms
  by (auto simp: AddCreditPoint_def Let_def balance_Put ledger_post_def split: option.splits if_splits)
     (simp_all add: credit_balance_def Let_def)

lemma wf_step: "credit_step E H (c, w) (c', w') \<Longrightarrow> credit_wf E c \<Longrightarrow> credit_wf E c'"
  by (induction "(c, w)" "(c', w')" rule: credit_step.induct)
     (auto simp: AddCreditPoint_def IsLimited_def CheckCredit_def PaymentCreditBill_def Let_def wf_Put
           split: option.splits if_splits sum.splits prod.splits)

lemma wf_steps: "(credit_step E H)\<^sup>*\<^sup>* (c, w) (c', w') \<Longrightarrow> credit_wf E c \<Longrightarrow> credit_wf E c'"
  by (induction rule: rtranclp_induct2) (auto intro: wf_step)

lemma CheckCredit_wf:
  assumes "credit_wf E c" and "ce_DecompressPubkey E pubkey = Inr pk"
  shows "\<exists>c'. CheckCredit E H w c pubkey data sign = Some (True, c', w) \<and>
    (\<forall>k. credit_balance E c' k = credit_balance E c k)"
proof -
  obtain rec where "GetCreditRecord E c (ce_AddressHex E pk) = (rec, False)"
    using assms(1) by (metis credit_wf_def prod.collapse)
  then show ?thesis
    using assms(2) by (auto simp: CheckCredit_def balance_Put) (auto simp: credit_balance_def)
qed

end

sublocale credit_db \<subseteq> ledger: credit_ledger "credit_balance E" "AddCreditPoint E"
  by unfold_locales (rule balance_AddCreditPoint)

context credit_db
begin

lemma postings:
  "run_adds (AddCreditPoint E) c ops = Some c' \<Longrightarrow>
   credit_balance E c' k =
     foldl ledger_post (credit_balance E c k) (map snd (filter (\<lambda>op. fst op = k) ops))"
  by (rule ledger.balance_run)

end

lemma be_get_put64: "be_get64 (be_put64 w @ rest) = w"
proof (rule bit_word_eqI)
  fix n assume "n < LENGTH(64)"
  then show "bit (be_get64 (be_put64 w @ rest)) n \<longleftrightarrow> bit w n"
    by (cases "n < 32") (auto simp: be_get64_def be_put64_def bit_simps)
qed

lemma be_put64_length [simp]: "length (be_put64 w) = 8"
  by (simp add: be_put64_def)

lemma mem_codec: "mem_unmarshal (mem_marshal r) = (r, None)"
  using be_get_put64 [of _ "[]"]
  by (simp add: mem_unmarshal_def mem_marshal_def be_get_put64)

interpretation mem: credit_db mem_credit_env
proof unfold_locales
  fix r show "ce_marshal mem_credit_env r \<noteq> []"
    by (simp add: mem_credit_env_def mem_marshal_def be_put64_def be_put32_def)
qed (auto simp: mem_credit_env_def mem_leveldb_def mem_codec split: if_splits)

lemma mem_empty: "GetCreditRecord mem_credit_env mem_credit0 k = (RecordItem_zero, False)"
  by (simp add: GetCreditRecord_def mem_credit_env_def mem_leveldb_def mem_credit0_def)

lemma mem_wf: "credit_wf mem_credit_env mem_credit0"
  by (simp add: credit_wf_def mem_empty)

lemma cr_PutCreditRecord [simp]:
  "cr_ResourceLimit (fst (PutCreditRecord E c k r)) = cr_ResourceLimit c"
  "cr_Price (fst (PutCreditRecord E c k r)) = cr_Price c"
  "cr_Owner (fst (PutCreditRecord E c k r)) = cr_Owner c"
  by (simp_all add: PutCreditRecord_def split: prod.splits)

section \<open>Laws of the arithmetic\<close>

lemma bill_units_total: "\<exists>u. bill_units v p = Some u"
  by (auto simp: bill_units_def big_Div_def big_Int64_def)

lemma bill_units_pos:
  "0 \<le> v \<Longrightarrow> 0 < p \<Longrightarrow> p < 2 ^ 64 \<Longrightarrow> bill_units v p = Some (word_of_int (v div p))"
proof -
  assume p: "0 < p" "p < 2 ^ 64" and v: "0 \<le> v"
  have "big_Int64 p \<noteq> 0"
  proof
    assume "big_Int64 p = 0"
    then have "uint (word_of_int p :: u64) = 0" using p by (simp add: big_Int64_def)
    then show False using p by (simp add: uint_word_of_int)
  qed
  moreover have "0 \<le> v div p" using p v by (simp add: pos_imp_zdiv_nonneg_iff)
  ultimately show ?thesis using p by (simp add: bill_units_def big_Div_def big_Uint64_def)
qed

lemma int64_rem_3:
  "int64_rem q LEVEL_UNTRUST = Some m \<Longrightarrow> - 2 \<le> sint m \<and> sint m \<le> 2"
proof -
  assume m: "int64_rem q LEVEL_UNTRUST = Some m"
  let ?t = "sint q smod 3"
  have "m = word_of_int ?t" using m by (simp add: int64_rem_def LEVEL_UNTRUST_def split: if_splits)
  moreover have "- 2 \<le> ?t \<and> ?t \<le> 2"
    by (cases "0 \<le> sint q") (auto simp: signed_modulo_int_def sgn_if)
  ultimately show ?thesis by (simp add: sint_of_int64)
qed

lemma sint_level:
  assumes "credit_level s r = Some lv"
  shows "\<exists>m. lv = 1 + m \<and> - 2 \<le> sint m \<and> sint m \<le> 2"
  using assms int64_rem_3 by (auto simp: credit_level_def split: option.splits)

lemma sint_add_one: "- 2 \<le> sint m \<Longrightarrow> sint m \<le> 2 \<Longrightarrow> sint (1 + m :: i64) = 1 + sint m"
  using sint_of_int64 [of "1 + sint m"] by simp

lemma credit_level_small:
  assumes "unat s div Suc (unat r) < 2 ^ 63" and "r + 1 \<noteq> 0"
  shows "credit_level s r = Some (1 + word_of_nat ((unat s div Suc (unat r)) mod 3))"
proof -
  let ?q = "s div (r + 1)"
  have r1: "unat (r + 1) = Suc (unat r)"
    using assms(2) by (metis add.commute unatSuc)
  have q: "unat ?q = unat s div Suc (unat r)" by (simp add: unat_div_distrib r1)
  have "sint ?q = int (unat ?q)"
  proof -
    have "word_of_int (int (unat ?q)) = ?q" by simp
    then show ?thesis using assms(1) sint_of_int64 [of "int (unat ?q)"] unfolding q by simp
  qed
  then have "sint ?q smod 3 = int ((unat s div Suc (unat r)) mod 3)"
    by (simp add: signed_modulo_int_def q sgn_if zmod_int)
  then show ?thesis
    using assms(2)
    by (simp add: credit_level_def uint64_div_def int64_rem_def LEVEL_UNTRUST_def)
qed

lemma foldl_ledger_post:
  "foldl ledger_post b rs =
     (fst b - sum_list (filter (\<lambda>r. r <s 0) rs), snd b + sum_list (filter (\<lambda>r. \<not> r <s 0) rs))"
  by (induction rs arbitrary: b) (auto simp: ledger_post_def)

section \<open>Properties\<close>

text \<open>C4: In every state that a credit manager reaches from one whose records decode, by any
  sequence of its operations, a credit check on any valid public key succeeds, whatever the
  account owes and whatever order data comes with the request; it consults no order and leaves
  every balance as it was.\<close>

theorem credit_gate_open:
  assumes "credit_db E" and "credit_wf E c0"
    and "(credit_step E H)\<^sup>*\<^sup>* (c0, w0) (c, w)"
    and "ce_DecompressPubkey E pubkey = Inr pk"
  shows "\<exists>c'. CheckCredit E H w c pubkey data sign = Some (True, c', w) \<and>
    (\<forall>k. credit_balance E c' k = credit_balance E c k)"
  by (rule credit_db.CheckCredit_wf [OF assms(1) credit_db.wf_steps [OF assms(1,3,2)] assms(4)])

theorem credit_gate_open_witness:
  "\<exists>c c'. AddCreditPoint mem_credit_env mem_credit0 ''01'' (- 1099511627776) = Some c \<and>
     snd (calcLimit c (fst (GetCreditRecord mem_credit_env c ''01''))) \<and>
     CheckCredit mem_credit_env mem_orders () c [1] [] [] = Some (True, c', ())"
proof -
  let ?r = "RecordItem_zero\<lparr>ri_SentResource := 1099511627776, ri_Level := 2\<rparr>"
  let ?c = "fst (PutCreditRecord mem_credit_env mem_credit0 ''01'' ?r)"
  have add: "AddCreditPoint mem_credit_env mem_credit0 ''01'' (- 1099511627776) = Some ?c"
    by (simp add: AddCreditPoint_def mem_empty RecordItem_zero_def word_sless_alt
          credit_level_def uint64_div_def int64_rem_def LEVEL_UNTRUST_def signed_modulo_int_def)
  have lim: "snd (calcLimit ?c (fst (GetCreditRecord mem_credit_env ?c ''01'')))"
    by (simp add: mem.Get_Put calcLimit_def RecordItem_zero_def cr_PutCreditRecord
          mem_credit0_def DEFALUT_RESOURCE_LIMIT_def)
  have st: "(credit_step mem_credit_env mem_orders)\<^sup>*\<^sup>* (mem_credit0, ()) (?c, ())"
    by (rule r_into_rtranclp) (rule step_add [OF add])
  have pk: "ce_DecompressPubkey mem_credit_env [1] = Inr [1]"
    by (simp add: mem_credit_env_def)
  from credit_gate_open [OF mem.credit_db_axioms mem_wf st pk, of "[]" "[]"] add lim
  show ?thesis by blast
qed

text \<open>C5: Charging accounts: after any sequence of postings that does not panic, the amount sent
  to an account has grown by the negated sum of its negative postings, the amount received by the
  sum of the others (modulo \<open>2^64\<close>), and postings to other accounts do not matter.\<close>

theorem credit_postings_add_up:
  assumes "credit_db E" and "run_adds (AddCreditPoint E) c ops = Some c'"
  shows "credit_balance E c' k =
    (let mine = map snd (filter (\<lambda>op. fst op = k) ops)
     in (fst (credit_balance E c k) - sum_list (filter (\<lambda>r. r <s 0) mine),
         snd (credit_balance E c k) + sum_list (filter (\<lambda>r. \<not> r <s 0) mine)))"
  using credit_db.postings [OF assms, of k] by (simp add: foldl_ledger_post Let_def)

theorem credit_postings_add_up_witness:
  "\<exists>c'. run_adds (AddCreditPoint mem_credit_env) mem_credit0 [(''a'', - 5), (''b'', 7), (''a'', 3)] = Some c' \<and>
     credit_balance mem_credit_env c' ''a'' = (5, 3)"
proof -
  let ?ops = "[(''a'', - 5), (''b'', 7), (''a'', 3)]"
  obtain c' where c': "run_adds (AddCreditPoint mem_credit_env) mem_credit0 ?ops = Some c'"
    by (simp add: AddCreditPoint_def mem_empty mem.Get_Put RecordItem_zero_def word_sless_alt
          credit_level_def uint64_div_def int64_rem_def LEVEL_UNTRUST_def)
  have "credit_balance mem_credit_env mem_credit0 ''a'' = (0, 0)"
    by (simp add: credit_balance_def mem_empty RecordItem_zero_def)
  with credit_postings_add_up [OF mem.credit_db_axioms c', of "''a''"] c' show ?thesis
    by (simp add: word_sless_alt)
qed

text \<open>An account that received at least as much as it sent back owes the difference; it is
  limited exactly when the debt exceeds the resource limit, and the amount reported is the excess
  of the debt over the limit, or what is left of the limit.\<close>

theorem calcLimit_debt:
  assumes "unat (ri_ReceivedResource r) \<le> unat (ri_SentResource r)"
    and "debt = unat (ri_SentResource r) - unat (ri_ReceivedResource r)"
  shows "snd (calcLimit c r) = (unat (cr_ResourceLimit c) < debt) \<and>
    unat (fst (calcLimit c r)) =
      (if unat (cr_ResourceLimit c) < debt then debt - unat (cr_ResourceLimit c)
       else unat (cr_ResourceLimit c) - debt)"
proof (cases "ri_SentResource r = ri_ReceivedResource r")
  case True
  then show ?thesis using assms by (simp add: calcLimit_def)
next
  case False
  then have "ri_ReceivedResource r < ri_SentResource r"
    using assms(1) by (metis order_less_le word_le_nat_alt)
  then show ?thesis
    using assms by (auto simp: calcLimit_def Let_def word_less_nat_alt unat_sub_wrap)
qed

theorem calcLimit_debt_witness:
  "snd (calcLimit mem_credit0 (RecordItem_zero\<lparr>ri_SentResource := 50000000\<rparr>)) \<and>
   unat (fst (calcLimit mem_credit0 (RecordItem_zero\<lparr>ri_SentResource := 50000000\<rparr>))) = 16445568"
proof -
  let ?r = "RecordItem_zero\<lparr>ri_SentResource := 50000000\<rparr>"
  have h: "unat (ri_ReceivedResource ?r) \<le> unat (ri_SentResource ?r)"
    "50000000 = unat (ri_SentResource ?r) - unat (ri_ReceivedResource ?r)"
    by (simp_all add: RecordItem_zero_def)
  have "unat (cr_ResourceLimit mem_credit0) = 33554432"
    by (simp add: mem_credit0_def DEFALUT_RESOURCE_LIMIT_def)
  then show ?thesis using calcLimit_debt [OF h, of mem_credit0] by simp
qed

text \<open>An account that gave more than it took is treated as a debtor: the unsigned difference
  wraps, so it is limited whenever the surplus is below \<open>2^64\<close> minus the resource limit.\<close>

theorem calcLimit_surplus:
  assumes "unat (ri_SentResource r) < unat (ri_ReceivedResource r)"
  shows "snd (calcLimit c r) \<longleftrightarrow>
    unat (ri_ReceivedResource r) - unat (ri_SentResource r) < 2 ^ 64 - unat (cr_ResourceLimit c)"
  using assms unat_u64_less [of "ri_ReceivedResource r"]
  by (auto simp: calcLimit_def Let_def word_less_nat_alt unat_sub_wrap)

theorem calcLimit_surplus_witness:
  "snd (calcLimit mem_credit0 (RecordItem_zero\<lparr>ri_ReceivedResource := 1\<rparr>))"
  using calcLimit_surplus [of "RecordItem_zero\<lparr>ri_ReceivedResource := 1\<rparr>" mem_credit0]
  by (simp add: RecordItem_zero_def mem_credit0_def DEFALUT_RESOURCE_LIMIT_def)

text \<open>The trust level is one plus the quotient of sent by received-plus-one, reduced modulo
  three, for quotients below \<open>2^63\<close>; so it runs through trusted, common and untrusted again and
  again as the debt grows. For any counters it lies between minus one and three.\<close>

theorem credit_level_cycles:
  assumes "credit_level s r = Some lv"
  shows "- 1 \<le> sint lv \<and> sint lv \<le> 3 \<and>
    (unat s div Suc (unat r) < 2 ^ 63 \<longrightarrow> sint lv = 1 + int ((unat s div Suc (unat r)) mod 3))"
proof (intro conjI impI)
  obtain m where m: "lv = 1 + m" "- 2 \<le> sint m" "sint m \<le> 2" using sint_level [OF assms] by blast
  then show "- 1 \<le> sint lv" "sint lv \<le> 3" by (simp_all add: sint_add_one)
next
  assume small: "unat s div Suc (unat r) < 2 ^ 63"
  let ?k = "(unat s div Suc (unat r)) mod 3"
  have "r + 1 \<noteq> 0" using assms by (auto simp: credit_level_def uint64_div_def split: if_splits)
  then have "lv = word_of_int (1 + int ?k)" using credit_level_small [OF small] assms by simp
  moreover have "int ?k < 3" by simp
  ultimately show "sint lv = 1 + int ?k" using sint_of_int64 [of "1 + int ?k"] by simp
qed

theorem credit_level_cycles_witness: "credit_level 30 9 = Some 1 \<and> sint (1 :: i64) = 1 + int ((30 div Suc 9) mod 3)"
proof -
  have "credit_level 30 9 = Some 1"
    by (simp add: credit_level_def uint64_div_def int64_rem_def LEVEL_UNTRUST_def signed_modulo_int_def)
  with credit_level_cycles [OF this] show ?thesis by simp
qed

text \<open>Buying credit: for a price below \<open>2^64\<close> a payment of \<open>v\<close> buys \<open>v div price\<close> units
  (modulo \<open>2^64\<close>), but a price that is a multiple of \<open>2^64\<close> is taken for one, so the payment
  buys as many units as it has base units. No payment makes the node panic.\<close>

theorem bill_units_price:
  "(\<exists>u. bill_units v p = Some u) \<and>
   (0 \<le> v \<longrightarrow> 0 < p \<longrightarrow> p < 2 ^ 64 \<longrightarrow> bill_units v p = Some (word_of_int (v div p))) \<and>
   (0 \<le> v \<longrightarrow> p = 2 ^ 64 * k \<longrightarrow> bill_units v p = Some (word_of_int v))"
proof (intro conjI impI)
  assume v: "0 \<le> v" and p: "p = 2 ^ 64 * k"
  have "(word_of_int (2 ^ 64 * k) :: u64) = 0" "(word_of_int \<bar>2 ^ 64 * k\<bar> :: u64) = 0"
    unfolding word_of_int_eq_0_iff by (simp_all add: abs_mult)
  then have "big_Int64 p = 0" by (simp add: big_Int64_def p)
  then show "bill_units v p = Some (word_of_int v)"
    using v by (simp add: bill_units_def big_Div_def big_Uint64_def)
qed (auto simp: bill_units_total bill_units_pos)

theorem bill_units_price_witness:
  "bill_units 1000 10 = Some 100 \<and> bill_units 1000 (2 ^ 64) = Some 1000"
  using bill_units_price [of 1000 10 0] bill_units_price [of 1000 "2 ^ 64" 1] by simp

end
