(* ===== verification/Cdn_Io.thy ===== *)
theory Cdn_Io
  imports Go_Prelude
begin

text \<open>
  Readers, writers and files as the library code uses them, and the two copy loops of
  \<open>cd2n-lib/lib.go\<close>, \<open>ReadData\<close> and \<open>WriteData\<close>.

  An \<open>io.Reader\<close> is the list of what its next reads can deliver: pieces of data and an error
  that stays. A reader whose list is empty blocks: an operation that has to wait for it forever
  has no result (\<open>None\<close>). A writer records what was written and follows a script of failures.
  The file system maps paths to files and directories; every failure other than a missing file
  (permissions, a full disk, a missing parent) is the answer of an oracle, so that every error
  branch of the code can be taken.
\<close>

section \<open>Readers and bufio\<close>

datatype read_event = RData bytes | RErr goerr

type_synonym reader = "read_event list"

definition io_EOF :: goerr where "io_EOF = Errorf ''EOF''"

text \<open>One \<open>Read\<close> with a buffer of \<open>n\<close> bytes.\<close>

fun rd_Read :: "nat \<Rightarrow> reader \<Rightarrow> (bytes \<times> goerr option \<times> reader) option" where
  "rd_Read n [] = None"
| "rd_Read n (RData bs # es) =
     Some (take n bs, None, if length bs \<le> n then es else RData (drop n bs) # es)"
| "rd_Read n (RErr e # es) = Some ([], Some e, RErr e # es)"

text \<open>\<open>bufio.Reader\<close> with its default buffer of 4096 bytes.\<close>

record bufio =
  bf_buf :: bytes
  bf_err :: "goerr option"
  bf_rd :: reader

definition bufio_NewReader :: "reader \<Rightarrow> bufio" where
  "bufio_NewReader r = \<lparr>bf_buf = [], bf_err = None, bf_rd = r\<rparr>"

definition bufio_Read :: "nat \<Rightarrow> bufio \<Rightarrow> (bytes \<times> goerr option \<times> bufio) option" where
  "bufio_Read n b =
     (if bf_buf b \<noteq> [] then Some (take n (bf_buf b), None, b\<lparr>bf_buf := drop n (bf_buf b)\<rparr>)
      else (case bf_err b of
         Some e \<Rightarrow> Some ([], Some e, b\<lparr>bf_err := None\<rparr>)
       | None \<Rightarrow>
           (case rd_Read 4096 (bf_rd b) of
              None \<Rightarrow> None
            | Some (bs, err, r) \<Rightarrow>
                (if bs = [] then Some ([], err, b\<lparr>bf_rd := r\<rparr>)
                 else Some (take n bs, None, \<lparr>bf_buf = drop n bs, bf_err = err, bf_rd = r\<rparr>)))))"

fun reader_bytes :: "reader \<Rightarrow> nat" where
  "reader_bytes [] = 0"
| "reader_bytes (RData bs # es) = length bs + reader_bytes es"
| "reader_bytes (RErr e # es) = reader_bytes es"

text \<open>A \<open>bytes.Buffer\<close> as a reader: its contents, then the end of file.\<close>

definition buffer_reader :: "bytes \<Rightarrow> reader" where
  "buffer_reader bs = (if bs = [] then [RErr io_EOF] else [RData bs, RErr io_EOF])"

lemma reader_bytes_Read:
  "rd_Read n r = Some (bs, err, r') \<Longrightarrow> reader_bytes r = length bs + reader_bytes r'"
  by (induction n r rule: rd_Read.induct) (auto split: if_splits)

lemma bufio_bytes_Read:
  "bufio_Read n b = Some (bs, err, b') \<Longrightarrow>
   length (bf_buf b) + reader_bytes (bf_rd b) =
   length bs + length (bf_buf b') + reader_bytes (bf_rd b')"
  by (auto simp: bufio_Read_def split: if_splits option.splits dest!: reader_bytes_Read)

lemma bufio_Read_decreases:
  "bufio_Read n b = Some (bs, err, b') \<Longrightarrow> 0 < length bs \<Longrightarrow>
   length (bf_buf b') + reader_bytes (bf_rd b') < length (bf_buf b) + reader_bytes (bf_rd b)"
  using bufio_bytes_Read [of n b bs err b'] by simp

section \<open>ReadData\<close>

text \<open>The loop reads pieces of 1024 bytes until one is shorter; an error, the end of file included, discards what was read.\<close>

function ReadData_loop :: "bufio \<Rightarrow> bytes \<Rightarrow> (bytes \<times> goerr option) option" where
  "ReadData_loop b res =
     (case bufio_Read 1024 b of
        None \<Rightarrow> None
      | Some (buf, Some err, b') \<Rightarrow> Some ([], Some err)
      | Some (buf, None, b') \<Rightarrow>
          (if length buf < 1024 then Some (res @ buf, None) else ReadData_loop b' (res @ buf)))"
  by pat_completeness auto
termination
  by (relation "measure (\<lambda>(b, res). length (bf_buf b) + reader_bytes (bf_rd b))")
     (auto intro!: bufio_Read_decreases simp: not_less)

declare ReadData_loop.simps [simp del]

definition ReadData :: "reader \<Rightarrow> (bytes \<times> goerr option) option" where
  "ReadData r = ReadData_loop (bufio_NewReader r) []"

section \<open>WriteData\<close>

text \<open>
  A writer: what it holds and what its next writes do. \<open>Some (n, e)\<close> writes \<open>n\<close> bytes and fails
  with \<open>e\<close>; \<open>None\<close>, and every write after the script, succeeds.
\<close>

record writer =
  wr_out :: bytes
  wr_script :: "(nat \<times> goerr) option list"

definition wr_Write :: "writer \<Rightarrow> bytes \<Rightarrow> goerr option \<times> writer" where
  "wr_Write w bs =
     (case wr_script w of
        [] \<Rightarrow> (None, w\<lparr>wr_out := wr_out w @ bs\<rparr>)
      | None # s \<Rightarrow> (None, w\<lparr>wr_out := wr_out w @ bs, wr_script := s\<rparr>)
      | Some (n, e) # s \<Rightarrow> (Some e, w\<lparr>wr_out := wr_out w @ take n bs, wr_script := s\<rparr>))"

function WriteData_loop :: "writer \<Rightarrow> bufio \<Rightarrow> (goerr option \<times> writer) option" where
  "WriteData_loop w b =
     (case bufio_Read 1024 b of
        None \<Rightarrow> None
      | Some (buf, Some err, b') \<Rightarrow> Some (Some err, w)
      | Some (buf, None, b') \<Rightarrow>
          (case wr_Write w buf of
             (Some err, w') \<Rightarrow> Some (Some err, w')
           | (None, w') \<Rightarrow> (if length buf < 1024 then Some (None, w') else WriteData_loop w' b')))"
  by pat_completeness auto
termination
  by (relation "measure (\<lambda>(w, b). length (bf_buf b) + reader_bytes (bf_rd b))")
     (auto intro!: bufio_Read_decreases simp: not_less)

declare WriteData_loop.simps [simp del]

definition WriteData :: "writer \<Rightarrow> reader \<Rightarrow> (goerr option \<times> writer) option" where
  "WriteData w r = WriteData_loop w (bufio_NewReader r)"

section \<open>Files\<close>

datatype inode = File bytes | Dir

type_synonym fs = "string \<rightharpoonup> inode"

text \<open>The oracle: the failure, if any, of an operation on a path.\<close>

type_synonym io_oracle = "string \<Rightarrow> string \<Rightarrow> goerr option"

definition os_ErrNotExist :: goerr where "os_ErrNotExist = Errorf ''file does not exist''"

definition os_Stat :: "io_oracle \<Rightarrow> fs \<Rightarrow> string \<Rightarrow> inode or_err" where
  "os_Stat io fs p =
     (case io ''stat'' p of
        Some e \<Rightarrow> Inl e
      | None \<Rightarrow> (case fs p of None \<Rightarrow> Inl os_ErrNotExist | Some n \<Rightarrow> Inr n))"

definition os_Create :: "io_oracle \<Rightarrow> fs \<Rightarrow> string \<Rightarrow> fs \<times> goerr option" where
  "os_Create io fs p =
     (case io ''create'' p of
        Some e \<Rightarrow> (fs, Some e)
      | None \<Rightarrow> (case fs p of Some Dir \<Rightarrow> (fs, Some (Errorf ''is a directory'')) | _ \<Rightarrow> (fs(p \<mapsto> File []), None)))"

definition os_ReadFile :: "io_oracle \<Rightarrow> fs \<Rightarrow> string \<Rightarrow> bytes or_err" where
  "os_ReadFile io fs p =
     (case io ''read'' p of
        Some e \<Rightarrow> Inl e
      | None \<Rightarrow> (case fs p of
          None \<Rightarrow> Inl os_ErrNotExist
        | Some Dir \<Rightarrow> Inl (Errorf ''is a directory'')
        | Some (File bs) \<Rightarrow> Inr bs))"

text \<open>\<open>os.Remove\<close>, whose error the code ignores everywhere.\<close>

definition os_Remove :: "io_oracle \<Rightarrow> fs \<Rightarrow> string \<Rightarrow> fs" where
  "os_Remove io fs p = (case io ''remove'' p of Some e \<Rightarrow> fs | None \<Rightarrow> fs(p := None))"

fun os_Remove_all :: "io_oracle \<Rightarrow> fs \<Rightarrow> string list \<Rightarrow> fs" where
  "os_Remove_all io fs [] = fs"
| "os_Remove_all io fs (p # ps) = os_Remove_all io (os_Remove io fs p) ps"

text \<open>A write to an open file appends to it; the errors of these writes are not looked at.\<close>

definition file_Write :: "io_oracle \<Rightarrow> fs \<Rightarrow> string \<Rightarrow> bytes \<Rightarrow> fs" where
  "file_Write io fs p bs =
     (case io ''write'' p of
        Some e \<Rightarrow> fs
      | None \<Rightarrow> (case fs p of Some (File old) \<Rightarrow> fs(p \<mapsto> File (old @ bs)) | _ \<Rightarrow> fs))"

text \<open>Directories. A path is looked up as the string it is: the same directory spelled differently is another key.\<close>

definition os_Mkdir :: "io_oracle \<Rightarrow> fs \<Rightarrow> string \<Rightarrow> fs \<times> goerr option" where
  "os_Mkdir io fs p =
     (case io ''mkdir'' p of
        Some e \<Rightarrow> (fs, Some e)
      | None \<Rightarrow> (case fs p of Some x \<Rightarrow> (fs, Some (Errorf ''file exists'')) | None \<Rightarrow> (fs(p \<mapsto> Dir), None)))"

text \<open>\<open>os.MkdirAll\<close> is content with a directory that is there; the oracle stands for the parents.\<close>

definition os_MkdirAll :: "io_oracle \<Rightarrow> fs \<Rightarrow> string \<Rightarrow> fs \<times> goerr option" where
  "os_MkdirAll io fs p =
     (case fs p of
        Some Dir \<Rightarrow> (fs, None)
      | Some (File bs) \<Rightarrow> (fs, Some (Errorf ''not a directory''))
      | None \<Rightarrow> (case io ''mkdir'' p of Some e \<Rightarrow> (fs, Some e) | None \<Rightarrow> (fs(p \<mapsto> Dir), None)))"

definition os_RemoveAll :: "io_oracle \<Rightarrow> fs \<Rightarrow> string \<Rightarrow> fs \<times> goerr option" where
  "os_RemoveAll io fs p =
     (case io ''removeall'' p of
        Some e \<Rightarrow> (fs, Some e)
      | None \<Rightarrow> ((\<lambda>q. if q = p \<or> take (length p + 1) q = p @ ''/'' then None else fs q), None))"

section \<open>Laws of the loops\<close>

text \<open>A buffered reader with \<open>buf\<close> buffered and \<open>rest\<close> still to come from the current piece.\<close>

abbreviation piece_bufio :: "bytes \<Rightarrow> bytes \<Rightarrow> reader \<Rightarrow> bufio" where
  "piece_bufio buf rest tail \<equiv>
     \<lparr>bf_buf = buf, bf_err = None, bf_rd = (if rest = [] then [] else [RData rest]) @ tail\<rparr>"

lemma bufio_Read_buffered:
  "buf \<noteq> [] \<Longrightarrow> bufio_Read n (piece_bufio buf rest tail) =
     Some (take n buf, None, piece_bufio (drop n buf) rest tail)"
  by (simp add: bufio_Read_def)

lemma bufio_Read_fill:
  "rest \<noteq> [] \<Longrightarrow> bufio_Read 1024 (piece_bufio [] rest tail) =
     Some (take 1024 rest, None,
       piece_bufio (drop 1024 (take 4096 rest)) (drop 4096 rest) tail)"
  by (auto simp: bufio_Read_def take_drop min_def)

text \<open>
  One lemma for both loops: a piece is consumed in steps of 1024 bytes, and the loop goes past it
  exactly when its length is a multiple of 1024.
\<close>

lemma piece_cases [consumes 1, case_names finished short_buf long_buf short_rest long_rest]:
  assumes inv: "rest \<noteq> [] \<longrightarrow> 1024 dvd length (buf :: bytes)"
    and "buf = [] \<Longrightarrow> rest = [] \<Longrightarrow> P"
    and "buf \<noteq> [] \<Longrightarrow> length buf < 1024 \<Longrightarrow> rest = [] \<Longrightarrow> P"
    and "1024 \<le> length buf \<Longrightarrow> rest \<noteq> [] \<longrightarrow> 1024 dvd length (drop 1024 buf) \<Longrightarrow> P"
    and "buf = [] \<Longrightarrow> rest \<noteq> [] \<Longrightarrow> length rest < 1024 \<Longrightarrow> P"
    and "buf = [] \<Longrightarrow> 1024 \<le> length (rest :: bytes) \<Longrightarrow>
      drop 4096 rest \<noteq> [] \<longrightarrow> 1024 dvd length (drop 1024 (take 4096 rest)) \<Longrightarrow> P"
  shows P
proof (cases "buf = []")
  case True
  then show ?thesis
  proof (cases "length rest < 1024")
    case True
    then show ?thesis using assms(2,5) \<open>buf = []\<close> by blast
  next
    case False
    then show ?thesis using assms(6) \<open>buf = []\<close> by (simp add: min_def)
  qed
next
  case False
  show ?thesis
  proof (cases "length buf < 1024")
    case True
    then have "rest = []" using inv False by (metis dvd_imp_le length_greater_0_conv not_le)
    then show ?thesis using assms(3) False True by blast
  next
    case False
    then show ?thesis using assms(4) inv by (simp add: dvd_diff_nat)
  qed
qed

lemma ReadData_step:
  assumes "bufio_Read 1024 b = Some (buf, None, b')"
  shows "ReadData_loop b res =
    (if length buf < 1024 then Some (res @ buf, None) else ReadData_loop b' (res @ buf))"
  by (subst ReadData_loop.simps) (simp add: assms)

lemma WriteData_step:
  assumes "bufio_Read 1024 b = Some (buf, None, b')" and "wr_script w = []"
  shows "WriteData_loop w b =
    (if length buf < 1024 then Some (None, w\<lparr>wr_out := wr_out w @ buf\<rparr>)
     else WriteData_loop (w\<lparr>wr_out := wr_out w @ buf\<rparr>) b')"
  by (subst WriteData_loop.simps) (simp add: assms wr_Write_def)

lemma dvd_minus_block: "(k :: nat) \<le> a \<Longrightarrow> k dvd a - k \<longleftrightarrow> k dvd a"
  by (auto simp: le_iff_add)

lemma take_drop_append: "take n xs @ drop n xs @ ys = xs @ ys"
  by (metis append.assoc append_take_drop_id)

lemma take_drop_4096: "take 1024 xs @ drop 1024 (take 4096 xs) @ drop 4096 xs = xs"
proof -
  have "drop 1024 (take 4096 xs) = take 3072 (drop 1024 xs)" by (simp add: drop_take)
  moreover have "drop 4096 xs = drop 3072 (drop 1024 xs)" by simp
  ultimately show ?thesis by (simp only: append_take_drop_id)
qed

lemma ReadData_piece:
  assumes "rest \<noteq> [] \<longrightarrow> 1024 dvd length buf"
  shows "ReadData_loop (piece_bufio buf rest tail) res =
    (if 1024 dvd length buf + length rest
     then ReadData_loop (piece_bufio [] [] tail) (res @ buf @ rest)
     else Some (res @ buf @ rest, None))"
  using assms
proof (induction "length buf + length rest" arbitrary: buf rest res rule: less_induct)
  case less
  from less.prems show ?case
  proof (cases rule: piece_cases)
    case finished
    then show ?thesis by simp
  next
    case short_buf
    then have "\<not> 1024 dvd length buf" by (auto dest: dvd_imp_le)
    with short_buf ReadData_step [OF bufio_Read_buffered [OF \<open>buf \<noteq> []\<close>, of 1024 rest tail], of res]
    show ?thesis by simp
  next
    case long_buf
    have "ReadData_loop (piece_bufio buf rest tail) res =
        ReadData_loop (piece_bufio (drop 1024 buf) rest tail) (res @ take 1024 buf)"
      using long_buf by (subst ReadData_step [OF bufio_Read_buffered]) auto
    also have "\<dots> = (if 1024 dvd length (drop 1024 buf) + length rest
        then ReadData_loop (piece_bufio [] [] tail) ((res @ take 1024 buf) @ drop 1024 buf @ rest)
        else Some ((res @ take 1024 buf) @ drop 1024 buf @ rest, None))"
      using long_buf by (intro less.hyps) auto
    finally show ?thesis using long_buf by (simp add: dvd_minus_block take_drop_append)
  next
    case short_rest
    then have "\<not> 1024 dvd length rest" by (auto dest: dvd_imp_le)
    with short_rest ReadData_step [OF bufio_Read_fill [OF \<open>rest \<noteq> []\<close>, of tail], of res]
    show ?thesis by simp
  next
    case long_rest
    let ?b = "drop 1024 (take 4096 rest)" and ?r = "drop 4096 rest"
    have "ReadData_loop (piece_bufio buf rest tail) res =
        ReadData_loop (piece_bufio ?b ?r tail) (res @ take 1024 rest)"
      using long_rest by (subst \<open>buf = []\<close>, subst ReadData_step [OF bufio_Read_fill]) auto
    also have "\<dots> = (if 1024 dvd length ?b + length ?r
        then ReadData_loop (piece_bufio [] [] tail) ((res @ take 1024 rest) @ ?b @ ?r)
        else Some ((res @ take 1024 rest) @ ?b @ ?r, None))"
      using long_rest by (intro less.hyps) auto
    finally show ?thesis
      using long_rest dvd_minus_block [of 1024 "length rest"]
      by (simp add: take_drop_4096 min_def split: if_splits)
  qed
qed

lemma WriteData_piece:
  assumes "rest \<noteq> [] \<longrightarrow> 1024 dvd length buf" and "wr_script w = []"
  shows "WriteData_loop w (piece_bufio buf rest tail) =
    (let w' = w\<lparr>wr_out := wr_out w @ buf @ rest\<rparr>
     in if 1024 dvd length buf + length rest then WriteData_loop w' (piece_bufio [] [] tail)
        else Some (None, w'))"
  using assms
proof (induction "length buf + length rest" arbitrary: buf rest w rule: less_induct)
  case less
  from less.prems(1) show ?case
  proof (cases rule: piece_cases)
    case finished
    then show ?thesis by simp
  next
    case short_buf
    then have "\<not> 1024 dvd length buf" by (auto dest: dvd_imp_le)
    with short_buf WriteData_step [OF bufio_Read_buffered [OF \<open>buf \<noteq> []\<close>, of 1024 rest tail] less.prems(2)]
    show ?thesis by simp
  next
    case long_buf
    let ?w = "w\<lparr>wr_out := wr_out w @ take 1024 buf\<rparr>"
    have "WriteData_loop w (piece_bufio buf rest tail) =
        WriteData_loop ?w (piece_bufio (drop 1024 buf) rest tail)"
      using long_buf less.prems(2) by (subst WriteData_step [OF bufio_Read_buffered]) auto
    then show ?thesis
      using long_buf less.prems(2) less.hyps [of "drop 1024 buf" rest ?w]
      by (simp add: dvd_minus_block take_drop_append Let_def)
  next
    case short_rest
    then have "\<not> 1024 dvd length rest" by (auto dest: dvd_imp_le)
    with short_rest less.prems(2) WriteData_step [OF bufio_Read_fill [OF \<open>rest \<noteq> []\<close>, of tail] less.prems(2)]
    show ?thesis by simp
  next
    case long_rest
    let ?b = "drop 1024 (take 4096 rest)" and ?r = "drop 4096 rest"
    let ?w = "w\<lparr>wr_out := wr_out w @ take 1024 rest\<rparr>"
    have "WriteData_loop w (piece_bufio buf rest tail) = WriteData_loop ?w (piece_bufio ?b ?r tail)"
      using long_rest less.prems(2) by (subst \<open>buf = []\<close>, subst WriteData_step [OF bufio_Read_fill]) auto
    then show ?thesis
      using long_rest less.prems(2) less.hyps [of ?b ?r ?w] dvd_minus_block [of 1024 "length rest"]
      by (simp add: take_drop_4096 Let_def min_def split: if_splits)
  qed
qed

lemma ReadData_pieces_loop:
  "\<forall>p \<in> set ps. p \<noteq> [] \<and> 1024 dvd length p \<Longrightarrow>
   ReadData_loop (piece_bufio [] [] (map RData ps @ tail)) res =
   ReadData_loop (piece_bufio [] [] tail) (res @ concat ps)"
proof (induction ps arbitrary: res)
  case (Cons p ps)
  then show ?case using ReadData_piece [of p "[]" "map RData ps @ tail" res] by simp
qed simp

lemma ReadData_message:
  assumes "\<forall>p \<in> set ps. p \<noteq> [] \<and> 1024 dvd length p" and "\<not> 1024 dvd length q"
  shows "ReadData (map RData (ps @ [q]) @ tail) = Some (concat ps @ q, None)"
proof -
  have "q \<noteq> []" using assms(2) by auto
  then show ?thesis
    using assms ReadData_pieces_loop [OF assms(1), of "RData q # tail" "[]"]
      ReadData_piece [of q "[]" tail "concat ps"]
    by (simp add: ReadData_def bufio_NewReader_def)
qed

lemma WriteData_bytes:
  assumes "wr_script w = []"
  shows "WriteData w (buffer_reader bs) =
    Some (if 1024 dvd length bs then Some io_EOF else None, w\<lparr>wr_out := wr_out w @ bs\<rparr>)"
proof -
  have eof: "WriteData_loop u (piece_bufio [] [] [RErr io_EOF]) = Some (Some io_EOF, u)" for u
    by (simp add: WriteData_loop.simps bufio_Read_def)
  have "bufio_NewReader (buffer_reader bs) = piece_bufio [] bs [RErr io_EOF]"
    by (simp add: bufio_NewReader_def buffer_reader_def)
  then show ?thesis
    using WriteData_piece [of bs "[]" w "[RErr io_EOF]"] assms eof
    by (simp add: WriteData_def Let_def)
qed

text \<open>The loop on any pieces: it ends at the first piece that is not a positive number of blocks.\<close>

lemma ReadData_short:
  assumes "\<not> (p \<noteq> [] \<and> 1024 dvd length p)"
  shows "ReadData_loop (piece_bufio [] [] (RData p # tail)) res = Some (res @ p, None)"
proof (cases "p = []")
  case True
  then show ?thesis by (simp add: ReadData_loop.simps bufio_Read_def)
next
  case False
  then show ?thesis using ReadData_piece [of p "[]" tail res] assms by simp
qed

lemma ReadData_until_short:
  "ReadData_loop (piece_bufio [] [] (map RData ps @ tail)) res =
   (let n = length (takeWhile (\<lambda>p. p \<noteq> [] \<and> 1024 dvd length p) ps)
    in if n < length ps then Some (res @ concat (take (Suc n) ps), None) else ReadData_loop (piece_bufio [] [] tail) (res @ concat ps))"
proof (induction ps arbitrary: res)
  case (Cons p ps)
  show ?case
  proof (cases "p \<noteq> [] \<and> 1024 dvd length p")
    case True
    then show ?thesis using Cons.IH [of "res @ p"] ReadData_piece [of p "[]" "map RData ps @ tail" res] by (simp add: Let_def)
  next
    case False
    then show ?thesis using ReadData_short [OF False, of "map RData ps @ tail" res] by (auto simp: Let_def)
  qed
qed simp

section \<open>Properties\<close>

text \<open>Reading a message that arrives in pieces: if every piece but the last has a positive
  multiple of 1024 bytes and the last has not, all of the message is returned, whatever follows on
  the stream.\<close>

theorem ReadData_pieces:
  assumes "\<forall>p \<in> set ps. p \<noteq> [] \<and> 1024 dvd length p" and "\<not> 1024 dvd length q"
  shows "ReadData (map RData (ps @ [q]) @ tail) = Some (concat ps @ q, None)"
  by (rule ReadData_message [OF assms])

theorem ReadData_pieces_witness:
  "ReadData [RData (replicate 2048 7), RData (replicate 3 1)] =
     Some (replicate 2048 7 @ replicate 3 1, None)"
  using ReadData_pieces [of "[replicate 2048 7]" "replicate 3 1" "[]"] by simp

text \<open>C32: What reading a message returns, for any pieces in which the stream delivers it: reading goes on past the pieces that
  have a positive multiple of 1024 bytes and ends with the first other one, returning everything up to and including that piece without an error,
  even when more of the message follows. When there is no such piece the message is lost: if the stream then ends, its error is
  returned without the bytes read so far, and if the stream stays open the reader never returns.\<close>

theorem ReadData_result:
  "let n = length (takeWhile (\<lambda>p. p \<noteq> [] \<and> 1024 dvd length p) ps)
   in ReadData (map RData ps @ [RErr e]) = Some (if n < length ps then (concat (take (Suc n) ps), None) else ([], Some e)) \<and>
      ReadData (map RData ps) = (if n < length ps then Some (concat (take (Suc n) ps), None) else None)"
  using ReadData_until_short [of ps "[RErr e]" "[]"] ReadData_until_short [of ps "[]" "[]"]
  by (simp add: Let_def ReadData_def bufio_NewReader_def ReadData_loop.simps bufio_Read_def)

text \<open>Copying a buffer into a writer that does not fail writes all of it, and reports an end of
  file error exactly when the length is a multiple of 1024, as that of every full fragment is.\<close>

theorem WriteData_buffer:
  assumes "wr_script w = []"
  shows "WriteData w (buffer_reader bs) =
    Some (if 1024 dvd length bs then Some io_EOF else None, w\<lparr>wr_out := wr_out w @ bs\<rparr>)"
  by (rule WriteData_bytes [OF assms])

theorem WriteData_buffer_witness:
  "fst (the (WriteData \<lparr>wr_out = [], wr_script = []\<rparr> (buffer_reader (replicate 8388608 0)))) = Some io_EOF"
  using WriteData_buffer [of "\<lparr>wr_out = [], wr_script = []\<rparr>" "replicate 8388608 0"] by simp

end
