(* ===== verification/Cdn_Lib.thy ===== *)
theory Cdn_Lib
  imports Cdn_Types Cdn_Io
begin

text \<open>
  \<open>cd2n-lib/lib.go\<close>: requests to cache nodes, downloads from the storage network, and the
  recovery of a file from its segments.

  The libp2p host is a parameter over a network state \<open>'n\<close>, the JSON codec of the messages, the
  CESS chain client, the storage client (\<open>ReadDataAction\<close>), Reed-Solomon restoration and AES
  decryption are parameters; so are the constants of the CESS SDK's \<open>config\<close> package.
\<close>

section \<open>Data and parameters\<close>

record FragmentInfo =
  fg_Hash :: string
  fg_Miner :: bytes

record SegmentInfo =
  sg_Hash :: string
  sg_FragmentList :: "FragmentInfo list"

record FileMetadata =
  fm_SegmentList :: "SegmentInfo list"
  fm_FileSize :: int
  fm_Owner :: "bytes list"

record storage_env =
  se_QueryFile :: "string \<Rightarrow> FileMetadata or_err"
  se_QueryMiner :: "bytes \<Rightarrow> string or_err"
  se_ReadDataAction :: "string \<Rightarrow> string \<Rightarrow> string \<Rightarrow> fs \<Rightarrow> fs \<times> goerr option"
  se_RSRestore :: "string \<Rightarrow> string list \<Rightarrow> fs \<Rightarrow> fs \<times> goerr option"
  se_AesCbcDecrypt :: "bytes \<Rightarrow> string \<Rightarrow> (bytes \<times> bytes) or_err"
  se_io :: io_oracle
  se_DataShards :: nat
  se_ParShards :: nat
  se_SegmentSize :: nat
  se_FragmentSize :: nat

text \<open>What \<open>json.Unmarshal\<close> leaves in a field of type \<open>any\<close>, as far as the code looks at it.\<close>

datatype any_data = AnyString string | AnyOther

text \<open>
  The network: opening a stream to a peer, writing to it, and copying from it until it ends (the
  bytes received and an error), then the codec of the messages.
\<close>

record 'n net_env =
  ne_NewStream :: "'n \<Rightarrow> string \<Rightarrow> goerr option \<times> 'n"
  ne_Write :: "'n \<Rightarrow> string \<Rightarrow> bytes \<Rightarrow> goerr option \<times> 'n"
  ne_Copy :: "'n \<Rightarrow> string \<Rightarrow> (bytes \<times> goerr option) \<times> 'n"
  ne_MarshalRequest :: "CacheRequest \<Rightarrow> bytes or_err"
  ne_UnmarshalCacheResponse :: "bytes \<Rightarrow> CacheResponse \<times> goerr option"
  ne_UnmarshalResponse :: "bytes \<Rightarrow> any_data or_err"
  ne_UnmarshalQuery :: "bytes \<Rightarrow> CacheResponse \<times> goerr option"

section \<open>Requests to a cache node\<close>

text \<open>The bytes copied to the response, the error, and the network after the exchange.\<close>

definition SendRequestToCacher ::
  "'n net_env \<Rightarrow> 'n \<Rightarrow> string \<Rightarrow> CacheRequest \<Rightarrow> (bytes \<times> goerr option) \<times> 'n" where
  "SendRequestToCacher N n peerId req =
     (let msg = ''send request to cacher error'' in
      case ne_MarshalRequest N req of
        Inl err \<Rightarrow> (([], Some (Wrapped msg err)), n)
      | Inr extData \<Rightarrow>
          (case ne_NewStream N n peerId of
             (Some err, n1) \<Rightarrow> (([], Some (Wrapped msg err)), n1)
           | (None, n1) \<Rightarrow>
               (case ne_Write N n1 peerId extData of
                  (Some err, n2) \<Rightarrow> (([], Some (Wrapped msg err)), n2)
                | (None, n2) \<Rightarrow>
                    (case ne_Copy N n2 peerId of
                       ((bs, Some err), n3) \<Rightarrow> ((bs, Some (Wrapped msg err)), n3)
                     | ((bs, None), n3) \<Rightarrow>
                         (if bs = [] then ((bs, Some (Wrapped msg (Errorf ''empty response''))), n3)
                          else ((bs, None), n3))))))"

definition DailCacheNode ::
  "'n net_env \<Rightarrow> 'n \<Rightarrow> string \<Rightarrow> (CacheResponse \<times> goerr option) \<times> 'n" where
  "DailCacheNode N n peerId =
     (let msg = ''dail cache node error'' in
      case SendRequestToCacher N n peerId (CacheRequest_zero\<lparr>rq_Option := OPTION_DAIL\<rparr>) of
        ((bs, Some err), n1) \<Rightarrow> ((CacheResponse_zero, Some (Wrapped msg err)), n1)
      | ((bs, None), n1) \<Rightarrow>
          (if bs = [] then ((CacheResponse_zero, Some (Wrapped msg (Errorf ''empty response''))), n1)
           else (case ne_UnmarshalCacheResponse N bs of
              (resp, Some err) \<Rightarrow> ((resp, Some (Wrapped msg err)), n1)
            | (resp, None) \<Rightarrow> ((resp, None), n1))))"

definition QueryFileInfoFromCache ::
  "'n net_env \<Rightarrow> 'n \<Rightarrow> string \<Rightarrow> CacheRequest \<Rightarrow> (CacheResponse \<times> goerr option) \<times> 'n" where
  "QueryFileInfoFromCache N n peerId req =
     (let msg = ''query file info error'' in
      case SendRequestToCacher N n peerId (req\<lparr>rq_Option := OPTION_QUERY\<rparr>) of
        ((bs, Some err), n1) \<Rightarrow> ((CacheResponse_zero, Some (Wrapped msg err)), n1)
      | ((bs, None), n1) \<Rightarrow>
          (if bs = [] then ((CacheResponse_zero, Some (Wrapped msg (Errorf ''empty response''))), n1)
           else (case ne_UnmarshalResponse N bs of
              Inl err \<Rightarrow> ((CacheResponse_zero, Some (Wrapped msg err)), n1)
            | Inr (AnyString estr) \<Rightarrow> ((CacheResponse_zero, Some (Wrapped msg (Errorf estr))), n1)
            | Inr AnyOther \<Rightarrow>
                (case ne_UnmarshalQuery N bs of
                   (resp, Some err) \<Rightarrow> ((resp, Some (Wrapped msg err)), n1)
                 | (resp, None) \<Rightarrow> ((resp, None), n1)))))"

text \<open>The file is written by \<open>WriteData\<close>; a write error of the file system is the first write's.\<close>

definition file_writer :: "io_oracle \<Rightarrow> string \<Rightarrow> writer" where
  "file_writer io p = \<lparr>wr_out = [],
     wr_script = (case io ''write'' p of None \<Rightarrow> [] | Some e \<Rightarrow> [Some (0, e)])\<rparr>"

definition DownloadFileFromCache ::
  "'n net_env \<Rightarrow> io_oracle \<Rightarrow> 'n \<Rightarrow> fs \<Rightarrow> string \<Rightarrow> string \<Rightarrow> CacheRequest \<Rightarrow>
   (goerr option \<times> fs \<times> 'n) option" where
  "DownloadFileFromCache N io n fs peerId fpath req =
     (let msg = ''download file error'' in
      case SendRequestToCacher N n peerId (req\<lparr>rq_Option := OPTION_DOWNLOAD\<rparr>) of
        ((bs, Some err), n1) \<Rightarrow> Some (Some (Wrapped msg err), fs, n1)
      | ((bs, None), n1) \<Rightarrow>
          (if bs = [] then Some (Some (Wrapped msg (Errorf ''empty response'')), fs, n1)
           else (case os_Create io fs fpath of
              (fs1, Some err) \<Rightarrow> Some (Some (Wrapped msg err), fs1, n1)
            | (fs1, None) \<Rightarrow>
                (case WriteData (file_writer io fpath) (buffer_reader bs) of
                   None \<Rightarrow> None
                 | Some (err, w) \<Rightarrow>
                     Some (errors_Wrap err msg, fs1(fpath \<mapsto> File (wr_out w)), n1)))))"

section \<open>Downloads from the storage network\<close>

fun dl_fragment_loop ::
  "storage_env \<Rightarrow> string \<Rightarrow> string \<Rightarrow> string \<Rightarrow> fs \<Rightarrow> FragmentInfo list \<Rightarrow> fs \<times> goerr option" where
  "dl_fragment_loop S fpath segmentHash fragmentHash fs [] = (fs, None)"
| "dl_fragment_loop S fpath segmentHash fragmentHash fs (fragment # rest) =
     (if fg_Hash fragment \<noteq> fragmentHash
      then dl_fragment_loop S fpath segmentHash fragmentHash fs rest
      else (case se_QueryMiner S (fg_Miner fragment) of
         Inl err \<Rightarrow> (fs, Some (Wrapped ''download fragment from storage error'' err))
       | Inr peer \<Rightarrow>
           (case se_ReadDataAction S peer segmentHash fpath fs of
              (fs1, Some err) \<Rightarrow> (fs1, Some (Wrapped ''download fragment from storage error'' err))
            | (fs1, None) \<Rightarrow> (fs1, None))))"

fun dl_fragment_segments ::
  "storage_env \<Rightarrow> string \<Rightarrow> string \<Rightarrow> string \<Rightarrow> fs \<Rightarrow> SegmentInfo list \<Rightarrow> fs \<times> goerr option" where
  "dl_fragment_segments S fpath segmentHash fragmentHash fs [] = (fs, None)"
| "dl_fragment_segments S fpath segmentHash fragmentHash fs (segment # rest) =
     (if sg_Hash segment \<noteq> segmentHash
      then dl_fragment_segments S fpath segmentHash fragmentHash fs rest
      else (case dl_fragment_loop S fpath segmentHash fragmentHash fs (sg_FragmentList segment) of
         (fs1, Some err) \<Rightarrow> (fs1, Some err)
       | (fs1, None) \<Rightarrow> dl_fragment_segments S fpath segmentHash fragmentHash fs1 rest))"

definition DownloadFragmentFromStorage ::
  "storage_env \<Rightarrow> fs \<Rightarrow> string \<Rightarrow> string \<Rightarrow> string \<Rightarrow> string \<Rightarrow> fs \<times> goerr option" where
  "DownloadFragmentFromStorage S fs fpath fileHash segmentHash fragmentHash =
     (case se_QueryFile S fileHash of
        Inl err \<Rightarrow> (fs, Some (Wrapped ''download fragment from storage error'' err))
      | Inr fmeta \<Rightarrow> dl_fragment_segments S fpath segmentHash fragmentHash fs (fm_SegmentList fmeta))"

text \<open>The state of the download loop of a segment: the files, \<open>count\<close> and \<open>paths\<close>.\<close>

fun dl_segment_fragments ::
  "storage_env \<Rightarrow> string \<Rightarrow> fs \<times> nat \<times> string list \<Rightarrow> FragmentInfo list \<Rightarrow> fs \<times> nat \<times> string list" where
  "dl_segment_fragments S fdir (fs, cnt, paths) [] = (fs, cnt, paths)"
| "dl_segment_fragments S fdir (fs, cnt, paths) (fragment # rest) =
     (if cnt \<ge> se_DataShards S then (fs, cnt, paths)
      else (case se_QueryMiner S (fg_Miner fragment) of
         Inl err \<Rightarrow> dl_segment_fragments S fdir (fs, cnt, paths) rest
       | Inr peer \<Rightarrow>
           (let fragmentPath = path_Join [fdir, fg_Hash fragment] in
            case se_ReadDataAction S peer (fg_Hash fragment) fragmentPath fs of
              (fs1, Some err) \<Rightarrow> dl_segment_fragments S fdir (fs1, cnt, paths) rest
            | (fs1, None) \<Rightarrow>
                dl_segment_fragments S fdir (fs1, cnt + 1, paths @ [fragmentPath]) rest)))"

fun dl_segment_segments ::
  "storage_env \<Rightarrow> string \<Rightarrow> string \<Rightarrow> fs \<times> nat \<times> string list \<Rightarrow> SegmentInfo list \<Rightarrow> fs \<times> nat \<times> string list" where
  "dl_segment_segments S fdir segmentHash st [] = st"
| "dl_segment_segments S fdir segmentHash st (segment # rest) =
     (if sg_Hash segment \<noteq> segmentHash then dl_segment_segments S fdir segmentHash st rest
      else dl_segment_segments S fdir segmentHash
             (dl_segment_fragments S fdir st (sg_FragmentList segment)) rest)"

definition DownloadSegmentFromStorage ::
  "storage_env \<Rightarrow> fs \<Rightarrow> string \<Rightarrow> string \<Rightarrow> string \<Rightarrow> (string \<times> goerr option) \<times> fs" where
  "DownloadSegmentFromStorage S fs fdir fileHash segmentHash =
     (let segmentPath = path_Join [fdir, segmentHash] in
      case se_QueryFile S fileHash of
        Inl err \<Rightarrow> ((segmentPath, Some (Wrapped ''download fragment from storage error'' err)), fs)
      | Inr fmeta \<Rightarrow>
          (case dl_segment_segments S fdir segmentHash (fs, 0, []) (fm_SegmentList fmeta) of
             (fs1, cnt, paths) \<Rightarrow>
               (if cnt < se_DataShards S
                then ((segmentPath, Some (Wrapped ''download segment from storage error''
                        (Errorf ''not enough fragments were downloaded''))), fs1)
                else (case se_RSRestore S segmentPath paths fs1 of
                   (fs2, Some err) \<Rightarrow>
                     ((segmentPath, Some (Wrapped ''download segment from storage error'' err)), fs2)
                 | (fs2, None) \<Rightarrow> ((segmentPath, None), os_Remove_all (se_io S) fs2 paths)))))"

section \<open>Recovery of a file\<close>

text \<open>
  A Go slice with its spare capacity: \<open>buf[:n]\<close> may reach into the spare part and panics beyond
  it. \<open>os.ReadFile\<close> allocates one byte more than the file has, and at least 512.
\<close>

definition slice_upto :: "bytes \<times> bytes \<Rightarrow> u64 \<Rightarrow> bytes option" where
  "slice_upto buf n =
     (if unat n \<le> length (fst buf) + length (snd buf) then Some (take (unat n) (fst buf @ snd buf)) else None)"

definition readfile_slice :: "bytes \<Rightarrow> bytes \<times> bytes" where
  "readfile_slice bs = (bs, replicate (max 512 (length bs + 1) - length bs) 0)"

text \<open>One round of the outer loop: the first path whose base is the segment's hash is written.\<close>

fun recover_segment ::
  "storage_env \<Rightarrow> FileMetadata \<Rightarrow> string \<Rightarrow> string \<Rightarrow> string \<Rightarrow> fs \<Rightarrow> nat \<Rightarrow> string list \<Rightarrow>
   (goerr option \<times> fs \<times> nat) option" where
  "recover_segment S fmeta cipher wpath hash fs writecount [] = Some (None, fs, writecount)"
| "recover_segment S fmeta cipher wpath hash fs writecount (p # ps) =
     (if hash \<noteq> path_Base p then recover_segment S fmeta cipher wpath hash fs writecount ps
      else (case os_ReadFile (se_io S) fs p of
         Inl err \<Rightarrow> Some (Some (Wrapped ''file recovery via segments failed'' err), fs, writecount)
       | Inr bs \<Rightarrow>
           (case (if cipher \<noteq> '''' then se_AesCbcDecrypt S bs cipher else Inr (readfile_slice bs)) of
              Inl err \<Rightarrow> Some (Some (Wrapped ''file recovery via segments failed'' err), fs, writecount)
            | Inr buf \<Rightarrow>
                (if writecount + 1 \<ge> length (fm_SegmentList fmeta)
                 then (case slice_upto buf (big_Uint64 (fm_FileSize fmeta) -
                          (if cipher \<noteq> '''' then word_of_int (int writecount * (int (se_SegmentSize S) - 16))
                           else word_of_int (int writecount * int (se_SegmentSize S)))) of
                    None \<Rightarrow> None
                  | Some out \<Rightarrow> Some (None, file_Write (se_io S) fs wpath out, writecount + 1))
                 else Some (None, file_Write (se_io S) fs wpath (fst buf), writecount + 1)))))"

fun recover_loop ::
  "storage_env \<Rightarrow> FileMetadata \<Rightarrow> string \<Rightarrow> string \<Rightarrow> string list \<Rightarrow> fs \<Rightarrow> nat \<Rightarrow> SegmentInfo list \<Rightarrow>
   (goerr option \<times> fs \<times> nat) option" where
  "recover_loop S fmeta cipher wpath paths fs writecount [] = Some (None, fs, writecount)"
| "recover_loop S fmeta cipher wpath paths fs writecount (segment # rest) =
     (case recover_segment S fmeta cipher wpath (sg_Hash segment) fs writecount paths of
        None \<Rightarrow> None
      | Some (Some err, fs1, wc) \<Rightarrow> Some (Some err, fs1, wc)
      | Some (None, fs1, wc) \<Rightarrow> recover_loop S fmeta cipher wpath paths fs1 wc rest)"

definition RecoveryFileViaSegments ::
  "storage_env \<Rightarrow> fs \<Rightarrow> string list \<Rightarrow> FileMetadata \<Rightarrow> string \<Rightarrow> string \<Rightarrow> (goerr option \<times> fs) option" where
  "RecoveryFileViaSegments S fs segmentspath fmeta cipher wpath =
     (case recover_loop S fmeta cipher wpath segmentspath fs 0 (fm_SegmentList fmeta) of
        None \<Rightarrow> None
      | Some (Some err, fs1, wc) \<Rightarrow> Some (Some err, fs1)
      | Some (None, fs1, wc) \<Rightarrow>
          (if wc \<noteq> length (fm_SegmentList fmeta)
           then Some (Some (Wrapped ''file recovery via segments failed''
                  (Errorf ''the number of processed segments is inconsistent'')), fs1)
           else Some (None, fs1)))"

section \<open>Download of a whole file\<close>

fun dl_file_fragments ::
  "storage_env \<Rightarrow> string \<Rightarrow> string \<Rightarrow> fs \<Rightarrow> string list \<Rightarrow> FragmentInfo list \<Rightarrow> fs \<times> goerr option \<times> bool" where
  "dl_file_fragments S fdir segmentHash fs fragmentpaths [] = (fs, None, False)"
| "dl_file_fragments S fdir segmentHash fs fragmentpaths (fragment # rest) =
     (case se_QueryMiner S (fg_Miner fragment) of
        Inl err \<Rightarrow> (fs, Some (Wrapped ''download file from storage error'' err), False)
      | Inr peer \<Rightarrow>
          (let fragmentpath = path_Join [fdir, fg_Hash fragment] in
           case se_ReadDataAction S peer (fg_Hash fragment) fragmentpath fs of
             (fs1, Some err) \<Rightarrow> dl_file_fragments S fdir segmentHash fs1 fragmentpaths rest
           | (fs1, None) \<Rightarrow>
               (let fps = fragmentpaths @ [fragmentpath] in
                if length fps \<ge> se_DataShards S
                then (case se_RSRestore S (path_Join [fdir, segmentHash]) fps fs1 of
                   (fs2, Some err) \<Rightarrow> (fs2, Some err, False)
                 | (fs2, None) \<Rightarrow> (fs2, None, True))
                else dl_file_fragments S fdir segmentHash fs1 fps rest)))"

fun dl_file_segments ::
  "storage_env \<Rightarrow> string \<Rightarrow> fs \<Rightarrow> string list \<Rightarrow> SegmentInfo list \<Rightarrow> fs \<times> goerr option \<times> string list" where
  "dl_file_segments S fdir fs segmentspath [] = (fs, None, segmentspath)"
| "dl_file_segments S fdir fs segmentspath (segment # rest) =
     (case dl_file_fragments S fdir (sg_Hash segment) fs [] (sg_FragmentList segment) of
        (fs1, Some err, ok) \<Rightarrow> (fs1, Some err, segmentspath)
      | (fs1, None, ok) \<Rightarrow>
          dl_file_segments S fdir fs1
            (if ok then segmentspath @ [path_Join [fdir, sg_Hash segment]] else segmentspath) rest)"

text \<open>The deferred clean-up removes every segment and fragment of the file from the directory.\<close>

definition dl_file_temps :: "string \<Rightarrow> FileMetadata \<Rightarrow> string list" where
  "dl_file_temps fdir fmeta =
     concat (map (\<lambda>segment. path_Join [fdir, sg_Hash segment] #
                    map (\<lambda>fragment. path_Join [fdir, fg_Hash fragment]) (sg_FragmentList segment))
                 (fm_SegmentList fmeta))"

definition DownloadFileFromStorage ::
  "storage_env \<Rightarrow> fs \<Rightarrow> string \<Rightarrow> string \<Rightarrow> string \<Rightarrow> ((string \<times> goerr option) \<times> fs) option" where
  "DownloadFileFromStorage S fs fdir fileHash cipher =
     (let msg = ''download file from storage error'' in
      case os_Stat (se_io S) fs fdir of
        Inl err \<Rightarrow> Some (('''', Some (Wrapped msg err)), fs)
      | Inr _ \<Rightarrow>
          (let userfile = path_Join [fdir, fileHash] in
           case os_Create (se_io S) fs userfile of
             (fs1, Some err) \<Rightarrow> Some (('''', Some (Wrapped msg err)), fs1)
           | (fs1, None) \<Rightarrow>
               (case se_QueryFile S fileHash of
                  Inl err \<Rightarrow> Some (('''', Some (Wrapped msg err)), fs1)
                | Inr fmeta \<Rightarrow>
                    (let cleanup = (\<lambda>f. os_Remove_all (se_io S) f (dl_file_temps fdir fmeta)) in
                     case dl_file_segments S fdir fs1 [] (fm_SegmentList fmeta) of
                       (fs2, Some err, sps) \<Rightarrow> Some (('''', Some err), cleanup fs2)
                     | (fs2, None, sps) \<Rightarrow>
                         (if length sps \<noteq> length (fm_SegmentList fmeta)
                          then Some (('''', Some (Wrapped msg
                                 (Errorf ''the number of downloaded segments is inconsistent''))), cleanup fs2)
                          else (case RecoveryFileViaSegments S fs2 sps fmeta cipher userfile of
                             None \<Rightarrow> None
                           | Some (Some err, fs3) \<Rightarrow> Some (('''', Some (Wrapped msg err)), cleanup fs3)
                           | Some (None, fs3) \<Rightarrow> Some ((userfile, None), cleanup fs3)))))))"

text \<open>\<open>GetSha256Hash\<close>: the hexadecimal SHA-256 digest; the digest itself is a parameter.\<close>

definition GetSha256Hash :: "(bytes \<Rightarrow> bytes) \<Rightarrow> bytes \<Rightarrow> string" where
  "GetSha256Hash sha256 data = hex_EncodeToString (sha256 data)"

text \<open>
  What the storage network serves: a read succeeds exactly when the peer holds the named piece.
\<close>

definition serves :: "storage_env \<Rightarrow> (string \<Rightarrow> string \<Rightarrow> bool) \<Rightarrow> bool" where
  "serves S served \<longleftrightarrow>
     (\<forall>peer name path fs. snd (se_ReadDataAction S peer name path fs) = None \<longleftrightarrow> served peer name)"

text \<open>
  What reading into one of the paths \<open>P\<close> does, where that path is not a directory: it succeeds exactly when the peer holds the piece, and then
  the file has the contents that the piece has everywhere; no other file changes, also when reading fails.
\<close>

definition delivers :: "storage_env \<Rightarrow> string set \<Rightarrow> (string \<Rightarrow> string \<Rightarrow> bool) \<Rightarrow> (string \<Rightarrow> bytes) \<Rightarrow> bool" where
  "delivers S P served content \<longleftrightarrow>
     (\<forall>peer name path fs fs1 err. path \<in> P \<and> fs path \<noteq> Some Dir \<and> se_ReadDataAction S peer name path fs = (fs1, err) \<longrightarrow>
        (err = None \<longleftrightarrow> served peer name) \<and> (err = None \<longrightarrow> fs1 path = Some (File (content name))) \<and> (\<forall>p. p \<noteq> path \<longrightarrow> fs1 p = fs p))"

definition readable :: "storage_env \<Rightarrow> (string \<Rightarrow> string \<Rightarrow> bool) \<Rightarrow> FragmentInfo \<Rightarrow> bool" where
  "readable S served fragment \<longleftrightarrow>
     (case se_QueryMiner S (fg_Miner fragment) of
        Inl err \<Rightarrow> False
      | Inr peer \<Rightarrow> served peer (fg_Hash fragment))"

definition segment_fragments :: "string \<Rightarrow> SegmentInfo list \<Rightarrow> FragmentInfo list" where
  "segment_fragments h segs = concat (map sg_FragmentList (filter (\<lambda>s. sg_Hash s = h) segs))"

text \<open>A storage network in memory, for the witnesses: everything is served, a read writes one byte
  for the piece, restoring writes the number of the paths.\<close>

definition mem_storage :: "FileMetadata \<Rightarrow> storage_env" where
  "mem_storage fmeta = \<lparr>se_QueryFile = (\<lambda>h. Inr fmeta), se_QueryMiner = (\<lambda>m. Inr ''peer''),
     se_ReadDataAction = (\<lambda>peer name path fs. (fs(path \<mapsto> File [1]), None)),
     se_RSRestore = (\<lambda>out paths fs. (fs(out \<mapsto> File [word_of_nat (length paths)]), None)),
     se_AesCbcDecrypt = (\<lambda>bs c. Inr (bs, [])), se_io = (\<lambda>op p. None),
     se_DataShards = 2, se_ParShards = 1, se_SegmentSize = 4, se_FragmentSize = 2\<rparr>"

definition mem_fmeta :: FileMetadata where
  "mem_fmeta = \<lparr>fm_SegmentList =
     [\<lparr>sg_Hash = ''s1'', sg_FragmentList = [\<lparr>fg_Hash = ''a'', fg_Miner = []\<rparr>, \<lparr>fg_Hash = ''b'', fg_Miner = []\<rparr>,
          \<lparr>fg_Hash = ''c'', fg_Miner = []\<rparr>]\<rparr>,
      \<lparr>sg_Hash = ''s2'', sg_FragmentList = []\<rparr>], fm_FileSize = 6, fm_Owner = []\<rparr>"

section \<open>Laws\<close>

lemma file_writer_ok: "io ''write'' p = None \<Longrightarrow> wr_script (file_writer io p) = []"
  by (simp add: file_writer_def)

lemma os_Remove_all_notin: "p \<notin> set ps \<Longrightarrow> os_Remove_all io fs ps p = fs p"
  by (induction ps arbitrary: fs) (auto simp: os_Remove_def split: option.splits)

lemma os_Remove_all_in:
  "p \<in> set ps \<Longrightarrow> io ''remove'' p = None \<Longrightarrow> os_Remove_all io fs ps p = None"
proof (induction ps arbitrary: fs)
  case (Cons q qs)
  then show ?case
    using os_Remove_all_notin [of p qs io "os_Remove io fs q"]
    by (cases "p \<in> set qs") (auto simp: os_Remove_def)
qed simp

lemma readable_read:
  assumes "serves S served" and "se_QueryMiner S (fg_Miner f) = Inr peer"
  obtains fs1 where "se_ReadDataAction S peer (fg_Hash f) p fs = (fs1, None)" "readable S served f"
  | fs1 e where "se_ReadDataAction S peer (fg_Hash f) p fs = (fs1, Some e)" "\<not> readable S served f"
  using assms unfolding serves_def readable_def
  by (metis not_None_eq prod.collapse sum.case(2))

text \<open>The two loops are one over the fragments of all segments with the hash; what it does to the files.\<close>

abbreviation fragment_path :: "string \<Rightarrow> FragmentInfo \<Rightarrow> string" where
  "fragment_path fdir f \<equiv> path_Join [fdir, fg_Hash f]"

lemma dl_segment_fragments_append:
  "dl_segment_fragments S fdir st (xs @ ys) = dl_segment_fragments S fdir (dl_segment_fragments S fdir st xs) ys"
proof (induction S fdir st xs rule: dl_segment_fragments.induct)
  case (2 S fdir fs cnt paths f rest)
  have full: "dl_segment_fragments S fdir (fs, cnt, paths) zs = (fs, cnt, paths)" if "se_DataShards S \<le> cnt" for zs
    using that by (cases zs) auto
  show ?case
  proof (cases "se_DataShards S \<le> cnt")
    case True
    then show ?thesis using full by simp
  next
    case False
    then show ?thesis using 2 by (auto simp: Let_def split: sum.split prod.split option.split)
  qed
qed simp

lemma dl_segment_flat: "dl_segment_segments S fdir h st segs = dl_segment_fragments S fdir st (segment_fragments h segs)"
proof (induction segs arbitrary: st)
  case Nil
  then show ?case by (cases st) (simp add: segment_fragments_def)
next
  case (Cons s segs)
  then show ?case by (simp add: segment_fragments_def dl_segment_fragments_append)
qed

lemma dl_segment_fragments_fetch:
  assumes "delivers S P served content" and "fragment_path fdir ` set frs \<subseteq> P" and "distinct (map (fragment_path fdir) frs)"
    and "\<forall>f \<in> set frs. fs (fragment_path fdir f) \<noteq> Some Dir" and "used = take (se_DataShards S - length ps) (filter (readable S served) frs)"
  shows "\<exists>fs'. dl_segment_fragments S fdir (fs, length ps, ps) frs = (fs', length ps + length used, ps @ map (fragment_path fdir) used) \<and>
    (\<forall>f \<in> set used. fs' (fragment_path fdir f) = Some (File (content (fg_Hash f)))) \<and>
    (\<forall>p. p \<notin> fragment_path fdir ` set frs \<longrightarrow> fs' p = fs p)"
  using assms(2-5)
proof (induction frs arbitrary: fs ps used)
  case (Cons g frs)
  let ?p = "fragment_path fdir g"
  show ?case
  proof (cases "se_DataShards S \<le> length ps")
    case True
    then show ?thesis using Cons.prems(4) by auto
  next
    case False
    then have d: "se_DataShards S - length ps = Suc (se_DataShards S - Suc (length ps))" by simp
    show ?thesis
    proof (cases "se_QueryMiner S (fg_Miner g)")
      case (Inl e)
      then have "\<not> readable S served g" by (simp add: readable_def)
      then show ?thesis using Cons.IH [of fs used ps] Cons.prems False Inl by auto
    next
      case (Inr peer)
      obtain fs1 err where rd: "se_ReadDataAction S peer (fg_Hash g) ?p fs = (fs1, err)" by fastforce
      have "?p \<in> P \<and> fs ?p \<noteq> Some Dir" using Cons.prems(1,3) by simp
      then have "(err = None \<longleftrightarrow> served peer (fg_Hash g)) \<and> (err = None \<longrightarrow> fs1 ?p = Some (File (content (fg_Hash g)))) \<and> (\<forall>p. p \<noteq> ?p \<longrightarrow> fs1 p = fs p)"
        using rd assms(1) unfolding delivers_def by blast
      then have res: "err = None \<longleftrightarrow> readable S served g" "err = None \<Longrightarrow> fs1 ?p = Some (File (content (fg_Hash g)))" "\<And>p. p \<noteq> ?p \<Longrightarrow> fs1 p = fs p"
        using Inr by (auto simp: readable_def)
      have "?p \<notin> (\<lambda>f. fragment_path fdir f) ` set frs" using Cons.prems(2) by simp
      then have "fragment_path fdir f \<noteq> ?p" if "f \<in> set frs" for f using that by (metis imageI)
      then have dirs: "\<forall>f \<in> set frs. fs1 (fragment_path fdir f) \<noteq> Some Dir" using Cons.prems(3) res(3) by simp
      show ?thesis
      proof (cases err)
        case None
        let ?used = "take (se_DataShards S - Suc (length ps)) (filter (readable S served) frs)"
        have used: "used = g # ?used" using Cons.prems(4) None res(1) d by simp
        obtain fs' where "dl_segment_fragments S fdir (fs1, Suc (length ps), ps @ [?p]) frs = (fs', length (ps @ [?p]) + length ?used, (ps @ [?p]) @ map (fragment_path fdir) ?used)"
          "\<forall>f \<in> set ?used. fs' (fragment_path fdir f) = Some (File (content (fg_Hash f)))" "\<forall>p. p \<notin> fragment_path fdir ` set frs \<longrightarrow> fs' p = fs1 p"
          using Cons.IH [of fs1 ?used "ps @ [?p]"] Cons.prems(1,2) dirs by auto
        then show ?thesis using used None False Inr rd res Cons.prems(2) by (auto simp: Let_def)
      next
        case (Some e)
        then show ?thesis using Cons.IH [of fs1 used ps] Cons.prems False Inr rd res dirs by (auto simp: Let_def)
      qed
    qed
  qed
qed simp

text \<open>A segment as it is written: decrypted if a cipher is given; and how many bytes it carries.\<close>

definition segment_plain :: "storage_env \<Rightarrow> string \<Rightarrow> bytes \<Rightarrow> (bytes \<times> bytes) or_err" where
  "segment_plain S cipher bs =
     (if cipher \<noteq> '''' then se_AesCbcDecrypt S bs cipher else Inr (readfile_slice bs))"

definition segment_block :: "storage_env \<Rightarrow> string \<Rightarrow> nat" where
  "segment_block S cipher = (if cipher \<noteq> '''' then se_SegmentSize S - 16 else se_SegmentSize S)"

text \<open>The segment's file is the first path with its hash as base, and it holds the plain bytes \<open>d\<close>.\<close>

definition segment_file ::
  "storage_env \<Rightarrow> string \<Rightarrow> string \<Rightarrow> string list \<Rightarrow> fs \<Rightarrow> SegmentInfo \<Rightarrow> bytes \<Rightarrow> bool" where
  "segment_file S cipher wpath paths fs seg d \<longleftrightarrow>
     (\<exists>p bs spare. find (\<lambda>q. path_Base q = sg_Hash seg) paths = Some p \<and> p \<noteq> wpath \<and>
        fs p = Some (File bs) \<and> segment_plain S cipher bs = Inr (d, spare))"

lemma segment_file_upd:
  "segment_file S cipher wpath paths fs seg d \<Longrightarrow>
   segment_file S cipher wpath paths (fs(wpath := x)) seg d"
  by (auto simp: segment_file_def)

lemma segment_file_upd_all:
  "list_all2 (segment_file S cipher wpath paths fs) segs ds \<Longrightarrow>
   list_all2 (segment_file S cipher wpath paths (fs(wpath := x))) segs ds"
  by (erule list_all2_mono) (rule segment_file_upd)

lemma recover_segment_found:
  assumes "find (\<lambda>q. path_Base q = h) paths = Some p" and "fs p = Some (File bs)"
    and "segment_plain S cipher bs = Inr (d, spare)" and "\<forall>op p. se_io S op p = None"
    and "fs wpath = Some (File old)"
  shows "recover_segment S fmeta cipher wpath h fs k paths =
    (if k + 1 \<ge> length (fm_SegmentList fmeta)
     then map_option (\<lambda>out. (None, fs(wpath \<mapsto> File (old @ out)), k + 1))
            (slice_upto (d, spare) (big_Uint64 (fm_FileSize fmeta) -
               (if cipher \<noteq> '''' then word_of_int (int k * (int (se_SegmentSize S) - 16))
                else word_of_int (int k * int (se_SegmentSize S)))))
     else Some (None, fs(wpath \<mapsto> File (old @ d)), k + 1))"
  using assms
  by (induction paths)
     (auto simp: os_ReadFile_def segment_plain_def file_Write_def split: if_splits option.splits)

lemma recover_offset:
  assumes "cipher \<noteq> '''' \<longrightarrow> 16 \<le> se_SegmentSize S" and "k * segment_block S cipher \<le> F" and "F < 2 ^ 64"
  shows "unat (big_Uint64 (int F) -
      (if cipher \<noteq> '''' then word_of_int (int k * (int (se_SegmentSize S) - 16))
       else word_of_int (int k * int (se_SegmentSize S)))) = F - k * segment_block S cipher"
proof -
  let ?o = "k * segment_block S cipher"
  have "(if cipher \<noteq> '''' then word_of_int (int k * (int (se_SegmentSize S) - 16))
       else word_of_int (int k * int (se_SegmentSize S))) = (word_of_nat ?o :: u64)"
    using assms(1) by (simp add: segment_block_def of_nat_diff)
  moreover have "unat (word_of_nat ?o :: u64) = ?o" "unat (big_Uint64 (int F)) = F"
    using assms(2,3) by (simp_all add: big_Uint64_def unat_of_nat del: of_nat_mult)
  ultimately show ?thesis using assms(2) by (simp only: unat_sub_wrap) simp
qed

lemma recover_loop_correct:
  assumes io: "\<forall>op p. se_io S op p = None" and c: "cipher \<noteq> '''' \<longrightarrow> 16 \<le> se_SegmentSize S"
    and F: "fm_FileSize fmeta = int F" "F < 2 ^ 64"
  shows "segs \<noteq> [] \<Longrightarrow> k + length segs = length (fm_SegmentList fmeta) \<Longrightarrow>
    list_all2 (segment_file S cipher wpath paths fs) segs ds \<Longrightarrow>
    \<forall>d \<in> set (butlast ds). length d = segment_block S cipher \<Longrightarrow>
    (k + length segs - 1) * segment_block S cipher \<le> F \<Longrightarrow>
    F \<le> k * segment_block S cipher + length (concat ds) \<Longrightarrow>
    fs wpath = Some (File old) \<Longrightarrow>
    recover_loop S fmeta cipher wpath paths fs k segs =
      Some (None, fs(wpath \<mapsto> File (old @ take (F - k * segment_block S cipher) (concat ds))),
            length (fm_SegmentList fmeta))"
proof (induction segs arbitrary: k fs ds old)
  case (Cons s segs)
  let ?B = "segment_block S cipher"
  obtain d ds' where ds: "ds = d # ds'" "segment_file S cipher wpath paths fs s d"
    "list_all2 (segment_file S cipher wpath paths fs) segs ds'"
    using Cons.prems(3) by (auto simp: list_all2_Cons1)
  then obtain p bs spare where p: "find (\<lambda>q. path_Base q = sg_Hash s) paths = Some p"
    "fs p = Some (File bs)" "segment_plain S cipher bs = Inr (d, spare)"
    by (auto simp: segment_file_def)
  note found = recover_segment_found [OF p io Cons.prems(7), of fmeta k]
  show ?case
  proof (cases "segs = []")
    case True
    then have "ds' = []" using ds(3) by simp
    then have "slice_upto (d, spare) (big_Uint64 (int F) -
        (if cipher \<noteq> '''' then word_of_int (int k * (int (se_SegmentSize S) - 16))
         else word_of_int (int k * int (se_SegmentSize S)))) = Some (take (F - k * ?B) d)"
      using Cons.prems(5,6) recover_offset [OF c _ F(2), of k] ds(1) True
      by (simp add: slice_upto_def)
    then show ?thesis using True found Cons.prems(2) ds(1) \<open>ds' = []\<close> F by (simp add: fun_upd_def)
  next
    case False
    let ?fs = "fs(wpath \<mapsto> File (old @ d))"
    have ne: "ds' \<noteq> []" using False ds(3) by auto
    then have d: "length d = ?B" and rest: "\<forall>d \<in> set (butlast ds'). length d = ?B"
      using Cons.prems(4) ds(1) by auto
    have kB: "(k + 1) * ?B \<le> F"
    proof -
      have "k + 1 \<le> k + length (s # segs) - 1" using False by (cases segs) auto
      then have "(k + 1) * ?B \<le> (k + length (s # segs) - 1) * ?B" by (rule mult_le_mono1)
      then show ?thesis using Cons.prems(5) by (rule order.trans)
    qed
    have "recover_loop S fmeta cipher wpath paths ?fs (k + 1) segs =
        Some (None, ?fs(wpath \<mapsto> File ((old @ d) @ take (F - (k + 1) * ?B) (concat ds'))),
              length (fm_SegmentList fmeta))"
      by (rule Cons.IH) (use False Cons.prems ds d rest segment_file_upd_all [OF ds(3), of "Some (File (old @ d))"]
            in \<open>auto simp: algebra_simps fun_upd_def\<close>)
    moreover have "take (F - k * ?B) (concat ds) = d @ take (F - (k + 1) * ?B) (concat ds')"
      using kB d ds(1) by (simp add: algebra_simps)
    moreover have "\<not> k + 1 \<ge> length (fm_SegmentList fmeta)" using Cons.prems(2) False by (cases segs) auto
    ultimately show ?thesis using found by (auto simp: fun_upd_def intro!: ext)
  qed
qed simp

lemma dl_fragment_loop_fails:
  assumes "serves S served" and "\<forall>peer. \<not> served peer segmentHash"
  shows "fragmentHash \<in> fg_Hash ` set frs \<Longrightarrow>
    snd (dl_fragment_loop S fpath segmentHash fragmentHash fs frs) \<noteq> None"
proof (induction frs)
  case (Cons f frs)
  show ?case
  proof (cases "fg_Hash f = fragmentHash")
    case True
    have "se_ReadDataAction S peer segmentHash fpath fs \<noteq> (fs1, None)" for peer fs1
      using assms unfolding serves_def by (metis snd_conv)
    then show ?thesis using True by (auto split: sum.splits prod.splits option.splits)
  next
    case False
    then show ?thesis using Cons by auto
  qed
qed simp

lemma dl_fragment_segments_fails:
  assumes "serves S served" and "\<forall>peer. \<not> served peer segmentHash"
  shows "seg \<in> set segs \<Longrightarrow> sg_Hash seg = segmentHash \<Longrightarrow>
    fragmentHash \<in> fg_Hash ` set (sg_FragmentList seg) \<Longrightarrow>
    snd (dl_fragment_segments S fpath segmentHash fragmentHash fs segs) \<noteq> None"
proof (induction segs arbitrary: fs)
  case (Cons s segs)
  then show ?case
    using dl_fragment_loop_fails [OF assms, of fragmentHash "sg_FragmentList s" fpath fs]
    by (cases "s = seg") (auto split: prod.splits option.splits)
qed simp

lemma DownloadFileFromCache_ok:
  assumes "SendRequestToCacher N n peerId (req\<lparr>rq_Option := OPTION_DOWNLOAD\<rparr>) = ((bs, None), n1)"
    and "bs \<noteq> []" and "os_Create io fs fpath = (fs1, None)" and "io ''write'' fpath = None"
  shows "DownloadFileFromCache N io n fs peerId fpath req =
    Some (if 1024 dvd length bs then Some (Wrapped ''download file error'' io_EOF) else None,
          fs1(fpath \<mapsto> File bs), n1)"
  using assms WriteData_bytes [OF file_writer_ok, of io fpath bs]
  by (simp add: DownloadFileFromCache_def Let_def file_writer_def)

lemma RecoveryFileViaSegments_ok:
  assumes "\<forall>op p. se_io S op p = None" and "cipher \<noteq> '''' \<longrightarrow> 16 \<le> se_SegmentSize S"
    and "fm_SegmentList fmeta \<noteq> []"
    and "list_all2 (segment_file S cipher wpath paths fs) (fm_SegmentList fmeta) ds"
    and "\<forall>d \<in> set (butlast ds). length d = segment_block S cipher"
    and "fm_FileSize fmeta = int F" and "F < 2 ^ 64"
    and "(length (fm_SegmentList fmeta) - 1) * segment_block S cipher \<le> F" and "F \<le> length (concat ds)"
    and "fs wpath = Some (File old)"
  shows "RecoveryFileViaSegments S fs paths fmeta cipher wpath =
    Some (None, fs(wpath \<mapsto> File (old @ take F (concat ds))))"
  using recover_loop_correct [OF assms(1,2,6,7,3), of 0 wpath paths fs ds old] assms
  by (simp add: RecoveryFileViaSegments_def)

section \<open>Properties\<close>

text \<open>C8: Rebuilding a file from its segments: when every segment of the metadata has a file among
  the given paths (in any order), every segment but the last is full and together they cover the
  file size, the target receives exactly the first file-size bytes of the segments in metadata
  order, encrypted or not; no slice is out of range.\<close>

theorem RecoveryFileViaSegments_correct:
  assumes "\<forall>op p. se_io S op p = None" and "cipher \<noteq> '''' \<longrightarrow> 16 \<le> se_SegmentSize S"
    and "fm_SegmentList fmeta \<noteq> []"
    and "list_all2 (segment_file S cipher wpath paths fs) (fm_SegmentList fmeta) ds"
    and "\<forall>d \<in> set (butlast ds). length d = segment_block S cipher"
    and "fm_FileSize fmeta = int F" and "F < 2 ^ 64"
    and "(length (fm_SegmentList fmeta) - 1) * segment_block S cipher \<le> F" and "F \<le> length (concat ds)"
    and "fs wpath = Some (File old)"
  shows "RecoveryFileViaSegments S fs paths fmeta cipher wpath =
    Some (None, fs(wpath \<mapsto> File (old @ take F (concat ds))))"
  by (rule RecoveryFileViaSegments_ok [OF assms])

theorem RecoveryFileViaSegments_correct_witness:
  "RecoveryFileViaSegments (mem_storage mem_fmeta)
     [''/t/s1'' \<mapsto> File [1,2,3,4], ''/t/s2'' \<mapsto> File [5,6,7,8], ''/t/f'' \<mapsto> File []]
     [''/t/s2'', ''/t/s1''] mem_fmeta '''' ''/t/f'' =
   Some (None, [''/t/s1'' \<mapsto> File [1,2,3,4], ''/t/s2'' \<mapsto> File [5,6,7,8], ''/t/f'' \<mapsto> File [],
     ''/t/f'' \<mapsto> File [1,2,3,4,5,6]])"
  by (subst RecoveryFileViaSegments_correct [where ds = "[[1,2,3,4],[5,6,7,8]]" and F = 6 and old = "[]"])
     (auto simp: mem_storage_def mem_fmeta_def segment_file_def segment_plain_def segment_block_def
        readfile_slice_def path_Base_def path_Split_def Let_def)

text \<open>C14: Fetching a segment from the storage network fails when fewer than the number of data shards of its fragments can be read.
  Otherwise the segment is restored from exactly that many fragments, the first readable ones in metadata order, on files that hold
  what the storage nodes deliver for them and are otherwise as before except for other fragments of the segment; the call
  succeeds exactly when that restoration does, and then it leaves the restored files without the fragments. The fragments of the segment
  have different paths, none of them a directory, and whether a read into such a path works depends on the storage node only.\<close>

theorem DownloadSegmentFromStorage_spec:
  assumes "se_QueryFile S fileHash = Inr fmeta" and "frags = segment_fragments segmentHash (fm_SegmentList fmeta)"
    and "delivers S (fragment_path fdir ` set frags) served content" and "distinct (map (fragment_path fdir) frags)"
    and "\<forall>f \<in> set frags. fs (fragment_path fdir f) \<noteq> Some Dir"
    and "used = take (se_DataShards S) (filter (readable S served) frags)"
    and "DownloadSegmentFromStorage S fs fdir fileHash segmentHash = ((path, err), fs')"
  shows "path = path_Join [fdir, segmentHash] \<and>
    (length used < se_DataShards S \<longrightarrow> err \<noteq> None) \<and>
    (length used = se_DataShards S \<longrightarrow>
       (\<exists>fs1 fs2 rerr. (\<forall>f \<in> set used. fs1 (fragment_path fdir f) = Some (File (content (fg_Hash f)))) \<and>
          (\<forall>p. p \<notin> fragment_path fdir ` set frags \<longrightarrow> fs1 p = fs p) \<and>
          se_RSRestore S path (map (fragment_path fdir) used) fs1 = (fs2, rerr) \<and>
          err = errors_Wrap rerr ''download segment from storage error'' \<and>
          fs' = (if rerr = None then os_Remove_all (se_io S) fs2 (map (fragment_path fdir) used) else fs2)))"
proof -
  obtain fs1 where dl: "dl_segment_segments S fdir segmentHash (fs, 0, []) (fm_SegmentList fmeta) = (fs1, length used, map (fragment_path fdir) used)"
    and fs1: "\<forall>f \<in> set used. fs1 (fragment_path fdir f) = Some (File (content (fg_Hash f)))" "\<forall>p. p \<notin> fragment_path fdir ` set frags \<longrightarrow> fs1 p = fs p"
    using dl_segment_fragments_fetch [OF assms(3) order_refl assms(4,5), of used "[]"] assms(2,6) by (auto simp: dl_segment_flat)
  obtain fs2 rerr where rs: "se_RSRestore S (path_Join [fdir, segmentHash]) (map (fragment_path fdir) used) fs1 = (fs2, rerr)" by fastforce
  have "path = path_Join [fdir, segmentHash] \<and> (length used < se_DataShards S \<longrightarrow> err \<noteq> None) \<and>
    (length used = se_DataShards S \<longrightarrow> err = errors_Wrap rerr ''download segment from storage error'' \<and>
       fs' = (if rerr = None then os_Remove_all (se_io S) fs2 (map (fragment_path fdir) used) else fs2))"
    using assms(1,7) dl rs by (cases rerr) (auto simp: DownloadSegmentFromStorage_def Let_def split: if_splits)
  then show ?thesis using rs fs1 by blast
qed

theorem DownloadSegmentFromStorage_spec_witness:
  "\<exists>fs1 fs' err. fs1 ''/t/a'' = Some (File [1]) \<and> fs1 ''/t/b'' = Some (File [1]) \<and>
     se_RSRestore (mem_storage mem_fmeta) ''/t/s1'' [''/t/a'', ''/t/b''] fs1 = (fs1(''/t/s1'' \<mapsto> File [2]), None) \<and>
     DownloadSegmentFromStorage (mem_storage mem_fmeta) Map.empty ''/t'' ''f'' ''s1'' = ((''/t/s1'', None), fs')"
proof -
  let ?S = "mem_storage mem_fmeta" and ?fr = "segment_fragments ''s1'' (fm_SegmentList mem_fmeta)"
  obtain path err fs' where r: "DownloadSegmentFromStorage ?S Map.empty ''/t'' ''f'' ''s1'' = ((path, err), fs')"
    by (metis prod.exhaust)
  have join: "path_Join [''/t'', ''a''] = ''/t/a''" "path_Join [''/t'', ''b''] = ''/t/b''" "path_Join [''/t'', ''c''] = ''/t/c''" "path_Join [''/t'', ''s1''] = ''/t/s1''"
    by code_simp+
  have s: "delivers ?S (fragment_path ''/t'' ` set ?fr) (\<lambda>peer name. True) (\<lambda>name. [1])" by (auto simp: delivers_def mem_storage_def)
  have q: "se_QueryFile ?S ''f'' = Inr mem_fmeta" by (simp add: mem_storage_def)
  have fr: "?fr = [\<lparr>fg_Hash = ''a'', fg_Miner = []\<rparr>, \<lparr>fg_Hash = ''b'', fg_Miner = []\<rparr>, \<lparr>fg_Hash = ''c'', fg_Miner = []\<rparr>]"
    by (simp add: segment_fragments_def mem_fmeta_def)
  let ?used = "[\<lparr>fg_Hash = ''a'', fg_Miner = []\<rparr>, \<lparr>fg_Hash = ''b'', fg_Miner = []\<rparr>]"
  have d: "distinct (map (fragment_path ''/t'') ?fr)" by (simp add: join fr)
  have used: "?used = take (se_DataShards ?S) (filter (readable ?S (\<lambda>peer name. True)) ?fr)" "se_DataShards ?S = 2"
    unfolding fr by (simp_all add: readable_def mem_storage_def)
  have rs: "se_RSRestore ?S p ps f = (f(p \<mapsto> File [word_of_nat (length ps)]), None)" for p ps f by (simp add: mem_storage_def)
  have nd: "\<forall>f \<in> set ?fr. Map.empty (fragment_path ''/t'' f) \<noteq> Some Dir" by simp
  from DownloadSegmentFromStorage_spec [OF q refl s d nd used(1) r] r show ?thesis
    by (auto simp: join rs used(2))
qed

text \<open>A download from a cache node whose response arrives without an error stores the whole
  response in the file, and still fails with the end of file exactly when the response has a
  multiple of 1024 bytes, which every full fragment has.\<close>

theorem DownloadFileFromCache_full:
  assumes "SendRequestToCacher N n peerId (req\<lparr>rq_Option := OPTION_DOWNLOAD\<rparr>) = ((bs, None), n1)"
    and "bs \<noteq> []" and "os_Create io fs fpath = (fs1, None)" and "io ''write'' fpath = None"
  shows "DownloadFileFromCache N io n fs peerId fpath req =
    Some (if 1024 dvd length bs then Some (Wrapped ''download file error'' io_EOF) else None,
          fs1(fpath \<mapsto> File bs), n1)"
  by (rule DownloadFileFromCache_ok [OF assms])

definition mem_net :: "bytes \<Rightarrow> unit net_env" where
  "mem_net answer = \<lparr>ne_NewStream = (\<lambda>n p. (None, n)), ne_Write = (\<lambda>n p bs. (None, n)),
     ne_Copy = (\<lambda>n p. ((answer, None), n)), ne_MarshalRequest = (\<lambda>req. Inr [123, 125]),
     ne_UnmarshalCacheResponse = (\<lambda>bs. (CacheResponse_zero, None)),
     ne_UnmarshalResponse = (\<lambda>bs. Inr AnyOther), ne_UnmarshalQuery = (\<lambda>bs. (CacheResponse_zero, None))\<rparr>"

theorem DownloadFileFromCache_full_witness:
  "DownloadFileFromCache (mem_net (replicate 1024 7)) (\<lambda>op p. None) () Map.empty ''peer'' ''/t/x'' CacheRequest_zero =
     Some (Some (Wrapped ''download file error'' io_EOF), [''/t/x'' \<mapsto> File (replicate 1024 7)], ())"
proof -
  have "SendRequestToCacher (mem_net (replicate 1024 7)) () ''peer'' (CacheRequest_zero\<lparr>rq_Option := OPTION_DOWNLOAD\<rparr>)
      = ((replicate 1024 7, None), ())"
    by (simp add: SendRequestToCacher_def mem_net_def)
  moreover have "os_Create (\<lambda>op p. None) Map.empty ''/t/x'' = ([''/t/x'' \<mapsto> File []], None)"
    by (simp add: os_Create_def)
  ultimately show ?thesis
    using DownloadFileFromCache_full [of "mem_net (replicate 1024 7)" "()" "''peer''" CacheRequest_zero
      "replicate 1024 7" "()" "\<lambda>op p. None" Map.empty "''/t/x''" "[''/t/x'' \<mapsto> File []]"] by simp
qed

text \<open>Fetching one fragment asks the storage node for the hash of the segment: where the
  storage nodes serve fragments and no segment, the download of any fragment that the metadata
  lists fails, even if its fragment hash is served.\<close>

theorem DownloadFragmentFromStorage_asks_segment:
  assumes "se_QueryFile S fileHash = Inr fmeta" and "serves S served"
    and "\<forall>peer. \<not> served peer segmentHash"
    and "seg \<in> set (fm_SegmentList fmeta)" and "sg_Hash seg = segmentHash"
    and "frag \<in> set (sg_FragmentList seg)" and "fg_Hash frag = fragmentHash"
  shows "snd (DownloadFragmentFromStorage S fs fpath fileHash segmentHash fragmentHash) \<noteq> None"
  using assms(1,4-7) dl_fragment_segments_fails [OF assms(2,3)]
  by (auto simp: DownloadFragmentFromStorage_def)

theorem DownloadFragmentFromStorage_asks_segment_witness:
  "snd (DownloadFragmentFromStorage
     (mem_storage mem_fmeta\<lparr>se_ReadDataAction := \<lambda>peer name path fs. (fs, if name = ''a'' then None else Some (Errorf ''no such file''))\<rparr>)
     Map.empty ''/t/a'' ''f'' ''s1'' ''a'') \<noteq> None"
  by (rule DownloadFragmentFromStorage_asks_segment
        [where served = "\<lambda>peer name. name = ''a''" and fmeta = mem_fmeta and
          seg = "hd (fm_SegmentList mem_fmeta)" and frag = "hd (sg_FragmentList (hd (fm_SegmentList mem_fmeta)))"])
     (simp_all add: mem_storage_def mem_fmeta_def serves_def)

end
