(* ===== verification/Cache_Actor.thy ===== *)
theory Cache_Actor
  imports Actors Credit Cdn_Lib
begin

text \<open>
  \<open>cd2n-node/actors/cache_actor.go\<close>: the cache node. It answers queries and downloads on libp2p
  streams, keeps per-segment counters in LevelDB, queues missing resources and hands them to the
  resource actor.

  The file cache (\<open>cess-go-tools/cacher\<close>), LevelDB, \<open>url.ParseRequestURI\<close>, the address functions
  of go-ethereum, SHA-256, the JSON codec and the SDK constants are parameters. Operations of the
  file cache that change it report the items they added and deleted, in order: the actor's
  callbacks run on each.
\<close>

section \<open>Data and parameters\<close>

definition BusyLine :: i64 where "BusyLine = 1024"

record DownloadTask =
  dt_Source :: string
  dt_Doing :: bool
  dt_Option :: string

record ('db, 'c) CacheActor =
  ca_FileCache :: 'c
  ca_record :: 'db
  ca_dlQueue :: "(string \<rightharpoonup> DownloadTask) option"
  ca_creditMg :: "'db Credit"
  ca_reqNum :: i64
  ca_Account :: bytes

datatype cache_event = ItemAdded string | ItemDeleted string

record 'c file_cache =
  fc_GetCacheRecord :: "'c \<Rightarrow> string \<Rightarrow> string or_err \<times> 'c"
  fc_GetCacheItem :: "'c \<Rightarrow> string \<Rightarrow> bool or_err \<times> 'c"
  fc_AddCacheRecord :: "'c \<Rightarrow> string \<Rightarrow> string \<Rightarrow> 'c \<times> cache_event list"
  fc_MoveFileToCache :: "'c \<Rightarrow> fs \<Rightarrow> string \<Rightarrow> string \<Rightarrow> goerr option \<times> 'c \<times> fs \<times> cache_event list"
  fc_GetLoadRatio :: "'c \<Rightarrow> real"
  fc_TraverseCache :: "'c \<Rightarrow> string list"

text \<open>\<open>cv_ParseRequestURI\<close> tells whether a string parses; \<open>fc_GetCacheItem\<close> whether the item is not \<open>nil\<close>.\<close>

record ('db, 'c) cache_env =
  cv_credit :: "'db credit_env"
  cv_cache :: "'c file_cache"
  cv_ParseRequestURI :: "string \<Rightarrow> bool"
  cv_sha256 :: "bytes \<Rightarrow> bytes"
  cv_HexToAddress :: "string \<Rightarrow> bytes"
  cv_BytesToAddressHex :: "bytes \<Rightarrow> string"
  cv_marshal :: "Response \<Rightarrow> bytes or_err"
  cv_unmarshal :: "bytes \<Rightarrow> CacheRequest or_err"
  cv_io :: io_oracle
  cv_DataShards :: nat
  cv_FragmentSize :: int

abbreviation cv_db :: "('db, 'c) cache_env \<Rightarrow> 'db leveldb" where
  "cv_db V \<equiv> ce_db (cv_credit V)"

fun ldb_goerr :: "ldb_error \<Rightarrow> goerr" where
  "ldb_goerr ErrNotFound = Errorf ''leveldb: not found''"
| "ldb_goerr (LdbErr e) = Errorf e"

section \<open>Counters\<close>

definition put_record :: "('db, 'c) cache_env \<Rightarrow> ('db, 'c) CacheActor \<Rightarrow> string \<Rightarrow> bytes \<Rightarrow> ('db, 'c) CacheActor" where
  "put_record V c k v = c\<lparr>ca_record := fst (ldb_Put (cv_db V) (ca_record c) k v)\<rparr>"

text \<open>The two callbacks that \<open>NewCacher\<close> registers.\<close>

definition onAddItem :: "('db, 'c) cache_env \<Rightarrow> ('db, 'c) CacheActor \<Rightarrow> string \<Rightarrow> ('db, 'c) CacheActor" where
  "onAddItem V c key =
     (if cv_ParseRequestURI V key then c
      else let k = fst (path_Split key) in
        case ldb_Get (cv_db V) (ca_record c) (k @ RECORD_FRAGMENTS) of
          Inl ErrNotFound \<Rightarrow> put_record V c (k @ RECORD_FRAGMENTS) (be_put32 1)
        | Inl (LdbErr e) \<Rightarrow> c
        | Inr v \<Rightarrow>
            put_record V c (k @ RECORD_FRAGMENTS)
              (be_put32 (if length v < 4 then 1 else 1 + be_get32 v)))"

definition onDeleteItem :: "('db, 'c) cache_env \<Rightarrow> ('db, 'c) CacheActor \<Rightarrow> string \<Rightarrow> ('db, 'c) CacheActor" where
  "onDeleteItem V c key =
     (let k = fst (path_Split key) in
      case ldb_Get (cv_db V) (ca_record c) (k @ RECORD_FRAGMENTS) of
        Inl e \<Rightarrow> c
      | Inr v \<Rightarrow>
          (if length v \<ge> 4
           then let value0 = be_get32 (take 4 v);
                    value = (if value0 > 0 then value0 - 1 else value0);
                    c1 = put_record V c (k @ RECORD_FRAGMENTS) (be_put32 value)
                in if unat value < cv_DataShards V
                   then put_record V c1 (k @ RECORD_REQUESTS) (be_put32 0)
                   else c1
           else c))"

fun run_callbacks :: "('db, 'c) cache_env \<Rightarrow> ('db, 'c) CacheActor \<Rightarrow> cache_event list \<Rightarrow> ('db, 'c) CacheActor" where
  "run_callbacks V c [] = c"
| "run_callbacks V c (ItemAdded k # es) = run_callbacks V (onAddItem V c k) es"
| "run_callbacks V c (ItemDeleted k # es) = run_callbacks V (onDeleteItem V c k) es"

text \<open>\<open>NewCacher\<close> returns \<open>nil\<close> when the database does not open; the queue is \<open>nil\<close> at first.\<close>

definition NewCacher ::
  "(string \<Rightarrow> 'db or_err) \<Rightarrow> 'c \<Rightarrow> 'db Credit \<Rightarrow> ('db, 'c) CacheActor option" where
  "NewCacher openFile cache creditMg =
     (case openFile ''./file_record'' of
        Inl e \<Rightarrow> None
      | Inr db \<Rightarrow> Some \<lparr>ca_FileCache = cache, ca_record = db, ca_dlQueue = None,
                        ca_creditMg = creditMg, ca_reqNum = 0, ca_Account = []\<rparr>)"

definition GetFileRecord :: "('db, 'c) cache_env \<Rightarrow> ('db, 'c) CacheActor \<Rightarrow> string \<Rightarrow> string \<Rightarrow> int \<times> bool" where
  "GetFileRecord V c key rType =
     (if rType \<noteq> RECORD_FRAGMENTS \<and> rType \<noteq> RECORD_REQUESTS then (0, False)
      else (case ldb_Get (cv_db V) (ca_record c) (key @ rType) of
         Inl e \<Rightarrow> (0, False)
       | Inr v \<Rightarrow> (if length v < 4 then (0, False) else (uint (be_get32 (take 4 v)), True))))"

definition PutFileRecord ::
  "('db, 'c) cache_env \<Rightarrow> ('db, 'c) CacheActor \<Rightarrow> string \<Rightarrow> string \<Rightarrow> int \<Rightarrow> ('db, 'c) CacheActor \<times> goerr option" where
  "PutFileRecord V c key rType value =
     (if rType \<noteq> RECORD_FRAGMENTS \<and> rType \<noteq> RECORD_REQUESTS then (c, Some (Errorf ''bad record type''))
      else (case ldb_Put (cv_db V) (ca_record c) (key @ rType) (be_put32 (word_of_int value)) of
         (db, err) \<Rightarrow> (c\<lparr>ca_record := db\<rparr>, map_option ldb_goerr err)))"

section \<open>Restoring the cache\<close>

text \<open>
  \<open>filepath.Walk\<close> calls its argument on every entry below the directory in lexical order and stops
  at the first error it returns: the entries are the argument here.
\<close>

record walk_entry =
  we_path :: string
  we_err :: "goerr option"
  we_IsDir :: bool
  we_Size :: int

definition add_cache_record ::
  "('db, 'c) cache_env \<Rightarrow> ('db, 'c) CacheActor \<Rightarrow> string \<Rightarrow> string \<Rightarrow> ('db, 'c) CacheActor" where
  "add_cache_record V c key p =
     (case fc_AddCacheRecord (cv_cache V) (ca_FileCache c) key p of
        (fc, evs) \<Rightarrow> run_callbacks V (c\<lparr>ca_FileCache := fc\<rparr>) evs)"

definition restore_entry ::
  "('db, 'c) cache_env \<Rightarrow> ('db, 'c) CacheActor \<Rightarrow> walk_entry \<Rightarrow> ('db, 'c) CacheActor \<times> goerr option" where
  "restore_entry V c e =
     (case we_err e of
        Some err \<Rightarrow> (c, Some err)
      | None \<Rightarrow>
          (if we_IsDir e then (c, None)
           else if we_Size e = cv_FragmentSize V
             then (let paths = split_on (CHR ''/'') (we_path e); l = length paths in
                   if l < 4 then (c, None)
                   else (add_cache_record V c
                           (path_Join [paths ! (l - 1), paths ! (l - 2), paths ! (l - 3)]) (we_path e), None))
           else if we_Size e > 0
             then (add_cache_record V c (path_Base (we_path e)) (we_path e), None)
           else (c, None)))"

fun RestoreCacheFiles ::
  "('db, 'c) cache_env \<Rightarrow> ('db, 'c) CacheActor \<Rightarrow> walk_entry list \<Rightarrow> ('db, 'c) CacheActor \<times> goerr option" where
  "RestoreCacheFiles V c [] = (c, None)"
| "RestoreCacheFiles V c (e # es) =
     (case restore_entry V c e of
        (c1, Some err) \<Rightarrow> (c1, Some err)
      | (c1, None) \<Rightarrow> RestoreCacheFiles V c1 es)"

section \<open>Queries\<close>

text \<open>The \<open>float64\<close> constant 0.8.\<close>

definition load_threshold :: real where "load_threshold = 3602879701896397 / 2 ^ 52"

definition wants_download :: "real \<Rightarrow> i64 \<Rightarrow> int \<Rightarrow> bool" where
  "wants_download load level req \<longleftrightarrow>
     level = LEVEL_OWNER \<or> (load < load_threshold \<and> level <s LEVEL_UNTRUST) \<or>
     (level <s LEVEL_COMMON \<and> req \<ge> 2) \<or> req > 4"

fun traverse_hits :: "string \<Rightarrow> string list \<Rightarrow> string list" where
  "traverse_hits key [] = []"
| "traverse_hits key (itemKey # ks) =
     (if itemKey = key then itemKey # traverse_hits key ks
      else if strings_Contains itemKey key then snd (path_Split itemKey) # traverse_hits key ks
      else traverse_hits key ks)"

definition enqueue_task ::
  "('db, 'c) CacheActor \<Rightarrow> string \<Rightarrow> string \<Rightarrow> string \<Rightarrow> ('db, 'c) CacheActor option" where
  "enqueue_task c key source opt =
     (case ca_dlQueue c of
        None \<Rightarrow> None
      | Some q \<Rightarrow> Some (c\<lparr>ca_dlQueue :=
          Some (fst (smap_LoadOrStore q key \<lparr>dt_Source = source, dt_Doing = False, dt_Option = opt\<rparr>))\<rparr>))"

definition QueryCacheResource ::
  "('db, 'c) cache_env \<Rightarrow> ('db, 'c) CacheActor \<Rightarrow> string \<Rightarrow> string \<Rightarrow> bool \<Rightarrow>
   (string list \<times> ('db, 'c) CacheActor) option" where
  "QueryCacheResource V c acc source isUrl =
     (let opt = (if isUrl then SITE_RESOURCE_CACHE else NODE_RESOURCE_CACHE);
          key = (if isUrl then GetSha256Hash (cv_sha256 V) (string_bytes (path_Base source)) else source);
          req = fst (GetFileRecord V c key RECORD_REQUESTS) + 1;
          c1 = fst (PutFileRecord V c key RECORD_REQUESTS req);
          citem = fst (GetCreditRecord (cv_credit V) (ca_creditMg c1) acc)
      in case (if wants_download (fc_GetLoadRatio (cv_cache V) (ca_FileCache c1)) (ri_Level citem) req
               then enqueue_task c1 key source opt else Some c1) of
           None \<Rightarrow> None
         | Some c2 \<Rightarrow>
             (if \<not> isUrl
              then (if fst (GetFileRecord V c2 key RECORD_FRAGMENTS) \<le> 0 then Some ([], c2)
                    else Some (traverse_hits key (fc_TraverseCache (cv_cache V) (ca_FileCache c2)), c2))
              else (case fc_GetCacheItem (cv_cache V) (ca_FileCache c2) key of
                 (Inr True, fc) \<Rightarrow> Some ([key], c2\<lparr>ca_FileCache := fc\<rparr>)
               | (_, fc) \<Rightarrow> Some ([], c2\<lparr>ca_FileCache := fc\<rparr>))))"

definition SetRequestNumber :: "('db, 'c) CacheActor \<Rightarrow> i64 \<Rightarrow> ('db, 'c) CacheActor" where
  "SetRequestNumber c delta = c\<lparr>ca_reqNum := ca_reqNum c + delta\<rparr>"

definition GetRequestNumber :: "('db, 'c) CacheActor \<Rightarrow> i64" where
  "GetRequestNumber c = ca_reqNum c"

text \<open>
  \<open>GetCacheInfo\<close> reads the atomic request counter three times, and other requests may change it in
  between: the three values read are arguments. The status that the second read gives is
  overwritten at the end.
\<close>

definition GetCacheInfo_reads ::
  "('db, 'c) cache_env \<Rightarrow> i64 \<times> i64 \<times> i64 \<Rightarrow> ('db, 'c) CacheActor \<Rightarrow> string \<Rightarrow> CacheInfo \<times> ('db, 'c) CacheActor" where
  "GetCacheInfo_reads V reads c userAcc =
     (case reads of (reqNum, reqNum2, reqNum3) \<Rightarrow>
      let info = CacheInfo_zero\<lparr>
            ci_Status := (if BusyLine \<le>s reqNum2 then ''busy'' else ''idle''),
            ci_LoadRatio := fc_GetLoadRatio (cv_cache V) (ca_FileCache c),
            ci_Account := cv_HexToAddress V (cr_Owner (ca_creditMg c)),
            ci_Price := cr_Price (ca_creditMg c)\<rparr>
      in case IsLimited (cv_credit V) (ca_creditMg c) userAcc of
           ((limit, ok), cm) \<Rightarrow>
             (info\<lparr>ci_CreditLimit := (if ok then - limit else limit),
                   ci_Status := (if BusyLine <s reqNum \<and> 0 <s reqNum3 - reqNum then CACHE_BUSY else CACHE_IDLE)\<rparr>,
              c\<lparr>ca_creditMg := cm\<rparr>))"

definition GetCacheInfo ::
  "('db, 'c) cache_env \<Rightarrow> ('db, 'c) CacheActor \<Rightarrow> string \<Rightarrow> CacheInfo \<times> ('db, 'c) CacheActor" where
  "GetCacheInfo V c userAcc =
     GetCacheInfo_reads V (GetRequestNumber c, GetRequestNumber c, GetRequestNumber c) c userAcc"

section \<open>The stream service\<close>

text \<open>A libp2p stream: what arrives, what was written, and whether it was reset or closed.\<close>

record stream =
  s_in :: reader
  s_out :: writer
  s_reset :: bool
  s_closed :: bool

definition s_Write :: "stream \<Rightarrow> bytes \<Rightarrow> goerr option \<times> stream" where
  "s_Write s bs =
     (if s_reset s then (Some (Errorf ''stream reset''), s)
      else (case wr_Write (s_out s) bs of (err, w) \<Rightarrow> (err, s\<lparr>s_out := w\<rparr>)))"

definition s_Reset :: "stream \<Rightarrow> stream" where
  "s_Reset s = s\<lparr>s_reset := True\<rparr>"

definition s_Close :: "stream \<Rightarrow> stream" where
  "s_Close s = s\<lparr>s_closed := True\<rparr>"

definition WriteJsonResponse ::
  "('db, 'c) cache_env \<Rightarrow> stream \<Rightarrow> string \<Rightarrow> response_data \<Rightarrow> goerr option \<times> stream" where
  "WriteJsonResponse V s status data =
     (case cv_marshal V \<lparr>rp_Status = status, rp_Data = data\<rparr> of
        Inl err \<Rightarrow> (Some err, s_Reset s)
      | Inr res \<Rightarrow>
          (case s_Write s res of
             (Some err, s1) \<Rightarrow> (Some err, s_Reset s1)
           | (None, s1) \<Rightarrow> (None, s1)))"

definition fail_response :: "('db, 'c) cache_env \<Rightarrow> stream \<Rightarrow> string \<Rightarrow> stream" where
  "fail_response V s msg = snd (WriteJsonResponse V s STATUS_ERROR (DataText msg))"

text \<open>The function literal of the query branch: the status and the cached files it sets.\<close>

definition query_status ::
  "('db, 'c) cache_env \<Rightarrow> 'w Order2Credit \<Rightarrow> 'w \<Rightarrow> ('db, 'c) CacheActor \<Rightarrow> CacheRequest \<Rightarrow> string \<Rightarrow>
   ((string \<times> string list) \<times> ('db, 'c) CacheActor \<times> 'w) option" where
  "query_status V H w c req userAcc =
     (let paths = split_on (CHR ''/'') (rq_WantFile req) in
      case CheckCredit (cv_credit V) H w (ca_creditMg c) (rq_AccountId req) (rq_Data req) (rq_Sign req) of
        None \<Rightarrow> None
      | Some (ok, cm, w1) \<Rightarrow>
          (let c1 = c\<lparr>ca_creditMg := cm\<rparr>;
               lookup = (\<lambda>key isUrl.
                 case QueryCacheResource V c1 userAcc key isUrl of
                   None \<Rightarrow> None
                 | Some (fragments, c2) \<Rightarrow>
                     Some (if fragments \<noteq> [] then (STATUS_HIT, fragments) else (STATUS_MISS, []), c2, w1))
           in if \<not> ok then Some ((STATUS_FROZEN, []), c1, w1)
              else if rq_WantUrl req \<noteq> '''' then lookup (rq_WantUrl req) True
              else if length paths < 2 then Some ((STATUS_OK, []), c1, w1)
              else let key = path_Join [paths ! 0, paths ! 1] in
                case ca_dlQueue c1 of
                  None \<Rightarrow> None
                | Some q \<Rightarrow>
                    (if smap_Load q key \<noteq> None then Some ((STATUS_LOADING, []), c1, w1)
                     else lookup key False)))"

definition inode_Size :: "inode \<Rightarrow> nat" where
  "inode_Size n = (case n of File bs \<Rightarrow> length bs | Dir \<Rightarrow> 4096)"

text \<open>The download branch after the checks: find, read and send the file, then charge its size.\<close>

definition send_cached ::
  "('db, 'c) cache_env \<Rightarrow> ('db, 'c) CacheActor \<Rightarrow> fs \<Rightarrow> CacheRequest \<Rightarrow> string \<Rightarrow> stream \<Rightarrow>
   (('db, 'c) CacheActor \<times> stream) option" where
  "send_cached V c fs req fname s =
     (case fc_GetCacheRecord (cv_cache V) (ca_FileCache c) fname of
        (rec, fc) \<Rightarrow>
          let c1 = c\<lparr>ca_FileCache := fc\<rparr> in
          case rec of
            Inl err \<Rightarrow> Some (c1, fail_response V s (error_text err))
          | Inr fpath \<Rightarrow>
              (case os_Stat (cv_io V) fs fpath of
                 Inl err \<Rightarrow> Some (c1, fail_response V s (error_text err))
               | Inr node \<Rightarrow>
                   (let size = inode_Size node in
                    case cv_io V ''open'' fpath of
                      Some err \<Rightarrow> Some (c1, fail_response V s (error_text err))
                    | None \<Rightarrow>
                        (case os_ReadFile (cv_io V) fs fpath of
                           Inl err \<Rightarrow> Some (c1, fail_response V s (error_text err))
                         | Inr bs \<Rightarrow>
                             (let s1 = (case s_Write s bs of
                                   (Some err, s0) \<Rightarrow> s_Reset s0 | (None, s0) \<Rightarrow> s0)
                              in case ce_DecompressPubkey (cv_credit V) (rq_AccountId req) of
                                   Inl err \<Rightarrow> Some (c1, fail_response V s1 (error_text err))
                                 | Inr pk \<Rightarrow>
                                     map_option (\<lambda>cm. (c1\<lparr>ca_creditMg := cm\<rparr>, s1))
                                       (AddCreditPoint (cv_credit V) (ca_creditMg c1)
                                          (ce_AddressHex (cv_credit V) pk) (- word_of_nat size)))))))"

definition CacheService ::
  "('db, 'c) cache_env \<Rightarrow> 'w Order2Credit \<Rightarrow> 'w \<Rightarrow> ('db, 'c) CacheActor \<Rightarrow> fs \<Rightarrow> stream \<Rightarrow>
   (('db, 'c) CacheActor \<times> 'w \<times> stream) option" where
  "CacheService V H w c fs s =
     map_option (\<lambda>(c', w', s'). (c', w', s_Close s'))
     (case ReadData (s_in s) of
        None \<Rightarrow> None
      | Some (data, Some err) \<Rightarrow> Some (c, w, fail_response V s (error_text err))
      | Some (data, None) \<Rightarrow>
          (case cv_unmarshal V data of
             Inl err \<Rightarrow> Some (c, w, fail_response V s (error_text err))
           | Inr extReq \<Rightarrow>
               (let paths = split_on (CHR ''/'') (rq_WantFile extReq) in
                if rq_Option extReq = OPTION_DAIL then
                  (case GetCacheInfo V c (cv_BytesToAddressHex V (rq_AccountId extReq)) of
                     (info, c1) \<Rightarrow>
                       Some (c1, w, snd (WriteJsonResponse V s STATUS_OK
                         (DataCache (CacheResponse_zero\<lparr>rs_Info := info, rs_Status := STATUS_OK\<rparr>)))))
                else if rq_Option extReq = OPTION_QUERY then
                  (case ce_DecompressPubkey (cv_credit V) (rq_AccountId extReq) of
                     Inl err \<Rightarrow> Some (c, w, fail_response V s (error_text err))
                   | Inr pk \<Rightarrow>
                       (let userAcc = ce_AddressHex (cv_credit V) pk in
                        case GetCacheInfo V c userAcc of
                          (info, c1) \<Rightarrow>
                            (case query_status V H w c1 extReq userAcc of
                               None \<Rightarrow> None
                             | Some ((status, files), c2, w2) \<Rightarrow>
                                 Some (c2, w2, snd (WriteJsonResponse V s STATUS_OK
                                   (DataCache \<lparr>rs_Status = status, rs_CachedFiles = files, rs_Info = info\<rparr>))))))
                else if rq_Option extReq = OPTION_DOWNLOAD then
                  (if rq_WantUrl extReq \<noteq> ''''
                   then map_option (\<lambda>(c', s'). (c', w, s'))
                          (send_cached V c fs extReq
                             (GetSha256Hash (cv_sha256 V) (string_bytes (path_Base (rq_WantUrl extReq)))) s)
                   else if length paths < 3
                     then Some (c, w, fail_response V s ''illegal file Id and segment Id'')
                   else (case CheckCredit (cv_credit V) H w (ca_creditMg c)
                                (rq_AccountId extReq) (rq_Data extReq) (rq_Sign extReq) of
                      None \<Rightarrow> None
                    | Some (ok, cm, w1) \<Rightarrow>
                        (let c1 = c\<lparr>ca_creditMg := cm\<rparr> in
                         if \<not> ok then Some (c1, w1, fail_response V s ''failed credit check'')
                         else map_option (\<lambda>(c', s'). (c', w1, s'))
                                (send_cached V c1 fs extReq (path_Join [paths ! 0, paths ! 1, paths ! 2]) s))))
                else Some (c, w, s_Reset s))))"

section \<open>Messages\<close>

datatype cache_msg =
  MsgCacheRequest CacheRequest
| MsgDownloadResponse DownloadResponse
| MsgDownloadResponses "DownloadResponse list"
| MsgOther

definition move_to_cache ::
  "('db, 'c) cache_env \<Rightarrow> ('db, 'c) CacheActor \<Rightarrow> fs \<Rightarrow> string \<Rightarrow> string \<Rightarrow> goerr option \<times> ('db, 'c) CacheActor \<times> fs" where
  "move_to_cache V c fs key p =
     (case fc_MoveFileToCache (cv_cache V) (ca_FileCache c) fs key p of
        (err, fc, fs1, evs) \<Rightarrow> (err, run_callbacks V (c\<lparr>ca_FileCache := fc\<rparr>) evs, fs1))"

definition queue_Delete :: "('db, 'c) CacheActor \<Rightarrow> string \<Rightarrow> ('db, 'c) CacheActor option" where
  "queue_Delete c key =
     (case ca_dlQueue c of None \<Rightarrow> None | Some q \<Rightarrow> Some (c\<lparr>ca_dlQueue := Some (smap_Delete q key)\<rparr>))"

fun receive_responses ::
  "('db, 'c) cache_env \<Rightarrow> ('db, 'c) CacheActor \<Rightarrow> fs \<Rightarrow> DownloadResponse list \<Rightarrow> (('db, 'c) CacheActor \<times> fs) option" where
  "receive_responses V c fs [] = Some (c, fs)"
| "receive_responses V c fs (resp # resps) =
     (case move_to_cache V c fs (dr_Key resp) (dr_ResrcPath resp) of
        (Some err, c1, fs1) \<Rightarrow> receive_responses V c1 fs1 resps
      | (None, c1, fs1) \<Rightarrow>
          (if dr_OriginNode resp \<noteq> string_bytes ORIGIN_SITE_TAG
           then (case AddCreditPoint (cv_credit V) (ca_creditMg c1)
                        (hex_EncodeToString (dr_OriginNode resp)) FragmentSize of
               None \<Rightarrow> None
             | Some cm \<Rightarrow> receive_responses V (c1\<lparr>ca_creditMg := cm\<rparr>) fs1 resps)
           else receive_responses V c1 fs1 resps))"

text \<open>The result carries the messages sent back to the sender.\<close>

definition Cache_Receive ::
  "('db, 'c) cache_env \<Rightarrow> ('db, 'c) CacheActor \<Rightarrow> fs \<Rightarrow> cache_msg \<Rightarrow>
   (('db, 'c) CacheActor \<times> fs \<times> string list) option" where
  "Cache_Receive V c fs msg =
     (case msg of
        MsgCacheRequest req \<Rightarrow>
          (case fc_GetCacheRecord (cv_cache V) (ca_FileCache c) (rq_WantFile req) of
             (Inl err, fc) \<Rightarrow> Some (c\<lparr>ca_FileCache := fc\<rparr>, fs, [])
           | (Inr fpath, fc) \<Rightarrow>
               (case os_Stat (cv_io V) fs fpath of
                  Inl err \<Rightarrow> Some (c\<lparr>ca_FileCache := fc\<rparr>, fs, [])
                | Inr _ \<Rightarrow> Some (c\<lparr>ca_FileCache := fc\<rparr>, fs, [fpath])))
      | MsgDownloadResponse resp \<Rightarrow>
          (let hash = GetSha256Hash (cv_sha256 V) (string_bytes (path_Base (dr_Key resp))) in
           case move_to_cache V c fs hash (dr_ResrcPath resp) of
             (Some err, c1, fs1) \<Rightarrow> Some (c1, fs1, [])
           | (None, c1, fs1) \<Rightarrow> map_option (\<lambda>c2. (c2, fs1, [])) (queue_Delete c1 hash))
      | MsgDownloadResponses resps \<Rightarrow>
          (let hashs = (if resps = [] then [] else split_on (CHR ''/'') (dr_Key (hd resps))) in
           case (if length resps \<ge> 4 \<and> length hashs \<ge> 2
                 then queue_Delete c (path_Join [hashs ! 0, hashs ! 1]) else Some c) of
             None \<Rightarrow> None
           | Some c1 \<Rightarrow> map_option (\<lambda>(c2, fs1). (c2, fs1, [])) (receive_responses V c1 fs resps))
      | MsgOther \<Rightarrow> Some (c, fs, []))"

section \<open>The download server\<close>

text \<open>
  One visit of \<open>dlQueue.Range\<close> to a key: the new state and the request sent to the resource
  actor, if any.
\<close>

definition serve_task ::
  "('db, 'c) cache_env \<Rightarrow> ('db, 'c) CacheActor \<Rightarrow> (string \<rightharpoonup> DownloadTask) \<Rightarrow> string \<Rightarrow> DownloadTask \<Rightarrow>
   ('db, 'c) CacheActor \<times> DownloadRequest list" where
  "serve_task V c q key task =
     (let request = (\<lambda>opt creq. \<lparr>dq_Option = opt, dq_Data = Some creq\<rparr>);
          start = (\<lambda>c q. c\<lparr>ca_dlQueue := Some (smap_Store q key (task\<lparr>dt_Doing := True\<rparr>))\<rparr>)
      in if dt_Option task = NODE_RESOURCE_CACHE
         then (if length (split_on (CHR ''/'') (dt_Source task)) \<noteq> 2 then (c, [])
               else (case GetFileRecord V c key RECORD_FRAGMENTS of
                  (cnt, ok) \<Rightarrow>
                    (if ok \<and> cnt \<ge> int (cv_DataShards V)
                     then (c\<lparr>ca_dlQueue := Some (smap_Delete q key)\<rparr>, [])
                     else (start c q, [request NODE_RESOURCE_CACHE
                             (CacheRequest_zero\<lparr>rq_AccountId := ca_Account c, rq_WantFile := dt_Source task\<rparr>)]))))
         else (case fc_GetCacheRecord (cv_cache V) (ca_FileCache c) key of
             (item, fc) \<Rightarrow>
               (let c1 = c\<lparr>ca_FileCache := fc\<rparr>;
                    q1 = (case item of Inr p \<Rightarrow> (if p \<noteq> '''' then smap_Delete q key else q) | Inl err \<Rightarrow> q)
                in (start c1 q1, [request SITE_RESOURCE_CACHE
                      (CacheRequest_zero\<lparr>rq_AccountId := ca_Account c, rq_WantUrl := dt_Source task\<rparr>)]))))"

text \<open>
  One \<open>Range\<close>: the keys in the order of the visits. A key that is gone when its turn comes is not
  visited; the server runs only while the queue exists.
\<close>

fun serve_round ::
  "('db, 'c) cache_env \<Rightarrow> ('db, 'c) CacheActor \<Rightarrow> string list \<Rightarrow> ('db, 'c) CacheActor \<times> DownloadRequest list" where
  "serve_round V c [] = (c, [])"
| "serve_round V c (key # keys) =
     (case ca_dlQueue c of
        None \<Rightarrow> (c, [])
      | Some q \<Rightarrow>
          (case q key of
             None \<Rightarrow> serve_round V c keys
           | Some task \<Rightarrow>
               (case serve_task V c q key task of
                  (c1, sent) \<Rightarrow> (case serve_round V c1 keys of (c2, sent2) \<Rightarrow> (c2, sent @ sent2)))))"

text \<open>\<open>RunDownloadServer\<close> before its loops: it returns at once (\<open>None\<close>),
  or creates the queue and goes on with a number of threads; and what it does after them.\<close>

definition RunDownloadServer_start ::
  "'pid option \<Rightarrow> nat \<Rightarrow> int \<Rightarrow> ('db, 'c) CacheActor \<Rightarrow> (('db, 'c) CacheActor \<times> int) option" where
  "RunDownloadServer_start resrcActor numCPU threadNum c =
     (if ca_dlQueue c \<noteq> None then None
      else let threads = (if threadNum \<le> 0 then int (numCPU div 4 + 1) else threadNum) in
        case resrcActor of
          None \<Rightarrow> None
        | Some pid \<Rightarrow> Some (c\<lparr>ca_dlQueue := Some Map.empty\<rparr>, threads))"

definition RunDownloadServer_stop :: "('db, 'c) CacheActor \<Rightarrow> ('db, 'c) CacheActor" where
  "RunDownloadServer_stop c = c\<lparr>ca_dlQueue := None\<rparr>"

text \<open>
  The whole of \<open>RunDownloadServer\<close>. A thread wakes up and visits the queue, or finds the context done and returns; the
  events are those of all threads in the order in which they happen. The result is the actor when the function
  returns, with the requests sent; a list of events that ends before every thread has returned is a server that still runs.
\<close>

datatype thread_event = ThreadWakes nat "string list" | ThreadQuits nat

fun server_loop ::
  "('db, 'c) cache_env \<Rightarrow> nat list \<Rightarrow> ('db, 'c) CacheActor \<Rightarrow> DownloadRequest list \<Rightarrow> thread_event list \<Rightarrow>
   (('db, 'c) CacheActor \<times> DownloadRequest list) option" where
  "server_loop V [] c sent evs = Some (RunDownloadServer_stop c, sent)"
| "server_loop V (i # is) c sent [] = None"
| "server_loop V (i # is) c sent (ThreadWakes j keys # evs) =
     (if j \<in> set (i # is)
      then (case serve_round V c keys of (c1, sent1) \<Rightarrow> server_loop V (i # is) c1 (sent @ sent1) evs)
      else server_loop V (i # is) c sent evs)"
| "server_loop V (i # is) c sent (ThreadQuits j # evs) = server_loop V (removeAll j (i # is)) c sent evs"

definition RunDownloadServer ::
  "('db, 'c) cache_env \<Rightarrow> 'pid option \<Rightarrow> nat \<Rightarrow> int \<Rightarrow> ('db, 'c) CacheActor \<Rightarrow> thread_event list \<Rightarrow>
   (('db, 'c) CacheActor \<times> DownloadRequest list) option" where
  "RunDownloadServer V resrcActor numCPU threadNum c evs =
     (case RunDownloadServer_start resrcActor numCPU threadNum c of
        None \<Rightarrow> Some (c, [])
      | Some (c1, threads) \<Rightarrow> server_loop V [0..<nat threads] c1 [] evs)"

text \<open>
  The node's life after \<open>NewCacher\<close>: streams served, messages received, the cache restored, the
  download server started, its rounds and its end, in any order; and, at any time, the cache module drops an item that has
  expired, with the files and items it leaves, and calls back.
\<close>

inductive node_step ::
  "('db, 'c) cache_env \<Rightarrow> 'w Order2Credit \<Rightarrow> ('db, 'c) CacheActor \<times> 'w \<times> fs \<Rightarrow> ('db, 'c) CacheActor \<times> 'w \<times> fs \<Rightarrow> bool"
  for V :: "('db, 'c) cache_env" and H :: "'w Order2Credit" where
  step_service: "CacheService V H w c fs s = Some (c', w', s') \<Longrightarrow> node_step V H (c, w, fs) (c', w', fs)"
| step_receive: "Cache_Receive V c fs msg = Some (c', fs', sent) \<Longrightarrow> node_step V H (c, w, fs) (c', w, fs')"
| step_restore: "RestoreCacheFiles V c entries = (c', err) \<Longrightarrow> node_step V H (c, w, fs) (c', w, fs)"
| step_start: "RunDownloadServer_start (resrcActor :: string option) numCPU threadNum c = Some (c', threads) \<Longrightarrow>
     node_step V H (c, w, fs) (c', w, fs)"
| step_round: "serve_round V c keys = (c', sent) \<Longrightarrow> node_step V H (c, w, fs) (c', w, fs)"
| step_stop: "node_step V H (c, w, fs) (RunDownloadServer_stop c, w, fs)"
| step_load: "node_step V H (c, w, fs) (SetRequestNumber c delta, w, fs)"
| step_files: "node_step V H (c, w, fs) (c, w, fs')"
| step_expire: "node_step V H (c, w, fs) (onDeleteItem V (c\<lparr>ca_FileCache := fc\<rparr>) key, w, fs')"

section \<open>The views of the records\<close>

text \<open>
  The records of the segments whose name does not end in a slash, which are the ones a query reads.
\<close>

definition segment_view :: "('db, 'c) cache_env \<Rightarrow> ('db, 'c) CacheActor \<Rightarrow> string \<Rightarrow> (ldb_error + bytes) option" where
  "segment_view V c k =
     (if k \<noteq> [] \<and> last k \<noteq> CHR ''/'' then Some (ldb_Get (cv_db V) (ca_record c) (k @ RECORD_FRAGMENTS)) else None)"

text \<open>Every record is a number of four bytes.\<close>

definition records_wf :: "('db, 'c) cache_env \<Rightarrow> ('db, 'c) CacheActor \<Rightarrow> bool" where
  "records_wf V c \<longleftrightarrow> (\<forall>k v. ldb_Get (cv_db V) (ca_record c) k = Inr v \<longrightarrow> length v = 4)"

text \<open>The number of cached fragments recorded for a directory, and what an event makes of it.\<close>

definition frag_count :: "('db, 'c) cache_env \<Rightarrow> ('db, 'c) CacheActor \<Rightarrow> string \<Rightarrow> u32" where
  "frag_count V c d =
     (case ldb_Get (cv_db V) (ca_record c) (d @ RECORD_FRAGMENTS) of
        Inl e \<Rightarrow> 0
      | Inr v \<Rightarrow> (if length v < 4 then 0 else be_get32 (take 4 v)))"

definition handle_event :: "('db, 'c) cache_env \<Rightarrow> ('db, 'c) CacheActor \<Rightarrow> cache_event \<Rightarrow> ('db, 'c) CacheActor" where
  "handle_event V c ev = (case ev of ItemAdded k \<Rightarrow> onAddItem V c k | ItemDeleted k \<Rightarrow> onDeleteItem V c k)"

definition count_event :: "(string \<Rightarrow> bool) \<Rightarrow> string \<Rightarrow> u32 \<Rightarrow> cache_event \<Rightarrow> u32" where
  "count_event isUri d n ev =
     (case ev of
        ItemAdded k \<Rightarrow> (if \<not> isUri k \<and> fst (path_Split k) = d then n + 1 else n)
      | ItemDeleted k \<Rightarrow> (if fst (path_Split k) = d then n - (if n > 0 then 1 else 0) else n))"

text \<open>An in-memory cache: items with their paths; moving a file in takes it from the file system.\<close>

definition mem_file_cache :: "(string \<times> string) list file_cache" where
  "mem_file_cache = \<lparr>
     fc_GetCacheRecord = (\<lambda>m k. (case map_of m k of None \<Rightarrow> Inl (Errorf ''not found'') | Some p \<Rightarrow> Inr p, m)),
     fc_GetCacheItem = (\<lambda>m k. (case map_of m k of None \<Rightarrow> Inl (Errorf ''not found'') | Some p \<Rightarrow> Inr True, m)),
     fc_AddCacheRecord = (\<lambda>m k p. ((k, p) # m, [ItemAdded k])),
     fc_MoveFileToCache = (\<lambda>m fs k p. if fs p = None then (Some (Errorf ''no such file''), m, fs, [])
        else (None, (k, ''/cache/'' @ k) # m, fs(p := None, ''/cache/'' @ k := fs p), [ItemAdded k])),
     fc_GetLoadRatio = (\<lambda>m. 0), fc_TraverseCache = map fst\<rparr>"

definition mem_cache_env :: "(string \<rightharpoonup> bytes, (string \<times> string) list) cache_env" where
  "mem_cache_env = \<lparr>cv_credit = mem_credit_env, cv_cache = mem_file_cache,
     cv_ParseRequestURI = (\<lambda>s. has_prefix s ''http''), cv_sha256 = (\<lambda>bs. [7]), cv_HexToAddress = string_bytes,
     cv_BytesToAddressHex = hex_EncodeToString, cv_marshal = (\<lambda>r. Inr [123]),
     cv_unmarshal = (\<lambda>bs. Inr (CacheRequest_zero\<lparr>rq_Option := bytes_string bs\<rparr>)), cv_io = (\<lambda>op p. None), cv_DataShards = 2, cv_FragmentSize = 8388608\<rparr>"

definition mem_node :: "(string \<rightharpoonup> bytes, (string \<times> string) list) CacheActor" where
  "mem_node = \<lparr>ca_FileCache = [], ca_record = Map.empty, ca_dlQueue = Some Map.empty,
     ca_creditMg = mem_credit0, ca_reqNum = 0, ca_Account = [9]\<rparr>"

text \<open>Among the requests sent is one for the page at a URL.\<close>

definition asks_site :: "DownloadRequest list \<Rightarrow> string \<Rightarrow> bool" where
  "asks_site sent url \<longleftrightarrow>
     (\<exists>r \<in> set sent. dq_Option r = SITE_RESOURCE_CACHE \<and> map_option rq_WantUrl (dq_Data r) = Some url)"

section \<open>Laws\<close>

lemma record_suffix [simp]:
  "k @ RECORD_REQUESTS \<noteq> k' @ RECORD_FRAGMENTS" "k' @ RECORD_FRAGMENTS \<noteq> k @ RECORD_REQUESTS"
proof -
  have "rev (k @ RECORD_REQUESTS) \<noteq> rev (k' @ RECORD_FRAGMENTS)" by (simp add: cdn_consts)
  then show "k @ RECORD_REQUESTS \<noteq> k' @ RECORD_FRAGMENTS" by metis
  then show "k' @ RECORD_FRAGMENTS \<noteq> k @ RECORD_REQUESTS" by metis
qed

lemma mem_env_simps [simp]:
  "cv_credit mem_cache_env = mem_credit_env" "cv_cache mem_cache_env = mem_file_cache"
  "cv_io mem_cache_env = (\<lambda>op p. None)" "cv_DataShards mem_cache_env = 2"
  "cv_FragmentSize mem_cache_env = 8388608" "cv_ParseRequestURI mem_cache_env = (\<lambda>s. has_prefix s ''http'')"
  "cv_sha256 mem_cache_env = (\<lambda>bs. [7])" "ce_db mem_credit_env = mem_leveldb"
  "ce_DecompressPubkey mem_credit_env = (\<lambda>pk. if pk = [] then Inl (Errorf ''invalid public key'') else Inr pk)"
  "cv_unmarshal mem_cache_env = (\<lambda>bs. Inr (CacheRequest_zero\<lparr>rq_Option := bytes_string bs\<rparr>))"
  by (simp_all add: mem_cache_env_def mem_credit_env_def)

lemma put_record_simps [simp]:
  "ca_FileCache (put_record V c k v) = ca_FileCache c"
  "ca_dlQueue (put_record V c k v) = ca_dlQueue c"
  "ca_creditMg (put_record V c k v) = ca_creditMg c"
  "ca_reqNum (put_record V c k v) = ca_reqNum c"
  "ca_Account (put_record V c k v) = ca_Account c"
  by (simp_all add: put_record_def)

lemma run_callbacks_foldl: "run_callbacks V c evs = foldl (handle_event V) c evs"
  by (induction V c evs rule: run_callbacks.induct) (simp_all add: handle_event_def)

text \<open>The callbacks touch nothing but the records.\<close>

lemma onAddItem_simps [simp]:
  "ca_FileCache (onAddItem V c k) = ca_FileCache c"
  "ca_dlQueue (onAddItem V c k) = ca_dlQueue c"
  "ca_creditMg (onAddItem V c k) = ca_creditMg c"
  by (simp_all add: onAddItem_def Let_def split: sum.split ldb_error.split)

lemma onDeleteItem_simps [simp]:
  "ca_FileCache (onDeleteItem V c k) = ca_FileCache c"
  "ca_dlQueue (onDeleteItem V c k) = ca_dlQueue c"
  "ca_creditMg (onDeleteItem V c k) = ca_creditMg c"
  by (simp_all add: onDeleteItem_def Let_def split: sum.split)

lemma handle_event_simps [simp]:
  "ca_FileCache (handle_event V c ev) = ca_FileCache c"
  "ca_dlQueue (handle_event V c ev) = ca_dlQueue c"
  "ca_creditMg (handle_event V c ev) = ca_creditMg c"
  by (simp_all add: handle_event_def split: cache_event.split)

lemma run_callbacks_simps [simp]:
  "ca_FileCache (run_callbacks V c evs) = ca_FileCache c"
  "ca_dlQueue (run_callbacks V c evs) = ca_dlQueue c"
  "ca_creditMg (run_callbacks V c evs) = ca_creditMg c"
  by (induction evs arbitrary: c) (simp_all add: run_callbacks_foldl)

lemma segment_view_update [simp]:
  "segment_view V (c\<lparr>ca_dlQueue := q\<rparr>) = segment_view V c"
  "segment_view V (c\<lparr>ca_creditMg := cm\<rparr>) = segment_view V c"
  "segment_view V (c\<lparr>ca_FileCache := fc\<rparr>) = segment_view V c"
  "segment_view V (c\<lparr>ca_reqNum := n\<rparr>) = segment_view V c"
  by (simp_all add: segment_view_def fun_eq_iff)

lemma GetFileRecord_view:
  "segment_view V c k = Some (Inl e) \<Longrightarrow> GetFileRecord V c k RECORD_FRAGMENTS = (0, False)"
  by (simp add: segment_view_def GetFileRecord_def split: if_splits)

subsection \<open>What the node writes\<close>

text \<open>
  Whatever the node does, it writes two kinds of records, each a 32-bit number: the fragments of a
  directory, whose name is empty or ends in a slash, and the requests for a name. The laws of the
  records below rest on this one fact about the operations.
\<close>

inductive record_write :: "('db, 'c) cache_env \<Rightarrow> 'db \<Rightarrow> 'db \<Rightarrow> bool" for V :: "('db, 'c) cache_env" where
  write_fragments: "d = [] \<or> last d = CHR ''/'' \<Longrightarrow> record_write V db (fst (ldb_Put (cv_db V) db (d @ RECORD_FRAGMENTS) (be_put32 x)))"
| write_requests: "record_write V db (fst (ldb_Put (cv_db V) db (k @ RECORD_REQUESTS) (be_put32 x)))"

abbreviation writes :: "('db, 'c) cache_env \<Rightarrow> ('db, 'c) CacheActor \<Rightarrow> ('db, 'c) CacheActor \<Rightarrow> bool" where
  "writes V c c' \<equiv> (record_write V)\<^sup>*\<^sup>* (ca_record c) (ca_record c')"

lemma writes_fragments: "writes V c (put_record V c (fst (path_Split k) @ RECORD_FRAGMENTS) (be_put32 x))"
  using path_Split_dir [of k] by (auto simp: put_record_def intro: r_into_rtranclp write_fragments)

lemma writes_requests: "writes V c (put_record V c (k @ RECORD_REQUESTS) (be_put32 x))"
  by (auto simp: put_record_def intro: r_into_rtranclp write_requests)

lemma writes_both:
  "writes V c (put_record V (put_record V c (fst (path_Split k) @ RECORD_FRAGMENTS) (be_put32 x)) (k' @ RECORD_REQUESTS) (be_put32 y))"
  by (rule rtranclp_trans [OF writes_fragments writes_requests])

lemma writes_event: "writes V c (handle_event V c ev)"
  by (cases ev) (auto simp: handle_event_def onAddItem_def onDeleteItem_def Let_def writes_fragments writes_both
        split: sum.splits ldb_error.splits)

lemma writes_callbacks: "writes V c (run_callbacks V c evs)"
  unfolding run_callbacks_foldl by (induction evs rule: rev_induct) (auto intro: rtranclp_trans writes_event)

lemma writes_callbacks_cache: "writes V c (run_callbacks V (c\<lparr>ca_FileCache := fc\<rparr>) evs)"
  using writes_callbacks [of V "c\<lparr>ca_FileCache := fc\<rparr>" evs] by simp

lemma writes_PutRequests: "writes V c (fst (PutFileRecord V c k RECORD_REQUESTS n))"
  using writes_requests [of V c k "word_of_int n"] by (auto simp: PutFileRecord_def put_record_def split: prod.split)

lemma writes_Query: "QueryCacheResource V c acc key isUrl = Some (files, c') \<Longrightarrow> writes V c c'"
  by (auto simp: QueryCacheResource_def enqueue_task_def Let_def writes_PutRequests
        split: if_splits option.splits prod.splits sum.splits bool.splits)

lemma writes_query_status: "query_status V H w c req acc = Some (r, c', w') \<Longrightarrow> writes V c c'"
  by (auto simp: query_status_def Let_def dest!: writes_Query split: if_splits option.splits prod.splits)

lemma writes_send: "send_cached V c fs req f s = Some (c', s') \<Longrightarrow> writes V c c'"
  by (auto simp: send_cached_def Let_def split: option.splits prod.splits sum.splits)

lemma writes_info: "GetCacheInfo V c acc = (info, c') \<Longrightarrow> writes V c c'"
  by (auto simp: GetCacheInfo_def GetCacheInfo_reads_def Let_def split: prod.splits)

lemma writes_service: "CacheService V H w c fs s = Some (c', w', s') \<Longrightarrow> writes V c c'"
  by (auto simp: CacheService_def Let_def dest!: writes_query_status writes_send writes_info
        split: option.splits prod.splits sum.splits if_splits)

lemma writes_move: "move_to_cache V c fs k p = (err, c', fs') \<Longrightarrow> writes V c c'"
  by (auto simp: move_to_cache_def writes_callbacks_cache split: prod.splits)

lemma writes_responses: "receive_responses V c fs rs = Some (c', fs') \<Longrightarrow> writes V c c'"
  by (induction rs arbitrary: c fs)
     (fastforce dest!: writes_move intro: rtranclp_trans split: option.splits prod.splits if_splits)+

lemma writes_receive: "Cache_Receive V c fs msg = Some (c', fs', sent) \<Longrightarrow> writes V c c'"
  by (auto simp: Cache_Receive_def queue_Delete_def Let_def dest!: writes_move writes_responses
        split: cache_msg.splits option.splits prod.splits sum.splits if_splits)

lemma writes_restore_entry: "restore_entry V c e = (c', err) \<Longrightarrow> writes V c c'"
  by (auto simp: restore_entry_def add_cache_record_def Let_def writes_callbacks_cache
        split: option.splits prod.splits if_splits)

lemma writes_restore: "RestoreCacheFiles V c es = (c', err) \<Longrightarrow> writes V c c'"
  by (induction es arbitrary: c)
     (auto dest!: writes_restore_entry intro: rtranclp_trans split: prod.splits option.splits)

lemma writes_task: "serve_task V c q k t = (c', sent) \<Longrightarrow> writes V c c'"
  by (auto simp: serve_task_def Let_def split: prod.splits if_splits)

lemma writes_round: "serve_round V c ks = (c', sent) \<Longrightarrow> writes V c c'"
  by (induction ks arbitrary: c sent)
     (auto dest!: writes_task intro: rtranclp_trans split: prod.splits option.splits)

lemma writes_expire: "writes V c (onDeleteItem V (c\<lparr>ca_FileCache := fc\<rparr>) key)"
  using writes_event [of V "c\<lparr>ca_FileCache := fc\<rparr>" "ItemDeleted key"] by (simp add: handle_event_def)

lemma writes_step: "node_step V H (c, w, fs) (c', w', fs') \<Longrightarrow> writes V c c'"
  by (induction "(c, w, fs)" "(c', w', fs')" rule: node_step.induct)
     (auto dest: writes_service writes_receive writes_restore writes_round intro: writes_expire
        simp: RunDownloadServer_start_def RunDownloadServer_stop_def SetRequestNumber_def Let_def
        split: if_splits option.splits)

lemma writes_steps:
  assumes "(node_step V H)\<^sup>*\<^sup>* (c0, w0, fs0) (c, w, fs)"
  shows "writes V c0 c"
proof -
  have "(node_step V H)\<^sup>*\<^sup>* x y \<Longrightarrow> writes V (fst x) (fst y)" for x y
    by (induction rule: rtranclp_induct) (auto dest!: writes_step intro: rtranclp_trans)
  from this [OF assms] show ?thesis by simp
qed

subsection \<open>Records under the contract of the database\<close>

locale cache_db = kv_store "ldb_Get (cv_db V)" "ldb_Put (cv_db V)"
  for V :: "('db, 'c) cache_env"
begin

lemma get_other: "k' \<noteq> k \<Longrightarrow> ldb_Get (cv_db V) (fst (ldb_Put (cv_db V) s k v)) k' = ldb_Get (cv_db V) s k'"
  using get_put_other [of s k v "fst (ldb_Put (cv_db V) s k v)" "snd (ldb_Put (cv_db V) s k v)" k'] by simp

lemma write_segment:
  assumes "record_write V db db'" and "k \<noteq> []" and "last k \<noteq> CHR ''/''"
  shows "ldb_Get (cv_db V) db' (k @ RECORD_FRAGMENTS) = ldb_Get (cv_db V) db (k @ RECORD_FRAGMENTS)"
  using assms(1)
proof cases
  case (write_fragments d x)
  then have "d \<noteq> k" using assms(2,3) by blast
  then show ?thesis using write_fragments(1) by (simp add: get_other)
qed (simp add: get_other)

lemma view_writes: "writes V c c' \<Longrightarrow> segment_view V c' = segment_view V c"
proof -
  have "(record_write V)\<^sup>*\<^sup>* db db' \<Longrightarrow> k \<noteq> [] \<Longrightarrow> last k \<noteq> CHR ''/'' \<Longrightarrow>
      ldb_Get (cv_db V) db' (k @ RECORD_FRAGMENTS) = ldb_Get (cv_db V) db (k @ RECORD_FRAGMENTS)" for db db' k
    by (induction rule: rtranclp_induct) (auto simp: write_segment)
  then show "writes V c c' \<Longrightarrow> segment_view V c' = segment_view V c" by (auto simp: segment_view_def fun_eq_iff)
qed

lemmas view_steps = view_writes [OF writes_steps]

text \<open>A segment without a record keeps having none, and a query for it finds nothing.\<close>

lemma fresh_view:
  assumes "\<forall>k. ldb_Get (cv_db V) (ca_record c0) (k @ RECORD_FRAGMENTS) = Inl ErrNotFound"
    and "(node_step V H)\<^sup>*\<^sup>* (c0, w0, fs0) (c, w, fs)" and "plain f" and "plain s"
  shows "segment_view V c (f @ ''/'' @ s) = Some (Inl ErrNotFound)"
proof -
  have "last (f @ ''/'' @ s) \<noteq> CHR ''/''"
    using assms(4) last_in_set [of s] unfolding plain_def by (auto simp del: last_in_set)
  then show ?thesis using assms(1) [rule_format, of "f @ ''/'' @ s"] view_steps [OF assms(2)] by (simp add: segment_view_def)
qed

lemma query_no_hit:
  assumes "segment_view V c (f @ ''/'' @ s) = Some (Inl ErrNotFound)"
    and "plain f" and "plain s" and "rq_WantUrl req = ''''" and "rq_WantFile req = f @ ''/'' @ s"
    and "query_status V H w c req acc = Some ((status, files), c', w')"
  shows "status \<noteq> STATUS_HIT \<and> files = []"
proof -
  let ?k = "f @ ''/'' @ s"
  have split: "split_on (CHR ''/'') ?k = [f, s]" "path_Join [f, s] = ?k"
    using assms(2,3) by (simp_all add: split_on_append split_on_no_sep path_Join_plain plain_def)
  have "QueryCacheResource V (c\<lparr>ca_creditMg := cm\<rparr>) acc ?k False = Some (fr, c2) \<Longrightarrow> fr = []" for cm fr c2
    using assms(1) by (auto simp: QueryCacheResource_def Let_def GetFileRecord_view enqueue_task_def
          view_writes [OF writes_PutRequests] split: if_splits option.splits)
  then show ?thesis
    using assms(4-6) split by (auto simp: query_status_def Let_def split: option.splits if_splits)
qed

end

text \<open>A database whose writes are atomic: one that fails leaves the old value or the new one.\<close>

locale atomic_db = cache_db V for V :: "('db, 'c) cache_env" +
  assumes put_atomic: "ldb_Put (cv_db V) db k v = (db', Some e) \<Longrightarrow> ldb_Get (cv_db V) db' k \<in> {Inr v, ldb_Get (cv_db V) db k}"
begin

lemma get_put_cases: "ldb_Get (cv_db V) (fst (ldb_Put (cv_db V) db k v)) k' \<in> {Inr v, ldb_Get (cv_db V) db k'}"
proof (cases "k' = k")
  case True
  then show ?thesis
    using get_put_same [of db k v] put_atomic [of db k v] by (cases "ldb_Put (cv_db V) db k v"; cases "snd (ldb_Put (cv_db V) db k v)") auto
qed (simp add: get_other)

lemma write_width:
  assumes "record_write V db db'" and "\<forall>k v. ldb_Get (cv_db V) db k = Inr v \<longrightarrow> length v = 4"
  shows "\<forall>k v. ldb_Get (cv_db V) db' k = Inr v \<longrightarrow> length v = 4"
proof (intro allI impI)
  fix k v assume v: "ldb_Get (cv_db V) db' k = Inr v"
  obtain k0 x where "db' = fst (ldb_Put (cv_db V) db k0 (be_put32 x))" using assms(1) by (cases rule: record_write.cases) blast+
  then have "ldb_Get (cv_db V) db' k \<in> {Inr (be_put32 x), ldb_Get (cv_db V) db k}" using get_put_cases by simp
  then show "length v = 4" using v assms(2) by auto
qed

lemma writes_width:
  assumes "writes V c c'" and "records_wf V c"
  shows "records_wf V c'"
  using assms unfolding records_wf_def by (induction rule: rtranclp_induct) (auto dest: write_width)

end

subsection \<open>Counting the cached fragments\<close>

text \<open>
  What the rest of the node relies on: a counter per directory that follows the events of the
  cache. Deleting below zero leaves zero.
\<close>

locale event_counter =
  fixes cnt :: "'a \<Rightarrow> string \<Rightarrow> u32"
    and handle :: "'a \<Rightarrow> cache_event \<Rightarrow> 'a"
    and isUri :: "string \<Rightarrow> bool"
  assumes cnt_handle: "cnt (handle a ev) d = count_event isUri d (cnt a d) ev"
begin

lemma cnt_events: "cnt (foldl handle a evs) d = foldl (count_event isUri d) (cnt a d) evs"
  by (induction evs arbitrary: a) (simp_all add: cnt_handle)

lemma cnt_adds:
  "(\<forall>ev \<in> set evs. \<exists>k. ev = ItemAdded k \<and> \<not> isUri k \<and> fst (path_Split k) = d) \<Longrightarrow>
   cnt (foldl handle a evs) d = cnt a d + of_nat (length evs)"
  by (induction evs arbitrary: a) (auto simp: cnt_handle count_event_def)

end

text \<open>The hypotheses: writes to LevelDB succeed and reads fail only for missing keys.\<close>

locale file_records = cache_db V
  for V :: "('db, 'c) cache_env" +
  assumes put_ok: "\<exists>db'. ldb_Put (cv_db V) db k v = (db', None)"
    and get_ok: "ldb_Get (cv_db V) db k \<noteq> Inl (LdbErr e)"
begin

lemma get_put:
  "ldb_Get (cv_db V) (fst (ldb_Put (cv_db V) db k v)) k' = (if k' = k then Inr v else ldb_Get (cv_db V) db k')"
  using put_ok [of db k v] get_after_put by (metis fst_conv)

lemma frag_count_put [simp]:
  "frag_count V (put_record V c (d @ RECORD_FRAGMENTS) (be_put32 n)) d' = (if d' = d then n else frag_count V c d')"
  "frag_count V (put_record V c (d @ RECORD_REQUESTS) v) d' = frag_count V c d'"
  by (simp_all add: frag_count_def put_record_def get_put)

lemma frag_count_get:
  "ldb_Get (cv_db V) (ca_record c) (d @ RECORD_FRAGMENTS) = Inr v \<Longrightarrow> 4 \<le> length v \<Longrightarrow>
   be_get32 (take 4 v) = frag_count V c d"
  by (simp add: frag_count_def)

lemma be_get32_take4: "be_get32 (take 4 v) = be_get32 v"
  by (cases v rule: be_get32.cases) auto

lemma frag_count_event:
  "frag_count V (handle_event V c ev) d = count_event (cv_ParseRequestURI V) d (frag_count V c d) ev"
proof (cases ev)
  case (ItemAdded k)
  then show ?thesis
    using get_ok [of "ca_record c" "fst (path_Split k) @ RECORD_FRAGMENTS"]
    by (auto simp: handle_event_def onAddItem_def count_event_def Let_def frag_count_def be_get32_take4
          put_record_def get_put split: sum.split ldb_error.split)
next
  case (ItemDeleted k)
  then show ?thesis
    by (auto simp: handle_event_def onDeleteItem_def count_event_def Let_def frag_count_def be_get32_take4
          put_record_def get_put word_gt_0 split: sum.split)
qed

lemma Get_Put_record:
  assumes "t \<in> {RECORD_FRAGMENTS, RECORD_REQUESTS}" and "t' \<in> {RECORD_FRAGMENTS, RECORD_REQUESTS}"
  shows "snd (PutFileRecord V c k t n) = None \<and>
    GetFileRecord V (fst (PutFileRecord V c k t n)) k' t' =
      (if (k', t') = (k, t) then (n mod 2 ^ 32, True) else GetFileRecord V c k' t')"
proof -
  obtain db' where db': "ldb_Put (cv_db V) (ca_record c) (k @ t) (be_put32 (word_of_int n)) = (db', None)"
    using put_ok by blast
  have eq: "k' @ t' = k @ t \<longleftrightarrow> (k', t') = (k, t)" using assms by auto
  have "ldb_Get (cv_db V) db' (k' @ t') =
      (if (k', t') = (k, t) then Inr (be_put32 (word_of_int n)) else ldb_Get (cv_db V) (ca_record c) (k' @ t'))"
    using get_after_put [OF db', of "k' @ t'"] eq by simp
  then show ?thesis using assms by (auto simp: PutFileRecord_def GetFileRecord_def db' uint_word_of_int)
qed

end

sublocale file_records \<subseteq> counter: event_counter "frag_count V" "handle_event V" "cv_ParseRequestURI V"
  by unfold_locales (rule frag_count_event)

interpretation mem_atomic: atomic_db mem_cache_env
  by unfold_locales (auto simp: mem_leveldb_def split: if_splits option.splits)

interpretation mem: file_records mem_cache_env
  by unfold_locales (auto simp: mem_leveldb_def split: if_splits option.splits)

subsection \<open>The queue\<close>

lemma PutFileRecord_simps [simp]:
  "ca_FileCache (fst (PutFileRecord V c k t n)) = ca_FileCache c"
  "ca_dlQueue (fst (PutFileRecord V c k t n)) = ca_dlQueue c"
  "ca_creditMg (fst (PutFileRecord V c k t n)) = ca_creditMg c"
  by (simp_all add: PutFileRecord_def split: prod.split)

text \<open>With a queue a query always answers; it adds at most its own task.\<close>

lemma QueryCacheResource_queue:
  assumes "ca_dlQueue c = Some q"
    and "key = (if isUrl then GetSha256Hash (cv_sha256 V) (string_bytes (path_Base source)) else source)"
    and "req = fst (GetFileRecord V c key RECORD_REQUESTS) + 1"
    and "level = ri_Level (fst (GetCreditRecord (cv_credit V) (ca_creditMg c) acc))"
    and "opt = (if isUrl then SITE_RESOURCE_CACHE else NODE_RESOURCE_CACHE)"
  shows "\<exists>files c'. QueryCacheResource V c acc source isUrl = Some (files, c') \<and> ca_creditMg c' = ca_creditMg c \<and>
    ca_dlQueue c' = Some (if wants_download (fc_GetLoadRatio (cv_cache V) (ca_FileCache c)) level req
      then fst (smap_LoadOrStore q key \<lparr>dt_Source = source, dt_Doing = False, dt_Option = opt\<rparr>) else q)"
  using assms by (auto simp: QueryCacheResource_def enqueue_task_def Let_def split: prod.split sum.split bool.split)

lemma query_status_total:
  assumes "ca_dlQueue c = Some q" and "length (split_on (CHR ''/'') (rq_WantFile req)) \<ge> 2"
    and "CheckCredit (cv_credit V) H w (ca_creditMg c) (rq_AccountId req) (rq_Data req) (rq_Sign req) = Some (ok, cm, w1)"
  shows "\<exists>r c'. query_status V H w c req acc = Some (r, c', w1)"
proof -
  let ?c = "c\<lparr>ca_creditMg := cm\<rparr>"
  have total: "\<exists>files c'. QueryCacheResource V ?c acc key isUrl = Some (files, c')" for key isUrl
    using QueryCacheResource_queue [of ?c q _ isUrl V key] assms(1) by fastforce
  let ?p = "split_on (CHR ''/'') (rq_WantFile req)"
  obtain f1 c1 where 1: "QueryCacheResource V ?c acc (rq_WantUrl req) True = Some (f1, c1)"
    using total by blast
  obtain f2 c2 where 2: "QueryCacheResource V ?c acc (path_Join [?p ! 0, ?p ! 1]) False = Some (f2, c2)"
    using total by blast
  show ?thesis using assms 1 2 by (simp add: query_status_def Let_def)
qed

lemma serve_task_queue:
  assumes "serve_task V c q k t = (c', sent)" and "ca_dlQueue c = Some q" and "q k = Some t"
  shows "\<exists>q'. ca_dlQueue c' = Some q' \<and> (\<forall>k'. k' \<noteq> k \<longrightarrow> q' k' = q k') \<and>
    (dt_Option t \<noteq> NODE_RESOURCE_CACHE \<longrightarrow> q' k = Some (t\<lparr>dt_Doing := True\<rparr>) \<and>
       asks_site sent (dt_Source t))"
  using assms
  by (auto simp: serve_task_def Let_def go_defs asks_site_def split: prod.splits if_splits sum.splits)

lemma serve_round_queue:
  assumes "serve_round V c ks = (c', sent)" and "ca_dlQueue c = Some q"
    and "q k = Some t" and "dt_Option t \<noteq> NODE_RESOURCE_CACHE"
  shows "\<exists>q' t'. ca_dlQueue c' = Some q' \<and> q' k = Some t' \<and>
    dt_Option t' = dt_Option t \<and> dt_Source t' = dt_Source t \<and>
    (k \<in> set ks \<longrightarrow> asks_site sent (dt_Source t))"
  using assms
proof (induction ks arbitrary: c q t sent)
  case (Cons a ks)
  show ?case
  proof (cases "q a")
    case None
    then show ?thesis using Cons.IH [of c sent q t] Cons.prems by auto
  next
    case (Some u)
    obtain c1 s1 where one: "serve_task V c q a u = (c1, s1)" by fastforce
    obtain c2 s2 where two: "serve_round V c1 ks = (c2, s2)" by fastforce
    then have eq: "c' = c2" "sent = s1 @ s2" using Cons.prems Some one by auto
    obtain q1 where q1: "ca_dlQueue c1 = Some q1" "\<forall>k'. k' \<noteq> a \<longrightarrow> q1 k' = q k'"
      "dt_Option u \<noteq> NODE_RESOURCE_CACHE \<longrightarrow> q1 a = Some (u\<lparr>dt_Doing := True\<rparr>) \<and>
         asks_site s1 (dt_Source u)"
      using serve_task_queue [OF one Cons.prems(2) Some] by blast
    define t1 where "t1 = (if k = a then t\<lparr>dt_Doing := True\<rparr> else t)"
    have t1: "q1 k = Some t1" "dt_Option t1 = dt_Option t" "dt_Source t1 = dt_Source t"
      using q1 Some Cons.prems(3,4) by (auto simp: t1_def)
    obtain q2 t2 where r2: "ca_dlQueue c2 = Some q2" "q2 k = Some t2" "dt_Option t2 = dt_Option t"
      "dt_Source t2 = dt_Source t" "k \<in> set ks \<longrightarrow> asks_site s2 (dt_Source t)"
      using Cons.IH [of c1 s2 q1 t1] two q1(1) t1 eq(1) Cons.prems(4) by auto
    have "k = a \<Longrightarrow> asks_site s1 (dt_Source t)"
      using q1(3) Some Cons.prems(3,4) by simp
    then show ?thesis using r2 eq by (auto simp: asks_site_def)
  qed
qed auto

subsection \<open>Charges\<close>

lemma neg_size_sless: "0 < n \<Longrightarrow> n < 2 ^ 63 \<Longrightarrow> - (word_of_nat n :: i64) <s 0"
  using sint_of_int64 [of "- int n"] by (simp add: word_sless_alt)

lemma AddCreditPoint_negative:
  assumes "r <s 0" and "snd (credit_balance E c k) \<noteq> - 1"
  shows "\<exists>c'. AddCreditPoint E c k r = Some c'"
proof -
  have "ri_ReceivedResource (fst (GetCreditRecord E c k)) + 1 \<noteq> 0"
    using assms(2) by (auto simp: credit_balance_def Let_def eq_neg_iff_add_eq_0)
  then show ?thesis
    using assms(1) by (simp add: AddCreditPoint_def Let_def credit_level_def uint64_div_def int64_rem_def LEVEL_UNTRUST_def)
qed

text \<open>The responses of a batch whose files the cache module takes, one after the other.\<close>

fun moved :: "'c file_cache \<Rightarrow> 'c \<Rightarrow> fs \<Rightarrow> DownloadResponse list \<Rightarrow> DownloadResponse list" where
  "moved F m fs [] = []"
| "moved F m fs (r # rs) =
     (case fc_MoveFileToCache F m fs (dr_Key r) (dr_ResrcPath r) of
        (Some err, m1, fs1, evs) \<Rightarrow> moved F m1 fs1 rs
      | (None, m1, fs1, evs) \<Rightarrow> r # moved F m1 fs1 rs)"

lemma hex_01: "hex_EncodeToString [1] = ''01''"
  by code_simp

subsection \<open>Serving a download\<close>

lemma CacheService_download:
  assumes "credit_db (cv_credit V)" and "credit_wf (cv_credit V) (ca_creditMg c)"
    and "ReadData (s_in s) = Some (data, None)" and "cv_unmarshal V data = Inr req"
    and "rq_Option req = OPTION_DOWNLOAD" and "rq_WantUrl req = ''''" and "rq_WantFile req = f @ ''/'' @ g @ ''/'' @ h"
    and "plain f" and "plain g" and "plain h"
    and "fc_GetCacheRecord (cv_cache V) (ca_FileCache c) (f @ ''/'' @ g @ ''/'' @ h) = (Inr p, fc)"
    and "fs p = Some (File bs)" and "\<forall>op. cv_io V op p = None"
    and "ce_DecompressPubkey (cv_credit V) (rq_AccountId req) = Inr pk"
    and "acc = ce_AddressHex (cv_credit V) pk"
    and "snd (credit_balance (cv_credit V) (ca_creditMg c) acc) \<noteq> - 1"
    and "0 < length bs" and "length bs < 2 ^ 63"
  shows "\<exists>c' s'. CacheService V H w c fs s = Some (c', w, s') \<and> s_closed s' \<and>
    credit_balance (cv_credit V) (ca_creditMg c') k =
      (if k = acc then (fst (credit_balance (cv_credit V) (ca_creditMg c) acc) + word_of_nat (length bs),
                        snd (credit_balance (cv_credit V) (ca_creditMg c) acc))
       else credit_balance (cv_credit V) (ca_creditMg c) k) \<and>
    (\<not> s_reset s \<and> wr_script (s_out s) = [] \<longrightarrow> wr_out (s_out s') = wr_out (s_out s) @ bs \<and> \<not> s_reset s')"
proof -
  let ?E = "cv_credit V" and ?n = "word_of_nat (length bs) :: i64"
  have path: "split_on (CHR ''/'') (rq_WantFile req) = [f, g, h]" "path_Join [f, g, h] = f @ ''/'' @ g @ ''/'' @ h"
    using assms(7-10) by (simp_all add: split_on_append split_on_no_sep path_Join_plain plain_def)
  obtain cm where cm: "CheckCredit ?E H w (ca_creditMg c) (rq_AccountId req) (rq_Data req) (rq_Sign req) = Some (True, cm, w)"
    and bal: "\<And>k. credit_balance ?E cm k = credit_balance ?E (ca_creditMg c) k"
    using credit_db.CheckCredit_wf [OF assms(1,2,14), of H w] by metis
  have neg: "- ?n <s 0" using assms(17,18) by (rule neg_size_sless)
  obtain cm' where cm': "AddCreditPoint ?E cm acc (- ?n) = Some cm'"
    using AddCreditPoint_negative [OF neg, of ?E cm acc] assms(16) bal by auto
  have "credit_balance ?E cm' k = (if k = acc then ledger_post (credit_balance ?E cm acc) (- ?n) else credit_balance ?E cm k)"
    by (rule credit_db.balance_AddCreditPoint [OF assms(1) cm'])
  then have bal': "credit_balance ?E cm' k = (if k = acc then (fst (credit_balance ?E (ca_creditMg c) acc) + ?n,
        snd (credit_balance ?E (ca_creditMg c) acc)) else credit_balance ?E (ca_creditMg c) k)"
    using neg by (simp add: bal ledger_post_def)
  let ?s = "case s_Write s bs of (Some err, s0) \<Rightarrow> s_Reset s0 | (None, s0) \<Rightarrow> s0"
  have "CacheService V H w c fs s = Some (c\<lparr>ca_creditMg := cm', ca_FileCache := fc\<rparr>, w, s_Close ?s)"
    using assms(3-6,11-15) path cm cm'
    by (simp add: CacheService_def send_cached_def os_Stat_def os_ReadFile_def inode_Size_def Let_def)
  then show ?thesis using bal' by (auto simp: s_Close_def s_Write_def wr_Write_def)
qed

lemma GetCacheInfo_wf:
  assumes "credit_wf (cv_credit V) (ca_creditMg c)" and "GetCacheInfo V c acc = (info, c')"
  shows "ci_Status info = CACHE_IDLE \<and> ci_CreditLimit info = cr_ResourceLimit (ca_creditMg c)"
proof -
  have "\<exists>r. GetCreditRecord (cv_credit V) (ca_creditMg c) acc = (r, False)"
    using assms(1) by (metis credit_wf_def prod.collapse)
  then show ?thesis
    using assms(2) by (auto simp: GetCacheInfo_def GetCacheInfo_reads_def IsLimited_def Let_def split: prod.splits)
qed

section \<open>Laws of the download server\<close>

text \<open>
  The server is a sequence of the node's steps, it ends with its queue taken away, and it does end once every one of
  its threads has seen the end of the context.
\<close>

lemma server_loop_steps:
  "server_loop V is c sent evs = Some (c', sent') \<Longrightarrow> (node_step V H)\<^sup>*\<^sup>* (c, w, fs) (c', w, fs) \<and> ca_dlQueue c' = None"
proof (induction V "is" c sent evs rule: server_loop.induct)
  case (1 V c sent evs)
  then show ?case by (auto simp: RunDownloadServer_stop_def intro: step_stop [unfolded RunDownloadServer_stop_def])
next
  case (3 V i "is" c sent j keys evs)
  then show ?case
    by (auto split: prod.splits if_splits intro: converse_rtranclp_into_rtranclp [of "node_step V H", OF step_round])
qed auto

lemma server_loop_ends: "set is \<subseteq> {j. ThreadQuits j \<in> set evs} \<Longrightarrow> \<exists>r. server_loop V is c sent evs = Some r"
proof (induction V "is" c sent evs rule: server_loop.induct)
  case (4 V i "is" c sent j evs)
  have "set (removeAll j (i # is)) \<subseteq> {j. ThreadQuits j \<in> set evs}" using "4.prems" by auto
  from "4.IH" [OF this] show ?case by simp
qed (auto split: prod.splits)

lemma RunDownloadServer_steps:
  assumes "RunDownloadServer V (resrcActor :: string option) numCPU threadNum c evs = Some (c', sent)"
  shows "(node_step V H)\<^sup>*\<^sup>* (c, w, fs) (c', w, fs)"
proof (cases "RunDownloadServer_start resrcActor numCPU threadNum c")
  case (Some r)
  then obtain c1 threads where r: "RunDownloadServer_start resrcActor numCPU threadNum c = Some (c1, threads)" by (cases r) auto
  have "node_step V H (c, w, fs) (c1, w, fs)" by (rule step_start [OF r])
  moreover have "(node_step V H)\<^sup>*\<^sup>* (c1, w, fs) (c', w, fs)"
    using server_loop_steps assms r by (fastforce simp: RunDownloadServer_def)
  ultimately show ?thesis by (rule converse_rtranclp_into_rtranclp)
qed (use assms in \<open>simp add: RunDownloadServer_def\<close>)

section \<open>Properties\<close>

text \<open>C1: Fragments are never found: in every state that a node reaches from a fresh file record,
  by any sequence of requests, messages, restorations and download rounds, a query for a segment
  \<open>file/segment\<close> gets no hit, whatever the cache holds: the callbacks count fragments under the
  directory name with its trailing slash and the query reads the name without it.\<close>

theorem segment_query_never_hits:
  assumes "cache_db V" and "\<forall>k. ldb_Get (cv_db V) (ca_record c0) (k @ RECORD_FRAGMENTS) = Inl ErrNotFound"
    and "(node_step V H)\<^sup>*\<^sup>* (c0, w0, fs0) (c, w, fs)"
    and "plain f" and "plain s" and "rq_WantUrl req = ''''" and "rq_WantFile req = f @ ''/'' @ s"
    and "query_status V H w c req acc = Some ((status, files), c', w')"
  shows "status \<noteq> STATUS_HIT \<and> files = []"
proof -
  have "segment_view V c (f @ ''/'' @ s) = Some (Inl ErrNotFound)" by (rule cache_db.fresh_view [OF assms(1-5)])
  from cache_db.query_no_hit [OF assms(1) this assms(4-8)] show ?thesis .
qed

theorem segment_query_never_hits_witness:
  "\<exists>c' c2 r. Cache_Receive mem_cache_env mem_node [''/tmp/a'' \<mapsto> File [1]]
       (MsgDownloadResponses [\<lparr>dr_ResrcPath = ''/tmp/a'', dr_Key = ''f/s/a'', dr_OriginNode = string_bytes ORIGIN_SITE_TAG\<rparr>])
     = Some (c', r) \<and> ca_FileCache c' = [(''f/s/a'', ''/cache/f/s/a'')] \<and>
   (\<exists>st. query_status mem_cache_env mem_orders () c'
       (CacheRequest_zero\<lparr>rq_AccountId := [1], rq_WantFile := ''f/s''\<rparr>) ''01'' = Some ((st, []), c2, ()) \<and> st \<noteq> STATUS_HIT)"
proof -
  let ?m = "MsgDownloadResponses [\<lparr>dr_ResrcPath = ''/tmp/a'', dr_Key = ''f/s/a'', dr_OriginNode = string_bytes ORIGIN_SITE_TAG\<rparr>]"
  let ?fs = "[''/tmp/a'' \<mapsto> File [1]]"
  let ?req = "CacheRequest_zero\<lparr>rq_AccountId := [1], rq_WantFile := ''f/s''\<rparr>"
  obtain c' fs' sent where r: "Cache_Receive mem_cache_env mem_node ?fs ?m = Some (c', fs', sent)"
    "ca_FileCache c' = [(''f/s/a'', ''/cache/f/s/a'')]" "ca_dlQueue c' = Some Map.empty" "ca_creditMg c' = mem_credit0"
    by (simp add: Cache_Receive_def Let_def move_to_cache_def mem_file_cache_def mem_node_def)
  have "(node_step mem_cache_env mem_orders)\<^sup>*\<^sup>* (mem_node, (), ?fs) (c', (), fs')"
    by (rule r_into_rtranclp) (rule step_receive [OF r(1)])
  moreover have "\<forall>k. ldb_Get (cv_db mem_cache_env) (ca_record mem_node) (k @ RECORD_FRAGMENTS) = Inl ErrNotFound"
    by (simp add: mem_leveldb_def mem_node_def)
  moreover obtain st files c2 where
    q: "query_status mem_cache_env mem_orders () c' ?req ''01'' = Some ((st, files), c2, ())"
    using mem.CheckCredit_wf [of mem_credit0 "[1]" "[1]" mem_orders "()" "[]" "[]"] mem_wf
      query_status_total [of c' Map.empty ?req mem_cache_env mem_orders "()" True _ "()" "''01''"] r(3,4)
    by (auto simp: mem_credit_env_def CacheRequest_zero_def)
  ultimately have "st \<noteq> STATUS_HIT \<and> files = []"
    using segment_query_never_hits [OF mem_atomic.cache_db_axioms, of mem_node mem_orders "()" ?fs c' "()" fs' "''f''" "''s''"
      ?req "''01''" st files c2 "()"]
    by (simp add: CacheRequest_zero_def plain_def)
  then show ?thesis using r(1,2) q by blast
qed

text \<open>C10: The file records stay well formed: in every state that a node reaches from well-formed records, by any
  sequence of requests, messages, restorations and download rounds, over a database whose writes are
  atomic but may fail, every record is a number of four bytes; so every record that exists is read back as its
  number, and the test for a short record never fails.\<close>

theorem file_records_wf:
  assumes "atomic_db V" and "records_wf V c0" and "(node_step V H)\<^sup>*\<^sup>* (c0, w0, fs0) (c, w, fs)"
  shows "records_wf V c \<and>
    (rType \<in> {RECORD_FRAGMENTS, RECORD_REQUESTS} \<and> ldb_Get (cv_db V) (ca_record c) (key @ rType) = Inr v \<longrightarrow>
       GetFileRecord V c key rType = (uint (be_get32 v), True))"
proof -
  have wf: "records_wf V c" by (rule atomic_db.writes_width [OF assms(1) writes_steps [OF assms(3)] assms(2)])
  then show ?thesis by (auto simp: records_wf_def GetFileRecord_def)
qed

theorem file_records_wf_witness:
  "\<exists>c' fs' sent. Cache_Receive mem_cache_env mem_node [''/tmp/a'' \<mapsto> File [1]]
       (MsgDownloadResponses [\<lparr>dr_ResrcPath = ''/tmp/a'', dr_Key = ''f/s/a'', dr_OriginNode = string_bytes ORIGIN_SITE_TAG\<rparr>])
     = Some (c', fs', sent) \<and> records_wf mem_cache_env c'"
proof -
  let ?m = "MsgDownloadResponses [\<lparr>dr_ResrcPath = ''/tmp/a'', dr_Key = ''f/s/a'', dr_OriginNode = string_bytes ORIGIN_SITE_TAG\<rparr>]"
  let ?fs = "[''/tmp/a'' \<mapsto> File [1]]"
  obtain c' fs' sent where r: "Cache_Receive mem_cache_env mem_node ?fs ?m = Some (c', fs', sent)"
    by (simp add: Cache_Receive_def Let_def move_to_cache_def mem_file_cache_def mem_node_def)
  then have "(node_step mem_cache_env mem_orders)\<^sup>*\<^sup>* (mem_node, (), ?fs) (c', (), fs')"
    by (intro r_into_rtranclp step_receive)
  note steps = this
  have wf: "records_wf mem_cache_env mem_node" by (simp add: records_wf_def mem_leveldb_def mem_node_def)
  have "records_wf mem_cache_env c'" by (rule file_records_wf [OF mem_atomic.atomic_db_axioms wf steps, THEN conjunct1])
  then show ?thesis using r by blast
qed

text \<open>C31: The callbacks keep the fragment counters: after any events of the cache the counter of a
  directory is the one obtained by adding one for every item added below it that is no URI and
  subtracting one, but not below zero, for every item deleted below it; and while only new
  items arrive it grows by their number (modulo \<open>2^32\<close>).\<close>

theorem callbacks_count:
  assumes "file_records V"
  shows "frag_count V (run_callbacks V c evs) d = foldl (count_event (cv_ParseRequestURI V) d) (frag_count V c d) evs \<and>
    ((\<forall>ev \<in> set evs. \<exists>k. ev = ItemAdded k \<and> \<not> cv_ParseRequestURI V k \<and> fst (path_Split k) = d) \<longrightarrow>
       frag_count V (run_callbacks V c evs) d = frag_count V c d + of_nat (length evs))"
proof -
  have counter: "event_counter (frag_count V) (handle_event V) (cv_ParseRequestURI V)"
    using assms by (unfold_locales) (rule file_records.frag_count_event)
  show ?thesis
    unfolding run_callbacks_foldl
    using event_counter.cnt_events [OF counter, of c evs d]
      event_counter.cnt_adds [OF counter, of evs d c] by blast
qed

theorem callbacks_count_witness:
  "frag_count mem_cache_env (run_callbacks mem_cache_env mem_node
     [ItemAdded ''f/s/a'', ItemAdded ''f/s/b'', ItemDeleted ''f/s/a'']) ''f/s/'' = 1"
proof -
  have "frag_count mem_cache_env mem_node ''f/s/'' = 0"
    by (simp add: frag_count_def mem_leveldb_def mem_node_def)
  moreover have "path_Split ''f/s/a'' = (''f/s/'', ''a'')" "path_Split ''f/s/b'' = (''f/s/'', ''b'')"
    by (simp_all add: path_Split_def Let_def)
  moreover have "\<not> cv_ParseRequestURI mem_cache_env ''f/s/a''" "\<not> cv_ParseRequestURI mem_cache_env ''f/s/b''"
    by (simp_all add: mem_cache_env_def)
  ultimately show ?thesis
    using callbacks_count [OF mem.file_records_axioms, of mem_node
        "[ItemAdded ''f/s/a'', ItemAdded ''f/s/b'', ItemDeleted ''f/s/a'']" "''f/s/''"]
    by (simp add: count_event_def)
qed

text \<open>A file record reads back as it was written, as an unsigned number of 32 bits, and no other
  record changes: neither another key's, nor the other kind of record of the same key.\<close>

theorem file_record_roundtrip:
  assumes "file_records V"
    and "t \<in> {RECORD_FRAGMENTS, RECORD_REQUESTS}" and "t' \<in> {RECORD_FRAGMENTS, RECORD_REQUESTS}"
  shows "snd (PutFileRecord V c k t n) = None \<and>
    GetFileRecord V (fst (PutFileRecord V c k t n)) k' t' =
      (if (k', t') = (k, t) then (n mod 2 ^ 32, True) else GetFileRecord V c k' t')"
  by (rule file_records.Get_Put_record [OF assms])

theorem file_record_roundtrip_witness:
  "GetFileRecord mem_cache_env (fst (PutFileRecord mem_cache_env mem_node ''f/s'' RECORD_REQUESTS (2 ^ 32 + 3)))
     ''f/s'' RECORD_REQUESTS = (3, True)"
  using file_record_roundtrip [OF mem.file_records_axioms, of RECORD_REQUESTS RECORD_REQUESTS mem_node "''f/s''" "2 ^ 32 + 3" "''f/s''"]
  by simp

text \<open>A query for a segment that arrives while the download server does not run (before
  \<open>RunDownloadServer\<close> or after it ended) makes the node panic, in every state of the credit
  records that the node maintains: the queue is nil.\<close>

theorem query_without_server_panics:
  assumes "credit_db (cv_credit V)" and "credit_wf (cv_credit V) (ca_creditMg c)" and "ca_dlQueue c = None"
    and "ReadData (s_in s) = Some (data, None)" and "cv_unmarshal V data = Inr req"
    and "rq_Option req = OPTION_QUERY" and "ce_DecompressPubkey (cv_credit V) (rq_AccountId req) = Inr pk"
    and "rq_WantUrl req = ''''" and "length (split_on (CHR ''/'') (rq_WantFile req)) \<ge> 2"
  shows "CacheService V H w c fs s = None"
proof -
  obtain info c1 where i: "GetCacheInfo V c (ce_AddressHex (cv_credit V) pk) = (info, c1)" by fastforce
  have "credit_wf (cv_credit V) (ca_creditMg c1)" "ca_dlQueue c1 = None"
    using i assms(2,3) credit_db.wf_Put [OF assms(1)]
    by (auto simp: GetCacheInfo_def GetCacheInfo_reads_def IsLimited_def Let_def split: prod.splits if_splits)
  then have "query_status V H w c1 req acc = None" for acc
    using credit_db.CheckCredit_wf [OF assms(1) _ assms(7), of "ca_creditMg c1" H w "rq_Data req" "rq_Sign req"] assms(8,9)
    by (auto simp: query_status_def Let_def)
  then show ?thesis using assms i by (simp add: CacheService_def Let_def)
qed

theorem query_without_server_panics_witness:
  "CacheService (mem_cache_env\<lparr>cv_unmarshal := \<lambda>bs. Inr (CacheRequest_zero\<lparr>rq_Option := OPTION_QUERY,
       rq_AccountId := [1], rq_WantFile := ''f/s''\<rparr>)\<rparr>) mem_orders () (mem_node\<lparr>ca_dlQueue := None\<rparr>) Map.empty
     \<lparr>s_in = [RData [123]], s_out = \<lparr>wr_out = [], wr_script = []\<rparr>, s_reset = False, s_closed = False\<rparr> = None"
proof (rule query_without_server_panics [where data = "[123]" and pk = "[1]" and
    req = "CacheRequest_zero\<lparr>rq_Option := OPTION_QUERY, rq_AccountId := [1], rq_WantFile := ''f/s''\<rparr>"], goal_cases)
  case 4
  show ?case using ReadData_message [of "[]" "[123]" "[]"] by simp
qed (simp_all add: mem.credit_db_axioms mem_wf mem_node_def CacheRequest_zero_def)

text \<open>A query by an account that the credit records do not know is treated like one of the
  owner: its resource is always queued for download, at the first query and whatever the load;
  a task already queued under the key is left as it is.\<close>

theorem stranger_query_enqueues:
  assumes "ca_dlQueue c = Some q" and "ldb_Get (cv_db V) (cr_Record (ca_creditMg c)) acc = Inl e"
    and "key = (if isUrl then GetSha256Hash (cv_sha256 V) (string_bytes (path_Base source)) else source)"
  shows "\<exists>files c' q'. QueryCacheResource V c acc source isUrl = Some (files, c') \<and> ca_dlQueue c' = Some q' \<and>
    q' key = Some (case q key of Some t \<Rightarrow> t
      | None \<Rightarrow> \<lparr>dt_Source = source, dt_Doing = False,
                dt_Option = (if isUrl then SITE_RESOURCE_CACHE else NODE_RESOURCE_CACHE)\<rparr>) \<and>
    (\<forall>k. k \<noteq> key \<longrightarrow> q' k = q k)"
proof -
  have "ri_Level (fst (GetCreditRecord (cv_credit V) (ca_creditMg c) acc)) = LEVEL_OWNER"
    using assms(2) by (simp add: GetCreditRecord_def RecordItem_zero_def LEVEL_OWNER_def)
  then show ?thesis
    using QueryCacheResource_queue [OF assms(1,3) refl refl refl, of acc]
    by (auto simp: wants_download_def go_defs split: option.split)
qed

theorem stranger_query_enqueues_witness:
  "\<exists>files c' q'. QueryCacheResource mem_cache_env mem_node ''0x1'' ''f/s'' False = Some (files, c') \<and>
     ca_dlQueue c' = Some q' \<and> q' ''f/s'' = Some \<lparr>dt_Source = ''f/s'', dt_Doing = False, dt_Option = NODE_RESOURCE_CACHE\<rparr>"
  using stranger_query_enqueues [of mem_node Map.empty mem_cache_env "''0x1''" ErrNotFound "''f/s''" False "''f/s''"]
  by (auto simp: mem_node_def mem_leveldb_def mem_credit0_def)

text \<open>A queued URL never leaves the queue through the download server: after any round its task
  is still there, and every round that visits it asks the resource actor for the page again, even
  if the page is in the cache by then.\<close>

theorem url_task_stays_queued:
  assumes "serve_round V c ks = (c', sent)" and "ca_dlQueue c = Some q"
    and "q k = Some t" and "dt_Option t = SITE_RESOURCE_CACHE"
  shows "\<exists>q' t'. ca_dlQueue c' = Some q' \<and> q' k = Some t' \<and> dt_Source t' = dt_Source t \<and>
    (k \<in> set ks \<longrightarrow> asks_site sent (dt_Source t))"
  using serve_round_queue [OF assms(1-3)] assms(4) by auto

theorem url_task_stays_queued_witness:
  "\<exists>c' sent. serve_round mem_cache_env (mem_node\<lparr>ca_FileCache := [(''07'', ''/cache/07'')],
       ca_dlQueue := Some [''07'' \<mapsto> \<lparr>dt_Source = ''http://x/y'', dt_Doing = False, dt_Option = SITE_RESOURCE_CACHE\<rparr>]\<rparr>)
       [''07''] = (c', sent) \<and> asks_site sent ''http://x/y''"
proof -
  let ?t = "\<lparr>dt_Source = ''http://x/y'', dt_Doing = False, dt_Option = SITE_RESOURCE_CACHE\<rparr>"
  let ?c = "mem_node\<lparr>ca_FileCache := [(''07'', ''/cache/07'')], ca_dlQueue := Some [''07'' \<mapsto> ?t]\<rparr>"
  obtain c' sent where r: "serve_round mem_cache_env ?c [''07''] = (c', sent)" by fastforce
  from url_task_stays_queued [OF r, of "[''07'' \<mapsto> ?t]" "''07''" ?t] r show ?thesis by auto
qed

text \<open>Restoring the cache registers a fragment file \<open>dir/file/segment/fragment\<close> under the
  reversed name \<open>fragment/segment/file\<close>, under which no download looks for it.\<close>

theorem restore_reverses_keys:
  assumes "we_path e = d @ ''/'' @ f @ ''/'' @ s @ ''/'' @ g" and "plain f" and "plain s" and "plain g"
    and "we_err e = None" and "\<not> we_IsDir e" and "we_Size e = cv_FragmentSize V"
  shows "RestoreCacheFiles V c [e] = (add_cache_record V c (g @ ''/'' @ s @ ''/'' @ f) (we_path e), None)"
proof -
  have "split_on (CHR ''/'') (d @ CHR ''/'' # f @ CHR ''/'' # s @ CHR ''/'' # g) = split_on (CHR ''/'') d @ [f, s, g]"
    using assms(2-4) by (simp add: split_on_append_all split_on_append split_on_no_sep plain_def)
  moreover have "\<exists>n. length (split_on (CHR ''/'') d) = Suc n" by (metis length_Suc_conv split_on_not_Nil list.exhaust length_Cons)
  moreover have "path_Join [g, s, f] = g @ ''/'' @ s @ ''/'' @ f"
    using assms(2-4) by (simp add: path_Join_plain)
  ultimately show ?thesis using assms by (auto simp: restore_entry_def Let_def nth_append)
qed

theorem restore_reverses_keys_witness:
  "ca_FileCache (fst (RestoreCacheFiles mem_cache_env mem_node
     [\<lparr>we_path = ''/cache/f/s/g'', we_err = None, we_IsDir = False, we_Size = 8388608\<rparr>])) = [(''g/s/f'', ''/cache/f/s/g'')]"
  using restore_reverses_keys [of "\<lparr>we_path = ''/cache/f/s/g'', we_err = None, we_IsDir = False, we_Size = 8388608\<rparr>"
      "''/cache''" "''f''" "''s''" "''g''" mem_cache_env mem_node]
  by (simp add: plain_def add_cache_record_def mem_file_cache_def mem_node_def)

text \<open>C13: Serving a download of a cached fragment: on a working stream the whole file is written
  and the stream closed; the requester is charged the size of the file, and nobody else, also when
  the write fails and the stream is reset.\<close>

theorem download_delivers_and_charges:
  assumes "credit_db (cv_credit V)" and "credit_wf (cv_credit V) (ca_creditMg c)"
    and "ReadData (s_in s) = Some (data, None)" and "cv_unmarshal V data = Inr req"
    and "rq_Option req = OPTION_DOWNLOAD" and "rq_WantUrl req = ''''" and "rq_WantFile req = f @ ''/'' @ g @ ''/'' @ h"
    and "plain f" and "plain g" and "plain h"
    and "fc_GetCacheRecord (cv_cache V) (ca_FileCache c) (f @ ''/'' @ g @ ''/'' @ h) = (Inr p, fc)"
    and "fs p = Some (File bs)" and "\<forall>op. cv_io V op p = None"
    and "ce_DecompressPubkey (cv_credit V) (rq_AccountId req) = Inr pk"
    and "acc = ce_AddressHex (cv_credit V) pk"
    and "snd (credit_balance (cv_credit V) (ca_creditMg c) acc) \<noteq> - 1"
    and "0 < length bs" and "length bs < 2 ^ 63"
  shows "\<exists>c' s'. CacheService V H w c fs s = Some (c', w, s') \<and> s_closed s' \<and>
    credit_balance (cv_credit V) (ca_creditMg c') k =
      (if k = acc then (fst (credit_balance (cv_credit V) (ca_creditMg c) acc) + word_of_nat (length bs),
                        snd (credit_balance (cv_credit V) (ca_creditMg c) acc))
       else credit_balance (cv_credit V) (ca_creditMg c) k) \<and>
    (\<not> s_reset s \<and> wr_script (s_out s) = [] \<longrightarrow> wr_out (s_out s') = wr_out (s_out s) @ bs \<and> \<not> s_reset s')"
  by (rule CacheService_download [where f = f and g = g and h = h and fs = fs and p = p, OF assms])

theorem download_delivers_and_charges_witness:
  "\<exists>c' s'. CacheService (mem_cache_env\<lparr>cv_unmarshal := \<lambda>bs. Inr (CacheRequest_zero\<lparr>rq_Option := OPTION_DOWNLOAD,
       rq_AccountId := [1], rq_WantFile := ''f/s/g''\<rparr>)\<rparr>) mem_orders ()
       (mem_node\<lparr>ca_FileCache := [(''f/s/g'', ''/cache/g'')]\<rparr>) [''/cache/g'' \<mapsto> File [5, 6]]
     \<lparr>s_in = [RData [123]], s_out = \<lparr>wr_out = [], wr_script = []\<rparr>, s_reset = False, s_closed = False\<rparr> = Some (c', (), s') \<and>
     wr_out (s_out s') = [5, 6] \<and> credit_balance mem_credit_env (ca_creditMg c') ''01'' = (2, 0)"
proof -
  let ?req = "CacheRequest_zero\<lparr>rq_Option := OPTION_DOWNLOAD, rq_AccountId := [1], rq_WantFile := ''f/s/g''\<rparr>"
  let ?V = "mem_cache_env\<lparr>cv_unmarshal := \<lambda>bs. Inr ?req\<rparr>"
  let ?c = "mem_node\<lparr>ca_FileCache := [(''f/s/g'', ''/cache/g'')]\<rparr>"
  let ?s = "\<lparr>s_in = [RData [123]], s_out = \<lparr>wr_out = [], wr_script = []\<rparr>, s_reset = False, s_closed = False\<rparr>"
  have read: "ReadData [RData [123]] = Some ([123], None)"
    using ReadData_message [of "[]" "[123]" "[]"] by simp
  have bal: "credit_balance mem_credit_env mem_credit0 k = (0, 0)" for k
    by (simp add: credit_balance_def mem_empty RecordItem_zero_def)
  have acc: "ce_AddressHex mem_credit_env [1] = ''01''" by (simp add: mem_credit_env_def hex_01 del: hex_EncodeToString.simps)
  show ?thesis
    using download_delivers_and_charges [of ?V ?c ?s "[123]" ?req "''f''" "''s''" "''g''" "''/cache/g''"
      "[(''f/s/g'', ''/cache/g'')]" "[''/cache/g'' \<mapsto> File [5, 6]]" "[5, 6]" "[1]" "''01''" mem_orders "()" "''01''"]
    by (auto simp: read bal acc mem.credit_db_axioms mem_wf mem_node_def mem_file_cache_def plain_def CacheRequest_zero_def)
qed

text \<open>The information a node gives out never changes with its load or with the debts of the
  account that asks: in every state of the credit records that the node maintains the status is
  idle, whatever the number of requests, and the credit limit is the full resource limit.\<close>

theorem cache_info_constant:
  assumes "credit_db (cv_credit V)" and "credit_wf (cv_credit V) c0"
    and "(credit_step (cv_credit V) H)\<^sup>*\<^sup>* (c0, w0) (ca_creditMg c, w)"
    and "GetCacheInfo V c acc = (info, c')"
  shows "ci_Status info = CACHE_IDLE \<and> ci_CreditLimit info = cr_ResourceLimit (ca_creditMg c)"
  by (rule GetCacheInfo_wf [OF credit_db.wf_steps [OF assms(1,3,2)] assms(4)])

theorem cache_info_constant_witness:
  "ci_Status (fst (GetCacheInfo mem_cache_env (mem_node\<lparr>ca_reqNum := 1000000\<rparr>) ''01'')) = CACHE_IDLE"
proof -
  obtain info c' where i: "GetCacheInfo mem_cache_env (mem_node\<lparr>ca_reqNum := 1000000\<rparr>) ''01'' = (info, c')" by fastforce
  have "(credit_step (cv_credit mem_cache_env) mem_orders)\<^sup>*\<^sup>* (mem_credit0, ()) (ca_creditMg (mem_node\<lparr>ca_reqNum := 1000000\<rparr>), ())"
    by (simp add: mem_node_def)
  from cache_info_constant [OF _ _ this i] i show ?thesis by (simp add: mem.credit_db_axioms mem_wf)
qed

text \<open>C30: Receiving downloaded fragments credits their origins: after a batch that was received without a panic, every
  account has received one fragment size for each response whose origin it is and whose file the cache module took; responses whose file it
  refused and responses from the origin site credit nobody, and what the accounts sent stays as it was.\<close>

theorem responses_credit_origins:
  assumes "credit_db (cv_credit V)" and "receive_responses V c fs resps = Some (c', fs')"
  shows "credit_balance (cv_credit V) (ca_creditMg c') k =
    (fst (credit_balance (cv_credit V) (ca_creditMg c) k),
     snd (credit_balance (cv_credit V) (ca_creditMg c) k) + FragmentSize *
       word_of_nat (length (filter (\<lambda>r. dr_OriginNode r \<noteq> string_bytes ORIGIN_SITE_TAG \<and> hex_EncodeToString (dr_OriginNode r) = k)
         (moved (cv_cache V) (ca_FileCache c) fs resps))))"
  using assms(2)
proof (induction resps arbitrary: c fs)
  case (Cons r rs)
  obtain err fc fs1 evs where m: "fc_MoveFileToCache (cv_cache V) (ca_FileCache c) fs (dr_Key r) (dr_ResrcPath r) = (err, fc, fs1, evs)"
    by (metis prod_cases4)
  let ?c1 = "run_callbacks V (c\<lparr>ca_FileCache := fc\<rparr>) evs"
  have mv: "move_to_cache V c fs (dr_Key r) (dr_ResrcPath r) = (err, ?c1, fs1)" by (simp add: move_to_cache_def m)
  show ?case
  proof (cases "err = None \<and> dr_OriginNode r \<noteq> string_bytes ORIGIN_SITE_TAG")
    case False
    then show ?thesis using Cons.IH [of ?c1 fs1] Cons.prems m mv by (cases err) auto
  next
    case True
    then obtain cm' where a: "AddCreditPoint (cv_credit V) (ca_creditMg c) (hex_EncodeToString (dr_OriginNode r)) FragmentSize = Some cm'"
      and rest: "receive_responses V (?c1\<lparr>ca_creditMg := cm'\<rparr>) fs1 rs = Some (c', fs')"
      using Cons.prems mv by (auto split: option.splits)
    show ?thesis
      using Cons.IH [OF rest] credit_db.balance_AddCreditPoint [OF assms(1) a, of k] True m
      by (auto simp: ledger_post_def FragmentSize_def word_sless_alt algebra_simps)
  qed
qed simp

theorem responses_credit_origins_witness:
  "\<exists>c' fs'. receive_responses mem_cache_env mem_node [''/t/a'' \<mapsto> File [7]]
      [\<lparr>dr_ResrcPath = ''/t/a'', dr_Key = ''f/s/a'', dr_OriginNode = [1]\<rparr>, \<lparr>dr_ResrcPath = ''/t/b'', dr_Key = ''f/s/b'', dr_OriginNode = [1]\<rparr>] = Some (c', fs') \<and>
    credit_balance mem_credit_env (ca_creditMg c') ''01'' = (0, FragmentSize)"
proof -
  let ?rs = "[\<lparr>dr_ResrcPath = ''/t/a'', dr_Key = ''f/s/a'', dr_OriginNode = [1]\<rparr>, \<lparr>dr_ResrcPath = ''/t/b'', dr_Key = ''f/s/b'', dr_OriginNode = [1]\<rparr>]"
  let ?fs = "[''/t/a'' \<mapsto> File [7]]"
  obtain c' fs' where r: "receive_responses mem_cache_env mem_node ?fs ?rs = Some (c', fs')"
    by (simp add: move_to_cache_def mem_file_cache_def mem_node_def AddCreditPoint_def mem_empty RecordItem_zero_def
          credit_level_def uint64_div_def int64_rem_def LEVEL_UNTRUST_def FragmentSize_def word_sless_alt cdn_consts string_bytes_def
          split: prod.split)
  have cr: "credit_db (cv_credit mem_cache_env)" by (simp add: mem.credit_db_axioms)
  have "([1] :: bytes) \<noteq> string_bytes ORIGIN_SITE_TAG" by (simp add: cdn_consts string_bytes_def)
  then have "credit_balance mem_credit_env (ca_creditMg c') ''01'' = (0, FragmentSize)"
    using responses_credit_origins [OF cr r, of "''01''"]
    by (simp add: mem_node_def mem_file_cache_def credit_balance_def mem_empty RecordItem_zero_def hex_01 Let_def del: hex_EncodeToString.simps)
  then show ?thesis using r by blast
qed

end
