(* ===== verification/Resource_Actor.thy ===== *)
theory Resource_Actor
  imports Cache_Actor
begin

text \<open>
  \<open>cd2n-node/actors/resource_actor.go\<close>: the actor that fetches missing resources, from neighbouring
  cache nodes, from the storage network, or over HTTP, and hands them to the cache actor.

  The network state is \<open>'n\<close>, as in \<open>Cdn_Lib\<close>. The random numbers, HTTP, the content routing of
  libp2p, multihash and CID are parameters. A \<open>map\<close> that the code ranges over is the list of its
  entries in the order of the iteration. The concurrent query of the neighbours is a step relation
  of its own below, with the relation \<open>QuerySegmentFromNeighborCacher\<close> to its results. Which result a run has depends on the
  scheduler: in the download it is the function \<open>re_neighbors\<close>, \<open>None\<close> for a query that never returns, and
  \<open>queries_neighbors\<close> says that its values are results of the relation.
\<close>

section \<open>Data and parameters\<close>

record CacheStrategy =
  cs_MaxCachedSegmentNum :: int
  cs_AvgCachedSegmentNum :: int
  cs_MinCachedSegmentNum :: int
  cs_NeighborNum :: int

record ResourceActor =
  ra_Strategy :: CacheStrategy

record 'n resource_env =
  re_net :: "'n net_env"
  re_S :: storage_env
  re_neighbors :: "'n \<Rightarrow> string \<Rightarrow> string \<Rightarrow> ((string \<times> CacheResponse) list or_err \<times> 'n) option"
  re_Provide :: "'n \<Rightarrow> bytes \<Rightarrow> goerr option \<times> 'n"
  re_multihash :: "bytes \<Rightarrow> bytes or_err"
  re_NewCidV1 :: "bytes \<Rightarrow> bytes"
  re_http_Get :: "string \<Rightarrow> (bytes \<times> goerr option) or_err"
  re_TempDir :: string
  re_Intn :: "nat \<Rightarrow> nat"
  re_sha256 :: "bytes \<Rightarrow> bytes"

definition NewResourceActor :: "CacheStrategy \<Rightarrow> ResourceActor" where
  "NewResourceActor strategy =
     (let s1 = (if cs_MinCachedSegmentNum strategy = 0 then strategy\<lparr>cs_MinCachedSegmentNum := 3\<rparr> else strategy);
          s2 = (if cs_MaxCachedSegmentNum s1 = 0 then s1\<lparr>cs_MaxCachedSegmentNum := 16\<rparr> else s1);
          s3 = (if cs_AvgCachedSegmentNum s2 = 0 then s2\<lparr>cs_AvgCachedSegmentNum := 5\<rparr> else s2);
          s4 = (if cs_NeighborNum s3 = 0 then s3\<lparr>cs_NeighborNum := 64\<rparr> else s3)
      in \<lparr>ra_Strategy = s4\<rparr>)"

section \<open>Shuffling\<close>

definition swap_elems :: "'a list \<Rightarrow> nat \<Rightarrow> nat \<Rightarrow> 'a list" where
  "swap_elems xs i j = xs[i := xs ! j, j := xs ! i]"

text \<open>The loop at index \<open>i\<close>; \<open>rnd (i + 1)\<close> is the result of \<open>rand.Intn(i + 1)\<close>.\<close>

fun shuffle_from :: "(nat \<Rightarrow> nat) \<Rightarrow> nat \<Rightarrow> 'a list \<Rightarrow> 'a list" where
  "shuffle_from rnd 0 xs = xs"
| "shuffle_from rnd (Suc i) xs = shuffle_from rnd i (swap_elems xs (Suc i) (rnd (Suc i + 1)))"

definition ShuffleSegments :: "(nat \<Rightarrow> nat) \<Rightarrow> 'a list \<Rightarrow> 'a list" where
  "ShuffleSegments rnd segments = shuffle_from rnd (length segments - 1) segments"

section \<open>Fetching\<close>

definition hashToCid :: "'n resource_env \<Rightarrow> string \<Rightarrow> bytes or_err" where
  "hashToCid R hash =
     (case hex_DecodeString hash of
        Inl err \<Rightarrow> Inl err
      | Inr bs \<Rightarrow> (case re_multihash R bs of Inl err \<Rightarrow> Inl err | Inr mh \<Rightarrow> Inr (re_NewCidV1 R mh)))"

text \<open>Announcing a segment, written out twice in the code: the new value of \<open>provide\<close>.\<close>

definition try_provide :: "'n resource_env \<Rightarrow> 'n \<Rightarrow> bool \<Rightarrow> string \<Rightarrow> bool \<times> 'n" where
  "try_provide R n provide shash =
     (if provide then (True, n)
      else (case hashToCid R shash of
         Inl err \<Rightarrow> (False, n)
       | Inr cid \<Rightarrow> (case re_Provide R n cid of (Some err, n1) \<Rightarrow> (False, n1) | (None, n1) \<Rightarrow> (True, n1))))"

record 'n fetch_state =
  ft_count :: nat
  ft_provide :: bool
  ft_resps :: "DownloadResponse list"
  ft_fs :: fs
  ft_net :: 'n

text \<open>The files of one peer; \<open>cached\<close> are the fragments fetched so far.\<close>

fun shared_files ::
  "'n resource_env \<Rightarrow> bytes \<Rightarrow> string \<Rightarrow> string \<Rightarrow> string \<Rightarrow> bytes \<Rightarrow> string list \<times> 'n fetch_state \<Rightarrow> string list \<Rightarrow>
   (string list \<times> 'n fetch_state) option" where
  "shared_files R acc fhash shash peer account (cached, st) [] = Some (cached, st)"
| "shared_files R acc fhash shash peer account (cached, st) (file # files) =
     (if file \<in> set cached then shared_files R acc fhash shash peer account (cached, st) files
      else let fpath = path_Join [re_TempDir R, file] in
        case DownloadFileFromCache (re_net R) (se_io (re_S R)) (ft_net st) (ft_fs st) peer fpath
               (CacheRequest_zero\<lparr>rq_WantFile := path_Join [fhash, shash, file], rq_AccountId := acc\<rparr>) of
          None \<Rightarrow> None
        | Some (Some err, fs1, n1) \<Rightarrow>
            shared_files R acc fhash shash peer account (cached, st\<lparr>ft_fs := fs1, ft_net := n1\<rparr>) files
        | Some (None, fs1, n1) \<Rightarrow>
            (case try_provide R n1 (ft_provide st) shash of
               (provide, n2) \<Rightarrow>
                 shared_files R acc fhash shash peer account
                   (file # cached,
                    st\<lparr>ft_count := ft_count st + 1, ft_provide := provide, ft_fs := fs1, ft_net := n2,
                       ft_resps := ft_resps st @ [\<lparr>dr_ResrcPath = fpath, dr_Key = path_Join [fhash, shash, file],
                                                   dr_OriginNode = account\<rparr>]\<rparr>) files))"

fun shared_peers ::
  "'n resource_env \<Rightarrow> bytes \<Rightarrow> string \<Rightarrow> string \<Rightarrow> string list \<times> 'n fetch_state \<Rightarrow> (string \<times> CacheResponse) list \<Rightarrow>
   (string list \<times> 'n fetch_state) option" where
  "shared_peers R acc fhash shash st [] = Some st"
| "shared_peers R acc fhash shash (cached, st) ((peer, res) # peers) =
     (if rs_Status res = STATUS_LOADING then shared_peers R acc fhash shash (cached, st) peers
      else if ft_count st \<ge> se_DataShards (re_S R) then Some (cached, st)
      else (case shared_files R acc fhash shash peer (ci_Account (rs_Info res)) (cached, st) (rs_CachedFiles res) of
         None \<Rightarrow> None
       | Some st1 \<Rightarrow> shared_peers R acc fhash shash st1 peers))"

definition SharedSegmentFromNeighborCacher ::
  "'n resource_env \<Rightarrow> 'n \<Rightarrow> fs \<Rightarrow> bytes \<Rightarrow> string \<Rightarrow> SegmentInfo \<Rightarrow> (string \<times> CacheResponse) list \<Rightarrow>
   (DownloadResponse list \<times> fs \<times> 'n) option" where
  "SharedSegmentFromNeighborCacher R n fs acc fhash segment peers =
     map_option (\<lambda>(cached, st). (ft_resps st, ft_fs st, ft_net st))
       (shared_peers R acc fhash (sg_Hash segment)
          ([], \<lparr>ft_count = 0, ft_provide = False, ft_resps = [], ft_fs = fs, ft_net = n\<rparr>) peers)"

text \<open>The loop over the fragments of a segment in the storage network.\<close>

fun storage_fragments ::
  "'n resource_env \<Rightarrow> string \<Rightarrow> string \<Rightarrow> 'n fetch_state \<Rightarrow> FragmentInfo list \<Rightarrow> 'n fetch_state" where
  "storage_fragments R fhash shash st [] = st"
| "storage_fragments R fhash shash st (fragment # rest) =
     (if ft_count st \<ge> se_DataShards (re_S R) then st
      else (case se_QueryMiner (re_S R) (fg_Miner fragment) of
         Inl err \<Rightarrow> storage_fragments R fhash shash st rest
       | Inr peer \<Rightarrow>
           (let hash = fg_Hash fragment; fpath = path_Join [re_TempDir R, hash] in
            case se_ReadDataAction (re_S R) peer hash fpath (ft_fs st) of
              (fs1, Some err) \<Rightarrow> storage_fragments R fhash shash (st\<lparr>ft_fs := fs1\<rparr>) rest
            | (fs1, None) \<Rightarrow>
                (case try_provide R (ft_net st) (ft_provide st) shash of
                   (provide, n2) \<Rightarrow>
                     storage_fragments R fhash shash
                       (st\<lparr>ft_count := ft_count st + 1, ft_provide := provide, ft_fs := fs1, ft_net := n2,
                          ft_resps := ft_resps st @ [\<lparr>dr_ResrcPath = fpath, dr_Key = path_Join [fhash, shash, hash],
                                                      dr_OriginNode = string_bytes ORIGIN_SITE_TAG\<rparr>]\<rparr>) rest))))"

text \<open>The loop over the segments; the variables are \<open>num\<close>, \<open>done\<close> and those of the fetch state.\<close>

fun storaged_segments ::
  "'n resource_env \<Rightarrow> CacheStrategy \<Rightarrow> bytes \<Rightarrow> string \<Rightarrow> string \<Rightarrow> int \<Rightarrow> int \<Rightarrow> bool \<Rightarrow> 'n fetch_state \<Rightarrow>
   SegmentInfo list \<Rightarrow> (int \<times> 'n fetch_state) option" where
  "storaged_segments R cs acc fhash shash cacheNum num found st [] = Some (num, st)"
| "storaged_segments R cs acc fhash shash cacheNum num found st (segment # rest) =
     (if num \<ge> cacheNum then Some (num, st)
      else let found1 = (found \<or> sg_Hash segment = shash) in
        if \<not> found1 \<and> num \<ge> cacheNum - 1
        then storaged_segments R cs acc fhash shash cacheNum num found1 st rest
        else let download = (\<lambda>st. storaged_segments R cs acc fhash shash cacheNum (num + 1) found1
                   (storage_fragments R fhash shash (st\<lparr>ft_count := 0\<rparr>) (sg_FragmentList segment)) rest)
          in case re_neighbors R (ft_net st) fhash (sg_Hash segment) of
               None \<Rightarrow> None
             | Some (Inl err, n1) \<Rightarrow> download (st\<lparr>ft_net := n1\<rparr>)
             | Some (Inr peers, n1) \<Rightarrow>
                 (if int (length peers) \<ge> cs_AvgCachedSegmentNum cs
                  then storaged_segments R cs acc fhash shash cacheNum num found1 (st\<lparr>ft_net := n1\<rparr>) rest
                  else (case SharedSegmentFromNeighborCacher R n1 (ft_fs st) acc fhash segment peers of
                     None \<Rightarrow> None
                   | Some (resp, fs1, n2) \<Rightarrow>
                       (let st1 = st\<lparr>ft_fs := fs1, ft_net := n2\<rparr> in
                        if resp \<noteq> []
                        then storaged_segments R cs acc fhash shash cacheNum (num + 1) found1
                               (st1\<lparr>ft_resps := ft_resps st @ resp\<rparr>) rest
                        else download st1))))"

definition cache_num :: "CacheStrategy \<Rightarrow> nat \<Rightarrow> int option" where
  "cache_num cs segments =
     (if cs_NeighborNum cs = 0 then None
      else let n = cs_MinCachedSegmentNum cs + int segments sdiv cs_NeighborNum cs
           in Some (if n > cs_MaxCachedSegmentNum cs then cs_MaxCachedSegmentNum cs else n))"

definition DownloadStoragedFiles ::
  "'n resource_env \<Rightarrow> ResourceActor \<Rightarrow> 'n \<Rightarrow> fs \<Rightarrow> bytes \<Rightarrow> string \<Rightarrow> string \<Rightarrow>
   (DownloadResponse list or_err \<times> fs \<times> 'n) option" where
  "DownloadStoragedFiles R ra n fs acc fhash shash =
     (case se_QueryFile (re_S R) fhash of
        Inl err \<Rightarrow> Some (Inl (Wrapped ''download fragments from storager error'' err), fs, n)
      | Inr fmeta \<Rightarrow>
          (case cache_num (ra_Strategy ra) (length (fm_SegmentList fmeta)) of
             None \<Rightarrow> None
           | Some cacheNum \<Rightarrow>
               map_option (\<lambda>(num, st). (Inr (ft_resps st), ft_fs st, ft_net st))
                 (storaged_segments R (ra_Strategy ra) acc fhash shash cacheNum 0 False
                    \<lparr>ft_count = 0, ft_provide = False, ft_resps = [], ft_fs = fs, ft_net = n\<rparr>
                    (ShuffleSegments (re_Intn R) (fm_SegmentList fmeta)))))"

section \<open>Messages\<close>

text \<open>The bytes copied so far stay in the file when the copy fails.\<close>

definition downloadfile :: "'n resource_env \<Rightarrow> fs \<Rightarrow> string \<Rightarrow> string \<Rightarrow> (nat \<times> goerr option) \<times> fs" where
  "downloadfile R fs url fpath =
     (let msg = ''download resource by http error'' in
      case re_http_Get R url of
        Inl err \<Rightarrow> ((0, Some (Wrapped msg err)), fs)
      | Inr (body, copyErr) \<Rightarrow>
          (case os_Create (se_io (re_S R)) fs fpath of
             (fs1, Some err) \<Rightarrow> ((0, Some (Wrapped msg err)), fs1)
           | (fs1, None) \<Rightarrow>
               (case copyErr of
                  Some err \<Rightarrow> ((0, Some (Wrapped msg err)), fs1(fpath \<mapsto> File body))
                | None \<Rightarrow> ((length body, None), fs1(fpath \<mapsto> File body)))))"

text \<open>The message sent to the cache actor, if any; \<open>ready\<close> tells whether that actor is registered.\<close>

definition Resource_Receive ::
  "'n resource_env \<Rightarrow> ResourceActor \<Rightarrow> bool \<Rightarrow> 'n \<Rightarrow> fs \<Rightarrow> DownloadRequest option \<Rightarrow>
   (cache_msg option \<times> fs \<times> 'n) option" where
  "Resource_Receive R ra ready n fs message =
     (case message of
        None \<Rightarrow> Some (None, fs, n)
      | Some req \<Rightarrow>
          (if \<not> ready then Some (None, fs, n)
           else if dq_Option req = NODE_RESOURCE_CACHE then
             (case dq_Data req of
                None \<Rightarrow> Some (None, fs, n)
              | Some creq \<Rightarrow>
                  (let hashs = split_on (CHR ''/'') (rq_WantFile creq) in
                   if length hashs \<noteq> 2 then Some (None, fs, n)
                   else (case DownloadStoragedFiles R ra n fs (rq_AccountId creq) (hashs ! 0) (hashs ! 1) of
                      None \<Rightarrow> None
                    | Some (Inl err, fs1, n1) \<Rightarrow> Some (Some (MsgDownloadResponses []), fs1, n1)
                    | Some (Inr resp, fs1, n1) \<Rightarrow> Some (Some (MsgDownloadResponses resp), fs1, n1))))
           else if dq_Option req = SITE_RESOURCE_CACHE then
             (case dq_Data req of
                None \<Rightarrow> Some (None, fs, n)
              | Some creq \<Rightarrow>
                  (let hash = GetSha256Hash (re_sha256 R) (string_bytes (rq_WantUrl creq));
                       fpath = path_Join [re_TempDir R, hash]
                   in case downloadfile R fs (rq_WantUrl creq) fpath of
                        ((len, Some err), fs1) \<Rightarrow> Some (None, fs1, n)
                      | ((len, None), fs1) \<Rightarrow>
                          Some (Some (MsgDownloadResponse \<lparr>dr_ResrcPath = fpath, dr_Key = rq_WantUrl creq,
                                       dr_OriginNode = string_bytes ORIGIN_SITE_TAG\<rparr>), fs1, n)))
           else Some (None, fs, n)))"

section \<open>The query of the neighbours\<close>

text \<open>How many peers are asked and by how many workers; \<open>None\<close> if there is no neighbour.\<close>

definition query_sizes :: "CacheStrategy \<Rightarrow> int \<Rightarrow> (int \<times> int) option" where
  "query_sizes cs peersNumber =
     (let peerNum = peersNumber - 1 in
      if peerNum \<le> 0 then None
      else let third = cs_NeighborNum cs sdiv 3;
               peerNum1 = (if peerNum > third then cs_NeighborNum cs else peerNum);
               threadNum = (if peerNum1 < third then peerNum1 else third)
           in Some (peerNum1, if threadNum \<le> 0 then 1 else threadNum))"

text \<open>
  The goroutines: the provider with the peers it still has to send (\<open>None\<close> once it closed the
  channel and returned), the buffered channel, the workers, and the result map. A worker waits for
  a peer, holds one, or has returned. \<open>answer\<close> is what connecting to a peer and querying it gives,
  \<open>None\<close> for a failure; the locked section of a worker is one step.
\<close>

datatype worker = Waiting | Holding string | Returned

record query_state =
  qs_provider :: "string list option"
  qs_chan :: "string list"
  qs_workers :: "worker list"
  qs_found :: "string \<rightharpoonup> CacheResponse"

definition query_init :: "nat \<Rightarrow> string list \<Rightarrow> query_state" where
  "query_init threads peers =
     \<lparr>qs_provider = Some peers, qs_chan = [], qs_workers = replicate threads Waiting, qs_found = Map.empty\<rparr>"

definition is_hit :: "CacheResponse \<Rightarrow> bool" where
  "is_hit resp \<longleftrightarrow> rs_Status resp = STATUS_HIT \<or> rs_Status resp = STATUS_LOADING"

definition is_hit_answer :: "CacheResponse option \<Rightarrow> bool" where
  "is_hit_answer a = (case a of None \<Rightarrow> False | Some resp \<Rightarrow> is_hit resp)"

inductive query_step ::
  "nat \<Rightarrow> nat \<Rightarrow> (string \<Rightarrow> CacheResponse option) \<Rightarrow> query_state \<Rightarrow> query_state \<Rightarrow> bool"
  for avg :: nat and cap :: nat and answer :: "string \<Rightarrow> CacheResponse option" where
  q_send: "qs_provider s = Some (p # ps) \<Longrightarrow> length (qs_chan s) < cap \<Longrightarrow>
     query_step avg cap answer s (s\<lparr>qs_provider := Some ps, qs_chan := qs_chan s @ [p]\<rparr>)"
| q_close: "qs_provider s = Some [] \<Longrightarrow> query_step avg cap answer s (s\<lparr>qs_provider := None\<rparr>)"
| q_take: "i < length (qs_workers s) \<Longrightarrow> qs_workers s ! i = Waiting \<Longrightarrow> qs_chan s = p # ch \<Longrightarrow>
     query_step avg cap answer s (s\<lparr>qs_chan := ch, qs_workers := (qs_workers s)[i := Holding p]\<rparr>)"
| q_miss: "i < length (qs_workers s) \<Longrightarrow> qs_workers s ! i = Holding p \<Longrightarrow> \<not> is_hit_answer (answer p) \<Longrightarrow>
     query_step avg cap answer s (s\<lparr>qs_workers := (qs_workers s)[i := Waiting]\<rparr>)"
| q_full: "i < length (qs_workers s) \<Longrightarrow> qs_workers s ! i = Holding p \<Longrightarrow> is_hit_answer (answer p) \<Longrightarrow>
     avg \<le> card (dom (qs_found s)) \<Longrightarrow>
     query_step avg cap answer s (s\<lparr>qs_workers := (qs_workers s)[i := Returned]\<rparr>)"
| q_found: "i < length (qs_workers s) \<Longrightarrow> qs_workers s ! i = Holding p \<Longrightarrow> answer p = Some resp \<Longrightarrow> is_hit resp \<Longrightarrow>
     card (dom (qs_found s)) < avg \<Longrightarrow>
     query_step avg cap answer s
       (s\<lparr>qs_workers := (qs_workers s)[i := Waiting], qs_found := (qs_found s)(p \<mapsto> resp)\<rparr>)"
| q_end: "i < length (qs_workers s) \<Longrightarrow> qs_workers s ! i = Waiting \<Longrightarrow> qs_chan s = [] \<Longrightarrow> qs_provider s = None \<Longrightarrow>
     query_step avg cap answer s (s\<lparr>qs_workers := (qs_workers s)[i := Returned]\<rparr>)"

text \<open>\<open>wg.Wait()\<close> returns when the provider and all workers have returned.\<close>

definition query_finished :: "query_state \<Rightarrow> bool" where
  "query_finished s \<longleftrightarrow> qs_provider s = None \<and> (\<forall>x \<in> set (qs_workers s). x = Returned)"

text \<open>
  The whole query: an error when there is no neighbour or the selector has no iterator, otherwise the result map of a run that
  has finished. \<open>providers\<close> are the peers found for the segment, which are asked before those of the iterator.
\<close>

inductive QuerySegmentFromNeighborCacher ::
  "CacheStrategy \<Rightarrow> int \<Rightarrow> (int \<Rightarrow> string list or_err) \<Rightarrow> string list \<Rightarrow> (string \<Rightarrow> CacheResponse option) \<Rightarrow>
   (string \<rightharpoonup> CacheResponse) or_err \<Rightarrow> bool"
  for cs :: CacheStrategy and peersNumber :: int and iter :: "int \<Rightarrow> string list or_err" and providers :: "string list"
    and answer :: "string \<Rightarrow> CacheResponse option" where
  neighbors_none: "query_sizes cs peersNumber = None \<Longrightarrow>
     QuerySegmentFromNeighborCacher cs peersNumber iter providers answer (Inl (Errorf ''no neighbor cache node''))"
| neighbors_error: "query_sizes cs peersNumber = Some (peerNum, threadNum) \<Longrightarrow> iter peerNum = Inl err \<Longrightarrow>
     QuerySegmentFromNeighborCacher cs peersNumber iter providers answer (Inl err)"
| neighbors_found: "query_sizes cs peersNumber = Some (peerNum, threadNum) \<Longrightarrow> iter peerNum = Inr peers \<Longrightarrow>
     (query_step (nat (cs_AvgCachedSegmentNum cs)) (nat threadNum) answer)\<^sup>*\<^sup>* (query_init (nat threadNum) (providers @ peers)) s \<Longrightarrow>
     query_finished s \<Longrightarrow> QuerySegmentFromNeighborCacher cs peersNumber iter providers answer (Inr (qs_found s))"

text \<open>
  The query that the download makes: where \<open>re_neighbors\<close> returns, it returns a result of the query, the map as the list of its
  entries; \<open>peersNumber\<close>, \<open>iter\<close>, \<open>providers\<close> and \<open>answer\<close> are what the selector and the network say in a state.
\<close>

definition query_outcome :: "(string \<times> CacheResponse) list or_err \<Rightarrow> (string \<rightharpoonup> CacheResponse) or_err" where
  "query_outcome r = (case r of Inl err \<Rightarrow> Inl err | Inr l \<Rightarrow> Inr (map_of l))"

definition queries_neighbors ::
  "CacheStrategy \<Rightarrow> 'n resource_env \<Rightarrow> ('n \<Rightarrow> int) \<Rightarrow> ('n \<Rightarrow> int \<Rightarrow> string list or_err) \<Rightarrow> ('n \<Rightarrow> string \<Rightarrow> string list) \<Rightarrow>
   ('n \<Rightarrow> string \<Rightarrow> string \<Rightarrow> string \<Rightarrow> CacheResponse option) \<Rightarrow> bool" where
  "queries_neighbors cs R peersNumber iter providers answer \<longleftrightarrow>
     (\<forall>n f s r n1. re_neighbors R n f s = Some (r, n1) \<longrightarrow>
        QuerySegmentFromNeighborCacher cs (peersNumber n) (iter n) (providers n s) (answer n f s) (query_outcome r))"

inductive_cases query_stepE: "query_step avg cap answer s s'"


section \<open>Laws of the query\<close>

text \<open>The peers that workers hold, how many workers have returned, and the peers still in play.\<close>

fun held :: "worker list \<Rightarrow> string list" where
  "held [] = []"
| "held (Holding p # ws) = p # held ws"
| "held (Waiting # ws) = held ws"
| "held (Returned # ws) = held ws"

definition returned :: "worker list \<Rightarrow> nat" where
  "returned ws = length (filter (\<lambda>x. x = Returned) ws)"

definition to_send :: "query_state \<Rightarrow> string list" where
  "to_send s = (case qs_provider s of None \<Rightarrow> [] | Some ps \<Rightarrow> ps)"

definition in_play :: "query_state \<Rightarrow> string multiset" where
  "in_play s = mset (to_send s) + mset (qs_chan s) + mset (held (qs_workers s)) + mset_set (dom (qs_found s))"

definition query_measure :: "query_state \<Rightarrow> nat" where
  "query_measure s = 4 * length (to_send s) + 3 * length (qs_chan s) + 2 * length (held (qs_workers s)) +
     (length (qs_workers s) - returned (qs_workers s)) + (if qs_provider s = None then 0 else 1)"

lemma held_append [simp]: "held (xs @ ys) = held xs @ held ys"
  by (induction xs rule: held.induct) auto

lemma held_none: "\<forall>x \<in> set ws. x = Returned \<Longrightarrow> held ws = []"
  by (induction ws rule: held.induct) auto

lemma returned_append [simp]: "returned (xs @ ys) = returned xs + returned ys"
  by (simp add: returned_def)

lemma returned_Cons [simp]: "returned (x # xs) = (if x = Returned then 1 else 0) + returned xs"
  by (simp add: returned_def)

lemma returned_le: "returned ws + length (held ws) \<le> length ws"
  by (induction ws rule: held.induct) (auto simp: returned_def)

text \<open>Updating one worker.\<close>

lemma worker_split:
  assumes "i < length ws"
  obtains xs ys where "ws = xs @ ws ! i # ys" "\<And>x. ws[i := x] = xs @ x # ys"
  using that [of "take i ws" "drop (Suc i) ws"] assms
  by (simp add: id_take_nth_drop [symmetric] upd_conv_take_nth_drop)

lemma worker_upd:
  assumes "i < length ws"
  shows "mset (held (ws[i := x])) + mset (held [ws ! i]) = mset (held ws) + mset (held [x])"
    and "returned (ws[i := x]) + returned [ws ! i] = returned ws + returned [x]"
proof -
  obtain xs ys where s: "ws = xs @ ws ! i # ys" "\<And>x. ws[i := x] = xs @ x # ys"
    using worker_split [OF assms] by metis
  have h: "mset (held (y # ys)) = mset (held [y]) + mset (held ys)" for y by (cases y) auto
  show "mset (held (ws[i := x])) + mset (held [ws ! i]) = mset (held ws) + mset (held [x])"
    by (subst (2) s(1)) (simp only: s(2) held_append mset_append h, simp add: ac_simps)
  show "returned (ws[i := x]) + returned [ws ! i] = returned ws + returned [x]"
    by (subst (2) s(1)) (simp add: s(2))
qed

lemma returned_keep [simp]:
  "i < length ws \<Longrightarrow> ws ! i \<noteq> Returned \<Longrightarrow> x \<noteq> Returned \<Longrightarrow> returned (ws[i := x]) = returned ws"
  using worker_upd(2) [of i ws x] by (simp add: returned_def)

lemmas held_upd = worker_upd(1) and returned_upd = worker_upd(2)

text \<open>What every step keeps: the shape, and that found entries are answers that are hits.\<close>

definition query_inv :: "nat \<Rightarrow> nat \<Rightarrow> nat \<Rightarrow> (string \<Rightarrow> CacheResponse option) \<Rightarrow> string list \<Rightarrow> query_state \<Rightarrow> bool" where
  "query_inv avg cap threads answer peers s \<longleftrightarrow>
     length (qs_workers s) = threads \<and> length (qs_chan s) \<le> cap \<and> finite (dom (qs_found s)) \<and>
     card (dom (qs_found s)) \<le> avg \<and> in_play s \<subseteq># mset peers \<and>
     (\<forall>p resp. qs_found s p = Some resp \<longrightarrow> answer p = Some resp \<and> is_hit resp)"

lemma query_inv_init: "query_inv avg cap threads answer peers (query_init threads peers)"
proof -
  have "held (replicate threads Waiting) = []" by (induction threads) auto
  then show ?thesis by (simp add: query_inv_def query_init_def in_play_def to_send_def)
qed

lemma held_not_found:
  assumes "in_play s \<subseteq># mset peers" and "distinct peers" and "finite (dom (qs_found s))"
    and "i < length (qs_workers s)" and "qs_workers s ! i = Holding p"
  shows "p \<notin> dom (qs_found s)"
proof
  assume d: "p \<in> dom (qs_found s)"
  have "p \<in># mset (held (qs_workers s))"
    using held_upd [OF assms(4), of Waiting] assms(5)
    by (metis add_mset_add_single held.simps(1,2,3) mset.simps(1,2) union_single_eq_member add.right_neutral)
  then have "0 < Multiset.count (mset (held (qs_workers s))) p" by (simp only: count_greater_zero_iff)
  then obtain k where "Multiset.count (mset (held (qs_workers s))) p = Suc k" by (metis gr0_implies_Suc)
  then have "2 \<le> Multiset.count (in_play s) p"
    using d assms(3) by (simp add: in_play_def)
  moreover have "Multiset.count (mset peers) p \<le> 1" using assms(2) by (simp add: distinct_count_atmost_1)
  ultimately show False using assms(1) by (metis mset_subset_eq_count order.trans numeral_le_one_iff semiring_norm(69))
qed

text \<open>How a step changes the peers in play: a miss and a full result map lose the peer at hand.\<close>

lemma in_play_step:
  assumes "query_step avg cap answer s s'" and "query_inv avg cap threads answer peers s" and "distinct peers"
  shows "in_play s' = in_play s \<and> returned (qs_workers s) \<le> returned (qs_workers s') \<or>
    (\<exists>p. in_play s = add_mset p (in_play s') \<and> \<not> is_hit_answer (answer p) \<and> returned (qs_workers s) \<le> returned (qs_workers s')) \<or>
    (\<exists>p. in_play s = add_mset p (in_play s') \<and> is_hit_answer (answer p) \<and> avg \<le> card (dom (qs_found s)) \<and>
       p \<notin> dom (qs_found s) \<and> Suc (returned (qs_workers s)) \<le> returned (qs_workers s'))"
  using assms(1)
proof (cases rule: query_step.cases)
  case (q_take i p ch)
  then show ?thesis
    using held_upd [of i "qs_workers s" "Holding p"] returned_upd [of i "qs_workers s" "Holding p"]
    by (auto simp: in_play_def to_send_def)
next
  case (q_miss i p)
  then show ?thesis
    using held_upd [of i "qs_workers s" Waiting] returned_upd [of i "qs_workers s" Waiting]
    by (intro disjI2 disjI1 exI [of _ p]) (auto simp: in_play_def to_send_def)
next
  case (q_full i p)
  then show ?thesis
    using held_upd [of i "qs_workers s" Returned] returned_upd [of i "qs_workers s" Returned]
      held_not_found [of s peers i p] assms(2,3)
    by (intro disjI2 exI [of _ p]) (auto simp: in_play_def to_send_def query_inv_def)
next
  case (q_found i p resp)
  have "p \<notin> dom (qs_found s)" "finite (dom (qs_found s))"
    using held_not_found [of s peers i p] assms(2,3) q_found by (auto simp: query_inv_def)
  then show ?thesis
    using q_found held_upd [of i "qs_workers s" Waiting] returned_upd [of i "qs_workers s" Waiting]
    by (auto simp: in_play_def to_send_def)
next
  case (q_end i)
  then show ?thesis
    using held_upd [of i "qs_workers s" Returned] returned_upd [of i "qs_workers s" Returned]
    by (auto simp: in_play_def to_send_def)
qed (auto simp: in_play_def to_send_def)

lemma query_inv_step:
  assumes "query_step avg cap answer s s'" and "query_inv avg cap threads answer peers s" and "distinct peers"
  shows "query_inv avg cap threads answer peers s'"
proof -
  have "in_play s' \<subseteq># in_play s" using in_play_step [OF assms] by auto
  then have "in_play s' \<subseteq># mset peers" using assms(2) unfolding query_inv_def by (metis subset_mset.order_trans)
  with assms(1) show ?thesis
    using assms(2)
    by (cases rule: query_step.cases) (auto simp: query_inv_def card_insert_if split: if_splits)
qed

lemma query_inv_reachable:
  "(query_step avg cap answer)\<^sup>*\<^sup>* (query_init threads peers) s \<Longrightarrow> distinct peers \<Longrightarrow>
   query_inv avg cap threads answer peers s"
  by (induction rule: rtranclp_induct) (auto intro: query_inv_init query_inv_step)

text \<open>Also with peers that occur twice: the result is bounded, genuine and about the peers that were given.\<close>

definition genuine_inv :: "nat \<Rightarrow> (string \<Rightarrow> CacheResponse option) \<Rightarrow> string set \<Rightarrow> query_state \<Rightarrow> bool" where
  "genuine_inv avg answer peers s \<longleftrightarrow>
     set (to_send s) \<subseteq> peers \<and> set (qs_chan s) \<subseteq> peers \<and> (\<forall>p. Holding p \<in> set (qs_workers s) \<longrightarrow> p \<in> peers) \<and> dom (qs_found s) \<subseteq> peers \<and>
     finite (dom (qs_found s)) \<and> card (dom (qs_found s)) \<le> avg \<and>
     (\<forall>p resp. qs_found s p = Some resp \<longrightarrow> answer p = Some resp \<and> is_hit resp)"

lemma holding_upd: "Holding p \<in> set (ws[i := x]) \<Longrightarrow> x = Holding p \<or> Holding p \<in> set ws"
  using set_update_subset_insert by fastforce

lemma genuine_inv_step:
  assumes "query_step avg cap answer s s'" and "genuine_inv avg answer peers s"
  shows "genuine_inv avg answer peers s'"
  using assms
proof (cases rule: query_step.cases)
  case (q_found i p resp)
  then have "p \<in> peers" using assms(2) nth_mem [of i "qs_workers s"] by (auto simp: genuine_inv_def)
  then show ?thesis
    using q_found assms(2) by (auto simp: genuine_inv_def to_send_def card_insert_if dest: holding_upd)
qed (auto simp: genuine_inv_def to_send_def dest: holding_upd)

lemma genuine_inv_reachable:
  "(query_step avg cap answer)\<^sup>*\<^sup>* (query_init threads ps) s \<Longrightarrow> set ps \<subseteq> peers \<Longrightarrow> genuine_inv avg answer peers s"
proof (induction rule: rtranclp_induct)
  case base
  then show ?case by (auto simp: genuine_inv_def query_init_def to_send_def)
qed (blast intro: genuine_inv_step)

text \<open>If every peer is a hit, a peer leaves play only when a worker returns.\<close>

lemma all_hits_reachable:
  assumes "(query_step avg cap answer)\<^sup>*\<^sup>* (query_init threads peers) s" and "distinct peers"
    and "\<forall>p \<in> set peers. is_hit_answer (answer p)"
  shows "length peers \<le> size (in_play s) + returned (qs_workers s)"
  using assms(1)
proof (induction rule: rtranclp_induct)
  case base
  have "in_play (query_init threads peers) \<subseteq># mset peers"
    using query_inv_init unfolding query_inv_def by blast
  moreover have "mset peers \<subseteq># in_play (query_init threads peers)"
    by (simp add: query_init_def in_play_def to_send_def)
  ultimately show ?case by (metis size_mset subset_mset.order_antisym le_add1)
next
  case (step s s')
  have inv: "query_inv avg cap threads answer peers s" by (rule query_inv_reachable [OF step.hyps(1) assms(2)])
  have "p \<in># in_play s \<Longrightarrow> is_hit_answer (answer p)" for p
    using inv assms(3) unfolding query_inv_def by (metis mset_subset_eqD set_mset_mset)
  then show ?case
    using in_play_step [OF step.hyps(2) inv assms(2)] step.IH by (auto simp: size_add_mset)
qed

text \<open>The measure: there is no infinite run.\<close>

lemma query_step_measure:
  assumes "query_step avg cap answer s s'"
  shows "query_measure s' < query_measure s"
  using assms
proof (cases rule: query_step.cases)
  case (q_take i p ch)
  then show ?thesis
    using arg_cong [OF held_upd [of i "qs_workers s" "Holding p"], of size] returned_upd [of i "qs_workers s" "Holding p"]
    by (simp add: query_measure_def to_send_def)
next
  case (q_miss i p)
  then show ?thesis
    using arg_cong [OF held_upd [of i "qs_workers s" Waiting], of size] returned_upd [of i "qs_workers s" Waiting]
    by (simp add: query_measure_def to_send_def)
next
  case (q_full i p)
  then show ?thesis
    using arg_cong [OF held_upd [of i "qs_workers s" Returned], of size] returned_upd [of i "qs_workers s" Returned]
    by (simp add: query_measure_def to_send_def)
next
  case (q_found i p resp)
  then show ?thesis
    using arg_cong [OF held_upd [of i "qs_workers s" Waiting], of size] returned_upd [of i "qs_workers s" Waiting]
    by (simp add: query_measure_def to_send_def)
next
  case (q_end i)
  then show ?thesis
    using arg_cong [OF held_upd [of i "qs_workers s" Returned], of size] returned_upd [of i "qs_workers s" Returned]
      returned_le [of "(qs_workers s)[i := Returned]"]
    by (simp add: query_measure_def to_send_def)
qed (auto simp: query_measure_def to_send_def)

text \<open>With few hits no worker returns early.\<close>

definition few_inv :: "(string \<Rightarrow> CacheResponse option) \<Rightarrow> string list \<Rightarrow> query_state \<Rightarrow> bool" where
  "few_inv answer peers s \<longleftrightarrow>
     filter_mset (\<lambda>p. is_hit_answer (answer p)) (in_play s) = filter_mset (\<lambda>p. is_hit_answer (answer p)) (mset peers) \<and>
     (0 < returned (qs_workers s) \<longrightarrow> qs_provider s = None \<and> qs_chan s = [])"

lemma few_hits_not_full:
  assumes "query_inv avg cap threads answer peers s" and "in_play s = add_mset p m" and "is_hit_answer (answer p)"
    and "p \<notin> dom (qs_found s)" and "few_inv answer peers s" and "length (filter (\<lambda>p. is_hit_answer (answer p)) peers) \<le> avg"
  shows "card (dom (qs_found s)) < avg"
proof -
  let ?h = "\<lambda>p. is_hit_answer (answer p)" and ?D = "dom (qs_found s)"
  have fin: "finite ?D" and hits: "\<forall>q \<in> ?D. ?h q"
    using assms(1) by (auto simp: query_inv_def is_hit_answer_def)
  then have D: "{q \<in> ?D. ?h q} = ?D" by blast
  have "mset_set ?D \<subseteq># in_play s" by (simp add: in_play_def)
  moreover have "p \<notin># mset_set ?D" using assms(4) fin by simp
  ultimately have "add_mset p (mset_set ?D) \<subseteq># in_play s"
    using assms(2) by (metis insert_subset_eq_iff add_mset_remove_trivial diff_single_trivial subset_eq_diff_conv union_single_eq_member add.commute add_mset_add_single)
  then have "filter_mset ?h (add_mset p (mset_set ?D)) \<subseteq># filter_mset ?h (in_play s)" by (rule multiset_filter_mono)
  moreover have "filter_mset ?h (add_mset p (mset_set ?D)) = add_mset p (mset_set ?D)"
    using assms(3) D fin by simp
  ultimately have "size (add_mset p (mset_set ?D)) \<le> size (filter_mset ?h (in_play s))" by (metis size_mset_mono)
  also have "\<dots> = length (filter ?h peers)" using assms(5) by (simp add: few_inv_def flip: mset_filter)
  finally show ?thesis using assms(6) by simp
qed

lemma few_inv_reachable:
  assumes "(query_step avg cap answer)\<^sup>*\<^sup>* (query_init threads peers) s" and "distinct peers"
    and "length (filter (\<lambda>p. is_hit_answer (answer p)) peers) \<le> avg"
  shows "few_inv answer peers s"
  using assms(1)
proof (induction rule: rtranclp_induct)
  case base
  have "held (replicate threads Waiting) = []" "returned (replicate threads Waiting) = 0"
    by (induction threads) (auto simp: returned_def)
  then show ?case by (simp add: few_inv_def query_init_def in_play_def to_send_def)
next
  case (step s s')
  have inv: "query_inv avg cap threads answer peers s" by (rule query_inv_reachable [OF step.hyps(1) assms(2)])
  have not_full: "\<not> (in_play s = add_mset p m \<and> is_hit_answer (answer p) \<and> avg \<le> card (dom (qs_found s)) \<and> p \<notin> dom (qs_found s))" for p m
    using few_hits_not_full [OF inv _ _ _ step.IH assms(3)] by fastforce
  have "filter_mset (\<lambda>p. is_hit_answer (answer p)) (in_play s') = filter_mset (\<lambda>p. is_hit_answer (answer p)) (in_play s)"
    using in_play_step [OF step.hyps(2) inv assms(2)] not_full by auto
  moreover have "0 < returned (qs_workers s') \<longrightarrow> qs_provider s' = None \<and> qs_chan s' = []"
    using step.hyps(2)
  proof (cases rule: query_step.cases)
    case (q_full i p)
    then have "in_play s = add_mset p (in_play s')"
      using held_upd [of i "qs_workers s" Returned] by (auto simp: in_play_def to_send_def)
    then show ?thesis
      using not_full [of p "in_play s'"] q_full held_not_found [of s peers i p] inv assms(2)
      by (auto simp: query_inv_def)
  qed (use step.IH in \<open>auto simp: few_inv_def\<close>)
  ultimately show ?case using step.IH by (simp add: few_inv_def)
qed

lemma query_progress:
  assumes "query_inv avg cap threads answer peers s" and "few_inv answer peers s" and "0 < cap" and "0 < threads"
    and "\<not> query_finished s"
  shows "\<exists>s'. query_step avg cap answer s s'"
proof -
  have hold: ?thesis if "i < length (qs_workers s)" "qs_workers s ! i = Holding p" for i p
  proof (cases "is_hit_answer (answer p)")
    case True
    then obtain resp where "answer p = Some resp" "is_hit resp" by (auto simp: is_hit_answer_def split: option.splits)
    then show ?thesis
      using that True q_full [of i s p answer avg] q_found [of i s p answer resp avg] by (meson not_le)
  next
    case False
    then show ?thesis using that q_miss by blast
  qed
  have wait: ?thesis if "i < length (qs_workers s)" "qs_workers s ! i = Waiting" "qs_chan s \<noteq> [] \<or> qs_provider s = None" for i
    using that q_take [of i s] q_end [of i s] by (cases "qs_chan s") blast+
  have busy: "returned (qs_workers s) = 0 \<Longrightarrow> qs_workers s ! 0 \<noteq> Returned"
    using assms(1,4) by (cases "qs_workers s") (auto simp: query_inv_def)
  show ?thesis
  proof (cases "qs_provider s")
    case None
    then obtain i where "i < length (qs_workers s)" "qs_workers s ! i \<noteq> Returned"
      using assms(5) by (auto simp: query_finished_def in_set_conv_nth)
    then show ?thesis using hold wait None by (cases "qs_workers s ! i") auto
  next
    case (Some ps)
    show ?thesis
    proof (cases ps)
      case Nil
      then show ?thesis using Some q_close by blast
    next
      case (Cons p qs)
      have "returned (qs_workers s) = 0" using Some assms(2) by (auto simp: few_inv_def)
      then show ?thesis
        using Some Cons q_send [of s p qs cap] assms(1,3,4) busy hold [of 0] wait [of 0]
        by (cases "length (qs_chan s) < cap"; cases "qs_workers s ! 0") (auto simp: query_inv_def)
    qed
  qed
qed

section \<open>Laws of the downloads\<close>

lemma swap_elems_mset: "i < length xs \<Longrightarrow> j < length xs \<Longrightarrow> mset (swap_elems xs i j) = mset xs"
  by (simp add: swap_elems_def mset_swap)

lemma shuffle_from_mset:
  "\<forall>k. rnd (Suc k) \<le> k \<Longrightarrow> i < length xs \<or> i = 0 \<Longrightarrow> mset (shuffle_from rnd i xs) = mset xs"
proof (induction i arbitrary: xs)
  case (Suc i)
  then have "rnd (Suc i + 1) < length xs" by (metis Suc_eq_plus1 le_less_trans nat.distinct(1))
  then show ?case using Suc swap_elems_mset [of "Suc i" xs "rnd (Suc i + 1)"] by (simp add: swap_elems_def)
qed simp

lemma shuffle_from_cong: "\<forall>k \<le> i. rnd (Suc k) = rnd' (Suc k) \<Longrightarrow> shuffle_from rnd i xs = shuffle_from rnd' i xs"
  by (induction i arbitrary: xs) auto

lemma shuffle_from_length [simp]: "length (shuffle_from rnd i xs) = length xs"
  by (induction i arbitrary: xs) (auto simp: swap_elems_def)

lemma shuffle_from_above: "\<forall>k. rnd (Suc k) \<le> k \<Longrightarrow> i < m \<Longrightarrow> m < length xs \<Longrightarrow> shuffle_from rnd i xs ! m = xs ! m"
proof (induction i arbitrary: xs)
  case (Suc i)
  have "rnd (Suc (Suc i)) \<le> Suc i" using Suc.prems(1) by blast
  then have "rnd (Suc (Suc i)) \<noteq> m" using Suc.prems(2) by linarith
  then show ?case using Suc by (simp add: swap_elems_def)
qed simp

lemma swap_elems_at: "i < length xs \<Longrightarrow> j < length xs \<Longrightarrow> swap_elems xs i j ! i = xs ! j"
  by (cases "i = j") (simp_all add: swap_elems_def)

text \<open>Every rearrangement of the first elements is the result of some choices.\<close>

lemma shuffle_from_onto:
  assumes "i < length xs" and "mset (take (Suc i) ys) = mset (take (Suc i) xs)" and "drop (Suc i) ys = drop (Suc i) xs" and "length ys = length xs"
  shows "\<exists>rnd. (\<forall>k. rnd (Suc k) \<le> k) \<and> shuffle_from rnd i xs = ys"
  using assms
proof (induction i arbitrary: xs)
  case 0
  then have "take 1 ys = take 1 xs" by (cases xs; cases ys) auto
  then have "ys = xs" using "0.prems"(3) append_take_drop_id [of 1 ys] append_take_drop_id [of 1 xs] by (metis One_nat_def)
  then show ?case by (intro exI [of _ "\<lambda>_. 0"]) simp
next
  case (Suc i)
  have i: "Suc i < length ys" using Suc.prems by simp
  have "ys ! Suc i \<in> set (take (Suc (Suc i)) ys)" using i by (simp add: take_Suc_conv_app_nth)
  also have "\<dots> = set (take (Suc (Suc i)) xs)" using Suc.prems(2) by (metis set_mset_mset)
  finally obtain j where j: "j \<le> Suc i" "xs ! j = ys ! Suc i"
    using Suc.prems(1) by (auto simp: in_set_conv_nth less_Suc_eq_le)
  let ?zs = "swap_elems xs (Suc i) j"
  have z: "length ?zs = length xs" "?zs ! Suc i = ys ! Suc i" "drop (Suc (Suc i)) ?zs = drop (Suc (Suc i)) xs"
    using Suc.prems(1) j swap_elems_at [of "Suc i" xs j] by (simp_all add: swap_elems_def)
  have d: "drop (Suc i) ys = drop (Suc i) ?zs"
    using z i Suc.prems(1,3) by (simp add: Cons_nth_drop_Suc [symmetric])
  have "mset ?zs = mset xs" using swap_elems_mset [of "Suc i" xs j] Suc.prems(1) j by simp
  moreover have "mset ys = mset xs"
    using Suc.prems(2,3) append_take_drop_id [of "Suc (Suc i)" ys] append_take_drop_id [of "Suc (Suc i)" xs] by (metis mset_append)
  ultimately have "mset (take (Suc i) ys) = mset (take (Suc i) ?zs)"
    using d append_take_drop_id [of "Suc i" ys] append_take_drop_id [of "Suc i" ?zs] by (metis add_right_cancel mset_append)
  then obtain rnd where r: "\<forall>k. rnd (Suc k) \<le> k" "shuffle_from rnd i ?zs = ys"
    using Suc.IH [of ?zs] d z(1) Suc.prems(1,4) by auto
  let ?rnd = "rnd(Suc (Suc i) := j)"
  have "shuffle_from ?rnd i ?zs = ys" using r(2) shuffle_from_cong [of i ?rnd rnd ?zs] by simp
  then have "shuffle_from ?rnd (Suc i) xs = ys" by simp
  moreover have "\<forall>k. ?rnd (Suc k) \<le> k" using r(1) j(1) by simp
  ultimately show ?case by blast
qed

text \<open>The choices are determined by the result when no element occurs twice.\<close>

lemma shuffle_from_inj:
  assumes "distinct xs" and "i < length xs" and "\<forall>k. rnd (Suc k) \<le> k" and "\<forall>k. rnd' (Suc k) \<le> k"
    and "shuffle_from rnd i xs = shuffle_from rnd' i xs"
  shows "\<forall>k \<in> {0 <.. i}. rnd (Suc k) = rnd' (Suc k)"
  using assms(1,2,5)
proof (induction i arbitrary: xs)
  case (Suc i)
  let ?j = "rnd (Suc (Suc i))" and ?j' = "rnd' (Suc (Suc i))"
  have j: "?j \<le> Suc i" "?j' \<le> Suc i" using assms(3,4) by blast+
  have "swap_elems xs (Suc i) ?j ! Suc i = swap_elems xs (Suc i) ?j' ! Suc i"
    using Suc.prems shuffle_from_above [OF assms(3), of i "Suc i" "swap_elems xs (Suc i) ?j"]
      shuffle_from_above [OF assms(4), of i "Suc i" "swap_elems xs (Suc i) ?j'"] by (simp add: swap_elems_def)
  then have "xs ! ?j = xs ! ?j'" using swap_elems_at Suc.prems(2) j by (metis le_less_trans)
  then have eq: "?j = ?j'" using Suc.prems(1,2) j by (simp add: nth_eq_iff_index_eq)
  have "distinct (swap_elems xs (Suc i) ?j)"
    using Suc.prems(1,2) j by (simp add: swap_elems_def)
  then have "\<forall>k \<in> {0 <.. i}. rnd (Suc k) = rnd' (Suc k)"
    using Suc.IH [of "swap_elems xs (Suc i) ?j"] Suc.prems(2,3) eq by (simp add: swap_elems_def)
  then show ?case using eq by (auto simp: le_Suc_eq)
qed simp

text \<open>Without neighbours: what the storage network contributes for one segment.\<close>

definition storage_keys :: "'n resource_env \<Rightarrow> (string \<Rightarrow> string \<Rightarrow> bool) \<Rightarrow> string \<Rightarrow> string \<Rightarrow> FragmentInfo list \<Rightarrow> string list" where
  "storage_keys R served fhash shash frs =
     map (\<lambda>f. path_Join [fhash, shash, fg_Hash f]) (take (se_DataShards (re_S R)) (filter (readable (re_S R) served) frs))"

lemma storage_fragments_keys:
  assumes "serves (re_S R) served" and "ft_count st \<le> se_DataShards (re_S R)"
  shows "map dr_Key (ft_resps (storage_fragments R fhash shash st frs)) =
    map dr_Key (ft_resps st) @ map (\<lambda>f. path_Join [fhash, shash, fg_Hash f])
      (take (se_DataShards (re_S R) - ft_count st) (filter (readable (re_S R) served) frs))"
  using assms(2)
proof (induction frs arbitrary: st)
  case (Cons f frs)
  show ?case
  proof (cases "ft_count st < se_DataShards (re_S R)")
    case True
    then obtain k where k: "se_DataShards (re_S R) - ft_count st = Suc k" "se_DataShards (re_S R) - Suc (ft_count st) = k"
      by (metis Suc_diff_Suc)
    show ?thesis
    proof (cases "se_QueryMiner (re_S R) (fg_Miner f)")
      case (Inl e)
      then show ?thesis using Cons True by (simp add: readable_def)
    next
      case (Inr peer)
      let ?p = "path_Join [re_TempDir R, fg_Hash f]"
      from assms(1) Inr show ?thesis
      proof (cases rule: readable_read [where p = ?p and fs = "ft_fs st"])
        case (1 fs1)
        then show ?thesis
          using Cons.IH True Inr k by (auto simp: Let_def split: prod.split)
      next
        case (2 fs1 e)
        then show ?thesis using Cons True Inr by (simp add: Let_def)
      qed
    qed
  qed (use Cons in simp)
qed simp

lemma storaged_segments_storage:
  assumes "serves (re_S R) served" and "\<forall>n f s. \<exists>e n'. re_neighbors R n f s = Some (Inl e, n')"
  shows "\<exists>num' st' new. storaged_segments R cs acc fhash shash cacheNum num found st segs = Some (num', st') \<and>
    map dr_Key (ft_resps st') = map dr_Key (ft_resps st) @ new \<and>
    length new \<le> nat (cacheNum - num) * se_DataShards (re_S R) \<and>
    (\<forall>k \<in> set new. \<exists>seg \<in> set segs. k \<in> set (storage_keys R served fhash shash (sg_FragmentList seg))) \<and>
    (\<not> found \<and> num \<le> cacheNum - 1 \<and> shash \<in> sg_Hash ` set segs \<longrightarrow>
       (\<exists>seg \<in> set segs. sg_Hash seg = shash \<and> set (storage_keys R served fhash shash (sg_FragmentList seg)) \<subseteq> set new))"
proof (induction segs arbitrary: num found st)
  case (Cons seg segs)
  let ?D = "se_DataShards (re_S R)" and ?new1 = "storage_keys R served fhash shash (sg_FragmentList seg)"
  consider (stop) "cacheNum \<le> num"
    | (skip) "num < cacheNum" "\<not> (found \<or> sg_Hash seg = shash)" "num \<ge> cacheNum - 1"
    | (load) "num < cacheNum" "(found \<or> sg_Hash seg = shash) \<or> num < cacheNum - 1" by linarith
  then show ?case
  proof cases
    case stop
    then show ?thesis by simp
  next
    case skip
    then show ?thesis using Cons [of num "found \<or> sg_Hash seg = shash" st] by (auto simp: Let_def)
  next
    case load
    obtain e n1 where n1: "re_neighbors R (ft_net st) fhash (sg_Hash seg) = Some (Inl e, n1)" using assms(2) by blast
    define st1 where "st1 = storage_fragments R fhash shash (st\<lparr>ft_net := n1, ft_count := 0\<rparr>) (sg_FragmentList seg)"
    have k1: "map dr_Key (ft_resps st1) = map dr_Key (ft_resps st) @ ?new1"
      using storage_fragments_keys [OF assms(1), of "st\<lparr>ft_net := n1, ft_count := 0\<rparr>"]
      by (simp add: st1_def storage_keys_def)
    obtain num' st' new where ih: "storaged_segments R cs acc fhash shash cacheNum (num + 1) (found \<or> sg_Hash seg = shash) st1 segs = Some (num', st')"
      "map dr_Key (ft_resps st') = map dr_Key (ft_resps st1) @ new" "length new \<le> nat (cacheNum - (num + 1)) * ?D"
      "\<forall>k \<in> set new. \<exists>seg \<in> set segs. k \<in> set (storage_keys R served fhash shash (sg_FragmentList seg))"
      "\<not> (found \<or> sg_Hash seg = shash) \<and> num + 1 \<le> cacheNum - 1 \<and> shash \<in> sg_Hash ` set segs \<longrightarrow>
       (\<exists>seg \<in> set segs. sg_Hash seg = shash \<and> set (storage_keys R served fhash shash (sg_FragmentList seg)) \<subseteq> set new)"
      using Cons [of "num + 1" "found \<or> sg_Hash seg = shash" st1] by blast
    have eq: "storaged_segments R cs acc fhash shash cacheNum num found st (seg # segs) = Some (num', st')"
      using load n1 ih(1) by (auto simp: Let_def st1_def)
    have "length ?new1 \<le> ?D" by (simp add: storage_keys_def)
    moreover have "nat (cacheNum - num) = Suc (nat (cacheNum - (num + 1)))" using load(1) by linarith
    ultimately have "length (?new1 @ new) \<le> nat (cacheNum - num) * ?D" using ih(3) by simp
    moreover have "\<not> found \<and> num \<le> cacheNum - 1 \<and> shash \<in> sg_Hash ` set (seg # segs) \<longrightarrow>
       (\<exists>seg \<in> set (seg # segs). sg_Hash seg = shash \<and>
          set (storage_keys R served fhash shash (sg_FragmentList seg)) \<subseteq> set (?new1 @ new))"
      using ih(5) load by (cases "sg_Hash seg = shash") auto
    ultimately show ?thesis using eq k1 ih(2,4)
      by (intro exI [of _ num'] exI [of _ st'] exI [of _ "?new1 @ new"]) auto
  qed
qed simp

text \<open>Fragments fetched from neighbours: \<open>cached\<close> holds them, most recent first, without repetition.\<close>

definition shared_inv :: "string \<Rightarrow> string \<Rightarrow> string list \<times> 'n fetch_state \<Rightarrow> bool" where
  "shared_inv fhash shash cst \<longleftrightarrow> distinct (fst cst) \<and>
     map dr_Key (ft_resps (snd cst)) = map (\<lambda>f. path_Join [fhash, shash, f]) (rev (fst cst))"

lemma shared_files_inv:
  "shared_files R acc fhash shash peer account cst files = Some cst' \<Longrightarrow> shared_inv fhash shash cst \<Longrightarrow>
   shared_inv fhash shash cst' \<and> set (fst cst') \<subseteq> set (fst cst) \<union> set files"
proof (induction files arbitrary: cst)
  case (Cons f files)
  obtain cached st where [simp]: "cst = (cached, st)" by fastforce
  show ?case
    using Cons.prems Cons.IH
    by (fastforce simp: Let_def shared_inv_def split: if_splits option.splits prod.splits)
qed (auto simp: shared_inv_def)

lemma shared_peers_inv:
  "shared_peers R acc fhash shash cst peers = Some cst' \<Longrightarrow> shared_inv fhash shash cst \<Longrightarrow>
   shared_inv fhash shash cst' \<and> set (fst cst') \<subseteq> set (fst cst) \<union>
     (\<Union>(peer, res) \<in> set peers. if rs_Status res = STATUS_LOADING then {} else set (rs_CachedFiles res))"
proof (induction peers arbitrary: cst)
  case (Cons pr peers)
  obtain cached st peer res where [simp]: "cst = (cached, st)" "pr = (peer, res)" by fastforce
  consider "rs_Status res = STATUS_LOADING" | "rs_Status res \<noteq> STATUS_LOADING" "ft_count st \<ge> se_DataShards (re_S R)"
    | cst1 where "rs_Status res \<noteq> STATUS_LOADING" "\<not> ft_count st \<ge> se_DataShards (re_S R)"
        "shared_files R acc fhash shash peer (ci_Account (rs_Info res)) (cached, st) (rs_CachedFiles res) = Some cst1"
    using Cons.prems(1) by (fastforce split: if_splits option.splits)
  then show ?case
  proof cases
    case 3
    then show ?thesis
      using Cons.prems Cons.IH [of cst1] shared_files_inv [OF 3(3)] by fastforce
  qed (use Cons.prems Cons.IH in fastforce)+
qed auto

subsection \<open>Requests that are never answered\<close>

text \<open>Where every peer has the segment and there are too many of them, no run finishes, and so the query has no result.\<close>

lemma too_many_hits:
  assumes "distinct peers" and "\<forall>p \<in> set peers. is_hit_answer (answer p)"
    and "avg + 2 * threads < length peers"
    and "(query_step avg threads answer)\<^sup>*\<^sup>* (query_init threads peers) s"
  shows "\<not> query_finished s"
proof
  assume fin: "query_finished s"
  have inv: "query_inv avg threads threads answer peers s" by (rule query_inv_reachable [OF assms(4,1)])
  have "held (qs_workers s) = []"
    using fin by (simp add: query_finished_def held_none)
  then have "size (in_play s) \<le> threads + avg" and "returned (qs_workers s) \<le> threads"
    using inv fin returned_le [of "qs_workers s"]
    by (auto simp: query_inv_def query_finished_def in_play_def to_send_def)
  then show False using all_hits_reachable [OF assms(4,1,2)] assms(3) by simp
qed

lemma popular_no_result:
  assumes "query_sizes cs peersNumber = Some (peerNum, threadNum)" and "iter peerNum = Inr peers" and "distinct (providers @ peers)"
    and "\<forall>p \<in> set (providers @ peers). is_hit_answer (answer p)"
    and "nat (cs_AvgCachedSegmentNum cs) + 2 * nat threadNum < length (providers @ peers)"
  shows "\<not> QuerySegmentFromNeighborCacher cs peersNumber iter providers answer r"
proof
  assume "QuerySegmentFromNeighborCacher cs peersNumber iter providers answer r"
  then show False
    by (cases rule: QuerySegmentFromNeighborCacher.cases) (use assms(1,2) too_many_hits [OF assms(3-5)] in auto)
qed

text \<open>
  A download from the neighbours or the storage network that does not return: the division by the number of neighbours
  panics, the query of the neighbours for a segment of the file does not return, or a download from a neighbour does not.
\<close>

definition download_stuck :: "'n resource_env \<Rightarrow> ResourceActor \<Rightarrow> string \<Rightarrow> bool" where
  "download_stuck R ra fhash \<longleftrightarrow>
     cs_NeighborNum (ra_Strategy ra) = 0 \<or>
     (\<exists>fmeta seg n. se_QueryFile (re_S R) fhash = Inr fmeta \<and> seg \<in> set (fm_SegmentList fmeta) \<and> re_neighbors R n fhash (sg_Hash seg) = None) \<or>
     (\<exists>n fs peer fpath creq. DownloadFileFromCache (re_net R) (se_io (re_S R)) n fs peer fpath creq = None)"

lemma shared_files_stuck:
  "shared_files R acc fhash shash peer account cst files = None \<Longrightarrow>
   \<exists>n fs peer fpath creq. DownloadFileFromCache (re_net R) (se_io (re_S R)) n fs peer fpath creq = None"
  by (induction R acc fhash shash peer account cst files rule: shared_files.induct)
     (auto simp: Let_def split: if_splits option.splits prod.splits, blast)

lemma shared_peers_stuck:
  "shared_peers R acc fhash shash cst peers = None \<Longrightarrow>
   \<exists>n fs peer fpath creq. DownloadFileFromCache (re_net R) (se_io (re_S R)) n fs peer fpath creq = None"
  by (induction R acc fhash shash cst peers rule: shared_peers.induct)
     (auto dest: shared_files_stuck split: if_splits option.splits)

lemma storaged_segments_stuck:
  assumes "storaged_segments R cs acc fhash shash cacheNum num found st segs = None"
  shows "(\<exists>seg \<in> set segs. \<exists>n. re_neighbors R n fhash (sg_Hash seg) = None) \<or>
    (\<exists>n fs peer fpath creq. DownloadFileFromCache (re_net R) (se_io (re_S R)) n fs peer fpath creq = None)"
  using assms
proof (induction segs arbitrary: num found st)
  case (Cons seg segs)
  show ?case
  proof (cases "re_neighbors R (ft_net st) fhash (sg_Hash seg) = None")
    case False
    then show ?thesis
      using Cons.prems
      by (auto simp: Let_def SharedSegmentFromNeighborCacher_def dest: shared_peers_stuck dest!: Cons.IH
          split: if_splits option.splits prod.splits sum.splits)
  qed auto
qed simp

lemma Download_stuck:
  assumes "DownloadStoragedFiles R ra n fs acc fhash shash = None" and "\<forall>k. re_Intn R (Suc k) \<le> k"
  shows "download_stuck R ra fhash"
proof -
  obtain fmeta where m: "se_QueryFile (re_S R) fhash = Inr fmeta"
    using assms by (auto simp: DownloadStoragedFiles_def split: sum.splits)
  have "mset (ShuffleSegments (re_Intn R) (fm_SegmentList fmeta)) = mset (fm_SegmentList fmeta)"
    using shuffle_from_mset [OF assms(2), of "length (fm_SegmentList fmeta) - 1" "fm_SegmentList fmeta"]
    by (cases "fm_SegmentList fmeta") (auto simp: ShuffleSegments_def)
  then have "set (ShuffleSegments (re_Intn R) (fm_SegmentList fmeta)) = set (fm_SegmentList fmeta)" by (metis set_mset_mset)
  then show ?thesis
    using assms(1) m by (fastforce simp: DownloadStoragedFiles_def download_stuck_def cache_num_def Let_def
        dest!: storaged_segments_stuck split: if_splits option.splits)
qed

text \<open>A request for a file of one segment that too many neighbours have never ends.\<close>

lemma popular_segment_stuck:
  assumes "queries_neighbors (ra_Strategy ra) R peersNumber iter providers answer"
    and "se_QueryFile (re_S R) fhash = Inr fmeta" and "fm_SegmentList fmeta = [seg]" and "sg_Hash seg = shash"
    and "cache_num (ra_Strategy ra) 1 = Some cacheNum" and "0 < cacheNum"
    and "query_sizes (ra_Strategy ra) (peersNumber n) = Some (peerNum, threadNum)" and "iter n peerNum = Inr peers"
    and "distinct (providers n shash @ peers)" and "\<forall>p \<in> set (providers n shash @ peers). is_hit_answer (answer n fhash shash p)"
    and "nat (cs_AvgCachedSegmentNum (ra_Strategy ra)) + 2 * nat threadNum < length (providers n shash @ peers)"
  shows "DownloadStoragedFiles R ra n fs acc fhash shash = None"
proof -
  have "re_neighbors R n fhash shash = None"
    using assms(1) popular_no_result [where iter = "iter n" and answer = "answer n fhash shash" and providers = "providers n shash", OF assms(7-11)] unfolding queries_neighbors_def by (metis not_None_eq prod.collapse)
  then show ?thesis
    using assms(2-6) by (simp add: DownloadStoragedFiles_def ShuffleSegments_def Let_def)
qed

text \<open>An environment without neighbours, for the witnesses.\<close>

definition mem_resource :: "FileMetadata \<Rightarrow> unit resource_env" where
  "mem_resource fmeta = \<lparr>re_net = mem_net [1, 2, 3], re_S = mem_storage fmeta,
     re_neighbors = (\<lambda>n f s. Some (Inl (Errorf ''no neighbor cache node''), n)), re_Provide = (\<lambda>n c. (None, n)),
     re_multihash = Inr, re_NewCidV1 = (\<lambda>b. b), re_http_Get = (\<lambda>u. Inr ([4, 5], None)), re_TempDir = ''/tmp'',
     re_Intn = (\<lambda>n. 0), re_sha256 = (\<lambda>bs. bs)\<rparr>"

definition default_strategy :: CacheStrategy where
  "default_strategy = \<lparr>cs_MaxCachedSegmentNum = 0, cs_AvgCachedSegmentNum = 0, cs_MinCachedSegmentNum = 0, cs_NeighborNum = 0\<rparr>"

definition hit_response :: CacheResponse where
  "hit_response = CacheResponse_zero\<lparr>rs_Status := STATUS_HIT, rs_CachedFiles := [''a'']\<rparr>"

section \<open>Properties\<close>

text \<open>C23: The query of the neighbours cannot finish when too many of them have the segment: if all
  peers answer with a hit and there are more of them than the configured average plus twice the
  number of workers, then in no reachable state have the provider and the workers all returned, and
  \<open>wg.Wait()\<close> blocks forever: the workers return early while the provider waits for room in the
  channel.\<close>

theorem neighbour_query_hangs:
  assumes "distinct peers" and "\<forall>p \<in> set peers. is_hit_answer (answer p)"
    and "avg + 2 * threads < length peers"
    and "(query_step avg threads answer)\<^sup>*\<^sup>* (query_init threads peers) s"
  shows "\<not> query_finished s"
  by (rule too_many_hits [OF assms])

theorem neighbour_query_hangs_witness:
  "\<not> query_finished (query_init 1 [''a'', ''b'', ''c'', ''d'']\<lparr>qs_provider := Some [''b'', ''c'', ''d''], qs_chan := [''a'']\<rparr>)"
proof (rule neighbour_query_hangs [where answer = "\<lambda>p. Some hit_response" and avg = 1 and threads = 1 and peers = "[''a'', ''b'', ''c'', ''d'']"])
  show "(query_step 1 1 (\<lambda>p. Some hit_response))\<^sup>*\<^sup>* (query_init 1 [''a'', ''b'', ''c'', ''d''])
      (query_init 1 [''a'', ''b'', ''c'', ''d'']\<lparr>qs_provider := Some [''b'', ''c'', ''d''], qs_chan := [''a'']\<rparr>)"
    using q_send [of "query_init 1 [''a'', ''b'', ''c'', ''d'']" "''a''" "[''b'', ''c'', ''d'']" 1 1 "\<lambda>p. Some hit_response"]
    by (intro r_into_rtranclp) (simp add: query_init_def)
qed (simp_all add: is_hit_answer_def is_hit_def hit_response_def)

text \<open>C24: The query of the neighbours completes when few of them have the segment: with at most the
  configured average of hits among distinct peers, every reachable state that is not finished has
  a next step, every step decreases a measure, and in a finished state the result is exactly the
  answers of the peers that have or load the segment.\<close>

theorem neighbour_query_completes:
  assumes "distinct peers" and "length (filter (\<lambda>p. is_hit_answer (answer p)) peers) \<le> avg" and "0 < threads"
    and "(query_step avg threads answer)\<^sup>*\<^sup>* (query_init threads peers) s"
  shows "(\<not> query_finished s \<longrightarrow> (\<exists>s'. query_step avg threads answer s s')) \<and>
    (\<forall>s'. query_step avg threads answer s s' \<longrightarrow> query_measure s' < query_measure s) \<and>
    (query_finished s \<longrightarrow> qs_found s = (\<lambda>p. if p \<in> set peers \<and> is_hit_answer (answer p) then answer p else None))"
proof (intro conjI impI allI)
  have inv: "query_inv avg threads threads answer peers s" by (rule query_inv_reachable [OF assms(4,1)])
  have few: "few_inv answer peers s" by (rule few_inv_reachable [OF assms(4,1,2)])
  show "\<exists>s'. query_step avg threads answer s s'" if "\<not> query_finished s"
    by (rule query_progress [OF inv few assms(3,3) that])
  show "query_measure s' < query_measure s" if "query_step avg threads answer s s'" for s'
    by (rule query_step_measure [OF that])
  assume fin: "query_finished s"
  have len: "length (qs_workers s) = threads" using inv by (simp add: query_inv_def)
  then have "0 < returned (qs_workers s)"
    using assms(3) fin by (cases "qs_workers s") (auto simp: query_finished_def)
  then have "qs_chan s = []" using few by (simp add: few_inv_def)
  moreover have "held (qs_workers s) = []"
    using fin by (simp add: query_finished_def held_none)
  ultimately have play: "in_play s = mset_set (dom (qs_found s))"
    using fin by (simp add: in_play_def to_send_def query_finished_def)
  have hits: "\<forall>p \<in> dom (qs_found s). is_hit_answer (answer p) \<and> qs_found s p = answer p" and f: "finite (dom (qs_found s))"
    using inv by (auto simp: query_inv_def is_hit_answer_def)
  have "set_mset (filter_mset (\<lambda>p. is_hit_answer (answer p)) (in_play s)) =
      set_mset (filter_mset (\<lambda>p. is_hit_answer (answer p)) (mset peers))"
    using few by (simp add: few_inv_def)
  then have "dom (qs_found s) = {p \<in> set peers. is_hit_answer (answer p)}"
    using hits f by (auto simp: play)
  then show "qs_found s = (\<lambda>p. if p \<in> set peers \<and> is_hit_answer (answer p) then answer p else None)"
    using hits by (intro ext) (auto simp: domIff)
qed

theorem neighbour_query_completes_witness:
  "\<exists>s'. query_step 1 1 (\<lambda>p. if p = ''a'' then Some hit_response else None) (query_init 1 [''a'', ''b'']) s'"
  using neighbour_query_completes [of "[''a'', ''b'']" "\<lambda>p. if p = ''a'' then Some hit_response else None" 1 1 "query_init 1 [''a'', ''b'']"]
  by (simp add: query_finished_def query_init_def is_hit_answer_def)

text \<open>C25: Whatever the interleaving, a result of the query of the neighbours has at most the configured average of
  entries, and every entry is a hit or loading answer of the peer it is filed under, a provider of the
  segment or a peer of the selector, even where a peer is both.\<close>

theorem neighbour_query_result:
  assumes "QuerySegmentFromNeighborCacher cs peersNumber iter providers answer (Inr found)"
  shows "card (dom found) \<le> nat (cs_AvgCachedSegmentNum cs) \<and>
    (\<forall>p resp. found p = Some resp \<longrightarrow> answer p = Some resp \<and> is_hit resp \<and>
       (p \<in> set providers \<or> (\<exists>k peers. iter k = Inr peers \<and> p \<in> set peers)))"
  using assms
proof (cases rule: QuerySegmentFromNeighborCacher.cases)
  case (neighbors_found peerNum threadNum peers s)
  have "genuine_inv (nat (cs_AvgCachedSegmentNum cs)) answer (set (providers @ peers)) s"
    by (rule genuine_inv_reachable [OF neighbors_found(4)]) auto
  then show ?thesis using neighbors_found(1,3) by (auto simp: genuine_inv_def dom_def)
qed

theorem neighbour_query_result_witness:
  "QuerySegmentFromNeighborCacher (default_strategy\<lparr>cs_AvgCachedSegmentNum := 1\<rparr>) 2 (\<lambda>k. Inr []) [''a''] (\<lambda>p. Some hit_response)
     (Inr [''a'' \<mapsto> hit_response]) \<and> card (dom [''a'' \<mapsto> hit_response]) \<le> 1"
proof -
  let ?step = "query_step 1 1 (\<lambda>p. Some hit_response)"
  let ?s = "\<lambda>pr ch w m. \<lparr>qs_provider = pr, qs_chan = ch, qs_workers = [w], qs_found = m\<rparr>" and ?m = "[''a'' \<mapsto> hit_response]"
  have hit: "is_hit hit_response" by (simp add: is_hit_def hit_response_def)
  have "?step (?s (Some [''a'']) [] Waiting Map.empty) (?s (Some []) [''a''] Waiting Map.empty)"
    using q_send [of "?s (Some [''a'']) [] Waiting Map.empty"] by simp
  moreover have "?step (?s (Some []) [''a''] Waiting Map.empty) (?s (Some []) [] (Holding ''a'') Map.empty)"
    using q_take [of 0 "?s (Some []) [''a''] Waiting Map.empty"] by simp
  moreover have "?step (?s (Some []) [] (Holding ''a'') Map.empty) (?s (Some []) [] Waiting ?m)"
    using q_found [of 0 "?s (Some []) [] (Holding ''a'') Map.empty"] hit by simp
  moreover have "?step (?s (Some []) [] Waiting ?m) (?s None [] Waiting ?m)" using q_close [of "?s (Some []) [] Waiting ?m"] by simp
  moreover have "?step (?s None [] Waiting ?m) (?s None [] Returned ?m)" using q_end [of 0 "?s None [] Waiting ?m"] by simp
  ultimately have run: "?step\<^sup>*\<^sup>* (?s (Some [''a'']) [] Waiting Map.empty) (?s None [] Returned ?m)"
    by (meson converse_rtranclp_into_rtranclp rtranclp.rtrancl_refl)
  let ?cs = "default_strategy\<lparr>cs_AvgCachedSegmentNum := 1\<rparr>"
  have "QuerySegmentFromNeighborCacher ?cs 2 (\<lambda>k. Inr []) [''a''] (\<lambda>p. Some hit_response) (Inr (qs_found (?s None [] Returned ?m)))"
    by (rule neighbors_found [where peerNum = 0 and threadNum = 1 and peers = "[]"])
      (use run in \<open>simp_all add: query_sizes_def default_strategy_def query_init_def query_finished_def\<close>)
  then have q: "QuerySegmentFromNeighborCacher ?cs 2 (\<lambda>k. Inr []) [''a''] (\<lambda>p. Some hit_response) (Inr ?m)" by simp
  from neighbour_query_result [OF this] q show ?thesis by simp
qed

text \<open>C38: Without neighbours a requested segment is always fetched from the storage network: if it
  is in the metadata and at least one segment may be cached, the responses hold its first readable
  fragments, as many as data shards, wherever the shuffle puts it; at most the permitted number of
  segments is fetched. But all responses, those of the other segments too, are named after the
  requested segment.\<close>

theorem DownloadStoragedFiles_storage:
  assumes "serves (re_S R) served" and "\<forall>n f s. \<exists>e n'. re_neighbors R n f s = Some (Inl e, n')"
    and "se_QueryFile (re_S R) fhash = Inr fmeta" and "\<forall>k. re_Intn R (Suc k) \<le> k"
    and "cache_num (ra_Strategy ra) (length (fm_SegmentList fmeta)) = Some cacheNum"
  shows "\<exists>resps fs' n'. DownloadStoragedFiles R ra n fs acc fhash shash = Some (Inr resps, fs', n') \<and>
    length resps \<le> nat cacheNum * se_DataShards (re_S R) \<and>
    (\<forall>r \<in> set resps. \<exists>seg \<in> set (fm_SegmentList fmeta). \<exists>f \<in> set (sg_FragmentList seg). dr_Key r = path_Join [fhash, shash, fg_Hash f]) \<and>
    (shash \<in> sg_Hash ` set (fm_SegmentList fmeta) \<and> 1 \<le> cacheNum \<longrightarrow>
      (\<exists>seg \<in> set (fm_SegmentList fmeta). sg_Hash seg = shash \<and>
         set (storage_keys R served fhash shash (sg_FragmentList seg)) \<subseteq> dr_Key ` set resps))"
proof -
  let ?segs = "ShuffleSegments (re_Intn R) (fm_SegmentList fmeta)"
  let ?st = "\<lparr>ft_count = 0, ft_provide = False, ft_resps = [], ft_fs = fs, ft_net = n\<rparr>"
  have "mset ?segs = mset (fm_SegmentList fmeta)"
    using shuffle_from_mset [OF assms(4), of "length (fm_SegmentList fmeta) - 1" "fm_SegmentList fmeta"]
    by (cases "fm_SegmentList fmeta") (auto simp: ShuffleSegments_def)
  then have set: "set ?segs = set (fm_SegmentList fmeta)" by (metis set_mset_mset)
  obtain num' st' new where r: "storaged_segments R (ra_Strategy ra) acc fhash shash cacheNum 0 False ?st ?segs = Some (num', st')"
    and keys0: "map dr_Key (ft_resps st') = map dr_Key (ft_resps ?st) @ new"
    and len0: "length new \<le> nat (cacheNum - 0) * se_DataShards (re_S R)"
    and orig: "\<forall>k \<in> set new. \<exists>seg \<in> set ?segs. k \<in> set (storage_keys R served fhash shash (sg_FragmentList seg))"
    and req0: "\<not> False \<and> 0 \<le> cacheNum - 1 \<and> shash \<in> sg_Hash ` set ?segs \<longrightarrow>
       (\<exists>seg \<in> set ?segs. sg_Hash seg = shash \<and> set (storage_keys R served fhash shash (sg_FragmentList seg)) \<subseteq> set new)"
    using storaged_segments_storage [OF assms(1,2), of "ra_Strategy ra" acc fhash shash cacheNum 0 False ?st ?segs] by blast
  have keys: "map dr_Key (ft_resps st') = new" and len: "length new \<le> nat cacheNum * se_DataShards (re_S R)"
    using keys0 len0 by simp_all
  have req: "1 \<le> cacheNum \<and> shash \<in> sg_Hash ` set ?segs \<longrightarrow>
       (\<exists>seg \<in> set ?segs. sg_Hash seg = shash \<and> set (storage_keys R served fhash shash (sg_FragmentList seg)) \<subseteq> set new)"
    using req0 by simp
  have new: "length (ft_resps st') = length new" "set new = dr_Key ` set (ft_resps st')" using keys by auto
  have "\<forall>r \<in> set (ft_resps st'). \<exists>seg \<in> set (fm_SegmentList fmeta). \<exists>f \<in> set (sg_FragmentList seg). dr_Key r = path_Join [fhash, shash, fg_Hash f]"
    using orig unfolding new(2) set storage_keys_def by (fastforce dest: in_set_takeD)
  then show ?thesis
    using r assms(3,5) len req new unfolding set by (auto simp: DownloadStoragedFiles_def)
qed

theorem DownloadStoragedFiles_storage_witness:
  "\<exists>resps fs' n'. DownloadStoragedFiles (mem_resource mem_fmeta) (NewResourceActor default_strategy) () Map.empty [1] ''f'' ''s1''
     = Some (Inr resps, fs', n') \<and> {path_Join [''f'', ''s1'', ''a''], path_Join [''f'', ''s1'', ''b'']} \<subseteq> dr_Key ` set resps"
proof -
  let ?R = "mem_resource mem_fmeta" and ?served = "\<lambda>peer name. True"
  have h: "serves (re_S ?R) ?served" "\<forall>n f s. \<exists>e n'. re_neighbors ?R n f s = Some (Inl e, n')"
    "se_QueryFile (re_S ?R) ''f'' = Inr mem_fmeta" "\<forall>k. re_Intn ?R (Suc k) \<le> k"
    by (simp_all add: mem_resource_def mem_storage_def serves_def)
  have cn: "cache_num (ra_Strategy (NewResourceActor default_strategy)) (length (fm_SegmentList mem_fmeta)) = Some 3"
    by (simp add: cache_num_def NewResourceActor_def default_strategy_def mem_fmeta_def signed_divide_int_def)
  have keys: "seg \<in> set (fm_SegmentList mem_fmeta) \<Longrightarrow> sg_Hash seg = ''s1'' \<Longrightarrow>
      set (storage_keys ?R ?served ''f'' ''s1'' (sg_FragmentList seg)) = {path_Join [''f'', ''s1'', ''a''], path_Join [''f'', ''s1'', ''b'']}" for seg
    by (auto simp: mem_fmeta_def storage_keys_def mem_resource_def mem_storage_def readable_def)
  have "''s1'' \<in> sg_Hash ` set (fm_SegmentList mem_fmeta)" by (simp add: mem_fmeta_def)
  with DownloadStoragedFiles_storage [OF h cn, of "()" Map.empty "[1]" "''s1''"] keys show ?thesis by (metis one_le_numeral)
qed

text \<open>A segment fetched from the neighbours is fetched without repetition: the responses name
  distinct fragments of the segment, each offered by a peer that does not merely load it.\<close>

theorem SharedSegment_once:
  assumes "SharedSegmentFromNeighborCacher R n fs acc fhash segment peers = Some (resps, fs', n')"
  shows "\<exists>files. distinct files \<and> map dr_Key resps = map (\<lambda>f. path_Join [fhash, sg_Hash segment, f]) files \<and>
    set files \<subseteq> (\<Union>(peer, res) \<in> set peers. if rs_Status res = STATUS_LOADING then {} else set (rs_CachedFiles res))"
proof -
  let ?st = "\<lparr>ft_count = 0, ft_provide = False, ft_resps = [], ft_fs = fs, ft_net = n\<rparr>"
  obtain cached st where s: "shared_peers R acc fhash (sg_Hash segment) ([], ?st) peers = Some (cached, st)" "resps = ft_resps st"
    using assms by (auto simp: SharedSegmentFromNeighborCacher_def)
  have "shared_inv fhash (sg_Hash segment) ([], ?st)" by (simp add: shared_inv_def)
  from shared_peers_inv [OF s(1) this] s(2) show ?thesis
    by (intro exI [of _ "rev cached"]) (simp add: shared_inv_def)
qed

theorem SharedSegment_once_witness:
  "\<exists>resps fs' n'. SharedSegmentFromNeighborCacher (mem_resource mem_fmeta) () Map.empty [1] ''f'' \<lparr>sg_Hash = ''s1'', sg_FragmentList = []\<rparr>
     [(''p'', hit_response), (''q'', hit_response)] = Some (resps, fs', n') \<and> distinct (map dr_Key resps)"
proof -
  let ?R = "mem_resource mem_fmeta" and ?seg = "\<lparr>sg_Hash = ''s1'', sg_FragmentList = []\<rparr>"
  have sel: "re_net ?R = mem_net [1, 2, 3]" "se_io (re_S ?R) = (\<lambda>op p. None)" "se_DataShards (re_S ?R) = 2"
    "re_TempDir ?R = ''/tmp''" by (simp_all add: mem_resource_def mem_storage_def)
  have "hex_DecodeString ''s1'' = Inl (Errorf ''invalid byte'')" by code_simp
  then have tp: "try_provide ?R () False ''s1'' = (False, ())" by (simp add: try_provide_def hashToCid_def)
  have dl: "\<exists>fs1. DownloadFileFromCache (mem_net [1, 2, 3]) (\<lambda>op p. None) () fs peer fpath req = Some (None, fs1, ())"
    if "fs fpath \<noteq> Some Dir" for fs peer fpath req
  proof -
    have "SendRequestToCacher (mem_net [1, 2, 3]) () peer (req\<lparr>rq_Option := OPTION_DOWNLOAD\<rparr>) = (([1, 2, 3], None), ())"
      by (simp add: SendRequestToCacher_def mem_net_def)
    moreover have "os_Create (\<lambda>op p. None) fs fpath = (fs(fpath \<mapsto> File []), None)"
      using that by (auto simp: os_Create_def split: option.splits inode.splits)
    moreover have "\<not> 1024 dvd length ([1, 2, 3] :: bytes)" by (auto dest: dvd_imp_le)
    ultimately show ?thesis using DownloadFileFromCache_ok [of "mem_net [1, 2, 3]" "()" peer req "[1, 2, 3]"] by auto
  qed
  obtain fs1 where "DownloadFileFromCache (mem_net [1, 2, 3]) (\<lambda>op p. None) () Map.empty ''p'' (path_Join [''/tmp'', ''a''])
      (CacheRequest_zero\<lparr>rq_WantFile := path_Join [''f'', ''s1'', ''a''], rq_AccountId := [1]\<rparr>) = Some (None, fs1, ())"
    using dl by fastforce
  then obtain resps fs' n' where r: "SharedSegmentFromNeighborCacher ?R () Map.empty [1] ''f'' ?seg
      [(''p'', hit_response), (''q'', hit_response)] = Some (resps, fs', n')" and l: "length resps = 1"
    by (simp add: SharedSegmentFromNeighborCacher_def sel tp hit_response_def CacheResponse_zero_def Let_def)
  from SharedSegment_once [OF r] l obtain f where "map dr_Key resps = [f]" by (cases resps) auto
  then show ?thesis using r by auto
qed

text \<open>C22: The shuffle of the segments is fair: its possible results are exactly the rearrangements of the
  segments, and when no segment occurs twice each of them is the result of exactly one sequence of random choices,
  so that uniform choices give a uniform order.\<close>

theorem ShuffleSegments_permutations:
  "(\<exists>rnd. (\<forall>k. rnd (Suc k) \<le> k) \<and> ShuffleSegments rnd segments = result) = (mset result = mset segments) \<and>
   (distinct segments \<and> (\<forall>k. rnd1 (Suc k) \<le> k) \<and> (\<forall>k. rnd2 (Suc k) \<le> k) \<and> ShuffleSegments rnd1 segments = ShuffleSegments rnd2 segments \<longrightarrow>
      (\<forall>k \<in> {0 <..< length segments}. rnd1 (Suc k) = rnd2 (Suc k)))"
proof (cases "segments = []")
  case False
  let ?i = "length segments - 1"
  have i: "?i < length segments" "Suc ?i = length segments" using False by simp_all
  have "mset (ShuffleSegments rnd segments) = mset segments" if "\<forall>k. rnd (Suc k) \<le> k" for rnd
    using shuffle_from_mset [OF that, of ?i segments] i by (simp add: ShuffleSegments_def)
  moreover have "\<exists>rnd. (\<forall>k. rnd (Suc k) \<le> k) \<and> ShuffleSegments rnd segments = result" if "mset result = mset segments"
    using shuffle_from_onto [OF i(1), of result] that i mset_eq_length [OF that] by (simp add: ShuffleSegments_def)
  moreover have "{0 <..< length segments} = {0 <.. ?i}" using i(2) by auto
  ultimately show ?thesis using shuffle_from_inj [of segments ?i rnd1 rnd2] i(1) by (auto simp: ShuffleSegments_def)
qed (auto simp: ShuffleSegments_def intro!: exI [of _ "\<lambda>_. 0"])

theorem ShuffleSegments_permutations_witness:
  "(\<exists>rnd. (\<forall>k. rnd (Suc k) \<le> k) \<and> ShuffleSegments rnd [''a'', ''b'', ''c''] = [''b'', ''c'', ''a'']) \<and> ShuffleSegments (\<lambda>k. 0) [''a'', ''b''] = [''b'', ''a'']"
proof -
  have "mset [''b'', ''c'', ''a''] = mset [''a'', ''b'', ''c'']" by simp
  then have "\<exists>rnd. (\<forall>k. rnd (Suc k) \<le> k) \<and> ShuffleSegments rnd [''a'', ''b'', ''c''] = [''b'', ''c'', ''a'']"
    using ShuffleSegments_permutations [of "[''a'', ''b'', ''c'']" "[''b'', ''c'', ''a'']" "\<lambda>_. 0" "\<lambda>_. 0"] by blast
  then show ?thesis by (simp add: ShuffleSegments_def swap_elems_def)
qed

end
