(* ===== verification/Node_System.thy ===== *)
theory Node_System
  imports Resource_Actor
begin

text \<open>
  The cache actor and the resource actor of a node together: streams are served, the download server sends requests
  into the mailbox of the resource actor, which answers into the mailbox of the cache actor. The actor
  runtime delivers the messages of a mailbox one at a time and in order; everything else happens in any order, the expiry of
  cached items included. A request on which the resource actor never returns stays at the head of its mailbox.
\<close>

section \<open>The system\<close>

record ('db, 'c, 'w, 'n) system =
  sy_cache :: "('db, 'c) CacheActor"
  sy_chain :: 'w
  sy_fs :: fs
  sy_net :: 'n
  sy_requests :: "DownloadRequest list"
  sy_answers :: "cache_msg list"

inductive system_step ::
  "('db, 'c) cache_env \<Rightarrow> 'w Order2Credit \<Rightarrow> 'n resource_env \<Rightarrow> ResourceActor \<Rightarrow>
   ('db, 'c, 'w, 'n) system \<Rightarrow> ('db, 'c, 'w, 'n) system \<Rightarrow> bool"
  for V :: "('db, 'c) cache_env" and H :: "'w Order2Credit" and R :: "'n resource_env" and ra :: ResourceActor where
  sys_service: "CacheService V H (sy_chain s) (sy_cache s) (sy_fs s) str = Some (c', w', str') \<Longrightarrow>
     system_step V H R ra s (s\<lparr>sy_cache := c', sy_chain := w'\<rparr>)"
| sys_round: "serve_round V (sy_cache s) keys = (c', sent) \<Longrightarrow>
     system_step V H R ra s (s\<lparr>sy_cache := c', sy_requests := sy_requests s @ sent\<rparr>)"
| sys_resource: "sy_requests s = req # rest \<Longrightarrow>
     Resource_Receive R ra True (sy_net s) (sy_fs s) (Some req) = Some (answer, fs', n') \<Longrightarrow>
     system_step V H R ra s (s\<lparr>sy_requests := rest, sy_fs := fs', sy_net := n',
       sy_answers := sy_answers s @ (case answer of None \<Rightarrow> [] | Some m \<Rightarrow> [m])\<rparr>)"
| sys_answer: "sy_answers s = m # rest \<Longrightarrow> Cache_Receive V (sy_cache s) (sy_fs s) m = Some (c', fs', sent) \<Longrightarrow>
     system_step V H R ra s (s\<lparr>sy_answers := rest, sy_cache := c', sy_fs := fs'\<rparr>)"
| sys_restore: "RestoreCacheFiles V (sy_cache s) entries = (c', err) \<Longrightarrow> system_step V H R ra s (s\<lparr>sy_cache := c'\<rparr>)"
| sys_start: "RunDownloadServer_start (resrcActor :: string option) numCPU threadNum (sy_cache s) = Some (c', threads) \<Longrightarrow>
     system_step V H R ra s (s\<lparr>sy_cache := c'\<rparr>)"
| sys_stop: "system_step V H R ra s (s\<lparr>sy_cache := RunDownloadServer_stop (sy_cache s)\<rparr>)"
| sys_load: "system_step V H R ra s (s\<lparr>sy_cache := SetRequestNumber (sy_cache s) delta\<rparr>)"
| sys_expire: "system_step V H R ra s (s\<lparr>sy_cache := onDeleteItem V (sy_cache s\<lparr>ca_FileCache := fc\<rparr>) key, sy_fs := fs'\<rparr>)"

inductive_cases system_stepE: "system_step V H R ra s s'"

text \<open>The cache actor of the system lives the life of a node: every step is one of \<open>node_step\<close>.\<close>

abbreviation node_of :: "('db, 'c, 'w, 'n) system \<Rightarrow> ('db, 'c) CacheActor \<times> 'w \<times> fs" where
  "node_of s \<equiv> (sy_cache s, sy_chain s, sy_fs s)"

lemma system_node_step: "system_step V H R ra s s' \<Longrightarrow> node_step V H (node_of s) (node_of s')"
  by (erule system_stepE) (auto intro: node_step.intros)

lemma system_node_steps: "(system_step V H R ra)\<^sup>*\<^sup>* s s' \<Longrightarrow> (node_step V H)\<^sup>*\<^sup>* (node_of s) (node_of s')"
  by (induction rule: rtranclp_induct) (auto dest!: system_node_step intro: rtranclp.rtrancl_into_rtrancl)

section \<open>The queue\<close>

text \<open>A task for a segment is queued under its source; the key of a task for a page is a hash.\<close>

definition task_ok :: "string \<Rightarrow> DownloadTask \<Rightarrow> bool" where
  "task_ok k t \<longleftrightarrow> dt_Option t = NODE_RESOURCE_CACHE \<and> dt_Source t = k \<or> dt_Option t = SITE_RESOURCE_CACHE \<and> CHR ''/'' \<notin> set k"

definition tasks_ok :: "('db, 'c) CacheActor \<Rightarrow> bool" where
  "tasks_ok c \<longleftrightarrow> (\<forall>q k t. ca_dlQueue c = Some q \<longrightarrow> q k = Some t \<longrightarrow> task_ok k t)"

lemma tasks_ok_cong: "ca_dlQueue c' = ca_dlQueue c \<Longrightarrow> tasks_ok c' \<longleftrightarrow> tasks_ok c"
  by (simp add: tasks_ok_def)

lemma tasks_ok_upd [simp]:
  "tasks_ok (c\<lparr>ca_creditMg := cm\<rparr>) = tasks_ok c" "tasks_ok (c\<lparr>ca_FileCache := fc\<rparr>) = tasks_ok c"
  "tasks_ok (run_callbacks V c evs) = tasks_ok c" "tasks_ok (SetRequestNumber c d) = tasks_ok c"
  "tasks_ok (fst (PutFileRecord V c k ty n)) = tasks_ok c"
  by (simp_all add: tasks_ok_def SetRequestNumber_def)

lemma tasks_ok_queue: "tasks_ok c \<Longrightarrow> ca_dlQueue c = Some q \<Longrightarrow> (\<And>k t. q' k = Some t \<Longrightarrow> q k = Some t \<or> task_ok k t) \<Longrightarrow>
  tasks_ok (c\<lparr>ca_dlQueue := Some q'\<rparr>)"
  unfolding tasks_ok_def by fastforce

lemma hex_digit_no_slash: "n < 16 \<Longrightarrow> hex_digit n \<noteq> CHR ''/''"
  using hex_value_digit [of n] by (auto simp: hex_value_def)

lemma hash_no_slash: "CHR ''/'' \<notin> set (GetSha256Hash sha bs)"
proof -
  have "CHR ''/'' \<notin> set (hex_EncodeToString xs)" for xs
  proof (induction xs)
    case (Cons x xs)
    have "unat x div 16 < 16" using unat_byte_less [of x] by simp
    then show ?case using Cons hex_digit_no_slash [of "unat x div 16"] hex_digit_no_slash [of "unat x mod 16"] by auto
  qed simp
  then show ?thesis by (simp add: GetSha256Hash_def)
qed

lemma tasks_ok_Query:
  assumes "tasks_ok c" and "QueryCacheResource V c acc source isUrl = Some (files, c')"
  shows "tasks_ok c'"
proof -
  let ?key = "if isUrl then GetSha256Hash (cv_sha256 V) (string_bytes (path_Base source)) else source"
  have new: "task_ok ?key \<lparr>dt_Source = source, dt_Doing = False, dt_Option = if isUrl then SITE_RESOURCE_CACHE else NODE_RESOURCE_CACHE\<rparr>"
    by (simp add: task_ok_def hash_no_slash)
  have enq: "tasks_ok c2" if "enqueue_task c1 ?key source (if isUrl then SITE_RESOURCE_CACHE else NODE_RESOURCE_CACHE) = Some c2" "tasks_ok c1" for c1 c2
    using that new by (auto simp: enqueue_task_def go_defs split: option.splits if_splits intro!: tasks_ok_queue)
  show ?thesis using assms enq [of "fst (PutFileRecord V c ?key RECORD_REQUESTS _)"]
    by (auto simp: QueryCacheResource_def Let_def split: option.splits if_splits prod.splits sum.splits bool.splits)
qed

text \<open>Every operation keeps the queue in order.\<close>

lemma keeps_Query: "QueryCacheResource V c acc source isUrl = Some (files, c') \<Longrightarrow> tasks_ok c \<longrightarrow> tasks_ok c'"
  using tasks_ok_Query by blast

lemma keeps_query_status: "query_status V H w c req acc = Some (r, c', w') \<Longrightarrow> tasks_ok c \<longrightarrow> tasks_ok c'"
  by (auto simp: query_status_def Let_def split: if_splits option.splits prod.splits dest!: keeps_Query)

lemma keeps_send: "send_cached V c fs req f s = Some (c', s') \<Longrightarrow> tasks_ok c \<longrightarrow> tasks_ok c'"
  by (auto simp: send_cached_def Let_def split: option.splits prod.splits sum.splits)

lemma keeps_info: "GetCacheInfo V c acc = (info, c') \<Longrightarrow> tasks_ok c \<longrightarrow> tasks_ok c'"
  by (auto simp: GetCacheInfo_def GetCacheInfo_reads_def Let_def split: prod.splits)

lemma keeps_service: "CacheService V H w c fs s = Some (c', w', s') \<Longrightarrow> tasks_ok c \<longrightarrow> tasks_ok c'"
  by (auto simp: CacheService_def Let_def split: option.splits prod.splits sum.splits if_splits
      dest!: keeps_query_status keeps_send keeps_info)

lemma keeps_move: "move_to_cache V c fs k p = (err, c', fs') \<Longrightarrow> tasks_ok c \<longrightarrow> tasks_ok c'"
  by (auto simp: move_to_cache_def split: prod.splits)

lemma keeps_responses: "receive_responses V c fs rs = Some (c', fs') \<Longrightarrow> tasks_ok c \<longrightarrow> tasks_ok c'"
  by (induction rs arbitrary: c fs) (fastforce dest!: keeps_move split: option.splits prod.splits if_splits)+

lemma keeps_delete: "queue_Delete c k = Some c' \<Longrightarrow> tasks_ok c \<longrightarrow> tasks_ok c'"
  by (auto simp: queue_Delete_def go_defs split: option.splits if_splits intro!: tasks_ok_queue)

lemma keeps_receive: "Cache_Receive V c fs m = Some (c', fs', sent) \<Longrightarrow> tasks_ok c \<longrightarrow> tasks_ok c'"
  by (cases m) (auto simp: Cache_Receive_def Let_def split: option.splits prod.splits sum.splits if_splits
      dest!: keeps_move keeps_delete keeps_responses)

lemma keeps_restore_entry: "restore_entry V c e = (c', err) \<Longrightarrow> tasks_ok c \<longrightarrow> tasks_ok c'"
  by (auto simp: restore_entry_def add_cache_record_def Let_def split: prod.splits option.splits if_splits)

lemma keeps_restore: "RestoreCacheFiles V c es = (c', err) \<Longrightarrow> tasks_ok c \<longrightarrow> tasks_ok c'"
  by (induction es arbitrary: c) (fastforce dest!: keeps_restore_entry split: prod.splits option.splits)+

text \<open>Serving a task keeps the queue in order, and what it sends is a request the resource actor acts on.\<close>

definition request_ok :: "DownloadRequest \<Rightarrow> bool" where
  "request_ok r \<longleftrightarrow> (\<exists>creq. dq_Data r = Some creq \<and>
     (dq_Option r = NODE_RESOURCE_CACHE \<and> length (split_on (CHR ''/'') (rq_WantFile creq)) = 2 \<or>
      dq_Option r = SITE_RESOURCE_CACHE))"

lemma serve_task_ok:
  assumes "serve_task V c q k t = (c', sent)" and "ca_dlQueue c = Some q" and "q k = Some t" and "tasks_ok c"
  shows "tasks_ok c'" and "list_all request_ok sent" and "ca_record c' = ca_record c"
proof -
  have t: "task_ok k (t\<lparr>dt_Doing := True\<rparr>)" using assms(2-4) by (auto simp: tasks_ok_def task_ok_def)
  have "tasks_ok (c\<lparr>ca_dlQueue := Some (q(k \<mapsto> t\<lparr>dt_Doing := True\<rparr>))\<rparr>)" "tasks_ok (c\<lparr>ca_dlQueue := Some (q(k := None))\<rparr>)"
    using t by (auto intro!: tasks_ok_queue [OF assms(4,2)] split: if_splits)
  then show "tasks_ok c'" "list_all request_ok sent" "ca_record c' = ca_record c"
    using assms by (auto simp: serve_task_def Let_def go_defs request_ok_def CacheRequest_zero_def tasks_ok_def
        split: prod.splits if_splits sum.splits)
qed

lemma serve_round_ok:
  "serve_round V c ks = (c', sent) \<Longrightarrow> tasks_ok c \<Longrightarrow> tasks_ok c' \<and> list_all request_ok sent \<and> ca_record c' = ca_record c"
proof (induction ks arbitrary: c c' sent)
  case (Cons k ks)
  show ?case
  proof (cases "ca_dlQueue c")
    case (Some q)
    show ?thesis
    proof (cases "q k")
      case None
      then show ?thesis using Cons Some by simp
    next
      case (Some t)
      obtain c1 s1 where one: "serve_task V c q k t = (c1, s1)" by fastforce
      note ok = serve_task_ok [OF one \<open>ca_dlQueue c = Some q\<close> Some Cons.prems(2)]
      obtain c2 s2 where two: "serve_round V c1 ks = (c2, s2)" by fastforce
      from Cons.IH [OF two ok(1)] ok Cons.prems(1) one two Some \<open>ca_dlQueue c = Some q\<close> show ?thesis by auto
    qed
  qed (use Cons in simp)
qed simp

section \<open>Invariants of the system\<close>

definition system_ok :: "('db, 'c, 'w, 'n) system \<Rightarrow> bool" where
  "system_ok s \<longleftrightarrow> tasks_ok (sy_cache s) \<and> list_all request_ok (sy_requests s) \<and>
     (\<forall>m \<in> set (sy_answers s). \<forall>req. m \<noteq> MsgCacheRequest req \<and> m \<noteq> MsgOther)"

lemma Resource_Receive_answer:
  "Resource_Receive R ra ready n fs msg = Some (Some m, fs', n') \<Longrightarrow> (\<forall>creq. m \<noteq> MsgCacheRequest creq) \<and> m \<noteq> MsgOther"
  by (auto simp: Resource_Receive_def Let_def split: option.splits if_splits sum.splits prod.splits)

lemma system_ok_step: "system_step V H R ra s s' \<Longrightarrow> system_ok s \<Longrightarrow> system_ok s'"
proof (induction rule: system_step.induct)
  case (sys_service s str c' w' str')
  then show ?case by (auto simp: system_ok_def dest: keeps_service)
next
  case (sys_round s keys c' sent)
  then show ?case by (auto simp: system_ok_def dest: serve_round_ok)
next
  case (sys_resource s req rest answer fs' n')
  then show ?case by (auto simp: system_ok_def split: option.splits dest!: Resource_Receive_answer)
next
  case (sys_answer s m rest c' fs' sent)
  then show ?case by (auto simp: system_ok_def dest: keeps_receive)
next
  case (sys_restore s entries c' err)
  then show ?case by (auto simp: system_ok_def dest: keeps_restore)
qed (auto simp: system_ok_def tasks_ok_def RunDownloadServer_start_def RunDownloadServer_stop_def SetRequestNumber_def Let_def
    split: if_splits option.splits)

lemma system_ok_steps: "(system_step V H R ra)\<^sup>*\<^sup>* s s' \<Longrightarrow> system_ok s \<Longrightarrow> system_ok s'"
  by (induction rule: rtranclp_induct) (auto intro: system_ok_step)

text \<open>
  What becomes of a request of the download server: a segment is answered with a batch, empty after an error, unless its
  download never returns; a page is answered unless its download failed.
\<close>

definition request_acted_on :: "'n resource_env \<Rightarrow> ResourceActor \<Rightarrow> 'n \<Rightarrow> fs \<Rightarrow> DownloadRequest \<Rightarrow> bool" where
  "request_acted_on R ra n fs req \<longleftrightarrow>
     (case Resource_Receive R ra True n fs (Some req) of
        None \<Rightarrow> dq_Option req = NODE_RESOURCE_CACHE \<and>
          (\<exists>creq fhash shash. dq_Data req = Some creq \<and> split_on (CHR ''/'') (rq_WantFile creq) = [fhash, shash] \<and> download_stuck R ra fhash)
      | Some (None, fs', n') \<Rightarrow> dq_Option req = SITE_RESOURCE_CACHE \<and>
          (\<exists>creq err. dq_Data req = Some creq \<and>
             fst (downloadfile R fs (rq_WantUrl creq) (path_Join [re_TempDir R, GetSha256Hash (re_sha256 R) (string_bytes (rq_WantUrl creq))])) = (0, Some err))
      | Some (Some m, fs', n') \<Rightarrow>
          dq_Option req = NODE_RESOURCE_CACHE \<and> (\<exists>resps. m = MsgDownloadResponses resps) \<or>
          dq_Option req = SITE_RESOURCE_CACHE \<and> (\<exists>resp. m = MsgDownloadResponse resp))"

lemma split_two: "length xs = 2 \<Longrightarrow> \<exists>a b. xs = [a, b]"
  by (cases xs; cases "tl xs") auto

lemma request_ok_acted_on:
  assumes "request_ok req" and "\<forall>k. re_Intn R (Suc k) \<le> k"
  shows "request_acted_on R ra n fs req"
proof -
  from assms(1) consider (node) creq a b where "dq_Data req = Some creq" "dq_Option req = NODE_RESOURCE_CACHE"
      "split_on (CHR ''/'') (rq_WantFile creq) = [a, b]"
    | (site) creq where "dq_Data req = Some creq" "dq_Option req = SITE_RESOURCE_CACHE"
    unfolding request_ok_def by (metis split_two)
  then show ?thesis
  proof cases
    case node
    then show ?thesis using Download_stuck [OF _ assms(2), of ra n fs "rq_AccountId creq" a b]
      by (auto simp: request_acted_on_def Resource_Receive_def Let_def split: option.splits sum.splits prod.splits)
  next
    case site
    then show ?thesis
      by (auto simp: request_acted_on_def Resource_Receive_def downloadfile_def Let_def split: option.splits sum.splits prod.splits)
  qed
qed

text \<open>A request for the segment \<open>k\<close> is among those sent.\<close>

definition asks_node :: "DownloadRequest list \<Rightarrow> string \<Rightarrow> bool" where
  "asks_node sent k \<longleftrightarrow> (\<exists>r \<in> set sent. dq_Option r = NODE_RESOURCE_CACHE \<and> map_option rq_WantFile (dq_Data r) = Some k)"

lemma GetFileRecord_cong: "ca_record c' = ca_record c \<Longrightarrow> GetFileRecord V c' = GetFileRecord V c"
  by (simp add: GetFileRecord_def fun_eq_iff)

lemma serve_task_node:
  assumes "serve_task V c q a u = (c1, s1)" and "ca_dlQueue c = Some q" and "q a = Some u" and "q k = Some t"
    and "dt_Option t = NODE_RESOURCE_CACHE" and "length (split_on (CHR ''/'') (dt_Source t)) = 2"
    and "GetFileRecord V c k RECORD_FRAGMENTS = (0, False)"
  shows "\<exists>q1 t1. ca_dlQueue c1 = Some q1 \<and> q1 k = Some t1 \<and> dt_Option t1 = NODE_RESOURCE_CACHE \<and> dt_Source t1 = dt_Source t \<and>
    (k = a \<longrightarrow> asks_node s1 (dt_Source t))"
  using assms by (auto simp: serve_task_def Let_def go_defs asks_node_def CacheRequest_zero_def
      split: prod.splits if_splits sum.splits)

lemma serve_round_node:
  assumes "serve_round V c ks = (c', sent)" and "ca_dlQueue c = Some q" and "q k = Some t" and "tasks_ok c"
    and "dt_Option t = NODE_RESOURCE_CACHE" and "length (split_on (CHR ''/'') (dt_Source t)) = 2"
    and "GetFileRecord V c k RECORD_FRAGMENTS = (0, False)"
  shows "\<exists>q' t'. ca_dlQueue c' = Some q' \<and> q' k = Some t' \<and> (k \<in> set ks \<longrightarrow> asks_node sent (dt_Source t))"
  using assms
proof (induction ks arbitrary: c q t sent)
  case (Cons a ks)
  show ?case
  proof (cases "q a")
    case None
    then show ?thesis using Cons.IH [of c sent q t] Cons.prems by auto
  next
    case (Some u)
    obtain c1 s1 where one: "serve_task V c q a u = (c1, s1)" by fastforce
    obtain c2 s2 where two: "serve_round V c1 ks = (c2, s2)" by fastforce
    then have eq: "c' = c2" "sent = s1 @ s2" using Cons.prems Some one by auto
    obtain q1 t1 where t1: "ca_dlQueue c1 = Some q1" "q1 k = Some t1" "dt_Option t1 = NODE_RESOURCE_CACHE" "dt_Source t1 = dt_Source t"
      "k = a \<longrightarrow> asks_node s1 (dt_Source t)"
      using serve_task_node [OF one Cons.prems(2) Some Cons.prems(3,5-7)] by blast
    note ok = serve_task_ok [OF one Cons.prems(2) Some Cons.prems(4)]
    have "\<exists>q' t'. ca_dlQueue c' = Some q' \<and> q' k = Some t' \<and> (k \<in> set ks \<longrightarrow> asks_node s2 (dt_Source t1))"
      by (rule Cons.IH [OF two [folded eq(1)] t1(1,2) ok(1) t1(3)])
        (use t1(4) Cons.prems(6,7) GetFileRecord_cong [OF ok(3)] in auto)
    then show ?thesis using t1(4,5) eq(2) by (auto simp: asks_node_def)
  qed
qed auto

text \<open>A query that may download leaves a task for its segment in the queue.\<close>

lemma query_status_queued:
  assumes "ca_dlQueue c = Some q" and "plain f" and "plain g" and "rq_WantUrl req = ''''" and "rq_WantFile req = f @ ''/'' @ g"
    and "CheckCredit (cv_credit V) H w (ca_creditMg c) (rq_AccountId req) (rq_Data req) (rq_Sign req) = Some (True, cm, w')"
    and "wants_download (fc_GetLoadRatio (cv_cache V) (ca_FileCache c)) (ri_Level (fst (GetCreditRecord (cv_credit V) cm acc)))
      (fst (GetFileRecord V c (f @ ''/'' @ g) RECORD_REQUESTS) + 1)"
  shows "\<exists>status files c' q' t. query_status V H w c req acc = Some ((status, files), c', w') \<and>
    status \<in> {STATUS_HIT, STATUS_MISS, STATUS_LOADING} \<and> ca_dlQueue c' = Some q' \<and> q' (f @ ''/'' @ g) = Some t"
proof -
  let ?k = "f @ ''/'' @ g" and ?c = "c\<lparr>ca_creditMg := cm\<rparr>"
  have split: "split_on (CHR ''/'') ?k = [f, g]" "path_Join [f, g] = ?k"
    using assms(2,3) by (simp_all add: split_on_append split_on_no_sep path_Join_plain plain_def)
  have rec: "GetFileRecord V ?c = GetFileRecord V c" by (rule GetFileRecord_cong) simp
  obtain files c' where Q: "QueryCacheResource V ?c acc ?k False = Some (files, c')"
    "ca_dlQueue c' = Some (fst (smap_LoadOrStore q ?k \<lparr>dt_Source = ?k, dt_Doing = False, dt_Option = NODE_RESOURCE_CACHE\<rparr>))"
    using QueryCacheResource_queue [of ?c q ?k False V ?k, OF _ _ refl refl refl, of acc] assms(1,7) rec by auto
  show ?thesis
    using assms(1,4-6) split Q by (cases "q ?k") (auto simp: query_status_def Let_def go_defs)
qed

section \<open>Properties\<close>

text \<open>C3: A node asks for what it has: in every state that the two actors of a node reach from a fresh file record, with
  any messages under way and whatever the cache holds, every round of the download server that visits a task for a segment asks
  the resource actor for the segment and keeps the task. And a query for a segment that passes the credit check and for which the node wants to download
  is answered with a miss or with loading and leaves a task for the segment in the queue.\<close>

theorem cached_segment_fetched_again:
  assumes "cache_db V" and "\<forall>k. ldb_Get (cv_db V) (ca_record (sy_cache s0)) (k @ RECORD_FRAGMENTS) = Inl ErrNotFound"
    and "ca_dlQueue (sy_cache s0) = None" and "sy_requests s0 = []" and "sy_answers s0 = []"
    and "(system_step V H R ra)\<^sup>*\<^sup>* s0 s" and "ca_dlQueue (sy_cache s) = Some q" and "plain f" and "plain g"
  shows "(\<forall>t keys c2 sent. q (f @ ''/'' @ g) = Some t \<and> f @ ''/'' @ g \<in> set keys \<and> serve_round V (sy_cache s) keys = (c2, sent) \<longrightarrow>
       asks_node sent (f @ ''/'' @ g) \<and> (\<exists>q' t'. ca_dlQueue c2 = Some q' \<and> q' (f @ ''/'' @ g) = Some t')) \<and>
    (\<forall>req acc cm w'. rq_WantUrl req = '''' \<and> rq_WantFile req = f @ ''/'' @ g \<and>
       CheckCredit (cv_credit V) H (sy_chain s) (ca_creditMg (sy_cache s)) (rq_AccountId req) (rq_Data req) (rq_Sign req) = Some (True, cm, w') \<and>
       wants_download (fc_GetLoadRatio (cv_cache V) (ca_FileCache (sy_cache s))) (ri_Level (fst (GetCreditRecord (cv_credit V) cm acc)))
         (fst (GetFileRecord V (sy_cache s) (f @ ''/'' @ g) RECORD_REQUESTS) + 1) \<longrightarrow>
       (\<exists>status c' q' t. query_status V H (sy_chain s) (sy_cache s) req acc = Some ((status, []), c', w') \<and>
          status \<in> {STATUS_MISS, STATUS_LOADING} \<and> ca_dlQueue c' = Some q' \<and> q' (f @ ''/'' @ g) = Some t))"
proof (intro conjI allI impI)
  let ?k = "f @ ''/'' @ g"
  have view: "segment_view V (sy_cache s) ?k = Some (Inl ErrNotFound)"
    by (rule cache_db.fresh_view [OF assms(1,2) system_node_steps [OF assms(6)] assms(8,9)])
  have "system_ok s" by (rule system_ok_steps [OF assms(6)]) (simp add: system_ok_def tasks_ok_def assms(3-5))
  then have ok: "tasks_ok (sy_cache s)" by (simp add: system_ok_def)
  fix t keys c2 sent
  assume r: "q ?k = Some t \<and> ?k \<in> set keys \<and> serve_round V (sy_cache s) keys = (c2, sent)"
  then have "task_ok ?k t" using ok assms(7) unfolding tasks_ok_def by blast
  then have t: "dt_Option t = NODE_RESOURCE_CACHE" "dt_Source t = ?k" by (auto simp: task_ok_def)
  have len: "length (split_on (CHR ''/'') (dt_Source t)) = 2" using assms(8,9) t(2) by (simp add: split_on_append split_on_no_sep plain_def)
  show "asks_node sent ?k" and "\<exists>q' t'. ca_dlQueue c2 = Some q' \<and> q' ?k = Some t'"
    using serve_round_node [OF _ assms(7) _ ok t(1) len GetFileRecord_view [OF view], of keys c2 sent] r t(2) by auto
next
  let ?k = "f @ ''/'' @ g"
  fix req :: CacheRequest and acc cm w'
  assume r: "rq_WantUrl req = '''' \<and> rq_WantFile req = ?k \<and>
    CheckCredit (cv_credit V) H (sy_chain s) (ca_creditMg (sy_cache s)) (rq_AccountId req) (rq_Data req) (rq_Sign req) = Some (True, cm, w') \<and>
    wants_download (fc_GetLoadRatio (cv_cache V) (ca_FileCache (sy_cache s))) (ri_Level (fst (GetCreditRecord (cv_credit V) cm acc)))
      (fst (GetFileRecord V (sy_cache s) ?k RECORD_REQUESTS) + 1)"
  have view: "segment_view V (sy_cache s) ?k = Some (Inl ErrNotFound)"
    by (rule cache_db.fresh_view [OF assms(1,2) system_node_steps [OF assms(6)] assms(8,9)])
  obtain status files c' q' t where Q: "query_status V H (sy_chain s) (sy_cache s) req acc = Some ((status, files), c', w')"
    "status \<in> {STATUS_HIT, STATUS_MISS, STATUS_LOADING}" "ca_dlQueue c' = Some q'" "q' ?k = Some t"
    using query_status_queued [OF assms(7-9) r [THEN conjunct1] r [THEN conjunct2, THEN conjunct1] r [THEN conjunct2, THEN conjunct2, THEN conjunct1]
        r [THEN conjunct2, THEN conjunct2, THEN conjunct2]] by blast
  have "status \<noteq> STATUS_HIT \<and> files = []"
    by (rule cache_db.query_no_hit [OF assms(1) view assms(8,9) _ _ Q(1)]) (use r in auto)
  then show "\<exists>status c' q' t. query_status V H (sy_chain s) (sy_cache s) req acc = Some ((status, []), c', w') \<and>
      status \<in> {STATUS_MISS, STATUS_LOADING} \<and> ca_dlQueue c' = Some q' \<and> q' ?k = Some t"
    using Q by auto
qed

definition mem_system :: "(string \<rightharpoonup> bytes, (string \<times> string) list, unit, unit) system" where
  "mem_system = \<lparr>sy_cache = mem_node\<lparr>ca_dlQueue := None\<rparr>, sy_chain = (), sy_fs = Map.empty, sy_net = (), sy_requests = [], sy_answers = []\<rparr>"

abbreviation mem_query :: CacheRequest where
  "mem_query \<equiv> CacheRequest_zero\<lparr>rq_Option := OPTION_QUERY, rq_AccountId := [1], rq_WantFile := ''f/s''\<rparr>"

definition mem_asked :: "(string \<rightharpoonup> bytes, (string \<times> string) list) cache_env" where
  "mem_asked = mem_cache_env\<lparr>cv_unmarshal := \<lambda>bs. Inr mem_query\<rparr>"

definition mem_stream :: stream where
  "mem_stream = \<lparr>s_in = [RData [123]], s_out = \<lparr>wr_out = [], wr_script = []\<rparr>, s_reset = False, s_closed = False\<rparr>"

text \<open>The service of a query for a segment, on a node with any items in its cache.\<close>

lemma mem_service:
  assumes "r (''f/s'' @ RECORD_FRAGMENTS) = None" and "r (''f/s'' @ RECORD_REQUESTS) = None"
  shows "\<exists>c' str' q. CacheService mem_asked mem_orders () (mem_node\<lparr>ca_FileCache := fc, ca_record := r\<rparr>) Map.empty mem_stream = Some (c', (), str') \<and>
     ca_dlQueue c' = Some q \<and> q ''f/s'' = Some \<lparr>dt_Source = ''f/s'', dt_Doing = False, dt_Option = NODE_RESOURCE_CACHE\<rparr> \<and>
     ca_record c' (''f/s'' @ RECORD_FRAGMENTS) = None \<and> ca_Account c' = [9] \<and> ca_FileCache c' = fc"
proof -
  have read: "ReadData [RData [123]] = Some ([123], None)" using ReadData_message [of "[]" "[123]" "[]"] by simp
  have path: "path_Join [''f'', ''s''] = ''f/s''" by (simp add: path_Join_plain plain_def)
  show ?thesis
    using assms by (simp add: CacheService_def mem_asked_def mem_stream_def read CacheRequest_zero_def option_distinct GetCacheInfo_def GetCacheInfo_reads_def
        IsLimited_def mem_empty query_status_def CheckCredit_def mem.Get_Put path QueryCacheResource_def enqueue_task_def wants_download_def
        mem_node_def go_defs Let_def RecordItem_zero_def LEVEL_OWNER_def GetFileRecord_def PutFileRecord_def mem_leveldb_def
        split: prod.split)
qed

theorem cached_segment_fetched_again_witness:
  "\<exists>s q t. (system_step mem_asked mem_orders (mem_resource mem_fmeta) (NewResourceActor default_strategy))\<^sup>*\<^sup>* mem_system s \<and>
     ca_FileCache (sy_cache s) = [(''f/s/a'', ''p/a/s/f'')] \<and> ca_dlQueue (sy_cache s) = Some q \<and> q ''f/s'' = Some t \<and>
     asks_node (snd (serve_round mem_asked (sy_cache s) [''f/s''])) ''f/s''"
proof -
  let ?e = "\<lparr>we_path = ''p/a/s/f'', we_err = None, we_IsDir = False, we_Size = 8388608\<rparr>"
  let ?R = "mem_resource mem_fmeta" and ?ra = "NewResourceActor default_strategy"
  let ?step = "system_step mem_asked mem_orders ?R ?ra"
  have key: "path_Join [''f'', ''s'', ''a''] = ''f/s/a''" by (simp add: path_Join_plain plain_def)
  obtain c1 err r where c1: "RestoreCacheFiles mem_asked (sy_cache mem_system) [?e] = (c1, err)"
    "c1 = mem_node\<lparr>ca_FileCache := [(''f/s/a'', ''p/a/s/f'')], ca_record := r, ca_dlQueue := None\<rparr>"
    "r (''f/s'' @ RECORD_FRAGMENTS) = None" "r (''f/s'' @ RECORD_REQUESTS) = None"
    using key by (simp add: mem_asked_def mem_system_def mem_node_def restore_entry_def add_cache_record_def mem_file_cache_def
        onAddItem_def path_Split_def put_record_def mem_leveldb_def RECORD_FRAGMENTS_def RECORD_REQUESTS_def)
  let ?c2 = "mem_node\<lparr>ca_FileCache := [(''f/s/a'', ''p/a/s/f'')], ca_record := r\<rparr>"
  obtain c' str' q where c': "CacheService mem_asked mem_orders () ?c2 Map.empty mem_stream = Some (c', (), str')" "ca_dlQueue c' = Some q"
    "q ''f/s'' = Some \<lparr>dt_Source = ''f/s'', dt_Doing = False, dt_Option = NODE_RESOURCE_CACHE\<rparr>" "ca_FileCache c' = [(''f/s/a'', ''p/a/s/f'')]"
    using mem_service [OF c1(3,4)] by blast
  let ?s = "mem_system\<lparr>sy_cache := c'\<rparr>"
  have "?step mem_system (mem_system\<lparr>sy_cache := c1\<rparr>)" by (rule sys_restore [OF c1(1)])
  moreover have "?step (mem_system\<lparr>sy_cache := c1\<rparr>) (mem_system\<lparr>sy_cache := c1\<rparr>\<lparr>sy_cache := ?c2\<rparr>)"
    by (rule sys_start [where resrcActor = "Some []" and threads = 1 and numCPU = 1 and threadNum = 1]) (simp add: RunDownloadServer_start_def c1(2) mem_node_def)
  moreover have "?step (mem_system\<lparr>sy_cache := ?c2\<rparr>) ?s"
    using sys_service [of mem_asked mem_orders "mem_system\<lparr>sy_cache := ?c2\<rparr>" mem_stream c' "()" str' ?R ?ra] c'(1) by (simp add: mem_system_def)
  ultimately have reach: "?step\<^sup>*\<^sup>* mem_system ?s" by (simp add: converse_rtranclp_into_rtranclp)
  have db: "cache_db mem_asked" using mem_atomic.cache_db_axioms by (simp add: cache_db_def mem_asked_def)
  obtain c2 sent where round: "serve_round mem_asked c' [''f/s''] = (c2, sent)" by fastforce
  have "asks_node sent (''f'' @ ''/'' @ ''s'') \<and> (\<exists>q' t'. ca_dlQueue c2 = Some q' \<and> q' (''f'' @ ''/'' @ ''s'') = Some t')"
    by (rule cached_segment_fetched_again [OF db _ _ _ _ reach, THEN conjunct1, rule_format, where q = q and keys = "[''f/s'']"
        and t = "\<lparr>dt_Source = ''f/s'', dt_Doing = False, dt_Option = NODE_RESOURCE_CACHE\<rparr>"])
      (use c'(2,3) round in \<open>simp_all add: mem_system_def mem_node_def mem_asked_def mem_leveldb_def plain_def del: serve_round.simps\<close>)
  then have "asks_node (snd (serve_round mem_asked c' [''f/s''])) ''f/s''" using round by simp
  then show ?thesis using reach c'(2-4) by (intro exI [of _ ?s]) auto
qed

text \<open>C12: The two actors of a node understand each other: in every state that they reach from their start, the request that the
  resource actor takes next is for a segment or a page. For a segment it answers with a batch, empty after an error, unless the
  download never returns, and that happens only where the query of the neighbours for a segment of the file or a download from a
  neighbour never returns or the configured number of neighbours is zero. For a page it answers unless the download
  failed. And the cache actor has nothing but answers in its mailbox.\<close>

theorem requests_acted_on:
  assumes "ca_dlQueue (sy_cache s0) = None" and "sy_requests s0 = []" and "sy_answers s0 = []" and "\<forall>k. re_Intn R (Suc k) \<le> k"
    and "(system_step V H R ra)\<^sup>*\<^sup>* s0 s" and "sy_requests s = req # rest"
  shows "request_acted_on R ra (sy_net s) (sy_fs s) req \<and>
    (\<forall>m \<in> set (sy_answers s). (\<exists>resp. m = MsgDownloadResponse resp) \<or> (\<exists>resps. m = MsgDownloadResponses resps))"
proof -
  have ok: "system_ok s" by (rule system_ok_steps [OF assms(5)]) (simp add: system_ok_def tasks_ok_def assms(1-3))
  then have "request_ok req" using assms(6) by (simp add: system_ok_def)
  from request_ok_acted_on [OF this assms(4)] ok show ?thesis
    unfolding system_ok_def by (metis cache_msg.exhaust)
qed

definition mem_lost :: "unit resource_env" where
  "mem_lost = (mem_resource mem_fmeta)\<lparr>re_S := (mem_storage mem_fmeta)\<lparr>se_QueryFile := \<lambda>f. Inl (Errorf ''no such file'')\<rparr>\<rparr>"

theorem requests_acted_on_witness:
  "\<exists>s req. (system_step mem_asked mem_orders mem_lost (NewResourceActor default_strategy))\<^sup>*\<^sup>* mem_system s \<and>
     sy_requests s = [req] \<and> dq_Option req = NODE_RESOURCE_CACHE \<and> request_acted_on mem_lost (NewResourceActor default_strategy) (sy_net s) (sy_fs s) req \<and>
     Resource_Receive mem_lost (NewResourceActor default_strategy) True (sy_net s) (sy_fs s) (Some req) = Some (Some (MsgDownloadResponses []), sy_fs s, sy_net s)"
proof -
  let ?ra = "NewResourceActor default_strategy"
  let ?step = "system_step mem_asked mem_orders mem_lost ?ra"
  let ?req = "\<lparr>dq_Option = NODE_RESOURCE_CACHE, dq_Data = Some (CacheRequest_zero\<lparr>rq_AccountId := [9], rq_WantFile := ''f/s''\<rparr>)\<rparr>"
  have node: "mem_node\<lparr>ca_FileCache := ca_FileCache mem_node, ca_record := ca_record mem_node\<rparr> = mem_node" by simp
  obtain c' str' q where c': "CacheService mem_asked mem_orders () mem_node Map.empty mem_stream = Some (c', (), str')" "ca_dlQueue c' = Some q"
    "q ''f/s'' = Some \<lparr>dt_Source = ''f/s'', dt_Doing = False, dt_Option = NODE_RESOURCE_CACHE\<rparr>" "ca_record c' (''f/s'' @ RECORD_FRAGMENTS) = None"
    "ca_Account c' = [9]" using mem_service [of "ca_record mem_node" "ca_FileCache mem_node"] unfolding node by (auto simp: mem_node_def)
  obtain c2 where round: "serve_round mem_asked c' [''f/s''] = (c2, [?req])"
    using c'(2-5) by (simp add: serve_task_def GetFileRecord_def mem_asked_def mem_leveldb_def CacheRequest_zero_def)
  let ?s1 = "mem_system\<lparr>sy_cache := mem_node\<rparr>" and ?s2 = "mem_system\<lparr>sy_cache := c'\<rparr>" and ?s = "mem_system\<lparr>sy_cache := c2, sy_requests := [?req]\<rparr>"
  have "?step mem_system ?s1"
    by (rule sys_start [where resrcActor = "Some []" and threads = 1 and numCPU = 1 and threadNum = 1])
      (simp add: RunDownloadServer_start_def mem_system_def mem_node_def)
  moreover have "?step ?s1 ?s2"
    using sys_service [of mem_asked mem_orders ?s1 mem_stream c' "()" str' mem_lost ?ra] c'(1) by (simp add: mem_system_def)
  moreover have "?step ?s2 ?s" using sys_round [of mem_asked ?s2 "[''f/s'']" c2 "[?req]" mem_orders mem_lost ?ra] round by (simp add: mem_system_def)
  ultimately have reach: "?step\<^sup>*\<^sup>* mem_system ?s" by (meson rtranclp.rtrancl_into_rtrancl rtranclp.rtrancl_refl)
  have ans: "Resource_Receive mem_lost ?ra True (sy_net ?s) (sy_fs ?s) (Some ?req) = Some (Some (MsgDownloadResponses []), sy_fs ?s, sy_net ?s)"
    by (simp add: Resource_Receive_def DownloadStoragedFiles_def mem_lost_def CacheRequest_zero_def)
  have "request_acted_on mem_lost ?ra (sy_net ?s) (sy_fs ?s) ?req"
    using requests_acted_on [OF _ _ _ _ reach, of ?req "[]"] by (simp add: mem_system_def mem_lost_def mem_resource_def)
  with reach ans show ?thesis by (intro exI [of _ ?s] exI [of _ ?req]) auto
qed

end
