(* ===== verification/Evm_Client.thy ===== *)
theory Evm_Client
  imports Go_Prelude
begin

text \<open>
  \<open>cd2n-lib/protocol/evm_client.go\<close>: the Ethereum client of a node, its options, the options of
  a transaction, and the loop that waits for a log event.

  The connection \<open>'e\<close>, the secret key \<open>'k\<close> and the registered contracts \<open>'ct\<close> are parameter types;
  the functions of go-ethereum are parameters. A \<open>nil\<close> pointer is \<open>None\<close>; using one panics.
\<close>

section \<open>Data\<close>

definition DEFAULT_TOKEN_CONTRACT_NAME :: string where
  "DEFAULT_TOKEN_CONTRACT_NAME = ''token_contract''"
definition DEFAULT_TOKEN_CONTRACT_ADDRESS :: string where
  "DEFAULT_TOKEN_CONTRACT_ADDRESS = ''0xDc5950C626bdB597E586CEaa91117579cb10688D''"
definition DEFAULT_CACHE_PROTO_CONTRACT_ADDRESS :: string where
  "DEFAULT_CACHE_PROTO_CONTRACT_ADDRESS = ''0xfA326Ce1E9D7d291B40945B6cDdCe8e9Efea9b34''"
definition DEFAULT_CACHE_PROTO_CONTRACT_NAME :: string where
  "DEFAULT_CACHE_PROTO_CONTRACT_NAME = ''cache_protocol_contract''"

record ('e, 'k, 'ct) Client =
  cl_RpcAddrs :: "string list"
  cl_ChainID :: i64
  cl_GasFeeCap :: "int option"
  cl_GasLimit :: u64
  cl_cli :: "'e option"
  cl_Account :: bytes
  cl_sk :: "'k option"
  cl_Contracts :: "string \<rightharpoonup> 'ct"

record TransactOpts =
  to_ChainID :: int
  to_GasTipCap :: "int option"
  to_GasFeeCap :: "int option"
  to_GasLimit :: u64
  to_Value :: "int option"

text \<open>What the client takes from go-ethereum; \<open>ee_NewKeyedTransactor\<close> receives the key and the chain id.\<close>

record ('e, 'k) evm_env =
  ee_Dial :: "string \<Rightarrow> 'e or_err"
  ee_HexToAddress :: "string \<Rightarrow> bytes"
  ee_HexToECDSA :: "string \<Rightarrow> 'k or_err"
  ee_KeyAddress :: "'k \<Rightarrow> bytes"
  ee_CompressPubkey :: "'k \<Rightarrow> bytes"
  ee_VerifySignature :: "bytes \<Rightarrow> bytes \<Rightarrow> bytes \<Rightarrow> bool"
  ee_Sign :: "bytes \<Rightarrow> 'k option \<Rightarrow> bytes or_err"
  ee_SuggestGasTipCap :: "'e \<Rightarrow> int option"
  ee_NewKeyedTransactor :: "'k \<Rightarrow> int \<Rightarrow> TransactOpts or_err"

section \<open>Options and construction\<close>

type_synonym ('e, 'k, 'ct) Option = "('e, 'k, 'ct) Client \<Rightarrow> ('e, 'k, 'ct) Client \<times> goerr option"

definition ConnectionRpcAddresss :: "string list \<Rightarrow> ('e, 'k, 'ct) Option" where
  "ConnectionRpcAddresss rpcs c =
     (if rpcs = [] then (c, Some (Errorf ''empty rpc address list'')) else (c\<lparr>cl_RpcAddrs := rpcs\<rparr>, None))"

definition NodeEthAccount :: "('e, 'k) evm_env \<Rightarrow> string \<Rightarrow> ('e, 'k, 'ct) Option" where
  "NodeEthAccount E hexAcc c = (c\<lparr>cl_Account := ee_HexToAddress E hexAcc\<rparr>, None)"

definition ChainID :: "i64 \<Rightarrow> ('e, 'k, 'ct) Option" where
  "ChainID i c = (c\<lparr>cl_ChainID := i\<rparr>, None)"

definition EthereumGas :: "i64 \<Rightarrow> u64 \<Rightarrow> ('e, 'k, 'ct) Option" where
  "EthereumGas gasFeeCap gasLimit c = (c\<lparr>cl_GasFeeCap := Some (sint gasFeeCap), cl_GasLimit := gasLimit\<rparr>, None)"

definition AccountPrivateKey :: "('e, 'k) evm_env \<Rightarrow> string \<Rightarrow> ('e, 'k, 'ct) Option" where
  "AccountPrivateKey E hexKey c =
     (case ee_HexToECDSA E hexKey of
        Inl err \<Rightarrow> (c, Some err)
      | Inr sk \<Rightarrow> (c\<lparr>cl_Account := ee_KeyAddress E sk, cl_sk := Some sk\<rparr>, None))"

definition Client_new :: "('e, 'k, 'ct) Client" where
  "Client_new = \<lparr>cl_RpcAddrs = [], cl_ChainID = 0, cl_GasFeeCap = None, cl_GasLimit = 0, cl_cli = None,
     cl_Account = replicate 20 0, cl_sk = None, cl_Contracts = Map.empty\<rparr>"

fun apply_options ::
  "('e, 'k, 'ct) Client \<Rightarrow> ('e, 'k, 'ct) Option list \<Rightarrow> ('e, 'k, 'ct) Client \<times> goerr option" where
  "apply_options c [] = (c, None)"
| "apply_options c (opt # opts) =
     (case opt c of (c1, Some err) \<Rightarrow> (c1, Some err) | (c1, None) \<Rightarrow> apply_options c1 opts)"

fun dial_first :: "('e, 'k) evm_env \<Rightarrow> string list \<Rightarrow> 'e option" where
  "dial_first E [] = None"
| "dial_first E (rpc # rpcs) = (case ee_Dial E rpc of Inr client \<Rightarrow> Some client | Inl err \<Rightarrow> dial_first E rpcs)"

definition NewClient ::
  "('e, 'k) evm_env \<Rightarrow> ('e, 'k, 'ct) Option list \<Rightarrow> ('e, 'k, 'ct) Client \<times> goerr option" where
  "NewClient E opts =
     (let msg = ''new ethereum client error'' in
      case apply_options Client_new opts of
        (c, Some err) \<Rightarrow> (c, Some (Wrapped msg err))
      | (c, None) \<Rightarrow>
          (if cl_RpcAddrs c = [] then (c, Some (Wrapped msg (Errorf ''no RPC address is configured'')))
           else let c1 = (case dial_first E (cl_RpcAddrs c) of
                  Some client \<Rightarrow> c\<lparr>cl_cli := Some client\<rparr> | None \<Rightarrow> c)
             in if cl_cli c1 = None then (c1, Some (Wrapped msg (Errorf ''chain RPC connection failed'')))
                else let c2 = (if cl_GasFeeCap c1 = None then c1\<lparr>cl_GasFeeCap := Some 108694000460\<rparr> else c1);
                         c3 = (if cl_GasLimit c2 = 0 then c2\<lparr>cl_GasLimit := 30000000\<rparr> else c2)
                     in (c3, None)))"

section \<open>Methods\<close>

definition AddWorkContract :: "('e, 'k, 'ct) Client \<Rightarrow> string \<Rightarrow> 'ct \<Rightarrow> ('e, 'k, 'ct) Client" where
  "AddWorkContract cli name contract = cli\<lparr>cl_Contracts := (cl_Contracts cli)(name \<mapsto> contract)\<rparr>"

definition GetContractAddress :: "('e, 'k, 'ct) Client \<Rightarrow> string \<Rightarrow> 'ct option" where
  "GetContractAddress cli name = cl_Contracts cli name"

definition GetPrivateKey :: "('e, 'k, 'ct) Client \<Rightarrow> 'k option" where
  "GetPrivateKey cli = cl_sk cli"

definition GetEthClient :: "('e, 'k, 'ct) Client \<Rightarrow> 'e option" where
  "GetEthClient cli = cl_cli cli"

definition VerifySign :: "('e, 'k) evm_env \<Rightarrow> ('e, 'k, 'ct) Client \<Rightarrow> bytes \<Rightarrow> bytes \<Rightarrow> bool option" where
  "VerifySign E cli hash sign =
     (case cl_sk cli of
        None \<Rightarrow> None
      | Some sk \<Rightarrow> Some (ee_VerifySignature E (ee_CompressPubkey E sk) hash sign))"

definition GetSignature :: "('e, 'k) evm_env \<Rightarrow> ('e, 'k, 'ct) Client \<Rightarrow> bytes \<Rightarrow> bytes or_err" where
  "GetSignature E cli data = ee_Sign E data (cl_sk cli)"

definition NewTransactionOption ::
  "('e, 'k) evm_env \<Rightarrow> ('e, 'k, 'ct) Client \<Rightarrow> string \<Rightarrow> TransactOpts or_err option" where
  "NewTransactionOption E cli value =
     (case (cl_cli cli, cl_sk cli) of
        (Some conn, Some sk) \<Rightarrow>
          (let gasTipCap = ee_SuggestGasTipCap E conn in
           case ee_NewKeyedTransactor E sk 11330 of
             Inl err \<Rightarrow> Some (Inl (Wrapped ''new transaction option error'' err))
           | Inr opts \<Rightarrow>
               (let opts1 = opts\<lparr>to_GasTipCap := gasTipCap, to_GasFeeCap := cl_GasFeeCap cli,
                                 to_GasLimit := cl_GasLimit cli\<rparr>
                in Some (Inr (if value \<noteq> '''' then opts1\<lparr>to_Value := big_SetString value\<rparr> else opts1))))
      | _ \<Rightarrow> None)"

section \<open>Waiting for a log event\<close>

text \<open>
  What the \<open>select\<close> of the loop sees, in order: a log, something on the error channel of the
  subscription (\<open>nil\<close> when the channel is closed), or the end of the context. A list that ends
  without any of the last two blocks. The callback's captured variables are the state \<open>'st\<close>.
\<close>

datatype 'l sub_event = EvLog 'l | EvSubErr "goerr option" | EvCtxDone

fun filter_loop :: "('st \<Rightarrow> 'l \<Rightarrow> bool \<times> 'st) \<Rightarrow> 'st \<Rightarrow> 'l sub_event list \<Rightarrow> ('st \<times> goerr option) option" where
  "filter_loop callback st [] = None"
| "filter_loop callback st (EvLog l # evs) =
     (case callback st l of (True, st1) \<Rightarrow> filter_loop callback st1 evs | (False, st1) \<Rightarrow> Some (st1, None))"
| "filter_loop callback st (EvSubErr err # evs) = Some (st, err)"
| "filter_loop callback st (EvCtxDone # evs) = Some (st, Some (Errorf ''timeout''))"

definition SubscribeFilterLogs ::
  "goerr + 'l sub_event list \<Rightarrow> ('st \<Rightarrow> 'l \<Rightarrow> bool \<times> 'st) \<Rightarrow> 'st \<Rightarrow> ('st \<times> goerr option) option" where
  "SubscribeFilterLogs sub callback st =
     (case sub of Inl err \<Rightarrow> Some (st, Some err) | Inr evs \<Rightarrow> filter_loop callback st evs)"

section \<open>Laws\<close>

text \<open>
  What the wait relies on: a callback that picks something out of some logs and goes on, with its
  variables unchanged, at the others. The result of a wait is then the first log picked, or the end
  of the subscription before it.
\<close>

locale first_match =
  fixes callback :: "'st \<Rightarrow> 'l \<Rightarrow> bool \<times> 'st" and pick :: "'l \<Rightarrow> 'st option"
  assumes callback_pick: "callback st l = (case pick l of None \<Rightarrow> (True, st) | Some st' \<Rightarrow> (False, st'))"
begin

lemma skip:
  "\<forall>l \<in> set ls. pick l = None \<Longrightarrow> SubscribeFilterLogs (Inr (map EvLog ls @ evs)) callback st = SubscribeFilterLogs (Inr evs) callback st"
  by (induction ls) (auto simp: SubscribeFilterLogs_def callback_pick)

lemma found:
  "\<forall>l \<in> set ls. pick l = None \<Longrightarrow> pick l = Some st' \<Longrightarrow>
   SubscribeFilterLogs (Inr (map EvLog ls @ EvLog l # evs)) callback st = Some (st', None)"
  by (simp add: skip) (simp add: SubscribeFilterLogs_def callback_pick)

lemma timeout:
  "\<forall>l \<in> set ls. pick l = None \<Longrightarrow>
   SubscribeFilterLogs (Inr (map EvLog ls @ EvCtxDone # evs)) callback st = Some (st, Some (Errorf ''timeout''))"
  by (simp add: skip) (simp add: SubscribeFilterLogs_def)

lemma result:
  assumes "SubscribeFilterLogs (Inr evs) callback st = Some (st', None)"
  shows "\<exists>ls rest. (\<forall>l \<in> set ls. pick l = None) \<and>
    ((\<exists>l. evs = map EvLog ls @ EvLog l # rest \<and> pick l = Some st') \<or> evs = map EvLog ls @ EvSubErr None # rest \<and> st' = st)"
  using assms
proof (induction evs)
  case (Cons e evs)
  show ?case
  proof (cases e)
    case (EvLog l)
    show ?thesis
    proof (cases "pick l")
      case None
      then have "SubscribeFilterLogs (Inr evs) callback st = Some (st', None)"
        using Cons.prems EvLog callback_pick [of st l] by (simp add: SubscribeFilterLogs_def)
      then obtain ls rest where h: "\<forall>l \<in> set ls. pick l = None"
        "(\<exists>l. evs = map EvLog ls @ EvLog l # rest \<and> pick l = Some st') \<or> evs = map EvLog ls @ EvSubErr None # rest \<and> st' = st"
        using Cons.IH by blast
      then show ?thesis using None EvLog by (intro exI [of _ "l # ls"] exI [of _ rest]) auto
    next
      case (Some x)
      then show ?thesis using Cons.prems EvLog by (intro exI [of _ "[]"] exI [of _ evs]) (simp add: SubscribeFilterLogs_def callback_pick)
    qed
  next
    case (EvSubErr err)
    then show ?thesis using Cons.prems by (intro exI [of _ "[]"] exI [of _ evs]) (simp add: SubscribeFilterLogs_def)
  next
    case EvCtxDone
    then show ?thesis using Cons.prems by (simp add: SubscribeFilterLogs_def)
  qed
qed (simp add: SubscribeFilterLogs_def)

end

lemma dial_first_Some:
  "dial_first E rpcs = Some client \<Longrightarrow>
     \<exists>pre rpc post. rpcs = pre @ rpc # post \<and> ee_Dial E rpc = Inr client \<and> (\<forall>r \<in> set pre. \<exists>e. ee_Dial E r = Inl e)"
proof (induction rpcs)
  case (Cons a rpcs)
  show ?case
  proof (cases "ee_Dial E a")
    case (Inl e)
    then obtain pre rpc post where "rpcs = pre @ rpc # post" "ee_Dial E rpc = Inr client"
      "\<forall>r \<in> set pre. \<exists>e. ee_Dial E r = Inl e"
      using Cons by auto
    then show ?thesis using Inl by (intro exI [of _ "a # pre"] exI [of _ rpc] exI [of _ post]) simp
  next
    case (Inr b)
    then show ?thesis using Cons.prems by (intro exI [of _ "[]"] exI [of _ a] exI [of _ rpcs]) simp
  qed
qed simp

lemma dial_first_None: "dial_first E rpcs = None \<longleftrightarrow> (\<forall>r \<in> set rpcs. \<exists>e. ee_Dial E r = Inl e)"
  by (induction rpcs) (auto split: sum.split)

text \<open>A go-ethereum in memory, for the witnesses.\<close>

definition mem_evm :: "(string, string) evm_env" where
  "mem_evm = \<lparr>ee_Dial = (\<lambda>r. if r = ''ws://down'' then Inl (Errorf ''refused'') else Inr r),
     ee_HexToAddress = string_bytes, ee_HexToECDSA = (\<lambda>h. if h = '''' then Inl (Errorf ''bad key'') else Inr h),
     ee_KeyAddress = string_bytes, ee_CompressPubkey = string_bytes, ee_VerifySignature = (\<lambda>pk h s. s = h @ pk),
     ee_Sign = (\<lambda>d k. case k of None \<Rightarrow> Inl (Errorf ''nil key'') | Some sk \<Rightarrow> Inr (d @ string_bytes sk)),
     ee_SuggestGasTipCap = (\<lambda>e. Some 1),
     ee_NewKeyedTransactor = (\<lambda>k chain. Inr \<lparr>to_ChainID = chain, to_GasTipCap = None, to_GasFeeCap = None,
        to_GasLimit = 0, to_Value = None\<rparr>)\<rparr>"

section \<open>Properties\<close>

text \<open>A client is created without an error exactly when every option succeeds, some address is
  configured and one of them can be dialled; it is then connected to the first address that can,
  and its gas limit and fee cap are set.\<close>

theorem NewClient_connects:
  assumes "apply_options Client_new opts = (c, None)" and "cl_cli c = None" and "cl_RpcAddrs c \<noteq> []"
    and "NewClient E opts = (c', err)"
  shows "(err = None \<longleftrightarrow> (\<exists>rpc \<in> set (cl_RpcAddrs c). \<exists>client. ee_Dial E rpc = Inr client)) \<and>
    (err = None \<longrightarrow> (\<exists>pre rpc post client. cl_RpcAddrs c = pre @ rpc # post \<and> ee_Dial E rpc = Inr client \<and>
       (\<forall>r \<in> set pre. \<exists>e. ee_Dial E r = Inl e) \<and> cl_cli c' = Some client) \<and>
       cl_GasFeeCap c' \<noteq> None \<and> cl_GasLimit c' \<noteq> 0)"
proof (cases "dial_first E (cl_RpcAddrs c)")
  case None
  then have "\<forall>r \<in> set (cl_RpcAddrs c). \<exists>e. ee_Dial E r = Inl e" by (simp add: dial_first_None)
  then show ?thesis using assms None by (force simp: NewClient_def Let_def)
next
  case (Some client)
  then have d: "\<exists>pre rpc post. cl_RpcAddrs c = pre @ rpc # post \<and> ee_Dial E rpc = Inr client \<and>
      (\<forall>r \<in> set pre. \<exists>e. ee_Dial E r = Inl e)" by (rule dial_first_Some)
  then have "\<exists>rpc \<in> set (cl_RpcAddrs c). \<exists>client. ee_Dial E rpc = Inr client" by auto
  moreover have "err = None \<and> cl_cli c' = Some client \<and> cl_GasFeeCap c' \<noteq> None \<and> cl_GasLimit c' \<noteq> 0"
    using assms Some by (auto simp: NewClient_def Let_def split: if_splits)
  ultimately show ?thesis using d by blast
qed

theorem NewClient_connects_witness:
  "snd (NewClient mem_evm [ConnectionRpcAddresss [''ws://down'', ''ws://up''] :: (string, string, unit) Option]) = None"
proof -
  let ?o = "[ConnectionRpcAddresss [''ws://down'', ''ws://up''] :: (string, string, unit) Option]"
  have a: "apply_options Client_new ?o = (Client_new\<lparr>cl_RpcAddrs := [''ws://down'', ''ws://up'']\<rparr>, None)"
    by (simp add: ConnectionRpcAddresss_def)
  obtain c' err where n: "NewClient mem_evm ?o = (c', err)" by fastforce
  from NewClient_connects [OF a _ _ n] n show ?thesis by (simp add: Client_new_def mem_evm_def)
qed

text \<open>Transactions are always prepared for chain 11330, whatever chain id the client is
  configured with; a value that is no decimal number is silently replaced by no value.\<close>

theorem NewTransactionOption_chain:
  assumes "\<forall>sk chain opts. ee_NewKeyedTransactor E sk chain = Inr opts \<longrightarrow> to_ChainID opts = chain"
    and "NewTransactionOption E cli value = Some (Inr opts)"
  shows "to_ChainID opts = 11330 \<and> to_GasLimit opts = cl_GasLimit cli \<and>
    (value \<noteq> '''' \<longrightarrow> to_Value opts = big_SetString value)"
  using assms by (auto simp: NewTransactionOption_def Let_def split: option.splits sum.splits if_splits)

theorem NewTransactionOption_chain_witness:
  "\<exists>opts. NewTransactionOption mem_evm (Client_new\<lparr>cl_cli := Some ''c'', cl_sk := Some ''k'', cl_ChainID := 5\<rparr> :: (string, string, unit) Client)
     ''1e18'' = Some (Inr opts) \<and> to_ChainID opts = 11330 \<and> to_Value opts = None"
proof -
  let ?c = "Client_new\<lparr>cl_cli := Some ''c'', cl_sk := Some ''k'', cl_ChainID := 5\<rparr> :: (string, string, unit) Client"
  obtain opts where o: "NewTransactionOption mem_evm ?c ''1e18'' = Some (Inr opts)"
    by (simp add: NewTransactionOption_def Client_new_def mem_evm_def Let_def)
  have k: "\<forall>sk chain opts. ee_NewKeyedTransactor mem_evm sk chain = Inr opts \<longrightarrow> to_ChainID opts = chain"
    by (auto simp: mem_evm_def)
  have "big_SetString ''1e18'' = None" by code_simp
  with NewTransactionOption_chain [OF k o] o show ?thesis by simp
qed

end
