(* ===== verification/Cache_Proto.thy ===== *)
theory Cache_Proto
  imports Evm_Client Credit
begin

text \<open>
  \<open>cd2n-lib/protocol/cache_evm_proto.go\<close>: the cache protocol contract as the node sees it: node
  registration, cache orders, rewards, and the credit orders of the credit manager.

  The contract on the chain, its generated bindings (\<open>protocol/contract\<close>), base58 and the signature
  functions are parameters; \<open>'w\<close> is the state of the chain, \<open>'l\<close> a log. \<open>pe_Logs\<close> is what a
  subscription to the logs of the contract would deliver from now on, or its error: the function
  value \<open>LogFilter\<close> of the contract is \<open>SubscribeFilterLogs\<close> on it. An address and an order id
  are byte lists.
\<close>

section \<open>Data\<close>

record NodeInfo =
  ni_Created :: bool
  ni_Collerate :: int
  ni_TokenId :: int
  ni_PeerId :: bytes

record Order =
  od_Value :: int
  od_Creater :: bytes
  od_Node :: bytes
  od_Term :: int

record CacheProtoContract =
  pc_Address :: bytes
  pc_Node :: bytes

text \<open>\<open>pe_NewOption\<close> is the function value \<open>NewOption\<close>; a transaction returns its hash in hexadecimal.\<close>

record ('w, 'l) proto_env =
  pe_NewOption :: "'w \<Rightarrow> string \<Rightarrow> TransactOpts or_err"
  pe_Bind :: "bytes \<Rightarrow> goerr option"
  pe_NodeCall :: "'w \<Rightarrow> bytes \<Rightarrow> NodeInfo \<times> goerr option"
  pe_OrderCall :: "'w \<Rightarrow> bytes \<Rightarrow> Order \<times> goerr option"
  pe_TermCall :: "'w \<Rightarrow> int or_err"
  pe_Payment :: "'w \<Rightarrow> TransactOpts \<Rightarrow> bytes \<Rightarrow> string or_err \<times> 'w"
  pe_Staking :: "'w \<Rightarrow> TransactOpts \<Rightarrow> bytes \<Rightarrow> bytes \<Rightarrow> int \<Rightarrow> bytes \<Rightarrow> bytes \<Rightarrow> string or_err \<times> 'w"
  pe_Claim :: "'w \<Rightarrow> TransactOpts \<Rightarrow> string or_err \<times> 'w"
  pe_Exit :: "'w \<Rightarrow> TransactOpts \<Rightarrow> string or_err \<times> 'w"
  pe_Logs :: "'w \<Rightarrow> goerr + 'l sub_event list"
  pe_ParseOrderPayment :: "'l \<Rightarrow> (bytes \<times> bytes) or_err"
  pe_ParseStaking :: "'l \<Rightarrow> bytes or_err"
  pe_ParseClaim :: "'l \<Rightarrow> (bytes \<times> int) or_err"
  pe_HexToAddress :: "string \<Rightarrow> bytes"
  pe_Encode58 :: "bytes \<Rightarrow> string"
  pe_Decode58 :: "string \<Rightarrow> bytes or_err"
  pe_VerifySignature :: "bytes \<Rightarrow> bytes \<Rightarrow> bytes \<Rightarrow> bool"
  pe_Keccak256 :: "bytes \<Rightarrow> bytes"

definition NodeInfo_String :: "NodeInfo \<Rightarrow> string" where
  "NodeInfo_String info = bytes_string (ni_PeerId info)"

definition NewProtoContract :: "('w, 'l) proto_env \<Rightarrow> string \<Rightarrow> string \<Rightarrow> CacheProtoContract or_err" where
  "NewProtoContract P hexAddr nodeAcc =
     (let addr = pe_HexToAddress P hexAddr in
      case pe_Bind P addr of
        Some err \<Rightarrow> Inl (Wrapped ''new cache protocol evm contract error'' err)
      | None \<Rightarrow> Inr \<lparr>pc_Address = addr, pc_Node = pe_HexToAddress P nodeAcc\<rparr>)"

section \<open>Queries\<close>

definition QueryRegisterInfo :: "('w, 'l) proto_env \<Rightarrow> 'w \<Rightarrow> bytes \<Rightarrow> NodeInfo \<times> goerr option" where
  "QueryRegisterInfo P w nodeAcc =
     (let msg = ''query node register info error'' in
      case pe_NodeCall P w nodeAcc of
        (info, Some err) \<Rightarrow> (info, Some (Wrapped msg err))
      | (info, None) \<Rightarrow>
          (if length (ni_PeerId info) = 0 \<or> \<not> ni_Created info
           then (info, Some (Wrapped msg (Errorf ''node not found.'')))
           else (info\<lparr>ni_PeerId := string_bytes (pe_Encode58 P (ni_PeerId info))\<rparr>, None)))"

definition QueryCacheOrder :: "('w, 'l) proto_env \<Rightarrow> 'w \<Rightarrow> bytes \<Rightarrow> Order \<times> goerr option" where
  "QueryCacheOrder P w orderId =
     (case pe_OrderCall P w orderId of
        (order, err) \<Rightarrow> (order, errors_Wrap err ''query cache order info error''))"

definition QueryCurrencyTerm :: "('w, 'l) proto_env \<Rightarrow> 'w \<Rightarrow> int or_err" where
  "QueryCurrencyTerm P w =
     (case pe_TermCall P w of Inl err \<Rightarrow> Inl (Wrapped ''query currency term error'' err) | Inr t \<Rightarrow> Inr t)"

section \<open>Transactions\<close>

text \<open>\<open>[32]byte(s)\<close> panics on a shorter slice and takes the first 32 bytes of a longer one.\<close>

definition to_array32 :: "bytes \<Rightarrow> bytes option" where
  "to_array32 bs = (if length bs < 32 then None else Some (take 32 bs))"

definition zero32 :: bytes where "zero32 = replicate 32 0"

definition payment_callback ::
  "('w, 'l) proto_env \<Rightarrow> bytes \<Rightarrow> bytes option \<Rightarrow> 'l \<Rightarrow> bool \<times> bytes option" where
  "payment_callback P nodeAcc orderId l =
     (case pe_ParseOrderPayment P l of
        Inl err \<Rightarrow> (True, orderId)
      | Inr (evNode, evOrder) \<Rightarrow> (if evNode = nodeAcc then (False, Some evOrder) else (True, orderId)))"

definition CreateCacheOrder ::
  "('w, 'l) proto_env \<Rightarrow> 'w \<Rightarrow> bytes \<Rightarrow> string \<Rightarrow> ((string \<times> bytes \<times> goerr option) \<times> 'w) option" where
  "CreateCacheOrder P w nodeAcc value =
     (let msg = ''create and payment cache order error'' in
      case pe_NewOption P w value of
        Inl err \<Rightarrow> Some (('''', zero32, Some (Wrapped msg err)), w)
      | Inr opts \<Rightarrow>
          (case pe_Payment P w opts nodeAcc of
             (Inl err, w1) \<Rightarrow> Some (('''', zero32, Some (Wrapped msg err)), w1)
           | (Inr tx, w1) \<Rightarrow>
               (case SubscribeFilterLogs (pe_Logs P w1) (payment_callback P nodeAcc) None of
                  None \<Rightarrow> None
                | Some (orderId, Some err) \<Rightarrow> Some ((tx, zero32, Some (Wrapped msg err)), w1)
                | Some (None, None) \<Rightarrow> Some ((tx, zero32, Some (Wrapped msg (Errorf ''order ID not obtained''))), w1)
                | Some (Some orderId, None) \<Rightarrow>
                    (case to_array32 orderId of None \<Rightarrow> None | Some a \<Rightarrow> Some ((tx, a, None), w1)))))"

definition staking_callback :: "('w, 'l) proto_env \<Rightarrow> bytes \<Rightarrow> unit \<Rightarrow> 'l \<Rightarrow> bool \<times> unit" where
  "staking_callback P nodeAcc u l =
     (case pe_ParseStaking P l of Inl err \<Rightarrow> (True, u) | Inr evNode \<Rightarrow> (evNode \<noteq> nodeAcc, u))"

definition RegisterNode ::
  "('w, 'l) proto_env \<Rightarrow> 'w \<Rightarrow> bytes \<Rightarrow> bytes \<Rightarrow> string \<Rightarrow> string \<Rightarrow> string \<Rightarrow> bytes \<Rightarrow> (goerr option \<times> 'w) option" where
  "RegisterNode P w nodeAcc tokenAcc peerId tokenId value sign =
     (let msg = ''register cache node error'' in
      case big_SetString tokenId of
        None \<Rightarrow> Some (Some (Wrapped msg (Errorf ''bad token Id'')), w)
      | Some bigId \<Rightarrow>
          (case pe_Decode58 P peerId of
             Inl err \<Rightarrow> Some (Some (Wrapped msg err), w)
           | Inr bPeerId \<Rightarrow>
               (case pe_NewOption P w value of
                  Inl err \<Rightarrow> Some (Some (Wrapped msg err), w)
                | Inr opts \<Rightarrow>
                    (case pe_Staking P w opts nodeAcc tokenAcc bigId bPeerId sign of
                       (Inl err, w1) \<Rightarrow> Some (Some (Wrapped msg err), w1)
                     | (Inr hash, w1) \<Rightarrow>
                         (case SubscribeFilterLogs (pe_Logs P w1) (staking_callback P nodeAcc) () of
                            None \<Rightarrow> None
                          | Some (_, err) \<Rightarrow> Some (errors_Wrap err msg, w1))))))"

definition ClaimOrder :: "('w, 'l) proto_env \<Rightarrow> 'w \<Rightarrow> bytes \<Rightarrow> goerr option \<times> 'w" where
  "ClaimOrder P w orderId =
     (case pe_NewOption P w '''' of
        Inl err \<Rightarrow> (Some (Wrapped ''claim order error'' err), w)
      | Inr opts \<Rightarrow>
          (case pe_Claim P w opts of
             (Inl err, w1) \<Rightarrow> (Some (Wrapped ''claim order error'' err), w1)
           | (Inr tx, w1) \<Rightarrow> (None, w1)))"

definition claim_callback :: "('w, 'l) proto_env \<Rightarrow> bytes \<Rightarrow> string \<Rightarrow> 'l \<Rightarrow> bool \<times> string" where
  "claim_callback P nodeAcc reward l =
     (case pe_ParseClaim P l of
        Inl err \<Rightarrow> (True, reward)
      | Inr (evNode, evReward) \<Rightarrow> (if evNode = nodeAcc then (False, big_String evReward) else (True, reward)))"

definition ClaimWorkReward ::
  "('w, 'l) proto_env \<Rightarrow> 'w \<Rightarrow> bytes \<Rightarrow> ((string \<times> goerr option) \<times> 'w) option" where
  "ClaimWorkReward P w nodeAcc =
     (let msg = ''claim work reward error'' in
      case pe_NewOption P w '''' of
        Inl err \<Rightarrow> Some ((''0'', Some (Wrapped msg err)), w)
      | Inr opts \<Rightarrow>
          (case pe_Claim P w opts of
             (Inl err, w1) \<Rightarrow> Some ((''0'', Some (Wrapped msg err)), w1)
           | (Inr tx, w1) \<Rightarrow>
               (case SubscribeFilterLogs (pe_Logs P w1) (claim_callback P nodeAcc) ''0'' of
                  None \<Rightarrow> None
                | Some (reward, err) \<Rightarrow> Some ((reward, errors_Wrap err msg), w1))))"

text \<open>
  The server that claims rewards. Its loop sees ticks and the end of the context; the chain moves on
  between two ticks, so a tick carries the state of the chain it finds. The result is \<open>term\<close> and
  the outcome of every claim; a list that ends without \<open>ServerDone\<close> is a server still waiting.
\<close>

datatype 'w server_event = ServerTick 'w | ServerDone

fun reward_loop ::
  "('w, 'l) proto_env \<Rightarrow> bytes \<Rightarrow> i64 \<Rightarrow> 'w server_event list \<Rightarrow> (i64 \<times> (string \<times> goerr option) list) option" where
  "reward_loop P nodeAcc term [] = Some (term, [])"
| "reward_loop P nodeAcc term (ServerDone # evs) = Some (term, [])"
| "reward_loop P nodeAcc term (ServerTick w # evs) =
     (case QueryCurrencyTerm P w of
        Inl err \<Rightarrow> reward_loop P nodeAcc term evs
      | Inr t \<Rightarrow>
          (if big_Int64 t \<le>s term then reward_loop P nodeAcc term evs
           else (case ClaimWorkReward P w nodeAcc of
              None \<Rightarrow> None
            | Some (res, w1) \<Rightarrow>
                map_option (\<lambda>(term', outs). (term', res # outs)) (reward_loop P nodeAcc (term + 1) evs))))"

definition ClaimWorkRewardServer ::
  "('w, 'l) proto_env \<Rightarrow> 'w \<Rightarrow> bytes \<Rightarrow> 'w server_event list \<Rightarrow>
   (goerr option \<times> i64 \<times> (string \<times> goerr option) list) option" where
  "ClaimWorkRewardServer P w nodeAcc evs =
     (case QueryRegisterInfo P w nodeAcc of
        (info, Some err) \<Rightarrow> Some (Some err, 1, [])
      | (info, None) \<Rightarrow> map_option (\<lambda>(term, outs). (None, term, outs)) (reward_loop P nodeAcc 1 evs))"

definition exit_callback :: "('w, 'l) proto_env \<Rightarrow> bytes \<Rightarrow> unit \<Rightarrow> 'l \<Rightarrow> bool \<times> unit" where
  "exit_callback P nodeAcc u l =
     (case pe_ParseClaim P l of
        Inl err \<Rightarrow> (True, u)
      | Inr (evNode, evReward) \<Rightarrow> (if evNode = nodeAcc then (False, u) else (True, u)))"

definition ExitNetwork :: "('w, 'l) proto_env \<Rightarrow> 'w \<Rightarrow> bytes \<Rightarrow> (goerr option \<times> 'w) option" where
  "ExitNetwork P w nodeAcc =
     (let msg = ''node exit network error'' in
      case pe_NewOption P w '''' of
        Inl err \<Rightarrow> Some (Some (Wrapped msg err), w)
      | Inr opts \<Rightarrow>
          (case pe_Exit P w opts of
             (Inl err, w1) \<Rightarrow> Some (Some (Wrapped msg err), w1)
           | (Inr tx, w1) \<Rightarrow>
               (case SubscribeFilterLogs (pe_Logs P w1) (exit_callback P nodeAcc) () of
                  None \<Rightarrow> None
                | Some (_, err) \<Rightarrow> Some (errors_Wrap err msg, w1))))"

section \<open>Credit orders\<close>

definition CreateCreditOrder ::
  "('w, 'l) proto_env \<Rightarrow> 'w \<Rightarrow> string \<Rightarrow> string \<Rightarrow> string \<Rightarrow> ((string \<times> string \<times> goerr option) \<times> 'w) option" where
  "CreateCreditOrder P w key nodeId value =
     (let msg = ''create credit order'' in
      case pe_Decode58 P nodeId of
        Inl err \<Rightarrow> Some (('''', '''', Some (Wrapped msg err)), w)
      | Inr bPeerId \<Rightarrow>
          (case QueryRegisterInfo P w (pe_HexToAddress P key) of
             (info, Some err) \<Rightarrow> Some (('''', '''', Some (Wrapped msg err)), w)
           | (info, None) \<Rightarrow>
               (if ni_PeerId info \<noteq> bPeerId
                then Some (('''', '''', Some (Wrapped msg (Errorf ''peer ID does not match the registered one''))), w)
                else (case CreateCacheOrder P w (pe_HexToAddress P key) value of
                   None \<Rightarrow> None
                 | Some ((tx, orderId, Some err), w1) \<Rightarrow> Some (('''', '''', Some (Wrapped msg err)), w1)
                 | Some ((tx, orderId, None), w1) \<Rightarrow> Some ((tx, hex_EncodeToString orderId, None), w1)))))"

text \<open>
  On the two branches that report a mismatch, the error that is wrapped is the one of the last call,
  which is \<open>nil\<close>.
\<close>

definition CheckCreditOrder ::
  "('w, 'l) proto_env \<Rightarrow> CacheProtoContract \<Rightarrow> 'w \<Rightarrow> bytes \<Rightarrow> bytes \<Rightarrow> bytes \<Rightarrow> ((string \<times> goerr option) \<times> 'w) option" where
  "CheckCreditOrder P pc w pubkey data sign =
     (let msg = ''check credit order error'' in
      if pe_VerifySignature P pubkey (pe_Keccak256 P data) sign
      then Some (('''', Some (Wrapped msg (Errorf ''bad signature''))), w)
      else (case to_array32 data of
         None \<Rightarrow> None
       | Some orderId \<Rightarrow>
           (case QueryCacheOrder P w orderId of
              (order, Some err) \<Rightarrow> Some (('''', Some (Wrapped msg err)), w)
            | (order, None) \<Rightarrow>
                (if od_Node order \<noteq> pc_Node pc then Some (('''', errors_Wrap None msg), w)
                 else (case QueryCurrencyTerm P w of
                    Inl err \<Rightarrow> Some (('''', Some (Wrapped msg err)), w)
                  | Inr term \<Rightarrow>
                      (if term > od_Term order + 4 then Some (('''', errors_Wrap None msg), w)
                       else (case ClaimOrder P w orderId of
                          (Some err, w1) \<Rightarrow> Some (('''', Some (Wrapped msg err)), w1)
                        | (None, w1) \<Rightarrow> Some ((big_String (od_Value order), None), w1))))))))"

text \<open>The contract as the order handle of the credit manager.\<close>

definition proto_orders :: "('w, 'l) proto_env \<Rightarrow> CacheProtoContract \<Rightarrow> 'w Order2Credit" where
  "proto_orders P pc = \<lparr>o2c_Create = CreateCreditOrder P, o2c_Check = CheckCreditOrder P pc\<rparr>"

text \<open>A chain in memory, for the witnesses: the state is a counter of the transactions; a log is the
  node it is about.\<close>

definition mem_proto :: "bytes sub_event list \<Rightarrow> (nat, bytes) proto_env" where
  "mem_proto logs = \<lparr>pe_NewOption = (\<lambda>w v. Inr \<lparr>to_ChainID = 11330, to_GasTipCap = None, to_GasFeeCap = None,
        to_GasLimit = 0, to_Value = big_SetString v\<rparr>),
     pe_Bind = (\<lambda>a. None),
     pe_NodeCall = (\<lambda>w a. (\<lparr>ni_Created = True, ni_Collerate = 0, ni_TokenId = 0, ni_PeerId = [200, 1]\<rparr>, None)),
     pe_OrderCall = (\<lambda>w i. (\<lparr>od_Value = 1000, od_Creater = [], od_Node = [1], od_Term = 2\<rparr>, None)),
     pe_TermCall = (\<lambda>w. Inr 5), pe_Payment = (\<lambda>w opts a. (Inr ''0xaa'', w + 1)),
     pe_Staking = (\<lambda>w opts a b i p s. (Inr ''0xbb'', w + 1)), pe_Claim = (\<lambda>w opts. (Inr ''0xcc'', w + 1)),
     pe_Exit = (\<lambda>w opts. (Inr ''0xdd'', w + 1)), pe_Logs = (\<lambda>w. Inr logs),
     pe_ParseOrderPayment = (\<lambda>l. Inr (l, replicate 32 7)), pe_ParseStaking = Inr,
     pe_ParseClaim = (\<lambda>l. if l = [1] then Inr (l, 50) else Inl (Errorf ''event signature mismatch'')),
     pe_HexToAddress = string_bytes, pe_Encode58 = (\<lambda>p. ''z'' @ hex_EncodeToString p),
     pe_Decode58 = (\<lambda>s. hex_DecodeString (tl s)),
     pe_VerifySignature = (\<lambda>pk h s. s = pk @ h), pe_Keccak256 = rev\<rparr>"

definition mem_contract :: CacheProtoContract where
  "mem_contract = \<lparr>pc_Address = [9], pc_Node = [1]\<rparr>"

section \<open>Laws\<close>

text \<open>The callbacks pick the first event for the node.\<close>

definition payment_pick :: "('w, 'l) proto_env \<Rightarrow> bytes \<Rightarrow> 'l \<Rightarrow> bytes option option" where
  "payment_pick P nodeAcc l =
     (case pe_ParseOrderPayment P l of Inl err \<Rightarrow> None | Inr (n, oid) \<Rightarrow> if n = nodeAcc then Some (Some oid) else None)"

definition staking_pick :: "('w, 'l) proto_env \<Rightarrow> bytes \<Rightarrow> 'l \<Rightarrow> unit option" where
  "staking_pick P nodeAcc l = (if pe_ParseStaking P l = Inr nodeAcc then Some () else None)"

definition claim_pick :: "('w, 'l) proto_env \<Rightarrow> bytes \<Rightarrow> 'l \<Rightarrow> string option" where
  "claim_pick P nodeAcc l =
     (case pe_ParseClaim P l of Inl err \<Rightarrow> None | Inr (n, r) \<Rightarrow> if n = nodeAcc then Some (big_String r) else None)"

definition exit_pick :: "('w, 'l) proto_env \<Rightarrow> bytes \<Rightarrow> 'l \<Rightarrow> unit option" where
  "exit_pick P nodeAcc l = map_option (\<lambda>_. ()) (claim_pick P nodeAcc l)"

lemmas pick_defs = payment_pick_def staking_pick_def claim_pick_def exit_pick_def

interpretation payment: first_match "payment_callback P nodeAcc" "payment_pick P nodeAcc" for P nodeAcc
  by unfold_locales (auto simp: payment_callback_def payment_pick_def split: sum.split)

interpretation staking: first_match "staking_callback P nodeAcc" "staking_pick P nodeAcc" for P nodeAcc
  by unfold_locales (auto simp: staking_callback_def staking_pick_def split: sum.split)

interpretation claim: first_match "claim_callback P nodeAcc" "claim_pick P nodeAcc" for P nodeAcc
  by unfold_locales (auto simp: claim_callback_def claim_pick_def split: sum.split)

interpretation exit: first_match "exit_callback P nodeAcc" "exit_pick P nodeAcc" for P nodeAcc
  by unfold_locales (auto simp: exit_callback_def exit_pick_def claim_pick_def split: sum.split)

lemma sint_word_le:
  assumes "- (2 ^ 63) \<le> a" "a < 2 ^ 63" "- (2 ^ 63) \<le> b" "b < 2 ^ 63"
  shows "(word_of_int a :: i64) \<le>s word_of_int b \<longleftrightarrow> a \<le> b"
  using assms by (simp add: word_sle_eq sint_of_int64)

lemma reward_loop_constant:
  assumes "\<forall>w. QueryCurrencyTerm P w = Inr T" and "0 < T" and "T < 2 ^ 63"
    and "\<forall>w. ClaimWorkReward P w nodeAcc \<noteq> None"
  shows "0 < k \<Longrightarrow> k \<le> T \<Longrightarrow>
    \<exists>outs. reward_loop P nodeAcc (word_of_int k) (map ServerTick ws) = Some (word_of_int (k + int (length outs)), outs) \<and>
      length outs = min (length ws) (nat (T - k))"
proof (induction ws arbitrary: k)
  case (Cons w ws)
  have le: "big_Int64 T \<le>s word_of_int k \<longleftrightarrow> T \<le> k"
    using sint_word_le [of T k] assms(2,3) Cons.prems by (simp add: big_Int64_def)
  show ?case
  proof (cases "T \<le> k")
    case True
    then show ?thesis using Cons.IH [OF Cons.prems] Cons.prems le assms(1) by simp
  next
    case False
    obtain res w1 where c: "ClaimWorkReward P w nodeAcc = Some (res, w1)"
      using assms(4) by (metis not_None_eq prod.exhaust)
    obtain outs where "reward_loop P nodeAcc (word_of_int (k + 1)) (map ServerTick ws) =
        Some (word_of_int (k + 1 + int (length outs)), outs)" "length outs = min (length ws) (nat (T - (k + 1)))"
      using Cons.IH [of "k + 1"] Cons.prems False by auto
    then show ?thesis
      using le False c assms(1)
      by (intro exI [of _ "res # outs"]) (auto simp: algebra_simps nat_diff_distrib' min_def)
  qed
qed simp

section \<open>Properties\<close>

text \<open>C37: Creating a cache order: after the payment the order id returned is that of the first payment
  event for the node, whatever other events come before it; when the time runs out before such an
  event the payment's transaction hash is returned with an error.\<close>

theorem CreateCacheOrder_first_event:
  assumes "pe_NewOption P w value = Inr opts" and "pe_Payment P w opts nodeAcc = (Inr tx, w1)"
    and "pe_Logs P w1 = Inr (map EvLog pre @ rest)"
    and "\<forall>l \<in> set pre. \<forall>oid. pe_ParseOrderPayment P l \<noteq> Inr (nodeAcc, oid)"
  shows "(\<forall>l evs oid. rest = EvLog l # evs \<and> pe_ParseOrderPayment P l = Inr (nodeAcc, oid) \<and> length oid = 32 \<longrightarrow>
      CreateCacheOrder P w nodeAcc value = Some ((tx, oid, None), w1)) \<and>
    (\<forall>evs. rest = EvCtxDone # evs \<longrightarrow> CreateCacheOrder P w nodeAcc value =
       Some ((tx, zero32, Some (Wrapped ''create and payment cache order error'' (Errorf ''timeout''))), w1))"
proof -
  have pre: "\<forall>l \<in> set pre. payment_pick P nodeAcc l = None"
    using assms(4) by (auto simp: payment_pick_def split: sum.split)
  have "payment_pick P nodeAcc l = Some (Some oid)" if "pe_ParseOrderPayment P l = Inr (nodeAcc, oid)" for l oid
    using that by (simp add: payment_pick_def)
  then show ?thesis
    using assms(1-3) payment.found [OF pre] payment.timeout [OF pre] by (auto simp: CreateCacheOrder_def Let_def to_array32_def)
qed

theorem CreateCacheOrder_first_event_witness:
  "CreateCacheOrder (mem_proto [EvLog [2], EvLog [1], EvCtxDone]) 0 [1] ''5'' = Some ((''0xaa'', replicate 32 7, None), 1)"
proof -
  let ?P = "mem_proto [EvLog [2], EvLog [1], EvCtxDone]"
  have h: "pe_NewOption ?P 0 ''5'' = Inr \<lparr>to_ChainID = 11330, to_GasTipCap = None, to_GasFeeCap = None,
        to_GasLimit = 0, to_Value = big_SetString ''5''\<rparr>"
    "pe_Payment ?P 0 opts [1] = (Inr ''0xaa'', 1)" "pe_Logs ?P 1 = Inr (map EvLog [[2]] @ [EvLog [1], EvCtxDone])"
    "\<forall>l \<in> set [[2]]. \<forall>oid. pe_ParseOrderPayment ?P l \<noteq> Inr ([1], oid)"
    "pe_ParseOrderPayment ?P [1] = Inr ([1], replicate 32 7)" for opts
    by (simp_all add: mem_proto_def del: big_SetString.simps)
  show ?thesis using conjunct1 [OF CreateCacheOrder_first_event [OF h(1-4)], rule_format, of "[1]" "[EvCtxDone]" "replicate 32 7"] h(5)
    by simp
qed

text \<open>C34: Checking a credit order is inverted: a valid signature is refused as bad, and with any
  invalid one the order is accepted and its value returned, if it is for this node and not older
  than four terms. An order for another node and an expired one give an empty value and no error,
  and data shorter than an order id makes the node panic.\<close>

theorem CheckCreditOrder_inverted:
  "(pe_VerifySignature P pubkey (pe_Keccak256 P data) sign \<longrightarrow>
      (\<exists>e. CheckCreditOrder P pc w pubkey data sign = Some (('''', Some e), w))) \<and>
   (\<not> pe_VerifySignature P pubkey (pe_Keccak256 P data) sign \<longrightarrow>
      (length data < 32 \<longrightarrow> CheckCreditOrder P pc w pubkey data sign = None) \<and>
      (32 \<le> length data \<and> pe_OrderCall P w (take 32 data) = (order, None) \<longrightarrow>
        (od_Node order \<noteq> pc_Node pc \<longrightarrow> CheckCreditOrder P pc w pubkey data sign = Some (('''', None), w)) \<and>
        (od_Node order = pc_Node pc \<and> pe_TermCall P w = Inr term \<longrightarrow>
          (od_Term order + 4 < term \<longrightarrow> CheckCreditOrder P pc w pubkey data sign = Some (('''', None), w)) \<and>
          (term \<le> od_Term order + 4 \<and> ClaimOrder P w (take 32 data) = (None, w1) \<longrightarrow>
             CheckCreditOrder P pc w pubkey data sign = Some ((big_String (od_Value order), None), w1)))))"
  by (auto simp: CheckCreditOrder_def Let_def to_array32_def QueryCacheOrder_def QueryCurrencyTerm_def)

theorem CheckCreditOrder_inverted_witness:
  "CheckCreditOrder (mem_proto []) mem_contract 0 [2] (replicate 32 3) [0] = Some ((big_String 1000, None), 1) \<and>
   (\<exists>e. CheckCreditOrder (mem_proto []) mem_contract 0 [2] (replicate 32 3) ([2] @ rev (replicate 32 3)) = Some (('''', Some e), 0))"
  using CheckCreditOrder_inverted [of "mem_proto []" "[2]" "replicate 32 3" "[0]" mem_contract 0
      "\<lparr>od_Value = 1000, od_Creater = [], od_Node = [1], od_Term = 2\<rparr>" 5 1]
    CheckCreditOrder_inverted [of "mem_proto []" "[2]" "replicate 32 3" "[2] @ rev (replicate 32 3)" mem_contract 0]
  by (simp add: mem_proto_def mem_contract_def ClaimOrder_def)

text \<open>C33: Paying a credit bill through the contract never succeeds for the peer id a node is
  registered with: the registered id is compared in its base58 form with the decoded argument. No
  order is created, and neither the records nor the chain change.\<close>

theorem credit_bill_never_paid:
  assumes "pe_NodeCall P w (pe_HexToAddress P key) = (info, None)" and "pe_Decode58 P nodeId = Inr (ni_PeerId info)"
    and "length (pe_Encode58 P (ni_PeerId info)) \<noteq> length (ni_PeerId info)"
  shows "\<exists>e. PaymentCreditBill E (proto_orders P pc) w c key nodeId value = Some (('''', '''', Some e), c, w)"
proof -
  have "string_bytes (pe_Encode58 P (ni_PeerId info)) \<noteq> ni_PeerId info"
    using assms(3) by (metis length_map string_bytes_def)
  then have "\<exists>e. CreateCreditOrder P w key nodeId value = Some (('''', '''', Some e), w)"
    using assms(1,2) by (auto simp: CreateCreditOrder_def QueryRegisterInfo_def Let_def)
  then show ?thesis by (auto simp: PaymentCreditBill_def proto_orders_def Let_def)
qed

theorem credit_bill_never_paid_witness:
  "\<exists>e. PaymentCreditBill mem_credit_env (proto_orders (mem_proto []) mem_contract) 0 mem_credit0 ''0x1'' ''zc801'' ''100''
     = Some (('''', '''', Some e), mem_credit0, 0)"
proof -
  have "hex_DecodeString ''c801'' = Inr [200, 1]" by code_simp
  then show ?thesis
    by (intro credit_bill_never_paid [where info = "\<lparr>ni_Created = True, ni_Collerate = 0, ni_TokenId = 0, ni_PeerId = [200, 1]\<rparr>"])
       (simp_all add: mem_proto_def)
qed

text \<open>C36: The reward server claims at most once per tick and never ahead of the chain: starting at
  term one, while the chain stays in term \<open>T\<close> the number of claims after any number of ticks is
  the smaller of the ticks and \<open>T - 1\<close>. A claim that failed is counted like any other and
  is not repeated.\<close>

theorem reward_server_claims:
  assumes "QueryRegisterInfo P w nodeAcc = (info, None)"
    and "\<forall>w. pe_TermCall P w = Inr T" and "0 < T" and "T < 2 ^ 63" and "\<forall>w. ClaimWorkReward P w nodeAcc \<noteq> None"
  shows "\<exists>term outs. ClaimWorkRewardServer P w nodeAcc (map ServerTick ws) = Some (None, term, outs) \<and>
    length outs = min (length ws) (nat (T - 1)) \<and> term = word_of_nat (1 + length outs)"
proof -
  have "\<forall>w. QueryCurrencyTerm P w = Inr T" using assms(2) by (simp add: QueryCurrencyTerm_def)
  then obtain outs where "reward_loop P nodeAcc (word_of_int 1) (map ServerTick ws) = Some (word_of_int (1 + int (length outs)), outs)"
    "length outs = min (length ws) (nat (T - 1))"
    using reward_loop_constant [of P T nodeAcc 1 ws] assms(3-5) by auto
  then show ?thesis using assms(1) by (auto simp: ClaimWorkRewardServer_def)
qed

theorem reward_server_claims_witness:
  "\<exists>term outs. ClaimWorkRewardServer (mem_proto [EvCtxDone]) 0 [1] (map ServerTick (replicate 9 0)) = Some (None, term, outs) \<and>
     length outs = 4"
proof -
  let ?P = "mem_proto [EvCtxDone]"
  obtain info where q: "QueryRegisterInfo ?P 0 [1] = (info, None)"
    by (simp add: QueryRegisterInfo_def mem_proto_def)
  have t: "\<forall>w. pe_TermCall ?P w = Inr 5" by (simp add: mem_proto_def)
  have c: "\<forall>w. ClaimWorkReward ?P w [1] \<noteq> None"
    by (simp add: ClaimWorkReward_def mem_proto_def SubscribeFilterLogs_def)
  from reward_server_claims [OF q t _ _ c, of "replicate 9 0"] show ?thesis by auto
qed

text \<open>Leaving the network waits for the wrong event: after a successful exit transaction whose
  logs hold no reward claim of the node, the call times out and reports an error.\<close>

theorem ExitNetwork_times_out:
  assumes "pe_NewOption P w '''' = Inr opts" and "pe_Exit P w opts = (Inr tx, w1)"
    and "pe_Logs P w1 = Inr (map EvLog ls @ [EvCtxDone])"
    and "\<forall>l \<in> set ls. \<forall>r. pe_ParseClaim P l \<noteq> Inr (nodeAcc, r)"
  shows "ExitNetwork P w nodeAcc = Some (Some (Wrapped ''node exit network error'' (Errorf ''timeout'')), w1)"
proof -
  have "\<forall>l \<in> set ls. exit_pick P nodeAcc l = None" using assms(4) by (auto simp: pick_defs split: sum.split)
  from exit.timeout [OF this] show ?thesis using assms(1-3) by (simp add: ExitNetwork_def Let_def)
qed

theorem ExitNetwork_times_out_witness:
  "ExitNetwork (mem_proto [EvLog [3], EvCtxDone]) 0 [1] = Some (Some (Wrapped ''node exit network error'' (Errorf ''timeout'')), 1)"
  by (rule ExitNetwork_times_out [where ls = "[[3]]" and tx = "''0xdd''"]) (simp_all add: mem_proto_def)

end
