(* ===== verification/Client_Box.thy ===== *)
theory Client_Box
  imports Cdn_Lib
begin

text \<open>
  The file boxes of \<open>cd2n-client/client/files.go\<close>: \<open>CreateAFileBox\<close> concatenates the files of a
  directory into one file of plates of one fragment size each, with an index per plate, and
  \<open>DownloadFileInBox\<close> cuts one file out of a plate again. Also the small list helpers of the file.

  Directory entries come as the list that \<open>os.ReadDir\<close> returns; sizes are mathematical integers.
  The parameter \<open>F\<close> is the SDK's \<open>config.FragmentSize\<close>.
\<close>

section \<open>Data\<close>

record FilePlate =
  fp_SegmentHash :: string
  fp_Files :: "string list"
  fp_Indexs :: "int list"

record FileBox =
  fb_FileHash :: string
  fb_TotalSize :: int
  fb_PaddingSize :: int
  fb_Plates :: "FilePlate list"

definition FilePlate_zero :: FilePlate where
  "FilePlate_zero = \<lparr>fp_SegmentHash = '''', fp_Files = [], fp_Indexs = []\<rparr>"

definition FileBox_zero :: FileBox where
  "FileBox_zero = \<lparr>fb_FileHash = '''', fb_TotalSize = 0, fb_PaddingSize = 0, fb_Plates = []\<rparr>"

text \<open>An entry of a directory; \<open>en_Info\<close> is the size that \<open>Info()\<close> gives.\<close>

record dir_entry =
  en_Name :: string
  en_IsDir :: bool
  en_Info :: "int or_err"

section \<open>Packing\<close>

definition write_file :: "io_oracle \<Rightarrow> fs \<Rightarrow> string \<Rightarrow> bytes \<Rightarrow> fs \<times> goerr option" where
  "write_file io fs p bs =
     (case io ''write'' p of Some e \<Rightarrow> (fs, Some e) | None \<Rightarrow> (file_Write io fs p bs, None))"

text \<open>The variables of the loop.\<close>

record box_state =
  bx_box :: FileBox
  bx_plate :: FilePlate
  bx_size :: int
  bx_total :: int
  bx_fs :: fs

text \<open>The end of a plate: padding, its start as a last index, and a new plate.\<close>

definition close_plate :: "int \<Rightarrow> io_oracle \<Rightarrow> string \<Rightarrow> box_state \<Rightarrow> box_state \<times> goerr option" where
  "close_plate F io fpath st =
     (let paddingSize = F - bx_size st;
          push = (\<lambda>st. st\<lparr>bx_box := (bx_box st)\<lparr>fb_Plates := fb_Plates (bx_box st) @ [bx_plate st]\<rparr>,
                         bx_plate := FilePlate_zero, bx_size := 0\<rparr>)
      in if paddingSize > 0
         then (case write_file io (bx_fs st) fpath (replicate (nat paddingSize) 0) of
             (fs1, Some err) \<Rightarrow> (st\<lparr>bx_fs := fs1\<rparr>, Some err)
           | (fs1, None) \<Rightarrow>
               (push (st\<lparr>bx_fs := fs1,
                         bx_plate := (bx_plate st)\<lparr>fp_Indexs := fp_Indexs (bx_plate st) @ [bx_size st]\<rparr>,
                         bx_box := (bx_box st)\<lparr>fb_PaddingSize := fb_PaddingSize (bx_box st) + paddingSize\<rparr>\<rparr>), None))
         else (push st, None))"

definition box_entry :: "int \<Rightarrow> io_oracle \<Rightarrow> string \<Rightarrow> string \<Rightarrow> box_state \<Rightarrow> dir_entry \<Rightarrow> box_state \<times> goerr option" where
  "box_entry F io dir fpath st entry =
     (if en_IsDir entry then (st, None)
      else (case en_Info entry of
         Inl err \<Rightarrow> (st, None)
       | Inr isize \<Rightarrow>
           (if isize \<le> 0 then (st, None)
            else (case (if bx_size st = F \<or> isize + bx_size st > F
                        then close_plate F io fpath st else (st, None)) of
               (st1, Some err) \<Rightarrow> (st1, Some err)
             | (st1, None) \<Rightarrow>
                 (let st2 = st1\<lparr>bx_plate := (bx_plate st1)\<lparr>fp_Indexs := fp_Indexs (bx_plate st1) @ [bx_size st1],
                                                         fp_Files := fp_Files (bx_plate st1) @ [en_Name entry]\<rparr>,
                                bx_size := bx_size st1 + isize, bx_total := bx_total st1 + isize\<rparr>
                  in case os_ReadFile io (bx_fs st2) (path_Join [dir, en_Name entry]) of
                       Inl err \<Rightarrow> (st2, Some err)
                     | Inr bs \<Rightarrow>
                         (case write_file io (bx_fs st2) fpath bs of
                            (fs1, err) \<Rightarrow> (st2\<lparr>bx_fs := fs1\<rparr>, err)))))))"

fun box_entries :: "int \<Rightarrow> io_oracle \<Rightarrow> string \<Rightarrow> string \<Rightarrow> box_state \<Rightarrow> dir_entry list \<Rightarrow> box_state \<times> goerr option" where
  "box_entries F io dir fpath st [] = (st, None)"
| "box_entries F io dir fpath st (entry # rest) =
     (case box_entry F io dir fpath st entry of
        (st1, Some err) \<Rightarrow> (st1, Some err)
      | (st1, None) \<Rightarrow> box_entries F io dir fpath st1 rest)"

text \<open>The assignments after the loop index the last plate, which panics if there is none.\<close>

definition CreateAFileBox ::
  "int \<Rightarrow> io_oracle \<Rightarrow> dir_entry list or_err \<Rightarrow> fs \<Rightarrow> string \<Rightarrow> string \<Rightarrow> ((FileBox \<times> string \<times> goerr option) \<times> fs) option" where
  "CreateAFileBox F io readDir fs fname dir =
     (let msg = ''create a file box error'' in
      case readDir of
        Inl err \<Rightarrow> Some ((FileBox_zero, '''', Some (Wrapped msg err)), fs)
      | Inr entries \<Rightarrow>
          (let fpath = path_Join [dir, fname] in
           case os_Create io fs fpath of
             (fs1, Some err) \<Rightarrow> Some ((FileBox_zero, '''', Some (Wrapped msg err)), fs1)
           | (fs1, None) \<Rightarrow>
               (case box_entries F io dir fpath
                       \<lparr>bx_box = FileBox_zero, bx_plate = FilePlate_zero, bx_size = 0, bx_total = 0, bx_fs = fs1\<rparr> entries of
                  (st, Some err) \<Rightarrow> Some ((bx_box st, '''', Some (Wrapped msg err)), bx_fs st)
                | (st, None) \<Rightarrow>
                    (case io ''sync'' fpath of
                       Some err \<Rightarrow> Some ((bx_box st, '''', Some (Wrapped msg err)), bx_fs st)
                     | None \<Rightarrow>
                         (let box = (bx_box st)\<lparr>fb_TotalSize := bx_total st + bx_size st + fb_PaddingSize (bx_box st)\<rparr>;
                              plates = fb_Plates box
                          in if plates = [] then None
                             else let l = last plates;
                                      l1 = l\<lparr>fp_Files := fp_Files l @ [''''], fp_Indexs := fp_Indexs l @ [bx_size st]\<rparr>
                                  in Some ((box\<lparr>fb_Plates := butlast plates @ [l1]\<rparr>, fpath, None), bx_fs st))))))"

section \<open>Lookup\<close>

text \<open>The two loops: the break leaves only the inner one, so a later plate overrides an earlier one.\<close>

fun index_of :: "string \<Rightarrow> string list \<Rightarrow> nat option" where
  "index_of name [] = None"
| "index_of name (f # fs) = (if f = name then Some 0 else map_option Suc (index_of name fs))"

fun box_find :: "string \<Rightarrow> nat \<Rightarrow> FilePlate list \<Rightarrow> (nat \<times> nat) option \<Rightarrow> (nat \<times> nat) option" where
  "box_find name i [] res = res"
| "box_find name i (p # ps) res =
     box_find name (Suc i) ps (case index_of name (fp_Files p) of Some j \<Rightarrow> Some (i, j) | None \<Rightarrow> res)"

text \<open>\<open>data[lo:hi]\<close> on a slice with spare capacity, and \<open>data[lo:]\<close>.\<close>

definition slice_range :: "bytes \<times> bytes \<Rightarrow> int \<Rightarrow> int \<Rightarrow> bytes option" where
  "slice_range buf lo hi =
     (if 0 \<le> lo \<and> lo \<le> hi \<and> hi \<le> int (length (fst buf) + length (snd buf))
      then Some (take (nat (hi - lo)) (drop (nat lo) (fst buf @ snd buf))) else None)"

definition slice_from :: "bytes \<Rightarrow> int \<Rightarrow> bytes option" where
  "slice_from bs lo = (if 0 \<le> lo \<and> lo \<le> int (length bs) then Some (drop (nat lo) bs) else None)"

definition cut_file :: "FilePlate \<Rightarrow> nat \<Rightarrow> bytes \<Rightarrow> bytes option" where
  "cut_file plate didx data =
     (if length (fp_Indexs plate) > didx + 1
      then slice_range (readfile_slice data) (fp_Indexs plate ! didx) (fp_Indexs plate ! (didx + 1))
      else if length (fp_Indexs plate) = didx + 1 then slice_from data (fp_Indexs plate ! didx)
      else Some data)"

section \<open>List helpers\<close>

fun DataInList :: "string \<Rightarrow> string list \<Rightarrow> bool" where
  "DataInList data [] = False"
| "DataInList data (elem # list) = (strings_Contains elem data \<or> DataInList data list)"

fun compare_loop :: "bytes \<Rightarrow> bytes \<Rightarrow> bool" where
  "compare_loop [] ys = True"
| "compare_loop (x # xs) [] = True"
| "compare_loop (x # xs) (y # ys) = (x = y \<and> compare_loop xs ys)"

definition CompareSlice :: "bytes \<Rightarrow> bytes \<Rightarrow> bool" where
  "CompareSlice s1 s2 = (if length s1 \<noteq> length s2 then False else compare_loop s1 s2)"

section \<open>The packing as a function\<close>

text \<open>
  The reference: files are put on the current plate while they fit; otherwise the plate is closed.
  \<open>pack F cur files\<close> gives the closed plates and the plate that is still open at the end.
\<close>

type_synonym plate_files = "(string \<times> bytes) list"

definition plate_data :: "plate_files \<Rightarrow> bytes" where
  "plate_data g = concat (map snd g)"

fun pack :: "nat \<Rightarrow> plate_files \<Rightarrow> plate_files \<Rightarrow> plate_files list \<times> plate_files" where
  "pack F cur [] = ([], cur)"
| "pack F cur (f # files) =
     (if length (plate_data cur) = F \<or> length (snd f) + length (plate_data cur) > F
      then (case pack F [f] files of (gs, c) \<Rightarrow> (cur # gs, c))
      else pack F (cur @ [f]) files)"

fun offsets :: "nat \<Rightarrow> plate_files \<Rightarrow> int list" where
  "offsets n [] = []"
| "offsets n (f # g) = int n # offsets (n + length (snd f)) g"

definition plate_of :: "plate_files \<Rightarrow> FilePlate" where
  "plate_of g = \<lparr>fp_SegmentHash = '''', fp_Files = map fst g, fp_Indexs = offsets 0 g\<rparr>"

definition closed_plate :: "nat \<Rightarrow> plate_files \<Rightarrow> FilePlate" where
  "closed_plate F g =
     (let n = length (plate_data g)
      in (plate_of g)\<lparr>fp_Indexs := offsets 0 g @ (if n < F then [int n] else [])\<rparr>)"

definition padded :: "nat \<Rightarrow> plate_files \<Rightarrow> bytes" where
  "padded F g = plate_data g @ replicate (F - length (plate_data g)) 0"

text \<open>The entries of a directory that hold the given files.\<close>

definition entry_of :: "string \<times> bytes \<Rightarrow> dir_entry" where
  "entry_of f = \<lparr>en_Name = fst f, en_IsDir = False, en_Info = Inr (int (length (snd f)))\<rparr>"

definition holds_file :: "fs \<Rightarrow> string \<Rightarrow> string \<Rightarrow> string \<times> bytes \<Rightarrow> bool" where
  "holds_file fs dir fpath f \<longleftrightarrow> path_Join [dir, fst f] \<noteq> fpath \<and> fs (path_Join [dir, fst f]) = Some (File (snd f)) \<and> snd f \<noteq> []"

text \<open>The state of the loop that corresponds to closed plates \<open>gs\<close> and the open plate \<open>cur\<close>.\<close>

definition packed_state :: "nat \<Rightarrow> string \<Rightarrow> fs \<Rightarrow> plate_files list \<Rightarrow> plate_files \<Rightarrow> box_state \<Rightarrow> bool" where
  "packed_state F fpath fs gs cur st \<longleftrightarrow>
     fb_Plates (bx_box st) = map (closed_plate F) gs \<and> bx_plate st = plate_of cur \<and>
     bx_size st = int (length (plate_data cur)) \<and>
     bx_total st = int (length (concat (map plate_data gs))) + int (length (plate_data cur)) \<and>
     fb_PaddingSize (bx_box st) = sum_list (map (\<lambda>g. int (F - length (plate_data g))) gs) \<and>
     fb_FileHash (bx_box st) = '''' \<and>
     bx_fs st = fs(fpath \<mapsto> File (concat (map (padded F) gs) @ plate_data cur))"

section \<open>Laws\<close>

lemma plate_data_simps [simp]:
  "plate_data [] = []" "plate_data (f # g) = snd f @ plate_data g" "plate_data (g @ h) = plate_data g @ plate_data h"
  by (simp_all add: plate_data_def)

lemma offsets_append: "offsets n (g @ h) = offsets n g @ offsets (n + length (plate_data g)) h"
  by (induction g arbitrary: n) (auto simp: algebra_simps)

lemma offsets_length [simp]: "length (offsets n g) = length g"
  by (induction g arbitrary: n) auto

lemma offsets_nth: "i < length g \<Longrightarrow> offsets n g ! i = int (n + length (plate_data (take i g)))"
proof (induction g arbitrary: n i)
  case (Cons f g)
  then show ?case by (cases i) auto
qed simp

lemma close_packed:
  assumes "packed_state F fpath fs gs cur st" and "\<forall>op p. io op p = None"
  shows "\<exists>st1. close_plate (int F) io fpath st = (st1, None) \<and> packed_state F fpath fs (gs @ [cur]) [] st1"
proof (cases "length (plate_data cur) < F")
  case True
  then have "nat (int F - int (length (plate_data cur))) = F - length (plate_data cur)" by simp
  then show ?thesis
    using assms True
    by (auto simp: close_plate_def packed_state_def write_file_def file_Write_def closed_plate_def plate_of_def
          FilePlate_zero_def padded_def Let_def of_nat_diff)
next
  case False
  then show ?thesis
    using assms
    by (auto simp: close_plate_def packed_state_def closed_plate_def plate_of_def FilePlate_zero_def padded_def Let_def)
qed

lemma put_packed:
  assumes "packed_state F fpath fs gs cur st" and "\<forall>op p. io op p = None" and "holds_file fs dir fpath f"
  shows "\<exists>fs1. os_ReadFile io (bx_fs st) (path_Join [dir, fst f]) = Inr (snd f) \<and>
    write_file io (bx_fs st) fpath (snd f) = (fs1, None) \<and>
    packed_state F fpath fs gs (cur @ [f])
      (st\<lparr>bx_plate := (bx_plate st)\<lparr>fp_Indexs := fp_Indexs (bx_plate st) @ [bx_size st], fp_Files := fp_Files (bx_plate st) @ [fst f]\<rparr>,
          bx_size := bx_size st + int (length (snd f)), bx_total := bx_total st + int (length (snd f)), bx_fs := fs1\<rparr>)"
  using assms
  by (auto simp: packed_state_def holds_file_def os_ReadFile_def write_file_def file_Write_def plate_of_def offsets_append)

lemma box_entry_packed:
  assumes "packed_state F fpath fs gs cur st" and "\<forall>op p. io op p = None" and "holds_file fs dir fpath f"
  shows "\<exists>st1. box_entry (int F) io dir fpath st (entry_of f) = (st1, None) \<and>
    (if length (plate_data cur) = F \<or> length (snd f) + length (plate_data cur) > F
     then packed_state F fpath fs (gs @ [cur]) [f] st1 else packed_state F fpath fs gs (cur @ [f]) st1)"
proof -
  have size: "bx_size st = int (length (plate_data cur))" using assms(1) by (simp add: packed_state_def)
  have pos: "0 < length (snd f)" using assms(3) by (simp add: holds_file_def)
  show ?thesis
  proof (cases "length (plate_data cur) = F \<or> length (snd f) + length (plate_data cur) > F")
    case True
    obtain st0 where c: "close_plate (int F) io fpath st = (st0, None)" "packed_state F fpath fs (gs @ [cur]) [] st0"
      using close_packed [OF assms(1,2)] by blast
    from put_packed [OF c(2) assms(2,3)] show ?thesis
      using True size pos c(1) by (auto simp: box_entry_def entry_of_def Let_def)
  next
    case False
    from put_packed [OF assms] show ?thesis
      using False size pos by (auto simp: box_entry_def entry_of_def Let_def)
  qed
qed

lemma box_entries_packed:
  assumes "\<forall>op p. io op p = None"
  shows "packed_state F fpath fs gs cur st \<Longrightarrow> \<forall>f \<in> set files. holds_file fs dir fpath f \<Longrightarrow>
    \<exists>st1. box_entries (int F) io dir fpath st (map entry_of files) = (st1, None) \<and>
      packed_state F fpath fs (gs @ fst (pack F cur files)) (snd (pack F cur files)) st1"
proof (induction files arbitrary: gs cur st)
  case (Cons f files)
  then obtain st1 where e: "box_entry (int F) io dir fpath st (entry_of f) = (st1, None)"
    and p: "if length (plate_data cur) = F \<or> length (snd f) + length (plate_data cur) > F
     then packed_state F fpath fs (gs @ [cur]) [f] st1 else packed_state F fpath fs gs (cur @ [f]) st1"
    using box_entry_packed [OF Cons.prems(1) assms] by (metis list.set_intros(1))
  show ?case
    using p Cons.IH [of "gs @ [cur]" "[f]" st1] Cons.IH [of gs "cur @ [f]" st1] Cons.prems(2) e
    by (auto split: if_splits prod.splits)
qed simp

lemma pack_contents: "pack F cur files = (gs, c) \<Longrightarrow> concat gs @ c = cur @ files"
  by (induction F cur files arbitrary: gs rule: pack.induct) (auto split: if_splits prod.splits)

text \<open>No file and no plate is too large, if no file is.\<close>

lemma pack_bounded:
  "pack F cur files = (gs, c) \<Longrightarrow> length (plate_data cur) \<le> F \<Longrightarrow> \<forall>f \<in> set files. length (snd f) \<le> F \<Longrightarrow>
   (\<forall>g \<in> set gs. length (plate_data g) \<le> F) \<and> length (plate_data c) \<le> F"
  by (induction F cur files arbitrary: gs rule: pack.induct) (auto split: if_splits prod.splits)

lemma pack_single: "length (plate_data cur) + length (plate_data files) \<le> F \<Longrightarrow> \<forall>f \<in> set files. snd f \<noteq> [] \<Longrightarrow>
   pack F cur files = ([], cur @ files)"
proof (induction files arbitrary: cur)
  case (Cons f files)
  then have "\<not> (length (plate_data cur) = F \<or> length (snd f) + length (plate_data cur) > F)" by auto
  then show ?case using Cons.IH [of "cur @ [f]"] Cons.prems by simp
qed simp

lemma index_of_nth: "index_of name fs = Some j \<Longrightarrow> j < length fs \<and> fs ! j = name"
  by (induction fs arbitrary: j) (auto split: if_splits)

lemma plate_data_nth:
  "j < length g \<Longrightarrow> take (length (snd (g ! j))) (drop (length (plate_data (take j g))) (plate_data g @ r)) = snd (g ! j)"
proof (induction g arbitrary: j)
  case (Cons f g)
  then show ?case by (cases j) (auto simp: drop_append)
qed simp

lemma plate_data_take_le: "length (plate_data (take j g)) \<le> length (plate_data g)"
  by (metis append_take_drop_id le_add1 length_append plate_data_simps(3))

lemma plate_data_take_Suc:
  "j < length g \<Longrightarrow> length (plate_data (take (Suc j) g)) = length (plate_data (take j g)) + length (snd (g ! j))"
  by (simp add: take_Suc_conv_app_nth)

text \<open>Cutting out of a plate whose index continues after the file.\<close>

lemma cut_file_correct:
  assumes "j < length g" and "fp_Indexs p = offsets 0 g @ ixs" and "Suc j < length g \<or> (\<exists>rest. ixs = int (length (plate_data g)) # rest)"
    and "data = plate_data g @ r"
  shows "cut_file p j data = Some (snd (g ! j))"
proof -
  have lo: "fp_Indexs p ! j = int (length (plate_data (take j g)))"
    using assms(1,2) by (simp add: nth_append offsets_nth)
  have hi: "fp_Indexs p ! (j + 1) = int (length (plate_data (take j g)) + length (snd (g ! j)))"
  proof (cases "Suc j < length g")
    case True
    then show ?thesis using assms(1,2) by (simp add: nth_append offsets_nth plate_data_take_Suc)
  next
    case False
    then have "Suc j = length g" using assms(1) by simp
    then have "length (plate_data g) = length (plate_data (take j g)) + length (snd (g ! j))"
      using plate_data_take_Suc [OF assms(1)] by simp
    then show ?thesis using assms(1-3) False \<open>Suc j = length g\<close> by (auto simp: nth_append)
  qed
  have len: "length (plate_data (take j g)) + length (snd (g ! j)) \<le> length (plate_data g)"
    using plate_data_take_Suc [OF assms(1)] plate_data_take_le [of "Suc j" g] by simp
  have "length (fp_Indexs p) > j + 1" using assms(1-3) by auto
  then show ?thesis
    using lo hi len assms(1,4) plate_data_nth [OF assms(1)]
    by (simp add: cut_file_def slice_range_def readfile_slice_def)
qed

lemma plate_data_concat: "plate_data (concat gs) = concat (map plate_data gs)"
  by (induction gs) auto

lemma cut_file_end:
  assumes "j < length g" and "fp_Indexs p = offsets 0 g" and "Suc j = length g" and "data = plate_data g"
  shows "cut_file p j data = Some (snd (g ! j))"
proof -
  have "length (plate_data g) = length (plate_data (take j g)) + length (snd (g ! j))"
    using plate_data_take_Suc [OF assms(1)] assms(3) by simp
  then show ?thesis
    using assms plate_data_nth [OF assms(1), of "[]"] by (simp add: cut_file_def slice_from_def offsets_nth)
qed

lemma padded_block:
  "\<forall>g \<in> set gs. length (plate_data g) \<le> F \<Longrightarrow> i < length gs \<Longrightarrow>
   take F (drop (i * F) (concat (map (padded F) gs) @ r)) = padded F (gs ! i)"
proof (induction gs arbitrary: i)
  case (Cons g gs)
  have l: "length (padded F g) = F" using Cons.prems(1) by (simp add: padded_def)
  show ?case
  proof (cases i)
    case 0
    then show ?thesis using l by simp
  next
    case (Suc k)
    then have "drop (i * F) (concat (map (padded F) (g # gs)) @ r) = drop (k * F) (concat (map (padded F) gs) @ r)"
      using l by simp
    then show ?thesis using Suc Cons by simp
  qed
qed simp

lemma cut_padded:
  assumes "j < length g" and "fp_Indexs p = offsets 0 g @ ixs" and "length (plate_data g) \<le> F"
    and "length (plate_data g) < F \<longrightarrow> (\<exists>rest. ixs = int (length (plate_data g)) # rest)"
    and "length (plate_data g) = F \<longrightarrow> ixs = [] \<or> Suc j < length g"
  shows "cut_file p j (padded F g) = Some (snd (g ! j))"
proof (cases "Suc j < length g \<or> length (plate_data g) < F")
  case True
  then have "Suc j < length g \<or> (\<exists>rest. ixs = int (length (plate_data g)) # rest)" using assms(4) by blast
  then show ?thesis using cut_file_correct [OF assms(1,2) _ refl] by (simp add: padded_def)
next
  case False
  then show ?thesis using cut_file_end [OF assms(1)] assms by (simp add: padded_def)
qed

text \<open>The last file of a full plate, after the size \<open>c\<close> of the open plate was appended to the index.\<close>

lemma cut_full_last:
  assumes "Suc j = length g" and "length (plate_data g) = F" and "fp_Indexs p = offsets 0 g @ [int c]" and "c \<le> F"
  shows "cut_file p j (padded F g) = (let lo = length (plate_data (take j g))
    in if lo \<le> c then Some (take (c - lo) (snd (g ! j))) else None)"
proof -
  let ?lo = "length (plate_data (take j g))"
  have j: "j < length g" using assms(1) by simp
  have pad: "padded F g = plate_data g" using assms(2) by (simp add: padded_def)
  have "F = ?lo + length (snd (g ! j))" using plate_data_take_Suc [OF j] assms(1,2) by simp
  then have "drop ?lo (plate_data g) = snd (g ! j)" using plate_data_nth [OF j, of "[]"] assms(2) by simp
  then have "take (c - ?lo) (drop ?lo (plate_data g @ r)) = take (c - ?lo) (snd (g ! j))" for r
    using assms(2,4) \<open>F = _\<close> by simp
  moreover have "int c \<le> int (length (fst (readfile_slice (plate_data g))) + length (snd (readfile_slice (plate_data g))))"
    using assms(2,4) by (simp add: readfile_slice_def)
  ultimately show ?thesis
    using assms(1,3) j pad
    by (simp add: cut_file_def slice_range_def nth_append offsets_nth Let_def nat_diff_distrib readfile_slice_def del: take_append drop_append)
qed

lemma box_created:
  "\<forall>op p. io op p = None \<Longrightarrow> fs fpath \<noteq> Some Dir \<Longrightarrow> os_Create io fs fpath = (fs(fpath \<mapsto> File []), None)"
  by (auto simp: os_Create_def split: option.splits inode.splits)

lemma box_start:
  assumes "\<forall>op p. io op p = None" and "fpath = path_Join [dir, fname]" and "fs fpath \<noteq> Some Dir"
    and "\<forall>f \<in> set files. holds_file fs dir fpath f"
  shows "\<exists>st1. box_entries (int F) io dir fpath
      \<lparr>bx_box = FileBox_zero, bx_plate = FilePlate_zero, bx_size = 0, bx_total = 0, bx_fs = fs(fpath \<mapsto> File [])\<rparr> (map entry_of files) = (st1, None) \<and>
    packed_state F fpath fs (fst (pack F [] files)) (snd (pack F [] files)) st1"
proof -
  have "packed_state F fpath fs [] []
      \<lparr>bx_box = FileBox_zero, bx_plate = FilePlate_zero, bx_size = 0, bx_total = 0, bx_fs = fs(fpath \<mapsto> File [])\<rparr>"
    by (simp add: packed_state_def FileBox_zero_def FilePlate_zero_def plate_of_def)
  from box_entries_packed [OF assms(1) this assms(4)] show ?thesis by simp
qed

lemma CreateAFileBox_spec:
  assumes "\<forall>op p. io op p = None" and "fpath = path_Join [dir, fname]" and "fs fpath \<noteq> Some Dir"
    and "\<forall>f \<in> set files. holds_file fs dir fpath f" and "pack F [] files = (gs @ [g], cur)"
  shows "\<exists>box. CreateAFileBox (int F) io (Inr (map entry_of files)) fs fname dir =
      Some ((box, fpath, None), fs(fpath \<mapsto> File (concat (map (padded F) (gs @ [g])) @ plate_data cur))) \<and>
    fb_Plates box = map (closed_plate F) gs @ [(closed_plate F g)\<lparr>fp_Files := map fst g @ [''''],
        fp_Indexs := fp_Indexs (closed_plate F g) @ [int (length (plate_data cur))]\<rparr>] \<and>
    fb_TotalSize box = int (length (plate_data files)) + int (length (plate_data cur)) + fb_PaddingSize box"
proof -
  obtain st1 where b: "box_entries (int F) io dir fpath
      \<lparr>bx_box = FileBox_zero, bx_plate = FilePlate_zero, bx_size = 0, bx_total = 0, bx_fs = fs(fpath \<mapsto> File [])\<rparr> (map entry_of files) = (st1, None)"
    and p: "packed_state F fpath fs (gs @ [g]) cur st1"
    using box_start [OF assms(1-4), of F] assms(5) by auto
  have "plate_data (concat (gs @ [g]) @ cur) = plate_data files" using pack_contents [OF assms(5)] by simp
  then have tot: "length (plate_data files) = length (concat (map plate_data (gs @ [g]))) + length (plate_data cur)"
    by (metis length_append plate_data_concat plate_data_simps(3))
  have "fp_Files (closed_plate F g) = map fst g" by (simp add: closed_plate_def plate_of_def Let_def)
  then show ?thesis
    using b p box_created [of io fs fpath] assms(3) assms(1,2) tot by (simp add: CreateAFileBox_def packed_state_def Let_def)
qed

text \<open>A directory with two files, for the witnesses.\<close>

definition mem_dir :: fs where
  "mem_dir = [path_Join [''/d'', ''a''] \<mapsto> File [1, 2, 3], path_Join [''/d'', ''b''] \<mapsto> File [4, 5]]"

lemma mem_dir_paths: "path_Join [''/d'', ''a''] = ''/d/a''" "path_Join [''/d'', ''b''] = ''/d/b''" "path_Join [''/d'', ''box''] = ''/d/box''"
  by code_simp+

lemma mem_dir_holds:
  "holds_file mem_dir ''/d'' (path_Join [''/d'', ''box'']) (''a'', [1, 2, 3])"
  "holds_file mem_dir ''/d'' (path_Join [''/d'', ''box'']) (''b'', [4, 5])"
  by (simp_all add: holds_file_def mem_dir_def mem_dir_paths)

lemma mem_dir_box: "mem_dir (path_Join [''/d'', ''box'']) \<noteq> Some Dir"
  by (simp add: mem_dir_def mem_dir_paths)

section \<open>Properties\<close>

text \<open>C28: Packing a directory of regular files packs them greedily into plates of one fragment size:
  the box file holds every closed plate padded to the fragment size, then the open one; the box
  lists the closed plates with their names and offsets. The open plate is not listed, only its size
  is appended to the last listed plate, and it is counted twice in the total size.\<close>

theorem CreateAFileBox_packs:
  assumes "\<forall>op p. io op p = None" and "fpath = path_Join [dir, fname]" and "fs fpath \<noteq> Some Dir"
    and "\<forall>f \<in> set files. holds_file fs dir fpath f" and "pack F [] files = (gs @ [g], cur)"
  shows "\<exists>box. CreateAFileBox (int F) io (Inr (map entry_of files)) fs fname dir =
      Some ((box, fpath, None), fs(fpath \<mapsto> File (concat (map (padded F) (gs @ [g])) @ plate_data cur))) \<and>
    fb_Plates box = map (closed_plate F) gs @ [(closed_plate F g)\<lparr>fp_Files := map fst g @ [''''],
        fp_Indexs := fp_Indexs (closed_plate F g) @ [int (length (plate_data cur))]\<rparr>] \<and>
    fb_TotalSize box = int (length (plate_data files)) + int (length (plate_data cur)) + fb_PaddingSize box"
  by (rule CreateAFileBox_spec [OF assms])

theorem CreateAFileBox_packs_witness:
  "\<exists>box. CreateAFileBox 4 (\<lambda>op p. None) (Inr (map entry_of [(''a'', [1, 2, 3]), (''b'', [4, 5])])) mem_dir ''box'' ''/d'' =
      Some ((box, path_Join [''/d'', ''box''], None),
        mem_dir(path_Join [''/d'', ''box''] \<mapsto> File [1, 2, 3, 0, 4, 5])) \<and>
    length (fb_Plates box) = 1 \<and> fb_TotalSize box = 7 + fb_PaddingSize box"
proof -
  let ?files = "[(''a'', [1, 2, 3]), (''b'', [4, 5])] :: plate_files"
  have "pack 4 [] ?files = ([] @ [[(''a'', [1, 2, 3])]], [(''b'', [4, 5])])" by (simp add: plate_data_def)
  from CreateAFileBox_packs [OF _ refl _ _ this, of "\<lambda>op p. None" mem_dir "''/d''" "''box''"] show ?thesis
    by (auto simp: mem_dir_holds mem_dir_box padded_def eval_nat_numeral)
qed

text \<open>A directory whose files fit on one plate cannot be boxed: the box has no plate yet when
  its last plate is indexed, and the client panics.\<close>

theorem CreateAFileBox_small_panics:
  assumes "\<forall>op p. io op p = None" and "fpath = path_Join [dir, fname]" and "fs fpath \<noteq> Some Dir"
    and "\<forall>f \<in> set files. holds_file fs dir fpath f" and "length (plate_data files) \<le> F"
  shows "CreateAFileBox (int F) io (Inr (map entry_of files)) fs fname dir = None"
proof -
  have "pack F [] files = ([], files)"
    using pack_single [of "[]" files F] assms(4,5) by (auto simp: holds_file_def)
  then obtain st1 where "box_entries (int F) io dir fpath
      \<lparr>bx_box = FileBox_zero, bx_plate = FilePlate_zero, bx_size = 0, bx_total = 0, bx_fs = fs(fpath \<mapsto> File [])\<rparr> (map entry_of files) = (st1, None)"
    and "packed_state F fpath fs [] files st1"
    using box_start [OF assms(1-4), of F] by auto
  then show ?thesis
    using assms(1,2) box_created [of io fs fpath] assms(3) by (simp add: CreateAFileBox_def packed_state_def Let_def)
qed

theorem CreateAFileBox_small_panics_witness:
  "CreateAFileBox 8388608 (\<lambda>op p. None) (Inr (map entry_of [(''a'', [1, 2, 3]), (''b'', [4, 5])])) mem_dir ''box'' ''/d'' = None"
  using CreateAFileBox_small_panics [of "\<lambda>op p. None" "path_Join [''/d'', ''box'']" "''/d''" "''box''" mem_dir
      "[(''a'', [1, 2, 3]), (''b'', [4, 5])]" 8388608]
  by (simp add: mem_dir_holds mem_dir_box)

text \<open>C29: What comes back of a boxed file, when the directory was read and written without failures and no file is larger
  than a plate: cutting a file of a listed plate out of its plate of the box file with the plate's index gives exactly its
  contents, with one exception. When the last listed plate is exactly full, the size of the open plate, which was
  appended to its index, is taken for the end of its last file: the cut gives a prefix of that
  file up to that offset, and panics when the offset lies before the start of the file.\<close>

theorem box_file_roundtrip:
  assumes "\<forall>op p. io op p = None" and "fpath = path_Join [dir, fname]" and "fs fpath \<noteq> Some Dir"
    and "\<forall>f \<in> set files. holds_file fs dir fpath f" and "\<forall>f \<in> set files. length (snd f) \<le> F"
    and "pack F [] files = (gs @ [g], cur)" and "i < length (gs @ [g])" and "j < length ((gs @ [g]) ! i)"
  shows "\<exists>box fs' data. CreateAFileBox (int F) io (Inr (map entry_of files)) fs fname dir = Some ((box, fpath, None), fs') \<and>
    fs' fpath = Some (File data) \<and> fp_Files (fb_Plates box ! i) ! j = fst ((gs @ [g]) ! i ! j) \<and>
    cut_file (fb_Plates box ! i) j (take F (drop (i * F) data)) =
      (let start = length (plate_data (take j g)); last = length (plate_data cur)
       in if i = length gs \<and> length (plate_data g) = F \<and> Suc j = length g
          then if start \<le> last then Some (take (last - start) (snd (g ! j))) else None
          else Some (snd ((gs @ [g]) ! i ! j)))"
proof -
  let ?G = "gs @ [g]" and ?data = "concat (map (padded F) (gs @ [g])) @ plate_data cur"
  obtain box where box: "CreateAFileBox (int F) io (Inr (map entry_of files)) fs fname dir = Some ((box, fpath, None), fs(fpath \<mapsto> File ?data))"
    and plates: "fb_Plates box = map (closed_plate F) gs @ [(closed_plate F g)\<lparr>fp_Files := map fst g @ [''''],
        fp_Indexs := fp_Indexs (closed_plate F g) @ [int (length (plate_data cur))]\<rparr>]"
    using CreateAFileBox_spec [OF assms(1-4,6)] by blast
  have le: "\<forall>h \<in> set ?G. length (plate_data h) \<le> F" using pack_bounded [OF assms(6)] assms(5) by simp
  have blk: "take F (drop (i * F) ?data) = padded F (?G ! i)" by (rule padded_block [OF le assms(7)])
  obtain ixs where ix: "fp_Indexs (fb_Plates box ! i) = offsets 0 (?G ! i) @ ixs"
    "length (plate_data (?G ! i)) < F \<longrightarrow> (\<exists>rest. ixs = int (length (plate_data (?G ! i))) # rest)"
    "length (plate_data (?G ! i)) = F \<and> i \<noteq> length gs \<longrightarrow> ixs = []"
    using assms(7) plates by (cases "i < length gs") (auto simp: nth_append closed_plate_def plate_of_def Let_def)
  have name: "fp_Files (fb_Plates box ! i) ! j = fst (?G ! i ! j)"
    using assms(7,8) plates by (cases "i < length gs") (auto simp: nth_append closed_plate_def plate_of_def Let_def)
  have fits: "length (plate_data (?G ! i)) \<le> F" using le nth_mem [OF assms(7)] by blast
  have "cut_file (fb_Plates box ! i) j (padded F (?G ! i)) =
      (let start = length (plate_data (take j g)); last = length (plate_data cur)
       in if i = length gs \<and> length (plate_data g) = F \<and> Suc j = length g
          then if start \<le> last then Some (take (last - start) (snd (g ! j))) else None
          else Some (snd (?G ! i ! j)))"
  proof (cases "i = length gs \<and> length (plate_data g) = F \<and> Suc j = length g")
    case True
    moreover from True have "fp_Indexs (fb_Plates box ! i) = offsets 0 g @ [int (length (plate_data cur))]"
      using plates by (simp add: nth_append closed_plate_def plate_of_def Let_def)
    moreover have "length (plate_data cur) \<le> F" using pack_bounded [OF assms(6)] assms(5) by simp
    ultimately show ?thesis using cut_full_last [of j g F "fb_Plates box ! i"] by (simp add: Let_def)
  next
    case False
    then have "length (plate_data (?G ! i)) = F \<longrightarrow> ixs = [] \<or> Suc j < length (?G ! i)"
      using ix(3) assms(8) by (cases "i = length gs") auto
    then show ?thesis using cut_padded [OF assms(8) ix(1) fits ix(2)] by (simp only: False if_False Let_def)
  qed
  then show ?thesis using box blk name by auto
qed

theorem box_file_roundtrip_witness:
  "(\<exists>box fs' data. CreateAFileBox 4 (\<lambda>op p. None) (Inr (map entry_of [(''a'', [1, 2, 3]), (''b'', [4, 5])])) mem_dir ''box'' ''/d'' =
      Some ((box, path_Join [''/d'', ''box''], None), fs') \<and> fs' (path_Join [''/d'', ''box'']) = Some (File data) \<and>
    cut_file (fb_Plates box ! 0) 0 (take 4 data) = Some [1, 2, 3]) \<and>
   (\<exists>box fs' data. CreateAFileBox 3 (\<lambda>op p. None) (Inr (map entry_of [(''a'', [1, 2, 3]), (''b'', [4, 5])])) mem_dir ''box'' ''/d'' =
      Some ((box, path_Join [''/d'', ''box''], None), fs') \<and> fs' (path_Join [''/d'', ''box'']) = Some (File data) \<and>
    cut_file (fb_Plates box ! 0) 0 (take 3 data) = Some [1, 2])"
proof
  let ?files = "[(''a'', [1, 2, 3]), (''b'', [4, 5])] :: plate_files"
  let ?cut = "\<lambda>n c. \<exists>box fs' data. CreateAFileBox (int n) (\<lambda>op p. None) (Inr (map entry_of ?files)) mem_dir ''box'' ''/d'' =
      Some ((box, path_Join [''/d'', ''box''], None), fs') \<and> fs' (path_Join [''/d'', ''box'']) = Some (File data) \<and>
    cut_file (fb_Plates box ! 0) 0 (take n data) = Some c"
  have p: "pack 4 [] ?files = ([] @ [[(''a'', [1, 2, 3])]], [(''b'', [4, 5])])" "pack 3 [] ?files = ([] @ [[(''a'', [1, 2, 3])]], [(''b'', [4, 5])])"
    by (simp_all add: plate_data_def)
  have "?cut 4 [1, 2, 3]"
    using box_file_roundtrip [OF _ refl _ _ _ p(1), of "\<lambda>op p. None" mem_dir "''/d''" "''box''" 0 0] by (auto simp: mem_dir_holds mem_dir_box)
  then show "\<exists>box fs' data. CreateAFileBox 4 (\<lambda>op p. None) (Inr (map entry_of ?files)) mem_dir ''box'' ''/d'' =
      Some ((box, path_Join [''/d'', ''box''], None), fs') \<and> fs' (path_Join [''/d'', ''box'']) = Some (File data) \<and>
    cut_file (fb_Plates box ! 0) 0 (take 4 data) = Some [1, 2, 3]" by simp
  have "?cut 3 [1, 2]"
    using box_file_roundtrip [OF _ refl _ _ _ p(2), of "\<lambda>op p. None" mem_dir "''/d''" "''box''" 0 0] by (auto simp: mem_dir_holds mem_dir_box)
  then show "\<exists>box fs' data. CreateAFileBox 3 (\<lambda>op p. None) (Inr (map entry_of ?files)) mem_dir ''box'' ''/d'' =
      Some ((box, path_Join [''/d'', ''box''], None), fs') \<and> fs' (path_Join [''/d'', ''box'']) = Some (File data) \<and>
    cut_file (fb_Plates box ! 0) 0 (take 3 data) = Some [1, 2]" by simp
qed

text \<open>Comparing two byte slices decides whether they are equal.\<close>

theorem CompareSlice_eq: "CompareSlice s1 s2 \<longleftrightarrow> s1 = s2"
proof -
  have "length s1 = length s2 \<Longrightarrow> compare_loop s1 s2 = (s1 = s2)"
    by (induction s1 s2 rule: list_induct2) auto
  then show ?thesis by (auto simp: CompareSlice_def)
qed

end
