(* ===== verification/Client_Files.thy ===== *)
theory Client_Files
  imports Client_Box Resource_Actor
begin

text \<open>
  The downloads of \<open>cd2n-client/client\<close> (\<open>files.go\<close>, \<open>client.go\<close>): whole files and single segments
  from cache nodes with the storage network as fall-back, the two concurrent operations they are
  made of, files in boxes, and the settlement of cache orders.

  The concurrent operations are step relations; where another operation calls them, their outcome is
  a parameter (\<open>cx_QuerySegment\<close>, \<open>cx_FromCachers\<close>; \<open>None\<close> is a call that never returns).
\<close>

section \<open>Data and parameters\<close>

definition MAX_FLUSH_TIMES :: nat where "MAX_FLUSH_TIMES = 512"
definition DEFAULT_NODE_NUM :: nat where "DEFAULT_NODE_NUM = 128"
definition MaxStorageNodeNum :: nat where "MaxStorageNodeNum = 128"
definition MaxCacheNodeNum :: nat where "MaxCacheNodeNum = 128"

text \<open>A group of an upload: one of the storage nodes that shall hold a fragment of every segment; the time in nanoseconds.\<close>

record UploadGroup =
  ug_MinerID :: string
  ug_PeerID :: string
  ug_Saved :: bool
  ug_OnChain :: bool
  ug_FlushTime :: int

text \<open>\<open>chain.SegmentDataInfo\<close> of the SDK: the paths of a segment and of its fragments.\<close>

record SegmentDataInfo =
  sd_SegmentHash :: string
  sd_FragmentHash :: "string list"

text \<open>
  A callback: a function of the caller, by name, or the closure that \<open>UploadDirAsBoxFile\<close> puts
  around the caller's callback, which may be \<open>nil\<close>.
\<close>

datatype callback = UserCallback string | BoxCallback "callback option"

record UploadStats =
  us_FileHash :: string
  us_FilePath :: string
  us_CallBack :: "callback option"
  us_SegmentInfo :: "SegmentDataInfo list"
  us_Group :: "UploadGroup list"

text \<open>
  The client: its own fields. A channel is the list of what it buffers with its capacity, \<open>None\<close> if
  it was never made: an operation on it blocks forever.
\<close>

record 'k CdnClient =
  cn_Mnemonic :: string
  cn_ethAccSk :: "'k option"
  cn_CacheFeeLimit :: string
  cn_tmpDir :: string
  cn_osQueue :: "(CacheResponse list \<times> nat) option"
  cn_uploadQueue :: "(UploadStats list \<times> nat) option"

definition CdnClient_New :: "'k option \<Rightarrow> 'k CdnClient" where
  "CdnClient_New ethAccSk = \<lparr>cn_Mnemonic = '''', cn_ethAccSk = ethAccSk, cn_CacheFeeLimit = '''', cn_tmpDir = '''',
     cn_osQueue = None, cn_uploadQueue = None\<rparr>"

definition GetPublickey :: "('k \<Rightarrow> bytes) \<Rightarrow> 'k CdnClient \<Rightarrow> bytes option" where
  "GetPublickey compressPubkey c = map_option compressPubkey (cn_ethAccSk c)"

definition SetConfig :: "'k CdnClient \<Rightarrow> string \<Rightarrow> string \<Rightarrow> string \<Rightarrow> nat \<Rightarrow> 'k CdnClient" where
  "SetConfig c mnemonic tmpDir cacheFeeLimit uploadQueueSize =
     c\<lparr>cn_Mnemonic := mnemonic, cn_tmpDir := tmpDir, cn_CacheFeeLimit := cacheFeeLimit,
       cn_uploadQueue := Some ([], uploadQueueSize)\<rparr>"

record 'n client_env =
  cx_S :: storage_env
  cx_QuerySegment :: "'n \<Rightarrow> string \<Rightarrow> string \<Rightarrow> ((string \<times> CacheResponse) list or_err \<times> 'n) option"
  cx_FromCachers :: "'n \<Rightarrow> fs \<Rightarrow> string \<Rightarrow> string \<Rightarrow> string \<Rightarrow> (string \<times> CacheResponse) list \<Rightarrow> (string list \<times> fs \<times> 'n) option"

section \<open>Downloads\<close>

text \<open>
  The fall-back to the storage network when the cache nodes gave too few fragments: whether enough
  fragments were collected, the fragments, and the files.
\<close>

fun fallback_fragments ::
  "storage_env \<Rightarrow> string \<Rightarrow> string \<Rightarrow> string list \<times> fs \<Rightarrow> FragmentInfo list \<Rightarrow> bool \<times> string list \<times> fs" where
  "fallback_fragments S fdir shash (fragments, fs) [] = (False, fragments, fs)"
| "fallback_fragments S fdir shash (fragments, fs) (fragment # rest) =
     (if DataInList (fg_Hash fragment) fragments then fallback_fragments S fdir shash (fragments, fs) rest
      else (case se_QueryMiner S (fg_Miner fragment) of
         Inl err \<Rightarrow> fallback_fragments S fdir shash (fragments, fs) rest
       | Inr peer \<Rightarrow>
           (let fragmentpath = path_Join [fdir, fg_Hash fragment] in
            case se_ReadDataAction S peer shash fragmentpath fs of
              (fs1, Some err) \<Rightarrow> fallback_fragments S fdir shash (fragments, fs1) rest
            | (fs1, None) \<Rightarrow>
                (let fragments1 = fragments @ [fragmentpath] in
                 if length fragments1 \<ge> se_DataShards S then (True, fragments1, fs1)
                 else fallback_fragments S fdir shash (fragments1, fs1) rest))))"

text \<open>One round of the loop of \<open>DownloadFile\<close>: an error, whether the segment's path is appended, the files and the network.\<close>

definition client_segment ::
  "'n client_env \<Rightarrow> string \<Rightarrow> string \<Rightarrow> fs \<Rightarrow> 'n \<Rightarrow> SegmentInfo \<Rightarrow> (goerr option \<times> string list \<times> fs \<times> 'n) option" where
  "client_segment C fdir fhash fs n segment =
     (let S = cx_S C; shash = sg_Hash segment; msg = ''download file error'';
          fromStorage = (\<lambda>n1. case DownloadSegmentFromStorage S fs fdir fhash shash of
             ((segPath, Some err), fs1) \<Rightarrow> Some (Some (Wrapped msg err), [], fs1, n1)
           | ((segPath, None), fs1) \<Rightarrow> Some (None, [segPath], fs1, n1))
      in case cx_QuerySegment C n fhash shash of
           None \<Rightarrow> None
         | Some (Inl err, n1) \<Rightarrow> fromStorage n1
         | Some (Inr [], n1) \<Rightarrow> fromStorage n1
         | Some (Inr (p # ps), n1) \<Rightarrow>
             (case cx_FromCachers C n1 fs fhash shash fdir (p # ps) of
                None \<Rightarrow> None
              | Some (fragments, fs1, n2) \<Rightarrow>
                  (let segPath = path_Join [fdir, shash] in
                   if length fragments \<ge> se_DataShards S
                   then (case se_RSRestore S segPath (take (se_DataShards S) fragments) fs1 of
                       (fs2, Some err) \<Rightarrow> Some (Some (Wrapped msg err), [], fs2, n2)
                     | (fs2, None) \<Rightarrow> Some (None, [segPath], os_Remove_all (se_io S) fs2 fragments, n2))
                   else (case fallback_fragments S fdir shash (fragments, fs1) (sg_FragmentList segment) of
                       (False, frs, fs2) \<Rightarrow> Some (None, [], fs2, n2)
                     | (True, frs, fs2) \<Rightarrow>
                         (case se_RSRestore S segPath frs fs2 of
                            (fs3, Some err) \<Rightarrow> Some (Some (Wrapped msg err), [], fs3, n2)
                          | (fs3, None) \<Rightarrow> Some (None, [segPath], os_Remove_all (se_io S) fs3 frs, n2))))))"

fun client_segments ::
  "'n client_env \<Rightarrow> string \<Rightarrow> string \<Rightarrow> string list \<Rightarrow> fs \<Rightarrow> 'n \<Rightarrow> SegmentInfo list \<Rightarrow>
   (goerr option \<times> string list \<times> fs \<times> 'n) option" where
  "client_segments C fdir fhash segmentPaths fs n [] = Some (None, segmentPaths, fs, n)"
| "client_segments C fdir fhash segmentPaths fs n (segment # rest) =
     (case client_segment C fdir fhash fs n segment of
        None \<Rightarrow> None
      | Some (Some err, ps, fs1, n1) \<Rightarrow> Some (Some err, segmentPaths, fs1, n1)
      | Some (None, ps, fs1, n1) \<Rightarrow> client_segments C fdir fhash (segmentPaths @ ps) fs1 n1 rest)"

definition DownloadFile ::
  "'n client_env \<Rightarrow> fs \<Rightarrow> 'n \<Rightarrow> string \<Rightarrow> string \<Rightarrow> string \<Rightarrow> ((string \<times> goerr option) \<times> fs \<times> 'n) option" where
  "DownloadFile C fs n fdir fhash cipher =
     (let S = cx_S C; io = se_io S; msg = ''download file error'' in
      case os_Stat io fs fdir of
        Inl err \<Rightarrow> Some (('''', Some (Wrapped msg err)), fs, n)
      | Inr _ \<Rightarrow>
          (let dlfile = path_Join [fdir, fhash] in
           case os_Create io fs dlfile of
             (fs1, Some err) \<Rightarrow> Some (('''', Some (Wrapped msg err)), fs1, n)
           | (fs1, None) \<Rightarrow>
               (case se_QueryFile S fhash of
                  Inl err \<Rightarrow> Some ((dlfile, Some (Wrapped msg err)), fs1, n)
                | Inr fmeta \<Rightarrow>
                    (case client_segments C fdir fhash [] fs1 n (fm_SegmentList fmeta) of
                       None \<Rightarrow> None
                     | Some (Some err, sps, fs2, n1) \<Rightarrow> Some ((dlfile, Some err), os_Remove_all io fs2 sps, n1)
                     | Some (None, sps, fs2, n1) \<Rightarrow>
                         (if length sps \<noteq> length (fm_SegmentList fmeta)
                          then Some ((dlfile, Some (Wrapped msg (Errorf ''the number of downloaded segments is inconsistent''))),
                                     os_Remove_all io fs2 sps, n1)
                          else (case RecoveryFileViaSegments S fs2 sps fmeta cipher dlfile of
                             None \<Rightarrow> None
                           | Some (err, fs3) \<Rightarrow> Some ((dlfile, errors_Wrap err msg), os_Remove_all io fs3 sps, n1)))))))"

text \<open>The loops of \<open>DownloadSegment\<close> over the segments with the hash.\<close>

fun fallback_segments ::
  "storage_env \<Rightarrow> string \<Rightarrow> string \<Rightarrow> string list \<times> fs \<Rightarrow> SegmentInfo list \<Rightarrow> bool \<times> string list \<times> fs" where
  "fallback_segments S sdir shash st [] = (False, st)"
| "fallback_segments S sdir shash st (segment # rest) =
     (if sg_Hash segment \<noteq> shash then fallback_segments S sdir shash st rest
      else (case fallback_fragments S sdir shash st (sg_FragmentList segment) of
         (True, st1) \<Rightarrow> (True, st1)
       | (False, st1) \<Rightarrow> fallback_segments S sdir shash st1 rest))"

definition DownloadSegment ::
  "'n client_env \<Rightarrow> fs \<Rightarrow> 'n \<Rightarrow> string \<Rightarrow> string \<Rightarrow> string \<Rightarrow> ((string \<times> goerr option) \<times> fs \<times> 'n) option" where
  "DownloadSegment C fs n fhash shash sdir =
     (let S = cx_S C; io = se_io S; msg = ''download file segment error'';
          fromStorage = (\<lambda>n1. case DownloadSegmentFromStorage S fs sdir fhash shash of
             ((segPath, Some err), fs1) \<Rightarrow> Some (('''', Some (Wrapped msg err)), fs1, n1)
           | ((segPath, None), fs1) \<Rightarrow> Some ((segPath, None), fs1, n1))
      in case os_Stat io fs sdir of
           Inl err \<Rightarrow> Some (('''', Some (Wrapped msg err)), fs, n)
         | Inr _ \<Rightarrow>
             (case cx_QuerySegment C n fhash shash of
                None \<Rightarrow> None
              | Some (Inl err, n1) \<Rightarrow> fromStorage n1
              | Some (Inr [], n1) \<Rightarrow> fromStorage n1
              | Some (Inr (p # ps), n1) \<Rightarrow>
                  (case cx_FromCachers C n1 fs fhash shash sdir (p # ps) of
                     None \<Rightarrow> None
                   | Some (fragments, fs1, n2) \<Rightarrow>
                       (let segPath = path_Join [sdir, shash];
                            restore = (\<lambda>frs fs. case se_RSRestore S segPath (take (se_DataShards S) frs) fs of
                               (fs2, Some err) \<Rightarrow> Some (('''', Some (Wrapped msg err)), os_Remove_all io fs2 frs, n2)
                             | (fs2, None) \<Rightarrow> Some ((segPath, None), os_Remove_all io fs2 frs, n2))
                        in if length fragments \<ge> se_DataShards S then restore fragments fs1
                           else (case se_QueryFile S fhash of
                              Inl err \<Rightarrow> Some (('''', Some (Wrapped msg err)), os_Remove_all io fs1 fragments, n2)
                            | Inr fmeta \<Rightarrow>
                                (case fallback_segments S sdir shash (fragments, fs1) (fm_SegmentList fmeta) of
                                   (True, frs, fs2) \<Rightarrow> restore frs fs2
                                 | (False, frs, fs2) \<Rightarrow>
                                     Some ((segPath, Some (Wrapped msg (Errorf ''the number of downloaded fragment is inconsistent''))),
                                           os_Remove_all io fs2 frs, n2)))))))"

text \<open>One file of a box: find it in the metadata, fetch its segment, cut it out.\<close>

definition DownloadFileInBox ::
  "'n client_env \<Rightarrow> 'k CdnClient \<Rightarrow> fs \<Rightarrow> 'n \<Rightarrow> string \<Rightarrow> string \<Rightarrow> FileBox \<Rightarrow> (bytes or_err \<times> fs \<times> 'n) option" where
  "DownloadFileInBox C c fs n fhash elemFileName boxMeta =
     (let msg = ''download file in box error'' in
      case box_find elemFileName 0 (fb_Plates boxMeta) None of
        None \<Rightarrow> Some (Inl (Wrapped msg (Errorf ''data not found from box metadata'')), fs, n)
      | Some (sidx, didx) \<Rightarrow>
          (let plate = fb_Plates boxMeta ! sidx in
           case DownloadSegment C fs n fhash (fp_SegmentHash plate) (cn_tmpDir c) of
             None \<Rightarrow> None
           | Some ((spath, Some err), fs1, n1) \<Rightarrow> Some (Inl (Wrapped msg err), fs1, n1)
           | Some ((spath, None), fs1, n1) \<Rightarrow>
               (case os_ReadFile (se_io (cx_S C)) fs1 spath of
                  Inl err \<Rightarrow> Some (Inl (Wrapped msg err), fs1, n1)
                | Inr data \<Rightarrow>
                    (case cut_file plate didx data of None \<Rightarrow> None | Some bs \<Rightarrow> Some (Inr bs, fs1, n1)))))"

section \<open>Querying the cache nodes\<close>

text \<open>How many peers and workers; an error if there is no cache node.\<close>

definition cachers_query_sizes :: "int \<Rightarrow> int \<Rightarrow> int \<Rightarrow> (int \<times> int) option" where
  "cachers_query_sizes peerNum cacherNum threadNum =
     (let cacherNum1 = (if cacherNum > peerNum then peerNum else cacherNum) in
      if cacherNum1 \<le> 0 then None
      else Some (cacherNum1, if cacherNum1 < threadNum then peerNum else threadNum))"

text \<open>
  The workers share the iterator under a lock. A worker asks for a peer, queries it, and sends a hit
  to \<open>osQueue\<close> after recording it. \<open>room\<close> tells whether the channel can take a response.
\<close>

datatype asker = Asking | Querying string | Sending string | Left

record cachers_state =
  cq_peers :: "string list"
  cq_workers :: "asker list"
  cq_found :: "string \<rightharpoonup> CacheResponse"

definition cachers_init :: "nat \<Rightarrow> string list \<Rightarrow> cachers_state" where
  "cachers_init threads peers = \<lparr>cq_peers = peers, cq_workers = replicate threads Asking, cq_found = Map.empty\<rparr>"

definition hit_answer :: "CacheResponse option \<Rightarrow> bool" where
  "hit_answer a = (case a of None \<Rightarrow> False | Some resp \<Rightarrow> rs_Status resp = STATUS_HIT)"

inductive cachers_step ::
  "(string \<Rightarrow> CacheResponse option) \<Rightarrow> bool \<Rightarrow> cachers_state \<Rightarrow> cachers_state \<Rightarrow> bool"
  for answer :: "string \<Rightarrow> CacheResponse option" and room :: bool where
  c_ask: "i < length (cq_workers s) \<Longrightarrow> cq_workers s ! i = Asking \<Longrightarrow> cq_peers s = p # ps \<Longrightarrow>
     cachers_step answer room s (s\<lparr>cq_peers := ps, cq_workers := (cq_workers s)[i := Querying p]\<rparr>)"
| c_leave: "i < length (cq_workers s) \<Longrightarrow> cq_workers s ! i = Asking \<Longrightarrow> cq_peers s = [] \<Longrightarrow>
     cachers_step answer room s (s\<lparr>cq_workers := (cq_workers s)[i := Left]\<rparr>)"
| c_miss: "i < length (cq_workers s) \<Longrightarrow> cq_workers s ! i = Querying p \<Longrightarrow> \<not> hit_answer (answer p) \<Longrightarrow>
     cachers_step answer room s (s\<lparr>cq_workers := (cq_workers s)[i := Asking]\<rparr>)"
| c_hit: "i < length (cq_workers s) \<Longrightarrow> cq_workers s ! i = Querying p \<Longrightarrow> answer p = Some resp \<Longrightarrow>
     rs_Status resp = STATUS_HIT \<Longrightarrow>
     cachers_step answer room s
       (s\<lparr>cq_workers := (cq_workers s)[i := Sending p], cq_found := (cq_found s)(p \<mapsto> resp)\<rparr>)"
| c_send: "i < length (cq_workers s) \<Longrightarrow> cq_workers s ! i = Sending p \<Longrightarrow> room \<Longrightarrow>
     cachers_step answer room s (s\<lparr>cq_workers := (cq_workers s)[i := Asking]\<rparr>)"

definition cachers_finished :: "cachers_state \<Rightarrow> bool" where
  "cachers_finished s \<longleftrightarrow> (\<forall>x \<in> set (cq_workers s). x = Left)"

text \<open>
  The whole query, as a relation to its results: an error when there is no cache node or the selector has no
  iterator, otherwise the result map of a run in which every worker has returned. \<open>wg.Add\<close> panics on a negative
  number of workers, so there is no result then. No operation makes \<open>osQueue\<close>, which is why its room does not change.
\<close>

definition queue_room :: "(CacheResponse list \<times> nat) option \<Rightarrow> bool" where
  "queue_room q = (case q of None \<Rightarrow> False | Some (buffered, cap) \<Rightarrow> length buffered < cap)"

inductive QuerySegmentFromCachers ::
  "'k CdnClient \<Rightarrow> int \<Rightarrow> (int \<Rightarrow> string list or_err) \<Rightarrow> (string \<Rightarrow> CacheResponse option) \<Rightarrow> int \<Rightarrow> int \<Rightarrow>
   (string \<rightharpoonup> CacheResponse) or_err \<Rightarrow> bool"
  for c :: "'k CdnClient" and peerNum :: int and iter :: "int \<Rightarrow> string list or_err" and answer :: "string \<Rightarrow> CacheResponse option"
    and cacherNum :: int and threadNum :: int where
  cachers_none: "cachers_query_sizes peerNum cacherNum threadNum = None \<Longrightarrow>
     QuerySegmentFromCachers c peerNum iter answer cacherNum threadNum (Inl (Errorf ''cache node not found''))"
| cachers_error: "cachers_query_sizes peerNum cacherNum threadNum = Some (num, threads) \<Longrightarrow> iter num = Inl err \<Longrightarrow>
     QuerySegmentFromCachers c peerNum iter answer cacherNum threadNum (Inl err)"
| cachers_found: "cachers_query_sizes peerNum cacherNum threadNum = Some (num, threads) \<Longrightarrow> iter num = Inr peers \<Longrightarrow> 0 \<le> threads \<Longrightarrow>
     (cachers_step answer (queue_room (cn_osQueue c)))\<^sup>*\<^sup>* (cachers_init (nat threads) peers) s \<Longrightarrow> cachers_finished s \<Longrightarrow>
     QuerySegmentFromCachers c peerNum iter answer cacherNum threadNum (Inr (cq_found s))"

section \<open>Downloading a segment from the cache nodes\<close>

text \<open>
  One worker per peer, each with the peer's list of fragments and its account. At the top it checks the counters, in
  the inner loop it takes a fragment, downloads it, and counts it; \<open>Counting\<close> is the point after the
  error handling, which a failed download reaches too. \<open>ld_credits\<close> lists the accounts that get a fragment size from
  \<open>AddCreditPoint\<close>, one entry per call.
\<close>

datatype loader = Top | Files "string list" | Loading string "string list" | Counting string "string list" | Gone

record load_state =
  ld_dl :: int
  ld_dld :: int
  ld_cached :: "string set"
  ld_res :: "string list"
  ld_credits :: "bytes list"
  ld_workers :: "loader list"

definition load_init :: "nat \<Rightarrow> load_state" where
  "load_init peers = \<lparr>ld_dl = 0, ld_dld = 0, ld_cached = {}, ld_res = [], ld_credits = [], ld_workers = replicate peers Top\<rparr>"

inductive load_step ::
  "int \<Rightarrow> string \<Rightarrow> (string list \<times> bytes) list \<Rightarrow> (nat \<Rightarrow> string \<Rightarrow> bool) \<Rightarrow> load_state \<Rightarrow> load_state \<Rightarrow> bool"
  for shards :: int and fdir :: string and offers :: "(string list \<times> bytes) list" and works :: "nat \<Rightarrow> string \<Rightarrow> bool" where
  l_return: "i < length (ld_workers s) \<Longrightarrow> ld_workers s ! i = Top \<Longrightarrow> ld_dld s \<ge> shards \<Longrightarrow>
     load_step shards fdir offers works s (s\<lparr>ld_workers := (ld_workers s)[i := Gone]\<rparr>)"
| l_enter: "i < length (ld_workers s) \<Longrightarrow> ld_workers s ! i = Top \<Longrightarrow> ld_dld s < shards \<Longrightarrow> ld_dl s < shards \<Longrightarrow>
     load_step shards fdir offers works s (s\<lparr>ld_dl := ld_dl s + 1, ld_workers := (ld_workers s)[i := Files (fst (offers ! i))]\<rparr>)"
| l_spin: "i < length (ld_workers s) \<Longrightarrow> ld_workers s ! i = Top \<Longrightarrow> ld_dld s < shards \<Longrightarrow> ld_dl s \<ge> shards \<Longrightarrow>
     load_step shards fdir offers works s s"
| l_again: "i < length (ld_workers s) \<Longrightarrow> ld_workers s ! i = Files [] \<Longrightarrow>
     load_step shards fdir offers works s (s\<lparr>ld_workers := (ld_workers s)[i := Top]\<rparr>)"
| l_stop: "i < length (ld_workers s) \<Longrightarrow> ld_workers s ! i = Files (f # fs) \<Longrightarrow> ld_dld s \<ge> shards \<Longrightarrow>
     load_step shards fdir offers works s (s\<lparr>ld_workers := (ld_workers s)[i := Gone]\<rparr>)"
| l_skip: "i < length (ld_workers s) \<Longrightarrow> ld_workers s ! i = Files (f # fs) \<Longrightarrow> ld_dld s < shards \<Longrightarrow> f \<in> ld_cached s \<Longrightarrow>
     load_step shards fdir offers works s (s\<lparr>ld_workers := (ld_workers s)[i := Files fs]\<rparr>)"
| l_take: "i < length (ld_workers s) \<Longrightarrow> ld_workers s ! i = Files (f # fs) \<Longrightarrow> ld_dld s < shards \<Longrightarrow> f \<notin> ld_cached s \<Longrightarrow>
     load_step shards fdir offers works s
       (s\<lparr>ld_cached := insert f (ld_cached s), ld_workers := (ld_workers s)[i := Loading f fs]\<rparr>)"
| l_ok: "i < length (ld_workers s) \<Longrightarrow> ld_workers s ! i = Loading f fs \<Longrightarrow> works i f \<Longrightarrow>
     load_step shards fdir offers works s (s\<lparr>ld_workers := (ld_workers s)[i := Counting f fs]\<rparr>)"
| l_fail: "i < length (ld_workers s) \<Longrightarrow> ld_workers s ! i = Loading f fs \<Longrightarrow> \<not> works i f \<Longrightarrow>
     load_step shards fdir offers works s
       (s\<lparr>ld_dl := ld_dl s - 1, ld_cached := ld_cached s - {f}, ld_workers := (ld_workers s)[i := Counting f fs]\<rparr>)"
| l_count: "i < length (ld_workers s) \<Longrightarrow> ld_workers s ! i = Counting f fs \<Longrightarrow>
     load_step shards fdir offers works s
       (s\<lparr>ld_dld := ld_dld s + 1, ld_res := ld_res s @ [path_Join [fdir, f]], ld_credits := ld_credits s @ [snd (offers ! i)],
          ld_workers := (ld_workers s)[i := Files fs]\<rparr>)"

definition load_finished :: "load_state \<Rightarrow> bool" where
  "load_finished s \<longleftrightarrow> (\<forall>x \<in> set (ld_workers s). x = Gone)"

text \<open>
  The whole download, as a relation to the paths it returns and the accounts it credits: one worker for each of the peers, in the order in
  which the map was traversed; \<open>works i f\<close> tells whether the peer of worker \<open>i\<close> delivers the fragment.
\<close>

definition peer_offers :: "(string \<times> CacheResponse) list \<Rightarrow> (string list \<times> bytes) list" where
  "peer_offers cachedPeer = map (\<lambda>(p, resp). (rs_CachedFiles resp, ci_Account (rs_Info resp))) cachedPeer"

inductive DownloadSegmentFromCachers ::
  "int \<Rightarrow> string \<Rightarrow> (string \<times> CacheResponse) list \<Rightarrow> (nat \<Rightarrow> string \<Rightarrow> bool) \<Rightarrow> string list \<times> bytes list \<Rightarrow> bool"
  for shards :: int and fdir :: string and cachedPeer :: "(string \<times> CacheResponse) list" and works :: "nat \<Rightarrow> string \<Rightarrow> bool" where
  loads_done: "(load_step shards fdir (peer_offers cachedPeer) works)\<^sup>*\<^sup>* (load_init (length cachedPeer)) s \<Longrightarrow>
     load_finished s \<Longrightarrow> DownloadSegmentFromCachers shards fdir cachedPeer works (ld_res s, ld_credits s)"

section \<open>Settling cache orders\<close>

text \<open>Signed division of 64-bit integers truncates; \<open>FragmentSize\<close> is a positive constant.\<close>

definition order_debt :: "i64 \<Rightarrow> i64" where
  "order_debt creditLimit = word_of_int (sint (- creditLimit) sdiv sint FragmentSize)"

record ('n, 'k) pay_env =
  py_BytesToAddressHex :: "bytes \<Rightarrow> string"
  py_Decode58 :: "string \<Rightarrow> bytes or_err"
  py_Keccak256 :: "bytes \<Rightarrow> bytes"
  py_Sign :: "bytes \<Rightarrow> 'k option \<Rightarrow> bytes or_err"
  py_CompressPubkey :: "'k \<Rightarrow> bytes"
  py_net :: "'n net_env"

text \<open>One response from \<open>osQueue\<close>. A missing key makes \<open>CompressPubkey\<close> panic.\<close>

definition pay_response ::
  "('n, 'k) pay_env \<Rightarrow> 'db credit_env \<Rightarrow> 'w Order2Credit \<Rightarrow> 'k CdnClient \<Rightarrow> 'db Credit \<times> 'w \<times> 'n \<Rightarrow> CacheResponse \<Rightarrow>
   ('db Credit \<times> 'w \<times> 'n) option" where
  "pay_response Y E H c st resp =
     (case st of (cm, w, n) \<Rightarrow>
      let info = rs_Info resp; debt0 = order_debt (ci_CreditLimit info) in
      if 0 <s ci_CreditLimit info then Some st
      else let debt = (if debt0 = 0 then 1 else debt0) in
        case big_SetString (ci_Price info) of
          None \<Rightarrow> Some st
        | Some price \<Rightarrow>
            (let bill = price * sint debt; acc = py_BytesToAddressHex Y (ci_Account info) in
             case PaymentCreditBill E H w cm acc (ci_PeerId info) (big_String bill) of
               None \<Rightarrow> None
             | Some ((tx, orderId, Some err), cm1, w1) \<Rightarrow> Some (cm1, w1, n)
             | Some ((tx, orderId, None), cm1, w1) \<Rightarrow>
                 (if orderId = '''' \<or> tx = '''' then Some (cm1, w1, n)
                  else (case hex_DecodeString orderId of
                     Inl err \<Rightarrow> Some (cm1, w1, n)
                   | Inr oid \<Rightarrow>
                       (case py_Decode58 Y (ci_PeerId info) of
                          Inl err \<Rightarrow> Some (cm1, w1, n)
                        | Inr bpid \<Rightarrow>
                            (case py_Sign Y (py_Keccak256 Y oid) (cn_ethAccSk c) of
                               Inl err \<Rightarrow> Some (cm1, w1, n)
                             | Inr sign \<Rightarrow>
                                 (case GetPublickey (py_CompressPubkey Y) c of
                                    None \<Rightarrow> None
                                  | Some pub \<Rightarrow>
                                      (case QueryFileInfoFromCache (py_net Y) n (bytes_string bpid)
                                              (CacheRequest_zero\<lparr>rq_AccountId := pub, rq_Data := oid, rq_Sign := sign\<rparr>) of
                                         (res, n1) \<Rightarrow> Some (cm1, w1, n1)))))))))"

text \<open>The loop over the channel: what it delivers, in order. It ends when the channel is closed.\<close>

fun PaymentCacheOrder ::
  "('n, 'k) pay_env \<Rightarrow> 'db credit_env \<Rightarrow> 'w Order2Credit \<Rightarrow> 'k CdnClient \<Rightarrow> 'db Credit \<times> 'w \<times> 'n \<Rightarrow> CacheResponse list \<Rightarrow>
   ('db Credit \<times> 'w \<times> 'n) option" where
  "PaymentCacheOrder Y E H c st [] = Some st"
| "PaymentCacheOrder Y E H c st (resp # resps) =
     (case pay_response Y E H c st resp of None \<Rightarrow> None | Some st1 \<Rightarrow> PaymentCacheOrder Y E H c st1 resps)"

section \<open>Laws of the query\<close>

text \<open>A peer with a hit is asked sooner or later, and then its worker waits to send.\<close>

definition hit_pending :: "nat \<Rightarrow> string \<Rightarrow> cachers_state \<Rightarrow> bool" where
  "hit_pending threads p s \<longleftrightarrow> length (cq_workers s) = threads \<and>
     (p \<in> set (cq_peers s) \<or> Querying p \<in> set (cq_workers s) \<or> Sending p \<in> set (cq_workers s)) \<and>
     (Left \<in> set (cq_workers s) \<longrightarrow> cq_peers s = [])"

lemma set_upd_other:
  "i < length ws \<Longrightarrow> ws ! i \<noteq> y \<Longrightarrow> y \<in> set ws \<Longrightarrow> y \<in> set (ws[i := x])"
  by (metis in_set_conv_nth length_list_update nth_list_update_neq)

lemma set_upd_new: "i < length ws \<Longrightarrow> x \<in> set (ws[i := x])"
  by (rule set_update_memI)

lemma set_upd_from: "y \<in> set (ws[i := x]) \<Longrightarrow> y = x \<or> y \<in> set ws"
  using set_update_subset_insert by fastforce

lemma hit_pending_step:
  assumes "cachers_step answer False s s'" and "hit_pending threads p s" and "hit_answer (answer p)"
  shows "hit_pending threads p s'"
  using assms(1)
proof (cases rule: cachers_step.cases)
  case (c_ask i q ps)
  then show ?thesis
    using assms(2) set_upd_other [of i "cq_workers s"] set_upd_new [of i "cq_workers s" "Querying q"] set_upd_from
    by (fastforce simp: hit_pending_def)
next
  case (c_leave i)
  then show ?thesis
    using assms(2) set_upd_other [of i "cq_workers s"] by (fastforce simp: hit_pending_def)
next
  case (c_miss i q)
  then have "Querying p \<noteq> cq_workers s ! i" "Sending p \<noteq> cq_workers s ! i" using assms(3) by auto
  then show ?thesis
    using c_miss assms(2) set_upd_other [of i "cq_workers s"] set_upd_from
    by (fastforce simp: hit_pending_def)
next
  case (c_hit i q resp)
  then show ?thesis
    using assms(2) set_upd_other [of i "cq_workers s"] set_upd_new [of i "cq_workers s" "Sending q"] set_upd_from
    by (fastforce simp: hit_pending_def)
qed simp

lemma hit_pending_reachable:
  assumes "(cachers_step answer False)\<^sup>*\<^sup>* (cachers_init threads peers) s" and "p \<in> set peers" and "hit_answer (answer p)"
  shows "hit_pending threads p s"
  using assms(1)
proof (induction rule: rtranclp_induct)
  case base
  then show ?case using assms(2) by (auto simp: hit_pending_def cachers_init_def)
next
  case (step s s')
  then show ?case using hit_pending_step assms(3) by blast
qed

section \<open>Laws of the segment download\<close>

definition load_inv :: "(string list \<times> bytes) list \<Rightarrow> int \<Rightarrow> load_state \<Rightarrow> bool" where
  "load_inv offers shards s \<longleftrightarrow> length (ld_workers s) = length offers \<and> ld_dld s = int (length (ld_res s)) \<and>
     length (ld_credits s) = length (ld_res s) \<and> set (ld_credits s) \<subseteq> snd ` set offers \<and> (Gone \<in> set (ld_workers s) \<longrightarrow> shards \<le> ld_dld s)"

lemma load_inv_step: "load_step shards fdir offers works s s' \<Longrightarrow> load_inv offers shards s \<Longrightarrow> load_inv offers shards s'"
  by (induction rule: load_step.induct) (auto simp: load_inv_def dest: set_upd_from)

lemma load_inv_reachable:
  "(load_step shards fdir offers works)\<^sup>*\<^sup>* (load_init (length offers)) s \<Longrightarrow> load_inv offers shards s"
proof (induction rule: rtranclp_induct)
  case (step s s')
  then show ?case by (blast intro: load_inv_step)
qed (auto simp: load_inv_def load_init_def)

text \<open>
  When no download works, one worker with a fragment to try still brings the counter to its end: each failed try counts, and
  makes room for the next round. Then all workers return.
\<close>

lemma failing_fragment:
  assumes "i < length (ld_workers s)" and "ld_workers s ! i = Files (g # gs)" and "ld_dld s < shards" and "ld_cached s = {}"
  shows "(load_step shards fdir offers (\<lambda>i f. False))\<^sup>*\<^sup>* s
    (s\<lparr>ld_dl := ld_dl s - 1, ld_dld := ld_dld s + 1, ld_res := ld_res s @ [path_Join [fdir, g]], ld_credits := ld_credits s @ [snd (offers ! i)],
       ld_workers := (ld_workers s)[i := Files gs]\<rparr>)"
proof -
  let ?step = "load_step shards fdir offers (\<lambda>i f. False)"
  let ?s1 = "s\<lparr>ld_cached := insert g (ld_cached s), ld_workers := (ld_workers s)[i := Loading g gs]\<rparr>"
  let ?s2 = "?s1\<lparr>ld_dl := ld_dl ?s1 - 1, ld_cached := ld_cached ?s1 - {g}, ld_workers := (ld_workers ?s1)[i := Counting g gs]\<rparr>"
  let ?s3 = "?s2\<lparr>ld_dld := ld_dld ?s2 + 1, ld_res := ld_res ?s2 @ [path_Join [fdir, g]], ld_credits := ld_credits ?s2 @ [snd (offers ! i)],
    ld_workers := (ld_workers ?s2)[i := Files gs]\<rparr>"
  have "?step s ?s1" by (rule l_take) (use assms in auto)
  moreover have "?step ?s1 ?s2" by (rule l_fail) (use assms in auto)
  moreover have "?step ?s2 ?s3" by (rule l_count) (use assms in auto)
  moreover have "?s3 = s\<lparr>ld_dl := ld_dl s - 1, ld_dld := ld_dld s + 1, ld_res := ld_res s @ [path_Join [fdir, g]],
      ld_credits := ld_credits s @ [snd (offers ! i)], ld_workers := (ld_workers s)[i := Files gs]\<rparr>"
    using assms(4) by simp
  ultimately show ?thesis by (metis (no_types, lifting) converse_rtranclp_into_rtranclp rtranclp.rtrancl_refl)
qed

definition one_working :: "nat \<Rightarrow> nat \<Rightarrow> loader \<Rightarrow> load_state \<Rightarrow> bool" where
  "one_working n i x s \<longleftrightarrow> length (ld_workers s) = n \<and> i < n \<and> ld_workers s ! i = x \<and> (\<forall>j < n. j \<noteq> i \<longrightarrow> ld_workers s ! j = Top)"

lemma failing_worker:
  assumes "fst (offers ! i) = f # fs" and "one_working n i (Files gs) s" and "ld_cached s = {}" and "ld_dl s \<le> 1" and "gs = [] \<longrightarrow> ld_dl s \<le> 0"
    and "k = nat (shards - ld_dld s)" and "0 < shards"
  shows "\<exists>s'. (load_step shards fdir offers (\<lambda>i f. False))\<^sup>*\<^sup>* s s' \<and> one_working n i Gone s' \<and> shards \<le> ld_dld s'"
  using assms(2-6)
proof (induction k arbitrary: gs s)
  case 0
  let ?step = "load_step shards fdir offers (\<lambda>i f. False)"
  note one = 0(1)
  show ?case
  proof (cases gs)
    case Nil
    let ?s1 = "s\<lparr>ld_workers := (ld_workers s)[i := Top]\<rparr>"
    let ?s2 = "?s1\<lparr>ld_workers := (ld_workers ?s1)[i := Gone]\<rparr>"
    have "?step s ?s1" by (rule l_again) (use one Nil in \<open>auto simp: one_working_def\<close>)
    moreover have "?step ?s1 ?s2" by (rule l_return) (use 0 in \<open>auto simp: one_working_def\<close>)
    moreover have "one_working n i Gone ?s2" using one by (auto simp: one_working_def)
    ultimately show ?thesis using 0 by (intro exI [of _ ?s2]) auto
  next
    case (Cons g gs')
    let ?s1 = "s\<lparr>ld_workers := (ld_workers s)[i := Gone]\<rparr>"
    have "?step s ?s1" by (rule l_stop) (use 0 Cons in \<open>auto simp: one_working_def\<close>)
    moreover have "one_working n i Gone ?s1" using one by (auto simp: one_working_def)
    ultimately show ?thesis using 0 by (intro exI [of _ ?s1]) auto
  qed
next
  case (Suc k)
  let ?step = "load_step shards fdir offers (\<lambda>i f. False)"
  have less: "ld_dld s < shards" using Suc.prems(5) by simp
  have files: "\<exists>s'. ?step\<^sup>*\<^sup>* t s' \<and> one_working n i Gone s' \<and> shards \<le> ld_dld s'"
    if t: "one_working n i (Files (g # hs)) t" "ld_cached t = {}" "ld_dl t \<le> 1" "ld_dld t = ld_dld s" for t g hs
  proof -
    let ?t = "t\<lparr>ld_dl := ld_dl t - 1, ld_dld := ld_dld t + 1, ld_res := ld_res t @ [path_Join [fdir, g]],
      ld_credits := ld_credits t @ [snd (offers ! i)], ld_workers := (ld_workers t)[i := Files hs]\<rparr>"
    have run: "?step\<^sup>*\<^sup>* t ?t" by (rule failing_fragment) (use t less in \<open>auto simp: one_working_def\<close>)
    have "\<exists>s'. ?step\<^sup>*\<^sup>* ?t s' \<and> one_working n i Gone s' \<and> shards \<le> ld_dld s'"
      by (rule Suc.IH [of hs]) (use t Suc.prems(5) in \<open>auto simp: one_working_def\<close>)
    with run show ?thesis by (meson rtranclp_trans)
  qed
  show ?case
  proof (cases gs)
    case Nil
    let ?s1 = "s\<lparr>ld_workers := (ld_workers s)[i := Top]\<rparr>"
    let ?s2 = "?s1\<lparr>ld_dl := ld_dl ?s1 + 1, ld_workers := (ld_workers ?s1)[i := Files (fst (offers ! i))]\<rparr>"
    have "?step s ?s1" by (rule l_again) (use Suc.prems Nil in \<open>auto simp: one_working_def\<close>)
    moreover have "?step ?s1 ?s2" by (rule l_enter) (use Suc.prems Nil less assms(7) in \<open>auto simp: one_working_def\<close>)
    moreover have "\<exists>s'. ?step\<^sup>*\<^sup>* ?s2 s' \<and> one_working n i Gone s' \<and> shards \<le> ld_dld s'"
      by (rule files [of f fs]) (use Suc.prems Nil assms(1) in \<open>auto simp: one_working_def\<close>)
    ultimately show ?thesis by (meson converse_rtranclp_into_rtranclp)
  next
    case (Cons g gs')
    then show ?thesis using files [of g gs' s] Suc.prems by simp
  qed
qed

lemma all_return:
  assumes "shards \<le> ld_dld s" and "\<forall>x \<in> set (ld_workers s). x = Top \<or> x = Gone"
  shows "\<exists>s'. (load_step shards fdir offers works)\<^sup>*\<^sup>* s s' \<and> load_finished s'"
  using assms
proof (induction "length (filter (\<lambda>x. x = Top) (ld_workers s))" arbitrary: s)
  case 0
  then have "load_finished s" by (auto simp: load_finished_def filter_empty_conv)
  then show ?case by blast
next
  case (Suc m)
  then have "Top \<in> set (ld_workers s)" by (metis (mono_tags, lifting) filter_False list.size(3) nat.distinct(1))
  then obtain xs ys where ws: "ld_workers s = xs @ Top # ys" by (meson split_list)
  let ?s = "s\<lparr>ld_workers := (ld_workers s)[length xs := Gone]\<rparr>"
  have step: "load_step shards fdir offers works s ?s" by (rule l_return) (use ws Suc.prems in auto)
  have "\<exists>s'. (load_step shards fdir offers works)\<^sup>*\<^sup>* ?s s' \<and> load_finished s'"
    by (rule Suc.hyps(1)) (use ws Suc.prems Suc.hyps(2) in auto)
  with step show ?case by (meson converse_rtranclp_into_rtranclp)
qed

lemma failing_load_returns:
  assumes "i < length offers" and "fst (offers ! i) \<noteq> []"
  shows "\<exists>s. (load_step shards fdir offers (\<lambda>i f. False))\<^sup>*\<^sup>* (load_init (length offers)) s \<and> load_finished s"
proof (cases "shards \<le> 0")
  case True
  then show ?thesis by (intro all_return) (auto simp: load_init_def)
next
  case False
  let ?step = "load_step shards fdir offers (\<lambda>i f. False)" and ?n = "length offers"
  obtain f fs where f: "fst (offers ! i) = f # fs" using assms(2) by (cases "fst (offers ! i)") auto
  let ?s1 = "(load_init ?n)\<lparr>ld_dl := ld_dl (load_init ?n) + 1, ld_workers := (ld_workers (load_init ?n))[i := Files (fst (offers ! i))]\<rparr>"
  have "?step (load_init ?n) ?s1" by (rule l_enter) (use assms False in \<open>auto simp: load_init_def\<close>)
  moreover have "\<exists>s'. ?step\<^sup>*\<^sup>* ?s1 s' \<and> one_working ?n i Gone s' \<and> shards \<le> ld_dld s'"
    by (rule failing_worker [OF f, of _ "f # fs"]) (use assms f False in \<open>auto simp: load_init_def one_working_def\<close>)
  then obtain s2 where s2: "?step\<^sup>*\<^sup>* ?s1 s2" "one_working ?n i Gone s2" "shards \<le> ld_dld s2" by blast
  moreover have "\<exists>s'. ?step\<^sup>*\<^sup>* s2 s' \<and> load_finished s'"
    by (rule all_return [OF s2(3)]) (use s2(2) in \<open>auto simp: one_working_def in_set_conv_nth\<close>)
  ultimately show ?thesis by (meson converse_rtranclp_into_rtranclp rtranclp_trans)
qed

text \<open>Fragments taken by a worker and not yet counted.\<close>

fun loading :: "loader list \<Rightarrow> nat" where
  "loading [] = 0"
| "loading (Loading f fs # ws) = Suc (loading ws)"
| "loading (Counting f fs # ws) = Suc (loading ws)"
| "loading (w # ws) = loading ws"

lemma loading_append [simp]: "loading (xs @ ys) = loading xs + loading ys"
  by (induction xs rule: loading.induct) auto

lemma loading_upd: "i < length ws \<Longrightarrow> loading (ws[i := x]) + loading [ws ! i] = loading ws + loading [x]"
proof -
  assume i: "i < length ws"
  have h: "loading (y # zs) = loading [y] + loading zs" for y zs by (cases y) auto
  have "loading (ws[i := x]) = loading (take i ws) + loading [x] + loading (drop (Suc i) ws)"
    using i h [of x "drop (Suc i) ws"] by (simp add: upd_conv_take_nth_drop)
  moreover have "loading ws = loading (take i ws) + loading [ws ! i] + loading (drop (Suc i) ws)"
    by (subst id_take_nth_drop [OF i]) (simp only: loading_append h [of "ws ! i" "drop (Suc i) ws"] ac_simps)
  ultimately show ?thesis by simp
qed

definition pending_files :: "loader \<Rightarrow> string list" where
  "pending_files x = (case x of Files fs \<Rightarrow> fs | Loading f fs \<Rightarrow> f # fs | Counting f fs \<Rightarrow> f # fs | _ \<Rightarrow> [])"

text \<open>When every download works, each fragment is counted once.\<close>

definition once_inv :: "string set \<Rightarrow> load_state \<Rightarrow> bool" where
  "once_inv names s \<longleftrightarrow> finite (ld_cached s) \<and> ld_cached s \<subseteq> names \<and>
     ld_dld s + int (loading (ld_workers s)) = int (card (ld_cached s)) \<and>
     (\<forall>x \<in> set (ld_workers s). set (pending_files x) \<subseteq> names)"

lemma once_inv_step:
  assumes "load_step shards fdir offers (\<lambda>i f. True) s s'" and "once_inv names s" and "length (ld_workers s) = length offers"
    and "\<forall>fs \<in> set offers. set (fst fs) \<subseteq> names"
  shows "once_inv names s'"
proof -
  have pend: "set (pending_files (ld_workers s ! i)) \<subseteq> names" if "i < length (ld_workers s)" for i
    using assms(2) that by (auto simp: once_inv_def)
  have upd: "\<forall>y \<in> set ((ld_workers s)[i := x]). set (pending_files y) \<subseteq> names" if "set (pending_files x) \<subseteq> names" for i x
    using assms(2) that set_upd_from [of _ "ld_workers s" i x] by (fastforce simp: once_inv_def)
  show ?thesis
    using assms(1)
  proof (cases rule: load_step.cases)
    case (l_enter i)
    then have "set (fst (offers ! i)) \<subseteq> names" using assms(3,4) by auto
    then show ?thesis using l_enter assms(2) upd [of "Files (fst (offers ! i))" i] loading_upd [of i "ld_workers s" "Files (fst (offers ! i))"]
      by (auto simp: once_inv_def pending_files_def)
  next
    case (l_take i f fs)
    then show ?thesis
      using assms(2) upd [of "Loading f fs" i] pend [of i] loading_upd [of i "ld_workers s" "Loading f fs"]
      by (auto simp: once_inv_def pending_files_def)
  next
    case (l_count i f fs)
    then show ?thesis
      using assms(2) upd [of "Files fs" i] pend [of i] loading_upd [of i "ld_workers s" "Files fs"]
      by (auto simp: once_inv_def pending_files_def)
  next
    case (l_ok i f fs)
    then show ?thesis
      using assms(2) upd [of "Counting f fs" i] pend [of i] loading_upd [of i "ld_workers s" "Counting f fs"]
      by (auto simp: once_inv_def pending_files_def)
  next
    case (l_skip i f fs)
    then show ?thesis
      using assms(2) upd [of "Files fs" i] pend [of i] loading_upd [of i "ld_workers s" "Files fs"]
      by (auto simp: once_inv_def pending_files_def)
  next
    case (l_return i)
    then show ?thesis using assms(2) upd [of Gone i] loading_upd [of i "ld_workers s" Gone]
      by (auto simp: once_inv_def pending_files_def)
  next
    case (l_stop i f fs)
    then show ?thesis using assms(2) upd [of Gone i] loading_upd [of i "ld_workers s" Gone]
      by (auto simp: once_inv_def pending_files_def)
  next
    case (l_again i)
    then show ?thesis using assms(2) upd [of Top i] loading_upd [of i "ld_workers s" Top]
      by (auto simp: once_inv_def pending_files_def)
  qed (use assms(2) in auto)
qed

lemma once_inv_reachable:
  assumes "(load_step shards fdir offers (\<lambda>i f. True))\<^sup>*\<^sup>* (load_init (length offers)) s" and "\<forall>fs \<in> set offers. set (fst fs) \<subseteq> names"
  shows "once_inv names s"
  using assms(1)
proof (induction rule: rtranclp_induct)
  case base
  have "loading (replicate n Top) = 0" for n by (induction n) auto
  then show ?case by (auto simp: once_inv_def load_init_def pending_files_def)
next
  case (step s s')
  then show ?case using once_inv_step load_inv_reachable assms(2) unfolding load_inv_def by metis
qed

section \<open>Properties\<close>

text \<open>C26: The settlement queue of a client is never created, so a query of the cache nodes that finds
  the segment never returns: if any of the peers answers with a hit, no reachable state has all
  workers done; the worker with the hit waits forever to hand over the response.\<close>

theorem cachers_query_hangs:
  assumes "c = SetConfig (CdnClient_New sk) mnemonic tmpDir feeLimit queueSize"
    and "p \<in> set peers" and "hit_answer (answer p)" and "0 < threads"
    and "(cachers_step answer (queue_room (cn_osQueue c)))\<^sup>*\<^sup>* (cachers_init threads peers) s"
  shows "\<not> cachers_finished s"
proof
  assume fin: "cachers_finished s"
  have "queue_room (cn_osQueue c) = False" by (simp add: assms(1) SetConfig_def CdnClient_New_def queue_room_def)
  with assms(5) have pend: "hit_pending threads p s" using hit_pending_reachable [of answer threads peers s p] assms(2,3) by simp
  then have "Left \<in> set (cq_workers s)" using fin assms(4)
    by (cases "cq_workers s") (auto simp: hit_pending_def cachers_finished_def)
  then show False using pend fin by (auto simp: hit_pending_def cachers_finished_def)
qed

theorem cachers_query_hangs_witness:
  "\<not> cachers_finished (cachers_init 1 [''p''])"
  by (rule cachers_query_hangs [where answer = "\<lambda>p. Some hit_response" and threads = 1 and peers = "[''p'']" and p = "''p''" and
        c = "SetConfig (CdnClient_New (Some ())) [] [] [] 0"])
     (simp_all add: hit_answer_def hit_response_def)

text \<open>C27: A failed download counts like a successful one: whenever the download of a segment from the cache nodes returns, it reports at
  least as many fragment paths as data shards and credits one of the peers' accounts for each of them, whichever downloads worked. In
  particular it can return, with that many paths and credits, when every single download fails, as soon as one peer offers a fragment.\<close>

theorem segment_load_counts_failures:
  assumes "cachedPeer \<noteq> []"
  shows "(\<forall>works res credits. DownloadSegmentFromCachers shards fdir cachedPeer works (res, credits) \<longrightarrow>
      shards \<le> int (length res) \<and> length credits = length res \<and> set credits \<subseteq> (\<lambda>(p, resp). ci_Account (rs_Info resp)) ` set cachedPeer) \<and>
    ((\<exists>(p, resp) \<in> set cachedPeer. rs_CachedFiles resp \<noteq> []) \<longrightarrow>
      (\<exists>res credits. DownloadSegmentFromCachers shards fdir cachedPeer (\<lambda>i f. False) (res, credits)))"
proof (intro conjI allI impI)
  have len: "length (peer_offers cachedPeer) = length cachedPeer" by (simp add: peer_offers_def)
  fix works res credits
  assume "DownloadSegmentFromCachers shards fdir cachedPeer works (res, credits)"
  then obtain s where s: "(load_step shards fdir (peer_offers cachedPeer) works)\<^sup>*\<^sup>* (load_init (length (peer_offers cachedPeer))) s"
    "load_finished s" "res = ld_res s" "credits = ld_credits s"
    unfolding len by (auto elim: DownloadSegmentFromCachers.cases)
  then have inv: "load_inv (peer_offers cachedPeer) shards s" by (blast intro: load_inv_reachable)
  then have "Gone \<in> set (ld_workers s)"
    using assms s(2) len by (cases "ld_workers s") (auto simp: load_inv_def load_finished_def)
  then show "shards \<le> int (length res)" "length credits = length res" using inv s by (auto simp: load_inv_def)
  have "snd ` set (peer_offers cachedPeer) = (\<lambda>(p, resp). ci_Account (rs_Info resp)) ` set cachedPeer"
    by (force simp: peer_offers_def image_image)
  then show "set credits \<subseteq> (\<lambda>(p, resp). ci_Account (rs_Info resp)) ` set cachedPeer" using inv s(4) by (simp add: load_inv_def)
next
  assume "\<exists>(p, resp) \<in> set cachedPeer. rs_CachedFiles resp \<noteq> []"
  then obtain i where i: "i < length cachedPeer" "rs_CachedFiles (snd (cachedPeer ! i)) \<noteq> []" by (auto simp: in_set_conv_nth)
  then have "\<exists>s. (load_step shards fdir (peer_offers cachedPeer) (\<lambda>i f. False))\<^sup>*\<^sup>* (load_init (length (peer_offers cachedPeer))) s \<and> load_finished s"
    by (intro failing_load_returns [of i]) (auto simp: peer_offers_def split: prod.split)
  then show "\<exists>res credits. DownloadSegmentFromCachers shards fdir cachedPeer (\<lambda>i f. False) (res, credits)"
    by (auto simp: peer_offers_def intro: loads_done [unfolded peer_offers_def])
qed

theorem segment_load_counts_failures_witness:
  "\<exists>res credits. DownloadSegmentFromCachers 4 ''/t'' [(''p'', hit_response)] (\<lambda>i f. False) (res, credits) \<and> 4 \<le> int (length res) \<and> length credits = length res"
proof -
  have "\<exists>(p, resp) \<in> set [(''p'', hit_response)]. rs_CachedFiles resp \<noteq> []" by (simp add: hit_response_def)
  then show ?thesis using segment_load_counts_failures [of "[(''p'', hit_response)]" 4 "''/t''"] by blast
qed

text \<open>The download of a segment from the cache nodes never returns when the peers together offer
  fewer different fragments than data shards and every download works: no reachable state has all
  workers done; they end up spinning at the top of their loops.\<close>

theorem segment_load_livelock:
  assumes "(load_step shards fdir offers (\<lambda>i f. True))\<^sup>*\<^sup>* (load_init (length offers)) s" and "offers \<noteq> []"
    and "int (card (\<Union>(set (map (set \<circ> fst) offers)))) < shards"
  shows "\<not> load_finished s"
proof
  assume fin: "load_finished s"
  let ?names = "\<Union>(set (map (set \<circ> fst) offers))"
  have "once_inv ?names s" by (rule once_inv_reachable [OF assms(1)]) auto
  then have "ld_dld s \<le> int (card (ld_cached s))" "ld_cached s \<subseteq> ?names" by (auto simp: once_inv_def)
  moreover have "finite ?names" by auto
  ultimately have "ld_dld s < shards" using assms(3) card_mono [of ?names "ld_cached s"] by linarith
  moreover have inv: "load_inv offers shards s" by (rule load_inv_reachable [OF assms(1)])
  moreover have "Gone \<in> set (ld_workers s)"
    using inv fin assms(2) by (cases "ld_workers s") (auto simp: load_inv_def load_finished_def)
  ultimately show False by (simp add: load_inv_def)
qed

theorem segment_load_livelock_witness: "\<not> load_finished (load_init (length [([''a''], [1 :: 8 word])]))"
  by (rule segment_load_livelock [where shards = 2 and fdir = "''/t''" and offers = "[([''a''], [1])]"]) simp_all

end
