(* ===== verification/Client_Download.thy ===== *)
theory Client_Download
  imports Client_Files
begin

text \<open>
  The downloads of a client over the query of the cache nodes that they really make: \<open>DownloadFile\<close>, \<open>DownloadSegment\<close> and
  \<open>DownloadFileInBox\<close> with a query whose results are those of \<open>QuerySegmentFromCachers\<close>, against a client
  that has no cache node at all.
\<close>

section \<open>The query of a client\<close>

text \<open>Where the parameter \<open>cx_QuerySegment\<close> returns, it returns a result of the query for this client, whatever the peers and their answers.\<close>

definition queries_cachers :: "'k CdnClient \<Rightarrow> 'n client_env \<Rightarrow> bool" where
  "queries_cachers c C \<longleftrightarrow> (\<forall>n fhash shash r n1. cx_QuerySegment C n fhash shash = Some (r, n1) \<longrightarrow>
     (\<exists>peerNum iter answer cacherNum. QuerySegmentFromCachers c peerNum iter answer cacherNum cacherNum (query_outcome r)))"

text \<open>The same client without cache nodes.\<close>

definition no_cachers :: "'n client_env \<Rightarrow> 'n client_env" where
  "no_cachers C = C\<lparr>cx_QuerySegment := \<lambda>n fhash shash. Some (Inl (Errorf ''cache node not found''), n)\<rparr>"

lemma no_cachers_simps [simp]:
  "cx_S (no_cachers C) = cx_S C" "cx_QuerySegment (no_cachers C) n fhash shash = Some (Inl (Errorf ''cache node not found''), n)"
  by (simp_all add: no_cachers_def)

section \<open>Laws\<close>

text \<open>A recorded hit has a worker that is still handing it over.\<close>

lemma sending_upd:
  "Sending p \<in> set ws \<Longrightarrow> i < length ws \<Longrightarrow> \<forall>q. ws ! i \<noteq> Sending q \<Longrightarrow> \<exists>p. Sending p \<in> set (ws[i := x])"
  by (metis set_upd_other)

lemma found_sending_step:
  assumes "cachers_step answer False s s'" and "cq_found s \<noteq> Map.empty \<Longrightarrow> \<exists>p. Sending p \<in> set (cq_workers s)"
    and "cq_found s' \<noteq> Map.empty"
  shows "\<exists>p. Sending p \<in> set (cq_workers s')"
  using assms
proof (cases rule: cachers_step.cases)
  case (c_hit i p resp)
  then show ?thesis using set_upd_new [of i "cq_workers s" "Sending p"] by auto
qed (auto intro: sending_upd)

lemma found_sending:
  "(cachers_step answer False)\<^sup>*\<^sup>* (cachers_init threads peers) s \<Longrightarrow> cq_found s \<noteq> Map.empty \<Longrightarrow>
   \<exists>p. Sending p \<in> set (cq_workers s)"
proof (induction rule: rtranclp_induct)
  case (step s s')
  then show ?case using found_sending_step by blast
qed (simp add: cachers_init_def)

lemma query_finds_nothing:
  assumes "QuerySegmentFromCachers c peerNum iter answer cacherNum threadNum r" and "cn_osQueue c = None" and "r = Inr m"
  shows "m = Map.empty"
  using assms
proof (cases rule: QuerySegmentFromCachers.cases)
  case (cachers_found num threads peers s)
  then have "(cachers_step answer False)\<^sup>*\<^sup>* (cachers_init (nat threads) peers) s" using assms(2) by (simp add: queue_room_def)
  from found_sending [OF this] have "cq_found s = Map.empty" using cachers_found by (auto simp: cachers_finished_def)
  then show ?thesis using cachers_found assms(3) by simp
qed simp_all

lemma queries_find_nothing:
  assumes "queries_cachers c C" and "cn_osQueue c = None" and "cx_QuerySegment C n fhash shash = Some (r, n1)"
  shows "r = Inr [] \<or> (\<exists>err. r = Inl err)"
proof (cases r)
  case (Inr l)
  from assms(1,3) obtain peerNum iter answer cacherNum where
    "QuerySegmentFromCachers c peerNum iter answer cacherNum cacherNum (query_outcome r)"
    unfolding queries_cachers_def by blast
  from query_finds_nothing [OF this assms(2)] Inr have "map_of l = Map.empty" by (simp add: query_outcome_def)
  then show ?thesis using Inr by simp
qed simp

text \<open>So each loop and each operation does what it does without cache nodes.\<close>

lemma client_segment_no_cachers:
  assumes "queries_cachers c C" and "cn_osQueue c = None" and "client_segment C fdir fhash fs n seg = Some (err, ps, fs1, n1)"
  shows "client_segment (no_cachers C) fdir fhash fs m seg = Some (err, ps, fs1, m)"
proof (cases "cx_QuerySegment C n fhash (sg_Hash seg)")
  case None
  then show ?thesis using assms(3) by (simp add: client_segment_def Let_def)
next
  case (Some rn)
  then obtain r n2 where q: "cx_QuerySegment C n fhash (sg_Hash seg) = Some (r, n2)" by (cases rn) auto
  from queries_find_nothing [OF assms(1,2) this] q assms(3) show ?thesis
    by (auto simp: client_segment_def Let_def split: prod.splits option.splits)
qed

lemma client_segments_no_cachers:
  assumes "queries_cachers c C" and "cn_osQueue c = None"
  shows "client_segments C fdir fhash sps fs n segs = Some (err, sps', fs1, n1) \<Longrightarrow>
    client_segments (no_cachers C) fdir fhash sps fs m segs = Some (err, sps', fs1, m)"
proof (induction segs arbitrary: sps fs n)
  case (Cons seg segs)
  obtain e ps fs2 n2 where s: "client_segment C fdir fhash fs n seg = Some (e, ps, fs2, n2)"
    using Cons.prems by (cases "client_segment C fdir fhash fs n seg") auto
  show ?case
    using Cons client_segment_no_cachers [OF assms s, of m] s by (cases e) auto
qed simp

lemma DownloadSegment_no_cachers:
  assumes "queries_cachers c C" and "cn_osQueue c = None" and "DownloadSegment C fs n fhash shash sdir = Some (r, fs1, n1)"
  shows "DownloadSegment (no_cachers C) fs m fhash shash sdir = Some (r, fs1, m)"
proof (cases "cx_QuerySegment C n fhash shash")
  case None
  then show ?thesis using assms(3) by (auto simp: DownloadSegment_def Let_def split: sum.splits)
next
  case (Some rn)
  then obtain q n2 where q: "cx_QuerySegment C n fhash shash = Some (q, n2)" by (cases rn) auto
  from queries_find_nothing [OF assms(1,2) this] q assms(3) show ?thesis
    by (auto simp: DownloadSegment_def Let_def split: prod.splits option.splits sum.splits)
qed

lemma DownloadFileInBox_no_cachers:
  assumes "queries_cachers c C" and "cn_osQueue c = None" and "DownloadFileInBox C c fs n fhash name box = Some (r, fs1, n1)"
  shows "DownloadFileInBox (no_cachers C) c fs m fhash name box = Some (r, fs1, m)"
proof (cases "box_find name 0 (fb_Plates box) None")
  case (Some sd)
  then obtain sidx didx where f: "box_find name 0 (fb_Plates box) None = Some (sidx, didx)" by (cases sd) auto
  then obtain r2 fs2 n2 where d: "DownloadSegment C fs n fhash (fp_SegmentHash (fb_Plates box ! sidx)) (cn_tmpDir c) = Some (r2, fs2, n2)"
    using assms(3) by (auto simp: DownloadFileInBox_def Let_def split: option.splits)
  from DownloadSegment_no_cachers [OF assms(1,2) this, of m] d f assms(3) show ?thesis
    by (auto simp: DownloadFileInBox_def Let_def split: prod.splits option.splits sum.splits)
qed (use assms(3) in \<open>simp add: DownloadFileInBox_def\<close>)

section \<open>Properties\<close>

text \<open>C7: Cache nodes never serve a client's download: whatever cache nodes there are and whatever they answer, a download of a
  file that returns gives the result, the error and the files that the same client gets without any cache node, all from the storage
  network, because a query that finds a segment never returns.\<close>

theorem client_downloads_from_storage:
  assumes "c = SetConfig (CdnClient_New sk) mnemonic tmpDir feeLimit queueSize" and "queries_cachers c C"
    and "DownloadFile C fs n fdir fhash cipher = Some (r, fs', n')"
  shows "DownloadFile (no_cachers C) fs n fdir fhash cipher = Some (r, fs', n)"
proof -
  have queue: "cn_osQueue c = None" by (simp add: assms(1) SetConfig_def CdnClient_New_def)
  have seg: "client_segments (no_cachers C) fdir fhash [] f n segs = Some (err, sps, f', n)"
    if "client_segments C fdir fhash [] f n segs = Some (err, sps, f', n1)" for f segs err sps f' n1
    by (rule client_segments_no_cachers [OF assms(2) queue that])
  show ?thesis
    using assms(3) by (auto simp: DownloadFile_def Let_def seg split: prod.splits option.splits sum.splits if_splits)
qed

definition missing_client :: "unit client_env" where
  "missing_client = \<lparr>cx_S = mem_storage mem_fmeta, cx_QuerySegment = (\<lambda>n fhash shash. Some (Inr [], n)),
     cx_FromCachers = (\<lambda>n fs fhash shash fdir peers. None)\<rparr>"

lemma missing_client_queries: "queries_cachers c missing_client"
proof -
  let ?step = "cachers_step (\<lambda>p. None) (queue_room (cn_osQueue c))"
  let ?s = "\<lambda>ps w. \<lparr>cq_peers = ps, cq_workers = [w], cq_found = Map.empty\<rparr>"
  have "?step (?s [''p''] Asking) (?s [] (Querying ''p''))" using c_ask [of 0 "?s [''p''] Asking"] by simp
  moreover have "?step (?s [] (Querying ''p'')) (?s [] Asking)" using c_miss [of 0 "?s [] (Querying ''p'')"] by (simp add: hit_answer_def)
  moreover have "?step (?s [] Asking) (?s [] Left)" using c_leave [of 0 "?s [] Asking"] by simp
  ultimately have run: "?step\<^sup>*\<^sup>* (cachers_init (nat 1) [''p'']) (?s [] Left)"
    by (simp add: cachers_init_def)
  have "QuerySegmentFromCachers c 1 (\<lambda>k. Inr [''p'']) (\<lambda>p. None) 1 1 (Inr (cq_found (?s [] Left)))"
    by (rule cachers_found [OF _ refl _ run]) (simp_all add: cachers_query_sizes_def cachers_finished_def)
  then show ?thesis unfolding queries_cachers_def by (fastforce simp: missing_client_def query_outcome_def)
qed

theorem client_downloads_from_storage_witness:
  "\<exists>err fs'. DownloadFile missing_client [''/t'' \<mapsto> Dir] () ''/t'' ''f'' '''' = Some ((''/t/f'', Some err), fs', ()) \<and>
     DownloadFile (no_cachers missing_client) [''/t'' \<mapsto> Dir] () ''/t'' ''f'' '''' = Some ((''/t/f'', Some err), fs', ())"
proof -
  have join: "path_Join [''/t'', ''f''] = ''/t/f''" by code_simp
  obtain err fs' where d: "DownloadFile missing_client [''/t'' \<mapsto> Dir] () ''/t'' ''f'' '''' = Some ((''/t/f'', Some err), fs', ())"
    by (simp add: DownloadFile_def missing_client_def mem_storage_def mem_fmeta_def os_Stat_def os_Create_def Let_def client_segment_def
      DownloadSegmentFromStorage_def join)
  from client_downloads_from_storage [OF refl missing_client_queries this] d show ?thesis by blast
qed

end
