(* ===== verification/Client_Upload.thy ===== *)
theory Client_Upload
  imports Client_Files
begin

text \<open>
  The uploads of \<open>cd2n-client/client/files.go\<close>: preparing a file and queueing it, the server that
  brings the fragments of a queued file to storage nodes until the chain knows all of them, boxes of
  directories, and the transfers through a gateway.

  The chain, the storage nodes and the peer selector are parameters over a network state \<open>'n\<close>;
  \<open>process.*\<close> of the SDK is a parameter over files. The clock is read from the network state.
\<close>

section \<open>Data and parameters\<close>

definition DEFAULT_TASK_INTERVAL :: int where "DEFAULT_TASK_INTERVAL = 5 * 60 * 1000000000"

definition UploadGroup_zero :: UploadGroup where
  "UploadGroup_zero = \<lparr>ug_MinerID = '''', ug_PeerID = '''', ug_Saved = False, ug_OnChain = False, ug_FlushTime = 0\<rparr>"

definition UploadStats_zero :: UploadStats where
  "UploadStats_zero = \<lparr>us_FileHash = '''', us_FilePath = '''', us_CallBack = None, us_SegmentInfo = [], us_Group = []\<rparr>"

text \<open>The entries of \<open>CompleteList\<close> of a storage order: the index of the group and the miner.\<close>

record CompleteInfo =
  cp_Index :: nat
  cp_Miner :: string

record 'n upload_env =
  ue_io :: io_oracle
  ue_DataShards :: nat
  ue_ParShards :: nat
  ue_FragmentSize :: int
  ue_QueryFile :: "'n \<Rightarrow> string \<Rightarrow> FileMetadata or_err"
  ue_QueryDealMap :: "'n \<Rightarrow> string \<Rightarrow> CompleteInfo list or_err"
  ue_PlaceStorageOrder ::
    "'n \<Rightarrow> string \<Rightarrow> string \<Rightarrow> string \<Rightarrow> string \<Rightarrow> SegmentDataInfo list \<Rightarrow> bytes \<Rightarrow> u64 \<Rightarrow> string or_err \<times> 'n"
  ue_DeleteFile :: "'n \<Rightarrow> bytes \<Rightarrow> string \<Rightarrow> (string \<times> goerr option) \<times> 'n"
  ue_SignatureAcc :: bytes
  ue_Iterator :: "'n \<Rightarrow> nat \<Rightarrow> string list or_err \<times> 'n"
  ue_Feedback :: "'n \<Rightarrow> string \<Rightarrow> bool \<Rightarrow> 'n"
  ue_Connect :: "'n \<Rightarrow> string \<Rightarrow> goerr option \<times> 'n"
  ue_WriteDataAction :: "'n \<Rightarrow> string \<Rightarrow> string \<Rightarrow> string \<Rightarrow> string \<Rightarrow> goerr option \<times> 'n"
  ue_Now :: "'n \<Rightarrow> int"
  ue_FullProcessing :: "fs \<Rightarrow> string \<Rightarrow> string \<Rightarrow> string \<Rightarrow> (SegmentDataInfo list \<times> string) or_err \<times> fs"
  ue_SplitFile :: "fs \<Rightarrow> string \<Rightarrow> string \<Rightarrow> (int \<times> int) or_err \<times> fs"
  ue_UploadFileChunks ::
    "'n \<Rightarrow> fs \<Rightarrow> string \<Rightarrow> string \<Rightarrow> string \<Rightarrow> string \<Rightarrow> string \<Rightarrow> string \<Rightarrow> string \<Rightarrow> int \<Rightarrow> int \<Rightarrow> string or_err \<times> 'n"
  ue_RetrieveFile :: "fs \<Rightarrow> string \<Rightarrow> string \<Rightarrow> string \<Rightarrow> string \<Rightarrow> fs \<times> goerr option"
  ue_MarshalBox :: "FileBox \<Rightarrow> bytes or_err"
  ue_MarshalStates :: "CompleteInfo list \<Rightarrow> FileMetadata option \<Rightarrow> string or_err"
  ue_sha256 :: "bytes \<Rightarrow> bytes"

section \<open>Queueing an upload\<close>

text \<open>A send that finds room; \<open>None\<close> is a send that has to wait (forever if the channel is \<open>nil\<close>).\<close>

definition chan_send :: "('a list \<times> nat) option \<Rightarrow> 'a \<Rightarrow> ('a list \<times> nat) option option" where
  "chan_send ch x =
     (case ch of None \<Rightarrow> None | Some (buf, cap) \<Rightarrow> if length buf < cap then Some (Some (buf @ [x], cap)) else None)"

text \<open>
  The first guard wraps the error of \<open>os.Stat\<close> also when there is none, which gives a \<open>nil\<close> error.
\<close>

definition PreprocessFileAndPutIntoUploadQueue ::
  "'n upload_env \<Rightarrow> 'k CdnClient \<Rightarrow> 'n \<Rightarrow> fs \<Rightarrow> string \<Rightarrow> string \<Rightarrow> string \<Rightarrow> string \<Rightarrow> callback option \<Rightarrow>
   ((UploadStats \<times> goerr option) \<times> 'k CdnClient \<times> 'n \<times> fs) option" where
  "PreprocessFileAndPutIntoUploadQueue U c n fs fpath cipher territory bucket callback =
     (let msg = ''preprocess file error'' in
      case os_Stat (ue_io U) fs fpath of
        Inl err \<Rightarrow> Some ((UploadStats_zero, errors_Wrap (Some err) msg), c, n, fs)
      | Inr Dir \<Rightarrow> Some ((UploadStats_zero, errors_Wrap None msg), c, n, fs)
      | Inr (File content) \<Rightarrow>
          (if length content = 0 then Some ((UploadStats_zero, errors_Wrap None msg), c, n, fs)
           else (case ue_FullProcessing U fs fpath cipher (cn_tmpDir c) of
              (Inl err, fs1) \<Rightarrow> Some ((UploadStats_zero, Some (Wrapped msg err)), c, n, fs1)
            | (Inr (segmentInfo, rootHash), fs1) \<Rightarrow>
                (let fmeta = ue_QueryFile U n rootHash;
                     owned = (case fmeta of Inl err \<Rightarrow> False
                              | Inr m \<Rightarrow> list_ex (\<lambda>v. CompareSlice v (ue_SignatureAcc U)) (fm_Owner m));
                     deduplication = (case fmeta of Inl err \<Rightarrow> False | Inr m \<Rightarrow> True)
                 in if owned then Some ((UploadStats_zero, None), c, n, fs1)
                    else (case ue_PlaceStorageOrder U n rootHash (path_Base fpath) bucket territory segmentInfo
                                 (ue_SignatureAcc U) (word_of_nat (length content)) of
                       (Inl err, n1) \<Rightarrow> Some ((UploadStats_zero, Some (Wrapped msg err)), c, n1, fs1)
                     | (Inr tx, n1) \<Rightarrow>
                         (if deduplication then Some ((UploadStats_zero, None), c, n1, fs1)
                          else (let status = \<lparr>us_FileHash = rootHash, us_FilePath = fpath, us_CallBack = callback,
                                     us_SegmentInfo = segmentInfo,
                                     us_Group = replicate (ue_ParShards U + ue_DataShards U) UploadGroup_zero\<rparr>
                                in case chan_send (cn_uploadQueue c) status of
                                     None \<Rightarrow> None
                                   | Some q \<Rightarrow> Some ((status, None), c\<lparr>cn_uploadQueue := q\<rparr>, n1, fs1))))))))"

definition UploadFile ::
  "'n upload_env \<Rightarrow> 'k CdnClient \<Rightarrow> 'n \<Rightarrow> fs \<Rightarrow> string \<Rightarrow> string \<Rightarrow> string \<Rightarrow> string \<Rightarrow> callback option \<Rightarrow>
   ((string \<times> goerr option) \<times> 'k CdnClient \<times> 'n \<times> fs) option" where
  "UploadFile U c n fs territory bucket fpath cipher callback =
     (case PreprocessFileAndPutIntoUploadQueue U c n fs fpath cipher territory bucket callback of
        None \<Rightarrow> None
      | Some ((status, Some err), st) \<Rightarrow> Some (('''', Some (Wrapped ''upload file error'' err)), st)
      | Some ((status, None), st) \<Rightarrow> Some ((us_FileHash status, None), st))"

text \<open>\<open>readDir\<close> is what \<open>os.ReadDir\<close> returns for the directory.\<close>

definition UploadDirAsBoxFile ::
  "'n upload_env \<Rightarrow> 'k CdnClient \<Rightarrow> 'n \<Rightarrow> fs \<Rightarrow> dir_entry list or_err \<Rightarrow>
   string \<Rightarrow> string \<Rightarrow> string \<Rightarrow> string \<Rightarrow> string \<Rightarrow> callback option \<Rightarrow>
   ((string \<times> bytes \<times> goerr option) \<times> 'k CdnClient \<times> 'n \<times> fs) option" where
  "UploadDirAsBoxFile U c n fs readDir territory bucket fname dir cipher callback =
     (let msg = ''upload dir error'' in
      case CreateAFileBox (ue_FragmentSize U) (ue_io U) readDir fs fname dir of
        None \<Rightarrow> None
      | Some ((box, fpath, Some err), fs1) \<Rightarrow> Some (('''', [], Some (Wrapped msg err)), c, n, fs1)
      | Some ((box, fpath, None), fs1) \<Rightarrow>
          (case PreprocessFileAndPutIntoUploadQueue U c n fs1 fpath cipher territory bucket (Some (BoxCallback callback)) of
             None \<Rightarrow> None
           | Some ((status, Some err), st) \<Rightarrow> Some (('''', [], Some (Wrapped msg err)), st)
           | Some ((status, None), st) \<Rightarrow>
               (if length (us_SegmentInfo status) \<noteq> length (fb_Plates box)
                then Some (('''', [], Some (Wrapped msg (Errorf ''the number of generated segments is inconsistent''))), st)
                else (let plates = map2 (\<lambda>p s. p\<lparr>fp_SegmentHash := sd_SegmentHash s\<rparr>) (fb_Plates box) (us_SegmentInfo status)
                      in case ue_MarshalBox U (box\<lparr>fb_Plates := plates\<rparr>) of
                           Inl err \<Rightarrow> Some (('''', [], Some (Wrapped msg err)), st)
                         | Inr bs \<Rightarrow> Some ((us_FileHash status, bs, None), st)))))"

section \<open>The upload server\<close>

text \<open>The fragment paths of a segment name its directory; an empty list of fragments panics.\<close>

fun ClearTmpFile :: "io_oracle \<Rightarrow> fs \<Rightarrow> SegmentDataInfo list \<Rightarrow> fs option" where
  "ClearTmpFile io fs [] = Some fs"
| "ClearTmpFile io fs (segment # rest) =
     (case sd_FragmentHash segment of
        [] \<Rightarrow> None
      | first # _ \<Rightarrow>
          (if length first = 0 then ClearTmpFile io fs rest
           else (let dir = path_Dir first in
                 case os_Stat io fs dir of
                   Inl err \<Rightarrow> ClearTmpFile io fs rest
                 | Inr _ \<Rightarrow> ClearTmpFile io (fst (os_RemoveAll io fs dir)) rest)))"

text \<open>Running a callback: the names of the functions called, and the files. A \<open>nil\<close> function panics.\<close>

fun run_callback :: "io_oracle \<Rightarrow> fs \<Rightarrow> UploadStats \<Rightarrow> callback \<Rightarrow> (string list \<times> fs) option" where
  "run_callback io fs us (UserCallback f) = Some ([f], fs)"
| "run_callback io fs us (BoxCallback None) = None"
| "run_callback io fs us (BoxCallback (Some cb)) =
     (case run_callback io fs us cb of
        None \<Rightarrow> None
      | Some (called, fs1) \<Rightarrow>
          (case os_Stat io fs1 (us_FilePath us) of
             Inl err \<Rightarrow> Some (called, fs1)
           | Inr _ \<Rightarrow> Some (called, fst (os_RemoveAll io fs1 (us_FilePath us)))))"

definition finish_task :: "'n upload_env \<Rightarrow> fs \<Rightarrow> UploadStats \<Rightarrow> (string list \<times> fs) option" where
  "finish_task U fs task =
     (case ClearTmpFile (ue_io U) fs (us_SegmentInfo task) of
        None \<Rightarrow> None
      | Some fs1 \<Rightarrow> (case us_CallBack task of None \<Rightarrow> Some ([], fs1) | Some cb \<Rightarrow> run_callback (ue_io U) fs1 task cb))"

text \<open>The peers that hold a group already.\<close>

definition saved_peers :: "UploadGroup list \<Rightarrow> string set" where
  "saved_peers gs = set (map ug_PeerID (filter (\<lambda>g. ug_Saved g \<and> ug_PeerID g \<noteq> '''') gs))"

text \<open>The loop over \<open>CompleteList\<close> for the group \<open>i\<close>.\<close>

fun mark_complete :: "int \<Rightarrow> nat \<Rightarrow> UploadGroup \<Rightarrow> CompleteInfo list \<Rightarrow> UploadGroup" where
  "mark_complete now i g [] = g"
| "mark_complete now i g (x # xs) =
     mark_complete now i
       (if cp_Index x = i \<and> \<not> ug_OnChain g
        then g\<lparr>ug_Saved := True, ug_OnChain := True, ug_FlushTime := now, ug_MinerID := cp_Miner x\<rparr> else g) xs"

text \<open>
  The fragments of the group \<open>i\<close> to a peer. A path that does not have exactly three components
  is passed over. A segment without a fragment for the group panics.
\<close>

fun write_fragments ::
  "'n upload_env \<Rightarrow> string \<Rightarrow> string \<Rightarrow> nat \<Rightarrow> 'n \<Rightarrow> SegmentDataInfo list \<Rightarrow> (bool \<times> 'n) option" where
  "write_fragments U peer fhash i n [] = Some (True, n)"
| "write_fragments U peer fhash i n (segment # rest) =
     (if length (sd_FragmentHash segment) \<le> i then None
      else let fragment = sd_FragmentHash segment ! i; hashs = split_on (CHR ''/'') fragment
           in if length hashs \<noteq> 3 then write_fragments U peer fhash i n rest
              else (case ue_WriteDataAction U n peer fragment fhash (hashs ! 2) of
                 (Some err, n1) \<Rightarrow> Some (False, n1)
               | (None, n1) \<Rightarrow> write_fragments U peer fhash i n1 rest))"

text \<open>The loop over the iterator: the peer that took the group, the network, and the peers not looked at.\<close>

fun try_peers ::
  "'n upload_env \<Rightarrow> string set \<Rightarrow> UploadStats \<Rightarrow> nat \<Rightarrow> 'n \<Rightarrow> string list \<Rightarrow> (string option \<times> 'n \<times> string list) option" where
  "try_peers U saved task i n [] = Some (None, n, [])"
| "try_peers U saved task i n (p # ps) =
     (if p \<in> saved then try_peers U saved task i n ps
      else (case ue_Connect U n p of
         (Some err, n1) \<Rightarrow> try_peers U saved task i (ue_Feedback U n1 p False) ps
       | (None, n1) \<Rightarrow>
           (case write_fragments U p (us_FileHash task) i n1 (us_SegmentInfo task) of
              None \<Rightarrow> None
            | Some (False, n2) \<Rightarrow> try_peers U saved task i (ue_Feedback U n2 p False) ps
            | Some (True, n2) \<Rightarrow> Some (Some p, n2, ps))))"

text \<open>The loop over the groups from \<open>i\<close> on: the groups, the number on the chain, and the network.\<close>

fun group_loop ::
  "'n upload_env \<Rightarrow> CompleteInfo list \<Rightarrow> string set \<Rightarrow> UploadStats \<Rightarrow> nat \<Rightarrow> 'n \<Rightarrow> string list \<Rightarrow> UploadGroup list \<Rightarrow>
   (UploadGroup list \<times> nat \<times> 'n) option" where
  "group_loop U listed saved task i n peers [] = Some ([], 0, n)"
| "group_loop U listed saved task i n peers (g # gs) =
     (let g1 = mark_complete (ue_Now U n) i g listed in
      if ug_OnChain g1
      then map_option (\<lambda>(gs1, suc, n1). (g1 # gs1, Suc suc, n1)) (group_loop U listed saved task (Suc i) n peers gs)
      else if ug_Saved g1 \<and> ue_Now U n - ug_FlushTime g1 < DEFAULT_TASK_INTERVAL
      then map_option (\<lambda>(gs1, suc, n1). (g1 # gs1, suc, n1)) (group_loop U listed saved task (Suc i) n peers gs)
      else (case try_peers U saved task i n peers of
         None \<Rightarrow> None
       | Some (took, n1, peers1) \<Rightarrow>
           (let g2 = (case took of None \<Rightarrow> g1
                      | Some p \<Rightarrow> g1\<lparr>ug_Saved := True, ug_PeerID := p, ug_FlushTime := ue_Now U n1\<rparr>)
            in map_option (\<lambda>(gs1, suc, n2). (g2 # gs1, suc, n2))
                 (group_loop U listed saved task (Suc i) n1 peers1 gs))))"

text \<open>One task: it is finished, with the callbacks called, or goes back into the queue.\<close>

datatype round_outcome = Finished "string list" | Again UploadStats

definition upload_round ::
  "'n upload_env \<Rightarrow> 'n \<Rightarrow> fs \<Rightarrow> UploadStats \<Rightarrow> (round_outcome \<times> 'n \<times> fs) option" where
  "upload_round U n fs task =
     (let finish = (\<lambda>n1 task1. map_option (\<lambda>(called, fs1). (Finished called, n1, fs1)) (finish_task U fs task1)) in
      case ue_QueryFile U n (us_FileHash task) of
        Inr fmeta \<Rightarrow> finish n task
      | Inl err \<Rightarrow>
          (case ue_QueryDealMap U n (us_FileHash task) of
             Inl err \<Rightarrow> Some (Again task, n, fs)
           | Inr listed \<Rightarrow>
               (case ue_Iterator U n (ue_DataShards U + ue_ParShards U) of
                  (Inl err, n1) \<Rightarrow> Some (Again task, n1, fs)
                | (Inr peers, n1) \<Rightarrow>
                    (case group_loop U listed (saved_peers (us_Group task)) task 0 n1 peers (us_Group task) of
                       None \<Rightarrow> None
                     | Some (gs, sucCount, n2) \<Rightarrow>
                         (let task1 = task\<lparr>us_Group := gs\<rparr> in
                          if sucCount < ue_DataShards U + ue_ParShards U then Some (Again task1, n2, fs)
                          else finish n2 task1)))))"

text \<open>
  The server and the callers of uploads share the channel. \<open>ul_senders\<close> are the callers that wait to
  send, \<open>ul_called\<close> the callbacks called so far. The server is the only receiver, and it sends to
  the same channel. An empty file hash ends it, as does the end of its context.
\<close>

datatype upload_server = Receiving | Working UploadStats | Requeueing UploadStats | Exited

record 'n upload_state =
  ul_buf :: "UploadStats list"
  ul_server :: upload_server
  ul_senders :: "UploadStats list"
  ul_net :: 'n
  ul_fs :: fs
  ul_called :: "string list"

definition received :: "UploadStats \<Rightarrow> upload_server" where
  "received t = (if us_FileHash t = '''' then Exited else Working t)"

inductive upload_step :: "'n upload_env \<Rightarrow> nat \<Rightarrow> 'n upload_state \<Rightarrow> 'n upload_state \<Rightarrow> bool"
  for U :: "'n upload_env" and cap :: nat where
  u_send: "ul_senders s = xs @ t # ys \<Longrightarrow> length (ul_buf s) < cap \<Longrightarrow>
     upload_step U cap s (s\<lparr>ul_buf := ul_buf s @ [t], ul_senders := xs @ ys\<rparr>)"
| u_receive: "ul_server s = Receiving \<Longrightarrow> ul_buf s = t # ts \<Longrightarrow>
     upload_step U cap s (s\<lparr>ul_buf := ts, ul_server := received t\<rparr>)"
| u_handover: "ul_server s = Receiving \<Longrightarrow> ul_buf s = [] \<Longrightarrow> ul_senders s = xs @ t # ys \<Longrightarrow>
     upload_step U cap s (s\<lparr>ul_senders := xs @ ys, ul_server := received t\<rparr>)"
| u_cancel: "ul_server s = Receiving \<Longrightarrow> upload_step U cap s (s\<lparr>ul_server := Exited\<rparr>)"
| u_finish: "ul_server s = Working t \<Longrightarrow> upload_round U (ul_net s) (ul_fs s) t = Some (Finished called, n, fs) \<Longrightarrow>
     upload_step U cap s (s\<lparr>ul_server := Receiving, ul_net := n, ul_fs := fs, ul_called := ul_called s @ called\<rparr>)"
| u_again: "ul_server s = Working t \<Longrightarrow> upload_round U (ul_net s) (ul_fs s) t = Some (Again t1, n, fs) \<Longrightarrow>
     upload_step U cap s (s\<lparr>ul_server := Requeueing t1, ul_net := n, ul_fs := fs\<rparr>)"
| u_requeue: "ul_server s = Requeueing t \<Longrightarrow> length (ul_buf s) < cap \<Longrightarrow>
     upload_step U cap s (s\<lparr>ul_server := Receiving, ul_buf := ul_buf s @ [t]\<rparr>)"

definition upload_init :: "'n \<Rightarrow> fs \<Rightarrow> UploadStats list \<Rightarrow> 'n upload_state" where
  "upload_init n fs senders =
     \<lparr>ul_buf = [], ul_server = Receiving, ul_senders = senders, ul_net = n, ul_fs = fs, ul_called = []\<rparr>"

section \<open>Gateways, deletion and states\<close>

definition DownloadFileFromGateway ::
  "'n upload_env \<Rightarrow> 'k CdnClient \<Rightarrow> fs \<Rightarrow> string \<Rightarrow> string \<Rightarrow> string \<Rightarrow> fs \<times> goerr option" where
  "DownloadFileFromGateway U c fs url fpath fhash =
     (case ue_RetrieveFile U fs url fhash (cn_Mnemonic c) fpath of
        (fs1, err) \<Rightarrow> (fs1, errors_Wrap err ''download file from gateway error''))"

definition UploadFileToGateway ::
  "'n upload_env \<Rightarrow> 'k CdnClient \<Rightarrow> 'n \<Rightarrow> fs \<Rightarrow> string \<Rightarrow> string \<Rightarrow> string \<Rightarrow> string \<Rightarrow> string \<Rightarrow>
   (string \<times> goerr option) \<times> 'n \<times> fs" where
  "UploadFileToGateway U c n fs url territory bucket fpath cipher =
     (let msg = ''upload file to gateway error'';
          chunksDir = path_Join [cn_tmpDir c, hex_EncodeToString (ue_sha256 U (string_bytes fpath))]
      in case os_Mkdir (ue_io U) fs chunksDir of
           (fs1, Some err) \<Rightarrow> (('''', Some (Wrapped msg err)), n, fs1)
         | (fs1, None) \<Rightarrow>
             (case ue_SplitFile U fs1 fpath chunksDir of
                (Inl err, fs2) \<Rightarrow> (('''', Some (Wrapped msg err)), n, fs2)
              | (Inr (fsize, num), fs2) \<Rightarrow>
                  (let name = snd (path_Split fpath) in
                   case ue_UploadFileChunks U n fs2 url (cn_Mnemonic c) chunksDir territory bucket name cipher num fsize of
                     (Inl err, n1) \<Rightarrow> (('''', Some (Wrapped msg err)), n1, fs2)
                   | (Inr tx, n1) \<Rightarrow>
                       (case os_RemoveAll (ue_io U) fs2 chunksDir of
                          (fs3, Some err) \<Rightarrow> (('''', Some (Wrapped msg err)), n1, fs3)
                        | (fs3, None) \<Rightarrow> ((tx, None), n1, fs3)))))"

definition UploadDirToGateway ::
  "'n upload_env \<Rightarrow> 'k CdnClient \<Rightarrow> 'n \<Rightarrow> fs \<Rightarrow> dir_entry list or_err \<Rightarrow>
   string \<Rightarrow> string \<Rightarrow> string \<Rightarrow> string \<Rightarrow> string \<Rightarrow> string \<Rightarrow>
   ((string \<times> bytes \<times> goerr option) \<times> 'n \<times> fs) option" where
  "UploadDirToGateway U c n fs readDir url territory bucket fname cipher dir =
     (let msg = ''upload dir to gateway error'' in
      case CreateAFileBox (ue_FragmentSize U) (ue_io U) readDir fs fname dir of
        None \<Rightarrow> None
      | Some ((box, fpath, Some err), fs1) \<Rightarrow> Some (('''', [], Some (Wrapped msg err)), n, fs1)
      | Some ((box, fpath, None), fs1) \<Rightarrow>
          (let chunksDir = path_Join [cn_tmpDir c, fname] in
           case os_MkdirAll (ue_io U) fs1 chunksDir of
             (fs2, Some err) \<Rightarrow> Some (('''', [], Some (Wrapped msg err)), n, fs2)
           | (fs2, None) \<Rightarrow>
               (case ue_SplitFile U fs2 fpath chunksDir of
                  (Inl err, fs3) \<Rightarrow> Some (('''', [], Some (Wrapped msg err)), n, fs3)
                | (Inr (fsize, num), fs3) \<Rightarrow>
                    (case ue_UploadFileChunks U n fs3 url (cn_Mnemonic c) chunksDir territory bucket fname cipher num fsize of
                       (Inl err, n1) \<Rightarrow> Some (('''', [], Some (Wrapped msg err)), n1, fs3)
                     | (Inr tx, n1) \<Rightarrow>
                         (case ue_MarshalBox U box of
                            Inl err \<Rightarrow> Some (('''', [], Some (Wrapped msg err)), n1, fs3)
                          | Inr jbytes \<Rightarrow> Some ((tx, jbytes, None), n1, fs3))))))"

definition DownloadFileInBoxFromGateway ::
  "'n upload_env \<Rightarrow> 'k CdnClient \<Rightarrow> 'n \<Rightarrow> fs \<Rightarrow> string \<Rightarrow> string \<Rightarrow> string \<Rightarrow> FileBox \<Rightarrow> (bytes or_err \<times> fs) option" where
  "DownloadFileInBoxFromGateway U c n fs url fhash elemFileName boxMeta =
     (let msg = ''download file in box from gateway error''; msg1 = ''download file in box error'' in
      case box_find elemFileName 0 (fb_Plates boxMeta) None of
        None \<Rightarrow> Some (Inl (Wrapped msg (Errorf ''data not found from box metadata'')), fs)
      | Some (sidx, didx) \<Rightarrow>
          (case ue_QueryFile U n fhash of
             Inl err \<Rightarrow> Some (Inl (Wrapped msg err), fs)
           | Inr fmeta \<Rightarrow>
               (if length (fm_SegmentList fmeta) \<noteq> length (fb_Plates boxMeta)
                then Some (Inl (Wrapped msg (Errorf ''the number of segments in box metadata is inconsistent'')), fs)
                else (let shash = sg_Hash (fm_SegmentList fmeta ! sidx);
                          fpath = path_Join [cn_tmpDir c, shash];
                          rm = (case os_Stat (ue_io U) fs fpath of
                                  Inr Dir \<Rightarrow> os_RemoveAll (ue_io U) fs fpath | _ \<Rightarrow> (fs, None))
                      in case rm of
                           (fs1, Some err) \<Rightarrow> Some (Inl (Wrapped msg err), fs1)
                         | (fs1, None) \<Rightarrow>
                             (case DownloadFileFromGateway U c fs1 url fpath shash of
                                (fs2, Some err) \<Rightarrow> Some (Inl (Wrapped msg1 err), fs2)
                              | (fs2, None) \<Rightarrow>
                                  (case os_ReadFile (ue_io U) fs2 fpath of
                                     Inl err \<Rightarrow> Some (Inl (Wrapped msg1 err), fs2)
                                   | Inr data \<Rightarrow>
                                       map_option (\<lambda>bs. (Inr bs, fs2)) (cut_file (fb_Plates boxMeta ! sidx) didx data)))))))"

definition Client_DeleteFile :: "'n upload_env \<Rightarrow> 'n \<Rightarrow> string \<Rightarrow> (string \<times> goerr option) \<times> 'n" where
  "Client_DeleteFile U n fhash =
     (case ue_DeleteFile U n (ue_SignatureAcc U) fhash of
        ((res, err), n1) \<Rightarrow> ((res, errors_Wrap err ''delete files error''), n1))"

definition QueryFileSates :: "'n upload_env \<Rightarrow> 'n \<Rightarrow> string \<Rightarrow> string or_err" where
  "QueryFileSates U n fhash =
     (let msg = ''query file states error'' in
      case ue_QueryDealMap U n fhash of
        Inl err \<Rightarrow> Inl (Wrapped msg err)
      | Inr order \<Rightarrow>
          (case ue_MarshalStates U order (case ue_QueryFile U n fhash of Inl err \<Rightarrow> None | Inr m \<Rightarrow> Some m) of
             Inl err \<Rightarrow> Inl (Wrapped msg err)
           | Inr s \<Rightarrow> Inr s))"

section \<open>Laws of a round\<close>

lemma mark_complete_keeps [simp]: "ug_PeerID (mark_complete now i g xs) = ug_PeerID g"
  by (induction now i g xs rule: mark_complete.induct) auto

lemma mark_complete_OnChain: "ug_OnChain (mark_complete now i g xs) \<longleftrightarrow> ug_OnChain g \<or> i \<in> cp_Index ` set xs"
  by (induction now i g xs rule: mark_complete.induct) auto

lemma mark_complete_Saved: "ug_Saved g \<Longrightarrow> ug_Saved (mark_complete now i g xs)"
  by (induction now i g xs rule: mark_complete.induct) auto

text \<open>The groups on the chain after a round are those that were and those the order lists.\<close>

lemma group_loop_count:
  "group_loop U listed saved task i n peers gs = Some (gs', suc, n') \<Longrightarrow>
   suc = length (filter (\<lambda>j. ug_OnChain (gs ! j) \<or> i + j \<in> cp_Index ` set listed) [0..<length gs])"
proof (induction U listed saved task i n peers gs arbitrary: gs' suc n' rule: group_loop.induct)
  case (2 U listed saved task i n peers g gs)
  let ?P = "\<lambda>gs i j. ug_OnChain (gs ! j) \<or> i + j \<in> cp_Index ` set listed"
  have split: "filter (?P (g # gs) i) [0..<length (g # gs)] =
      (if ?P (g # gs) i 0 then [0] else []) @ map Suc (filter (?P gs (Suc i)) [0..<length gs])"
    by (simp add: upt_conv_Cons map_Suc_upt [symmetric] filter_map o_def del: upt_Suc)
  let ?g = "mark_complete (ue_Now U n) i g listed"
  have on: "ug_OnChain ?g \<longleftrightarrow> ?P (g # gs) i 0" by (simp add: mark_complete_OnChain)
  consider (chain) "ug_OnChain ?g" | (recent) "\<not> ug_OnChain ?g" "ug_Saved ?g \<and> ue_Now U n - ug_FlushTime ?g < DEFAULT_TASK_INTERVAL"
    | (retry) "\<not> ug_OnChain ?g" "\<not> (ug_Saved ?g \<and> ue_Now U n - ug_FlushTime ?g < DEFAULT_TASK_INTERVAL)" by blast
  then show ?case
  proof cases
    case chain
    then obtain s where "group_loop U listed saved task (Suc i) n peers gs = Some (tl gs', s, n')" "suc = Suc s"
      using 2(4) by (auto simp: Let_def)
    then show ?thesis using 2(1) [OF refl chain] chain on split by simp
  next
    case recent
    then obtain s where "group_loop U listed saved task (Suc i) n peers gs = Some (tl gs', s, n')" "suc = s"
      using 2(4) by (auto simp: Let_def)
    then show ?thesis using 2(2) [OF refl recent] recent on split by simp
  next
    case retry
    then obtain took n1 ps where t: "try_peers U saved task i n peers = Some (took, n1, ps)"
      using 2(4) by (auto simp: Let_def split: option.splits)
    then have "group_loop U listed saved task (Suc i) n1 ps gs = Some (tl gs', suc, n')"
      using 2(4) retry by (auto simp: Let_def split: option.splits)
    then show ?thesis using 2(3) [OF refl retry t refl refl] retry on split by simp
  qed
qed simp

text \<open>The peer that takes a group is new, and the peers after it are left for the other groups.\<close>

lemma try_peers_took:
  "try_peers U saved task i n peers = Some (took, n1, ps) \<Longrightarrow>
   \<exists>pre. peers = pre @ ps \<and> (case took of None \<Rightarrow> True | Some p \<Rightarrow> p \<in> set pre \<and> p \<notin> saved)"
proof (induction peers arbitrary: n)
  case (Cons p peers)
  have ext: "\<exists>pre. p # peers = pre @ ps \<and> (case took of None \<Rightarrow> True | Some p \<Rightarrow> p \<in> set pre \<and> p \<notin> saved)"
    if h: "try_peers U saved task i m peers = Some (took, n1, ps)" for m
  proof -
    obtain pre where "peers = pre @ ps" "case took of None \<Rightarrow> True | Some p \<Rightarrow> p \<in> set pre \<and> p \<notin> saved"
      using Cons.IH [OF h] by blast
    then show ?thesis by (intro exI [of _ "p # pre"]) (auto split: option.splits)
  qed
  obtain e m where c: "ue_Connect U n p = (e, m)" by fastforce
  consider (skip) m' where "try_peers U saved task i m' peers = Some (took, n1, ps)"
    | (takes) "p \<notin> saved" "took = Some p" "ps = peers"
    using Cons.prems c by (auto split: if_splits option.splits bool.splits)
  then show ?case
  proof cases
    case skip
    then show ?thesis by (rule ext)
  next
    case takes
    then show ?thesis by (intro exI [of _ "[p]"]) simp
  qed
qed simp

text \<open>
  The peers that hold the groups of a file: no peer holds two groups, and a group with a peer is saved.
\<close>

definition group_peers :: "UploadGroup list \<Rightarrow> string list" where
  "group_peers gs = filter (\<lambda>p. p \<noteq> '''') (map ug_PeerID gs)"

definition groups_ok :: "UploadGroup list \<Rightarrow> bool" where
  "groups_ok gs \<longleftrightarrow> distinct (group_peers gs) \<and> (\<forall>g \<in> set gs. ug_PeerID g \<noteq> '''' \<longrightarrow> ug_Saved g)"

text \<open>The documented behaviour of the selector's iterator: it yields each of its peers once.\<close>

definition iterator_ok :: "'n upload_env \<Rightarrow> bool" where
  "iterator_ok U \<longleftrightarrow> (\<forall>n k peers n1. ue_Iterator U n k = (Inr peers, n1) \<longrightarrow> distinct peers \<and> '''' \<notin> set peers)"

lemma group_peers_simps [simp]:
  "group_peers [] = []"
  "group_peers (g # gs) = (if ug_PeerID g = '''' then [] else [ug_PeerID g]) @ group_peers gs"
  by (auto simp: group_peers_def)

lemma group_loop_peers:
  assumes "group_loop U listed saved task i n peers gs = Some (gs', suc, n')"
    and "distinct peers" and "'''' \<notin> set peers" and "groups_ok gs" and "set (group_peers gs) \<subseteq> saved"
  shows "groups_ok gs' \<and> set (group_peers gs') \<subseteq> set (group_peers gs) \<union> (set peers - saved) \<and> length gs' = length gs"
  using assms
proof (induction gs arbitrary: i n peers gs' suc)
  case (Cons g gs)
  let ?g = "mark_complete (ue_Now U n) i g listed"
  let ?ok = "\<lambda>g2 gs2. groups_ok (g2 # gs2) \<and> set (group_peers (g2 # gs2)) \<subseteq> set (group_peers (g # gs)) \<union> (set peers - saved)
     \<and> length (g2 # gs2) = length (g # gs)"
  have gs: "groups_ok gs" "set (group_peers gs) \<subseteq> saved"
    and g: "ug_PeerID g \<notin> set (group_peers gs)" "ug_PeerID g = '''' \<or> ug_PeerID g \<in> saved" "ug_PeerID g \<noteq> '''' \<Longrightarrow> ug_Saved ?g"
    using Cons.prems(4,5) by (auto simp: groups_ok_def group_peers_def mark_complete_Saved split: if_splits)
  have same: "?ok ?g gs2"
    if "group_loop U listed saved task (Suc i) m ps gs = Some (gs2, suc2, n')" "set ps \<subseteq> set peers" "distinct ps" for m ps gs2 suc2
    using Cons.IH [OF that(1,3) _ gs] that(2) Cons.prems(3) g by (auto simp: groups_ok_def)
  have new: "?ok (?g\<lparr>ug_Saved := True, ug_PeerID := p, ug_FlushTime := t\<rparr>) gs2"
    if "group_loop U listed saved task (Suc i) m ps gs = Some (gs2, suc2, n')" "peers = pre @ ps" "p \<in> set pre" "p \<notin> saved"
    for m ps gs2 suc2 p t pre
    using Cons.IH [OF that(1) _ _ gs] that(2-4) Cons.prems(2,3) gs(2) by (auto simp: groups_ok_def)
  show ?case
  proof (cases "ug_OnChain ?g \<or> (ug_Saved ?g \<and> ue_Now U n - ug_FlushTime ?g < DEFAULT_TASK_INTERVAL)")
    case True
    then obtain gs2 suc2 where "group_loop U listed saved task (Suc i) n peers gs = Some (gs2, suc2, n')" "gs' = ?g # gs2"
      using Cons.prems(1) by (auto simp: Let_def split: if_splits)
    then show ?thesis using same [of n peers gs2 suc2] Cons.prems(2) by blast
  next
    case False
    then obtain took m ps where t: "try_peers U saved task i n peers = Some (took, m, ps)"
      using Cons.prems(1) by (auto simp: Let_def split: option.splits)
    obtain gs2 where l: "group_loop U listed saved task (Suc i) m ps gs = Some (gs2, suc, n')"
      and gs': "gs' = (case took of None \<Rightarrow> ?g | Some p \<Rightarrow> ?g\<lparr>ug_Saved := True, ug_PeerID := p, ug_FlushTime := ue_Now U m\<rparr>) # gs2"
      using Cons.prems(1) False t by (auto simp: Let_def split: option.splits)
    obtain pre where "peers = pre @ ps" "case took of None \<Rightarrow> True | Some p \<Rightarrow> p \<in> set pre \<and> p \<notin> saved"
      using try_peers_took [OF t] by blast
    then show ?thesis using same [OF l] new [OF l] gs' Cons.prems(2) by (cases took) auto
  qed
qed simp

text \<open>A round keeps this for the task it puts back.\<close>

lemma upload_round_groups:
  assumes "upload_round U n fs task = Some (Again task', n', fs')" and "groups_ok (us_Group task)"
    and "iterator_ok U"
  shows "groups_ok (us_Group task') \<and> us_FileHash task' = us_FileHash task"
proof -
  obtain it n1 where it: "ue_Iterator U n (ue_DataShards U + ue_ParShards U) = (it, n1)" by fastforce
  have sub: "set (group_peers (us_Group task)) \<subseteq> saved_peers (us_Group task)"
    using assms(2) by (auto simp: groups_ok_def group_peers_def saved_peers_def)
  consider "task' = task"
    | listed peers gs suc where "it = Inr peers" "task' = task\<lparr>us_Group := gs\<rparr>"
        "group_loop U listed (saved_peers (us_Group task)) task 0 n1 peers (us_Group task) = Some (gs, suc, n')"
    using assms(1) it by (auto simp: upload_round_def Let_def split: sum.splits option.splits if_splits prod.splits)
  then show ?thesis
  proof cases
    case 2
    then have "distinct peers \<and> '''' \<notin> set peers" using assms(3) it unfolding iterator_ok_def by blast
    then show ?thesis using group_loop_peers [OF 2(3)] assms(2) sub 2(2) by auto
  qed (use assms(2) in simp)
qed

section \<open>Laws of the server\<close>

fun server_tasks :: "upload_server \<Rightarrow> UploadStats list" where
  "server_tasks (Working t) = [t]"
| "server_tasks (Requeueing t) = [t]"
| "server_tasks s = []"

definition upload_tasks :: "'n upload_state \<Rightarrow> UploadStats list" where
  "upload_tasks s = ul_buf s @ server_tasks (ul_server s) @ ul_senders s"

lemma received_tasks: "set (server_tasks (received t)) \<subseteq> {t}" "length (server_tasks (received t)) \<le> 1"
  by (auto simp: received_def)

lemma upload_tasks_fewer: "upload_step U cap s s' \<Longrightarrow> length (upload_tasks s') \<le> length (upload_tasks s)"
  by (induction rule: upload_step.induct) (auto simp: upload_tasks_def received_def)

lemma upload_tasks_ok:
  assumes "upload_step U cap s s'" and "\<forall>t \<in> set (upload_tasks s). groups_ok (us_Group t)"
    and "iterator_ok U"
  shows "\<forall>t \<in> set (upload_tasks s'). groups_ok (us_Group t)"
  using assms(1)
proof cases
  case (u_again t t1 n fs)
  then have "groups_ok (us_Group t1)"
    using upload_round_groups [OF u_again(3) _ assms(3)] assms(2) by (simp add: upload_tasks_def)
  then show ?thesis using u_again assms(2) by (auto simp: upload_tasks_def)
qed (use assms(2) received_tasks in \<open>auto simp: upload_tasks_def\<close>)

text \<open>Callers fill the channel one after the other.\<close>

lemma upload_fill:
  "ul_senders s = ts \<Longrightarrow> length (ul_buf s) + length ts \<le> cap \<Longrightarrow>
   (upload_step U cap)\<^sup>*\<^sup>* s (s\<lparr>ul_buf := ul_buf s @ ts, ul_senders := []\<rparr>)"
proof (induction ts arbitrary: s)
  case Nil
  then have "s\<lparr>ul_buf := ul_buf s @ [], ul_senders := []\<rparr> = s" by (cases s) simp
  then show ?case by simp
next
  case (Cons t ts)
  let ?s = "s\<lparr>ul_buf := ul_buf s @ [t], ul_senders := ts\<rparr>"
  have "upload_step U cap s ?s" using u_send [of s "[]" t ts cap U] Cons.prems by simp
  moreover have "(upload_step U cap)\<^sup>*\<^sup>* ?s (s\<lparr>ul_buf := ul_buf s @ t # ts, ul_senders := []\<rparr>)"
    using Cons.IH [of ?s] Cons.prems(2) by simp
  ultimately show ?case by (rule converse_rtranclp_into_rtranclp)
qed

text \<open>A server that has to put a task back into a full channel: nothing can happen any more.\<close>

lemma upload_full_stuck:
  "ul_server s = Requeueing t \<Longrightarrow> cap \<le> length (ul_buf s) \<Longrightarrow> \<not> upload_step U cap s s'"
  by (auto elim!: upload_step.cases)

text \<open>A storage network for the witnesses; the state counts the writes and is the clock.\<close>

definition mem_upload :: "nat upload_env" where
  "mem_upload = \<lparr>ue_io = (\<lambda>op p. None), ue_DataShards = 1, ue_ParShards = 1, ue_FragmentSize = 2,
     ue_QueryFile = (\<lambda>n h. Inl (Errorf ''not found'')), ue_QueryDealMap = (\<lambda>n h. if h = ''bad'' then Inl (Errorf ''no order'')
        else Inr [\<lparr>cp_Index = 0, cp_Miner = ''m''\<rparr>]),
     ue_PlaceStorageOrder = (\<lambda>n h f b t s a k. (Inr ''0xaa'', n)), ue_DeleteFile = (\<lambda>n a h. ((''0xbb'', None), n)),
     ue_SignatureAcc = [1], ue_Iterator = (\<lambda>n k. (Inr [''p'', ''q''], n)), ue_Feedback = (\<lambda>n p b. n),
     ue_Connect = (\<lambda>n p. (None, n)), ue_WriteDataAction = (\<lambda>n p f h x. (None, n + 1)), ue_Now = int,
     ue_FullProcessing = (\<lambda>fs p c d. (Inr ([\<lparr>sd_SegmentHash = ''s'', sd_FragmentHash = [''/t/a'', ''/t/b'']\<rparr>], ''root''), fs)),
     ue_SplitFile = (\<lambda>fs p d. (Inr (1, 1), fs)),
     ue_UploadFileChunks = (\<lambda>n fs u m d t b f c k s. (Inl (Errorf ''gateway down''), n)),
     ue_RetrieveFile = (\<lambda>fs u h m p. (fs(p \<mapsto> File [1, 2]), None)), ue_MarshalBox = (\<lambda>b. Inr [123, 125]),
     ue_MarshalStates = (\<lambda>l m. Inr ''{}''), ue_sha256 = (\<lambda>bs. bs)\<rparr>"

definition mem_task :: "string \<Rightarrow> UploadStats" where
  "mem_task h = \<lparr>us_FileHash = h, us_FilePath = ''/d/f'', us_CallBack = Some (UserCallback ''cb''),
     us_SegmentInfo = [\<lparr>sd_SegmentHash = ''s'', sd_FragmentHash = [''/tmp/x/a'', ''/tmp/x/b'']\<rparr>],
     us_Group = replicate 2 UploadGroup_zero\<rparr>"

lemma all_counted: "n \<le> length (filter P [0..<n]) \<longleftrightarrow> (\<forall>i < n. P i)"
proof
  assume "n \<le> length (filter P [0..<n])"
  then have "filter P [0..<n] = [0..<n]"
    using length_filter_le [of P "[0..<n]"] by (metis filter_id_conv le_antisym length_filter_less length_upt diff_zero nat_less_le)
  then show "\<forall>i < n. P i" by (metis (no_types, lifting) atLeast0LessThan filter_id_conv lessThan_iff set_upt)
next
  assume "\<forall>i < n. P i"
  then have "filter P [0..<n] = [0..<n]" by simp
  then show "n \<le> length (filter P [0..<n])" by simp
qed

section \<open>Properties\<close>

text \<open>C9: While a file is uploaded, no storage node is chosen for two of its groups: in every state
  that the server and its callers can reach from tasks with fresh groups, every task in the system
  has pairwise different peers, and a group with a peer is marked saved, however often tasks were put
  back and groups were sent again.\<close>

theorem upload_peers_distinct:
  assumes "(upload_step U cap)\<^sup>*\<^sup>* (upload_init n fs senders) s"
    and "\<forall>t \<in> set senders. set (us_Group t) \<subseteq> {UploadGroup_zero}"
    and "iterator_ok U"
    and "t \<in> set (upload_tasks s)"
  shows "groups_ok (us_Group t)"
proof -
  have fresh: "groups_ok gs" if "set gs \<subseteq> {UploadGroup_zero}" for gs
  proof -
    have "group_peers gs = []" using that by (induction gs) (auto simp: UploadGroup_zero_def)
    then show ?thesis using that by (auto simp: groups_ok_def UploadGroup_zero_def)
  qed
  have "\<forall>t \<in> set (upload_tasks s). groups_ok (us_Group t)"
  proof (rule rtranclp_invariant [OF assms(1)])
    show "\<forall>t \<in> set (upload_tasks (upload_init n fs senders)). groups_ok (us_Group t)"
      using assms(2) fresh by (simp add: upload_tasks_def upload_init_def)
  qed (rule upload_tasks_ok [OF _ _ assms(3)])
  then show ?thesis using assms(4) by blast
qed

theorem upload_peers_distinct_witness:
  "groups_ok (us_Group (mem_task ''h''))"
  by (rule upload_peers_distinct [where U = mem_upload and cap = 1 and n = 0 and fs = Map.empty and senders = "[mem_task ''h'']"
        and s = "upload_init 0 Map.empty [mem_task ''h'']"])
     (auto simp: iterator_ok_def mem_upload_def mem_task_def upload_tasks_def upload_init_def)

text \<open>C15: What ends a task: a round of the upload server that returns finishes the task, its temporary files removed and its callback
  called, exactly when the chain has the file, whatever the groups are, or when the storage order and the storage nodes can be queried and
  every group is on the chain, because it was marked so before or because the order lists its index. Otherwise the task goes back into the
  queue, with nothing but its groups changed, and no file is removed.\<close>

theorem upload_finishes_on_chain:
  assumes "length (us_Group task) = ue_DataShards U + ue_ParShards U" and "upload_round U n fs task = Some (out, n', fs')"
  shows "((\<exists>called. out = Finished called) \<longleftrightarrow>
     (\<exists>fmeta. ue_QueryFile U n (us_FileHash task) = Inr fmeta) \<or>
     (\<exists>listed peers n1. ue_QueryDealMap U n (us_FileHash task) = Inr listed \<and> ue_Iterator U n (ue_DataShards U + ue_ParShards U) = (Inr peers, n1) \<and>
        (\<forall>i < length (us_Group task). ug_OnChain (us_Group task ! i) \<or> i \<in> cp_Index ` set listed))) \<and>
    (\<forall>task1. out = Again task1 \<longrightarrow> fs' = fs \<and> task1 = task\<lparr>us_Group := us_Group task1\<rparr>)"
proof (cases "\<exists>e listed peers n1. ue_QueryFile U n (us_FileHash task) = Inl e \<and> ue_QueryDealMap U n (us_FileHash task) = Inr listed \<and>
    ue_Iterator U n (ue_DataShards U + ue_ParShards U) = (Inr peers, n1)")
  case False
  then show ?thesis using assms(2) by (auto simp: upload_round_def Let_def split: sum.splits prod.splits)
next
  case True
  then obtain e listed peers n1 where q: "ue_QueryFile U n (us_FileHash task) = Inl e" "ue_QueryDealMap U n (us_FileHash task) = Inr listed"
    "ue_Iterator U n (ue_DataShards U + ue_ParShards U) = (Inr peers, n1)" by blast
  let ?P = "\<lambda>j. ug_OnChain (us_Group task ! j) \<or> j \<in> cp_Index ` set listed"
  let ?k = "length (us_Group task)"
  obtain gs suc m where l: "group_loop U listed (saved_peers (us_Group task)) task 0 n1 peers (us_Group task) = Some (gs, suc, m)"
    using assms q by (auto simp: upload_round_def split: option.splits)
  have suc: "suc = length (filter ?P [0..<?k])" using group_loop_count [OF l] by simp
  have "suc \<ge> ?k \<longleftrightarrow> (\<forall>i < ?k. ?P i)" unfolding suc by (rule all_counted)
  moreover have "(\<exists>called. out = Finished called) \<longleftrightarrow> \<not> suc < ?k"
    using assms q l by (auto simp: upload_round_def Let_def split: if_splits)
  moreover have "\<forall>task1. out = Again task1 \<longrightarrow> fs' = fs \<and> task1 = task\<lparr>us_Group := us_Group task1\<rparr>"
    using assms q l by (auto simp: upload_round_def Let_def split: if_splits)
  ultimately show ?thesis using q by (auto simp: not_less)
qed

theorem upload_finishes_on_chain_witness:
  "\<exists>out n' fs'. upload_round mem_upload 0 Map.empty (mem_task ''h'') = Some (out, n', fs') \<and> (\<nexists>called. out = Finished called)"
proof -
  obtain out n' fs' where o: "upload_round mem_upload 0 Map.empty (mem_task ''h'') = Some (out, n', fs')"
    by (simp add: upload_round_def mem_upload_def mem_task_def numeral_2_eq_2 UploadGroup_zero_def saved_peers_def)
  have len: "length (us_Group (mem_task ''h'')) = ue_DataShards mem_upload + ue_ParShards mem_upload" by (simp add: mem_upload_def mem_task_def)
  have "\<not> (\<forall>i < length (us_Group (mem_task ''h'')). ug_OnChain (us_Group (mem_task ''h'') ! i) \<or> i \<in> cp_Index ` set [\<lparr>cp_Index = 0, cp_Miner = ''m''\<rparr>])"
    by (auto simp: mem_task_def UploadGroup_zero_def intro!: exI [of _ 1])
  moreover have "ue_QueryDealMap mem_upload 0 (us_FileHash (mem_task ''h'')) = Inr [\<lparr>cp_Index = 0, cp_Miner = ''m''\<rparr>]"
    "\<nexists>m. ue_QueryFile mem_upload 0 (us_FileHash (mem_task ''h'')) = Inr m"
    by (simp_all add: mem_upload_def mem_task_def)
  ultimately show ?thesis using upload_finishes_on_chain [OF len o] o by (metis sum.inject(2))
qed

text \<open>C16: The upload server can deadlock with its callers, whatever the capacity of the channel: with one
  caller more than the capacity and an order the chain does not know yet, there is a reachable state in
  which the server waits to put its task back into the full channel that only it empties, and no step
  of the system is possible any more.\<close>

theorem upload_server_deadlock:
  assumes "us_FileHash t \<noteq> ''''" and "length ts = cap"
    and "ue_QueryFile U n (us_FileHash t) = Inl e1" and "ue_QueryDealMap U n (us_FileHash t) = Inl e2"
  shows "\<exists>s. (upload_step U cap)\<^sup>*\<^sup>* (upload_init n fs (t # ts)) s \<and> ul_server s = Requeueing t \<and>
     (\<nexists>s'. upload_step U cap s s')"
proof -
  let ?s1 = "(upload_init n fs (t # ts))\<lparr>ul_senders := ts, ul_server := Working t\<rparr>"
  let ?s2 = "?s1\<lparr>ul_buf := ul_buf ?s1 @ ts, ul_senders := []\<rparr>"
  let ?s3 = "?s2\<lparr>ul_server := Requeueing t, ul_net := n, ul_fs := fs\<rparr>"
  have "upload_step U cap (upload_init n fs (t # ts)) ?s1"
    using u_handover [of "upload_init n fs (t # ts)" "[]" t ts U cap] assms(1) by (simp add: upload_init_def received_def)
  moreover have "(upload_step U cap)\<^sup>*\<^sup>* ?s1 ?s2"
    by (rule upload_fill) (use assms(2) in \<open>simp_all add: upload_init_def\<close>)
  moreover have "upload_step U cap ?s2 ?s3"
    by (rule u_again [where t = t]) (simp_all add: upload_init_def upload_round_def assms(3,4))
  ultimately have "(upload_step U cap)\<^sup>*\<^sup>* (upload_init n fs (t # ts)) ?s3"
    by (meson converse_rtranclp_into_rtranclp rtranclp.rtrancl_into_rtrancl)
  moreover have "\<not> upload_step U cap ?s3 s'" for s'
    using assms(2) by (intro upload_full_stuck [of _ t]) (simp_all add: upload_init_def)
  ultimately show ?thesis by (intro exI [of _ ?s3]) simp
qed

theorem upload_server_deadlock_witness:
  "\<exists>s. (upload_step mem_upload 1)\<^sup>*\<^sup>* (upload_init 0 Map.empty [mem_task ''bad'', mem_task ''h'']) s \<and>
     ul_server s = Requeueing (mem_task ''bad'') \<and> (\<nexists>s'. upload_step mem_upload 1 s s')"
  by (rule upload_server_deadlock) (simp_all add: mem_task_def mem_upload_def)

text \<open>C17: With no more callers than the channel has room for, the server is never blocked: whenever it has
  to put a task back, there is room, and it goes on receiving.\<close>

theorem upload_server_progress:
  assumes "(upload_step U cap)\<^sup>*\<^sup>* (upload_init n fs senders) s" and "length senders \<le> cap"
    and "ul_server s = Requeueing t"
  shows "\<exists>s'. upload_step U cap s s' \<and> ul_server s' = Receiving \<and> t \<in> set (ul_buf s')"
proof -
  have "length (upload_tasks s) \<le> length senders"
    by (rule rtranclp_invariant [OF assms(1)])
       (auto simp: upload_tasks_def upload_init_def dest!: upload_tasks_fewer)
  then have "length (ul_buf s) < cap" using assms(2,3) by (simp add: upload_tasks_def)
  then show ?thesis using u_requeue [OF assms(3)] by fastforce
qed

theorem upload_server_progress_witness:
  "\<exists>s s'. (upload_step mem_upload 1)\<^sup>*\<^sup>* (upload_init 0 Map.empty [mem_task ''bad'']) s \<and> ul_server s = Requeueing (mem_task ''bad'') \<and>
     upload_step mem_upload 1 s s' \<and> ul_server s' = Receiving"
proof -
  let ?t = "mem_task ''bad''"
  let ?s1 = "(upload_init 0 Map.empty [?t])\<lparr>ul_senders := [], ul_server := Working ?t\<rparr>"
  let ?s2 = "?s1\<lparr>ul_server := Requeueing ?t, ul_net := 0, ul_fs := Map.empty\<rparr>"
  have "upload_step mem_upload 1 (upload_init 0 Map.empty [?t]) ?s1"
    using u_handover [of "upload_init 0 Map.empty [?t]" "[]" ?t "[]" mem_upload 1]
    by (simp add: upload_init_def received_def mem_task_def)
  moreover have "upload_step mem_upload 1 ?s1 ?s2"
    by (rule u_again [where t = ?t]) (simp_all add: upload_init_def upload_round_def mem_upload_def mem_task_def)
  ultimately have r: "(upload_step mem_upload 1)\<^sup>*\<^sup>* (upload_init 0 Map.empty [?t]) ?s2" by auto
  have "\<exists>s'. upload_step mem_upload 1 ?s2 s' \<and> ul_server s' = Receiving \<and> ?t \<in> set (ul_buf s')"
    by (rule upload_server_progress [OF r]) simp_all
  then obtain s' where "upload_step mem_upload 1 ?s2 s'" "ul_server s' = Receiving" by blast
  then show ?thesis using r by (intro exI [of _ ?s2] exI [of _ s'] conjI) simp_all
qed

text \<open>A group whose fragment paths do not have exactly three components is recorded as saved on
  the first peer that accepts a connection, although nothing is sent to it: the network is only the one
  after the connection.\<close>

theorem deep_paths_not_sent:
  assumes "\<forall>segment \<in> set (us_SegmentInfo task). i < length (sd_FragmentHash segment) \<and>
      length (split_on (CHR ''/'') (sd_FragmentHash segment ! i)) \<noteq> 3"
    and "ue_Connect U n p = (None, n1)" and "p \<notin> saved"
    and "\<not> ug_OnChain g" and "\<not> ug_Saved g" and "i \<notin> cp_Index ` set listed"
    and "group_loop U listed saved task i n (p # ps) (g # gs) = Some (gs', suc, n')"
  shows "hd gs' = g\<lparr>ug_Saved := True, ug_PeerID := p, ug_FlushTime := ue_Now U n1\<rparr> \<and>
     group_loop U listed saved task (Suc i) n1 ps gs = Some (tl gs', suc, n')"
proof -
  have "mark_complete now i g listed = g" for now
    using assms(6) by (induction listed) auto
  moreover have "write_fragments U p (us_FileHash task) i m segs = Some (True, m)"
    if "set segs \<subseteq> set (us_SegmentInfo task)" for m segs
    using that assms(1) by (induction segs) (auto simp: Let_def)
  ultimately show ?thesis using assms(2-5,7) by (auto simp: Let_def)
qed

theorem deep_paths_not_sent_witness:
  "\<exists>gs' suc n'. group_loop mem_upload [] {} (mem_task ''h'') 0 0 [''p'', ''q''] (us_Group (mem_task ''h'')) = Some (gs', suc, n') \<and>
     ug_Saved (hd gs') \<and> ug_PeerID (hd gs') = ''p''"
proof -
  obtain gs' suc n' where r: "group_loop mem_upload [] {} (mem_task ''h'') 0 0 [''p'', ''q''] [UploadGroup_zero, UploadGroup_zero] = Some (gs', suc, n')"
    by (fastforce simp: mem_upload_def mem_task_def UploadGroup_zero_def)
  have "hd gs' = UploadGroup_zero\<lparr>ug_Saved := True, ug_PeerID := ''p'', ug_FlushTime := ue_Now mem_upload 0\<rparr> \<and>
     group_loop mem_upload [] {} (mem_task ''h'') (Suc 0) 0 [''q''] [UploadGroup_zero] = Some (tl gs', suc, n')"
    by (rule deep_paths_not_sent [OF _ _ _ _ _ _ r]) (simp_all add: mem_upload_def mem_task_def UploadGroup_zero_def)
  then show ?thesis using r by (auto simp: mem_task_def numeral_2_eq_2)
qed

text \<open>An upload that reports no error returns either the hash of the file it has just put at the end of
  the queue, with one fresh group per shard, or an empty hash and an unchanged queue. The latter
  happens for a directory, an empty file, and a file that the chain already knows.\<close>

theorem UploadFile_result:
  assumes "UploadFile U c n fs territory bucket fpath cipher callback = Some ((hash, None), c', n', fs')"
    and "cn_uploadQueue c = Some (buf, cap)"
  shows "(\<exists>segs. let status = \<lparr>us_FileHash = hash, us_FilePath = fpath, us_CallBack = callback, us_SegmentInfo = segs,
            us_Group = replicate (ue_ParShards U + ue_DataShards U) UploadGroup_zero\<rparr>
          in cn_uploadQueue c' = Some (buf @ [status], cap) \<and> length buf < cap) \<or>
     (hash = '''' \<and> c' = c \<and>
      (fs fpath = Some Dir \<or> fs fpath = Some (File []) \<or> (\<exists>root m. ue_QueryFile U n root = Inr m)))"
  using assms
  unfolding UploadFile_def PreprocessFileAndPutIntoUploadQueue_def
  by (auto simp: Let_def os_Stat_def chan_send_def UploadStats_zero_def
      split: option.splits sum.splits inode.splits if_splits prod.splits)

theorem UploadFile_result_witness:
  "\<exists>c'. UploadFile mem_upload (SetConfig (CdnClient_New (Some ())) [] ''/t'' [] 4) 0 [''/d/f'' \<mapsto> File [1]] ''terr'' ''b'' ''/d/f'' '''' None =
      Some ((''root'', None), c', 0, [''/d/f'' \<mapsto> File [1]]) \<and> (\<exists>st. cn_uploadQueue c' = Some ([st], 4) \<and> us_FileHash st = ''root'')"
proof -
  let ?c = "SetConfig (CdnClient_New (Some ())) [] ''/t'' [] 4"
  obtain c' where r: "UploadFile mem_upload ?c 0 [''/d/f'' \<mapsto> File [1]] ''terr'' ''b'' ''/d/f'' '''' None =
      Some ((''root'', None), c', 0, [''/d/f'' \<mapsto> File [1]])"
    by (simp add: UploadFile_def PreprocessFileAndPutIntoUploadQueue_def mem_upload_def os_Stat_def chan_send_def
        SetConfig_def CdnClient_New_def Let_def)
  have "cn_uploadQueue ?c = Some ([], 4)" by (simp add: SetConfig_def)
  from UploadFile_result [OF r this] show ?thesis using r by (auto simp: Let_def)
qed

text \<open>A failed upload to a gateway cannot be tried again: the directory of its chunks stays, and a
  second call for the same file fails because it exists, whatever made the first one fail.\<close>

theorem gateway_upload_no_retry:
  assumes "UploadFileToGateway U c n fs url territory bucket fpath cipher = ((tx, Some err), n1, fs1)"
    and "\<forall>p. ue_io U ''mkdir'' p = None"
    and "\<forall>fs p d. fs d = Some Dir \<longrightarrow> snd (ue_SplitFile U fs p d) d = Some Dir"
  shows "UploadFileToGateway U c n1 fs1 url territory bucket fpath cipher =
     (('''', Some (Wrapped ''upload file to gateway error'' (Errorf ''file exists''))), n1, fs1)"
proof -
  let ?d = "path_Join [cn_tmpDir c, hex_EncodeToString (ue_sha256 U (string_bytes fpath))]"
  have split: "fs2 ?d = Some Dir" if "ue_SplitFile U (fs(?d \<mapsto> Dir)) fpath ?d = (r, fs2)" for r fs2
    using assms(3) that by (metis fun_upd_same snd_conv)
  have "fs1 ?d \<noteq> None"
    using assms(1,2) split unfolding UploadFileToGateway_def
    by (auto simp: Let_def os_Mkdir_def os_RemoveAll_def split: option.splits sum.splits prod.splits)
  then obtain x where "fs1 ?d = Some x" by blast
  then show ?thesis unfolding UploadFileToGateway_def by (simp add: Let_def os_Mkdir_def assms(2))
qed

theorem gateway_upload_no_retry_witness:
  "\<exists>fs1. UploadFileToGateway mem_upload (SetConfig (CdnClient_New (Some ())) [] ''/t'' [] 4) 0 fs1 ''u'' ''t'' ''b'' ''f'' '''' =
     (('''', Some (Wrapped ''upload file to gateway error'' (Errorf ''file exists''))), 0, fs1)"
proof -
  let ?c = "SetConfig (CdnClient_New (Some ())) [] ''/t'' [] 4"
  obtain tx err fs1 where r: "UploadFileToGateway mem_upload ?c 0 Map.empty ''u'' ''t'' ''b'' ''f'' '''' = ((tx, Some err), 0, fs1)"
    by (simp add: UploadFileToGateway_def mem_upload_def os_Mkdir_def Let_def)
  have "UploadFileToGateway mem_upload ?c 0 fs1 ''u'' ''t'' ''b'' ''f'' '''' =
     (('''', Some (Wrapped ''upload file to gateway error'' (Errorf ''file exists''))), 0, fs1)"
    by (rule gateway_upload_no_retry [OF r]) (simp_all add: mem_upload_def)
  then show ?thesis by blast
qed

end
