(* ===== verification/Client_Space.thy ===== *)
theory Client_Space
  imports Go_Prelude
begin

text \<open>
  \<open>cd2n-client/client/bucket.go\<close> and \<open>space.go\<close>: buckets and territories of the user, read and changed
  through the chain client of the CESS SDK, which is the parameter; \<open>'w\<close> is the state of the chain and
  \<open>'t\<close> the territory record. Reads ask for the latest block (-1).
\<close>

record ('w, 't) space_env =
  sp_Account :: bytes
  sp_CreateBucket :: "'w \<Rightarrow> bytes \<Rightarrow> string \<Rightarrow> (string \<times> goerr option) \<times> 'w"
  sp_DeleteBucket :: "'w \<Rightarrow> bytes \<Rightarrow> string \<Rightarrow> (string \<times> goerr option) \<times> 'w"
  sp_QueryAllBucketName :: "'w \<Rightarrow> bytes \<Rightarrow> int \<Rightarrow> string list or_err"
  sp_QueryBucket :: "'w \<Rightarrow> bytes \<Rightarrow> string \<Rightarrow> int \<Rightarrow> bytes list or_err"
  sp_QueryUserFidList :: "'w \<Rightarrow> bytes \<Rightarrow> int \<Rightarrow> string list or_err"
  sp_QueryTerritory :: "'w \<Rightarrow> bytes \<Rightarrow> string \<Rightarrow> int \<Rightarrow> 't \<times> goerr option"
  sp_MintTerritory :: "'w \<Rightarrow> u32 \<Rightarrow> string \<Rightarrow> u32 \<Rightarrow> (string \<times> goerr option) \<times> 'w"
  sp_RenewalTerritory :: "'w \<Rightarrow> string \<Rightarrow> u32 \<Rightarrow> (string \<times> goerr option) \<times> 'w"

section \<open>Buckets\<close>

definition wrap_err :: "string \<Rightarrow> 'a or_err \<Rightarrow> 'a or_err" where
  "wrap_err msg r = (case r of Inl err \<Rightarrow> Inl (Wrapped msg err) | Inr x \<Rightarrow> Inr x)"

text \<open>On an error these two return the empty hash.\<close>

definition CreateBucket :: "('w, 't) space_env \<Rightarrow> 'w \<Rightarrow> string \<Rightarrow> (string \<times> goerr option) \<times> 'w" where
  "CreateBucket S w name =
     (case sp_CreateBucket S w (sp_Account S) name of
        ((hash, Some err), w1) \<Rightarrow> (('''', Some (Wrapped ''create bucket error'' err)), w1)
      | ((hash, None), w1) \<Rightarrow> ((hash, None), w1))"

definition DeleteBucket :: "('w, 't) space_env \<Rightarrow> 'w \<Rightarrow> string \<Rightarrow> (string \<times> goerr option) \<times> 'w" where
  "DeleteBucket S w name =
     (case sp_DeleteBucket S w (sp_Account S) name of
        ((hash, Some err), w1) \<Rightarrow> (('''', Some (Wrapped ''delete bucket error'' err)), w1)
      | ((hash, None), w1) \<Rightarrow> ((hash, None), w1))"

definition ListBuckets :: "('w, 't) space_env \<Rightarrow> 'w \<Rightarrow> string list or_err" where
  "ListBuckets S w = wrap_err ''list buckets error'' (sp_QueryAllBucketName S w (sp_Account S) (-1))"

text \<open>The loop fills the list of names at the index of each file.\<close>

fun fill_files :: "string list \<Rightarrow> nat \<Rightarrow> bytes list \<Rightarrow> string list" where
  "fill_files files i [] = files"
| "fill_files files i (f # fs) = fill_files (files[i := bytes_string f]) (Suc i) fs"

definition ListFilesInBucket :: "('w, 't) space_env \<Rightarrow> 'w \<Rightarrow> string \<Rightarrow> string list or_err" where
  "ListFilesInBucket S w name =
     (case sp_QueryBucket S w (sp_Account S) name (-1) of
        Inl err \<Rightarrow> Inl (Wrapped ''list files in bucket error'' err)
      | Inr fileList \<Rightarrow> Inr (fill_files (replicate (length fileList) '''') 0 fileList))"

definition ListUserFiles :: "('w, 't) space_env \<Rightarrow> 'w \<Rightarrow> string list or_err" where
  "ListUserFiles S w = wrap_err ''list user files error'' (sp_QueryUserFidList S w (sp_Account S) (-1))"

section \<open>Territories\<close>

definition QueryTerritoryInfo :: "('w, 't) space_env \<Rightarrow> 'w \<Rightarrow> string \<Rightarrow> 't \<times> goerr option" where
  "QueryTerritoryInfo S w name =
     (case sp_QueryTerritory S w (sp_Account S) name (-1) of
        (info, err) \<Rightarrow> (info, errors_Wrap err ''query user space info error''))"

text \<open>Unlike the buckets these return the SDK's result beside the error; the arguments change places.\<close>

definition MintTerritory :: "('w, 't) space_env \<Rightarrow> 'w \<Rightarrow> u32 \<Rightarrow> u32 \<Rightarrow> string \<Rightarrow> (string \<times> goerr option) \<times> 'w" where
  "MintTerritory S w gibCount days territoryName =
     (case sp_MintTerritory S w gibCount territoryName days of
        ((res, err), w1) \<Rightarrow> ((res, errors_Wrap err ''buy space error''), w1))"

definition RenewalTerritory :: "('w, 't) space_env \<Rightarrow> 'w \<Rightarrow> u32 \<Rightarrow> string \<Rightarrow> (string \<times> goerr option) \<times> 'w" where
  "RenewalTerritory S w day territoryName =
     (case sp_RenewalTerritory S w territoryName day of
        ((res, err), w1) \<Rightarrow> ((res, errors_Wrap err ''renewal space error''), w1))"

section \<open>Laws\<close>

lemma fill_files_from:
  "length files = i + length fs \<Longrightarrow> fill_files files i fs = take i files @ map bytes_string fs"
proof (induction fs arbitrary: files i)
  case (Cons f fs)
  then show ?case by (simp add: take_Suc_conv_app_nth)
qed simp

text \<open>The files of a bucket are listed once each, in the order of the chain, whatever their number.\<close>

lemma ListFilesInBucket_names:
  "ListFilesInBucket S w name = wrap_err ''list files in bucket error'' (map_sum id (map bytes_string) (sp_QueryBucket S w (sp_Account S) name (-1)))"
  by (simp add: ListFilesInBucket_def wrap_err_def fill_files_from split: sum.split)

text \<open>A bucket operation that reports an error returns no hash, one that does not returns the hash of the chain.\<close>

lemma CreateBucket_error:
  "CreateBucket S w name = ((hash, err), w') \<Longrightarrow>
     w' = snd (sp_CreateBucket S w (sp_Account S) name) \<and> (err \<noteq> None \<longleftrightarrow> snd (fst (sp_CreateBucket S w (sp_Account S) name)) \<noteq> None) \<and> (err \<noteq> None \<longrightarrow> hash = '''')"
  by (auto simp: CreateBucket_def split: prod.splits option.splits)

end
