(* ===== verification/Ink_Client.thy ===== *)
theory Ink_Client
  imports Go_Prelude
begin

text \<open>
  \<open>cd2n-lib/protocol/ink\<close>: the client of the ink! contracts on a Substrate chain: its connection with
  the health check, reading storage, submitting an extrinsic and waiting for its block, and the
  contract methods.

  The Substrate RPC client is a parameter: \<open>'a\<close> is a connection, \<open>'m\<close> the metadata, \<open>'k\<close> a key pair, \<open>'e\<close> an
  extrinsic, \<open>'w\<close> the state of the chain. A call on a \<open>nil\<close> connection panics; where the code
  recovers, the function then returns the zero values of its results, among them a \<open>nil\<close> error.
  The mutex of the client is held for a whole submission and is not a part of the state.
\<close>

section \<open>Data\<close>

definition PROTO_CONTRACT_NAME :: string where "PROTO_CONTRACT_NAME = ''CacheProtocol''"
definition METHOD_STAKING :: string where "METHOD_STAKING = ''.staking''"
definition METHOD_IS_TOKEN_OWNER :: string where "METHOD_IS_TOKEN_OWNER = ''.is_token_owner''"
definition METHOD_CACHE_ORDER_PAYMENT :: string where "METHOD_CACHE_ORDER_PAYMENT = ''.cache_order_payment''"
definition METHOD_ORDER_CLAIM :: string where "METHOD_ORDER_CLAIM = ''.order_claim''"
definition METHOD_CLAIM_REWARD :: string where "METHOD_CLAIM_REWARD = ''.claim''"
definition METHOD_EXIT :: string where "METHOD_EXIT = ''.exit''"
definition TOKEN_CONTRACT_NAME :: string where "TOKEN_CONTRACT_NAME = ''CacheToken''"
definition METHOD_MINT_TOKEN :: string where "METHOD_MINT_TOKEN = ''.mint_token''"
definition METHOD_WITHDRAW :: string where "METHOD_WITHDRAW = ''.withdraw''"

definition ERR_RPC_CONNECTION :: goerr where "ERR_RPC_CONNECTION = Errorf ''rpc connection failed''"
definition ERR_RPC_TIMEOUT :: goerr where "ERR_RPC_TIMEOUT = Errorf ''timeout''"
definition ERR_TX_FAILED :: goerr where "ERR_TX_FAILED = Errorf ''tx failed''"
definition ERR_Empty :: string where "ERR_Empty = ''empty''"

text \<open>The events of a block; an account id is 32 bytes, so \<open>ev_Owner_of\<close> is never empty.\<close>

record InkNodeInfo =
  ik_Created :: bool
  ik_Collerate :: int
  ik_TokenId :: bytes
  ik_PeerId :: bytes

record InkOrderInfo =
  io_Value :: int
  io_Creater :: bytes
  io_Node :: bytes
  io_Term :: int

record InkStaking =
  is_NodeAcc :: bytes
  is_TokenId :: bytes

record InkOrderPayment =
  ip_OrderId :: bytes
  ip_NodeAcc :: bytes

record InkClaim =
  il_NodeAcc :: bytes
  il_Reward :: int

record InkMintToken =
  im_Owner :: bytes
  im_TokenId :: bytes

record CacheEventRecords =
  ev_Owner_of :: bytes
  ev_MintToken :: "InkMintToken list"
  ev_NodeInfo :: "InkNodeInfo list"
  ev_OrderInfo :: "InkOrderInfo list"
  ev_Staking :: "InkStaking list"
  ev_OrderPayment :: "InkOrderPayment list"
  ev_Claim :: "InkClaim list"
  ev_Exit :: "bytes list"

datatype ink_arg = AccountArg bytes | BytesArg bytes | BigArg int

record SignatureOptions =
  so_BlockHash :: bytes
  so_GenesisHash :: bytes
  so_Nonce :: u64
  so_SpecVersion :: u32
  so_Tip :: u64
  so_TransactionVersion :: u32

text \<open>What the watcher of an extrinsic delivers: a status, with the block if it is in one, or the end of the subscription.\<close>

datatype tx_event = TxStatus "bytes option" | TxErr "goerr option"

record ('a, 'm, 'k) chainClient =
  cc_api :: "'a option"
  cc_chainState :: bool
  cc_metadata :: 'm
  cc_runtimeVersion :: "u32 \<times> u32"
  cc_keyEvents :: bytes
  cc_genesisHash :: bytes
  cc_keyring :: "'k option"
  cc_rpcAddr :: string
  cc_IncomeAcc :: string
  cc_timeForBlockOut :: int

record ('a, 'm, 'k, 'e, 'w) ink_env =
  ie_NewSubstrateAPI :: "'w \<Rightarrow> string \<Rightarrow> 'a or_err \<times> 'w"
  ie_Health :: "'w \<Rightarrow> 'a \<Rightarrow> bool or_err"
  ie_GetMetadataLatest :: "'w \<Rightarrow> 'a \<Rightarrow> 'm or_err"
  ie_GetBlockHash :: "'w \<Rightarrow> 'a \<Rightarrow> nat \<Rightarrow> bytes or_err"
  ie_GetRuntimeVersionLatest :: "'w \<Rightarrow> 'a \<Rightarrow> (u32 \<times> u32) or_err"
  ie_CreateStorageKey :: "'m \<Rightarrow> string \<Rightarrow> string \<Rightarrow> bytes list \<Rightarrow> bytes or_err"
  ie_KeyringPairFromSecret :: "string \<Rightarrow> 'k or_err"
  ie_PublicKey :: "'k \<Rightarrow> bytes"
  ie_GetStorageLatest :: "'w \<Rightarrow> 'a \<Rightarrow> bytes \<Rightarrow> u32 option or_err"
  ie_NewCall :: "'m \<Rightarrow> string \<Rightarrow> ink_arg list \<Rightarrow> 'e or_err"
  ie_Sign :: "'e \<Rightarrow> 'k option \<Rightarrow> SignatureOptions \<Rightarrow> 'e or_err"
  ie_SubmitAndWatch :: "'w \<Rightarrow> 'a \<Rightarrow> 'e \<Rightarrow> tx_event list or_err \<times> 'w"
  ie_GetStorageRaw :: "'w \<Rightarrow> 'a \<Rightarrow> bytes \<Rightarrow> bytes \<Rightarrow> CacheEventRecords or_err"
  ie_NewAccountID :: "bytes \<Rightarrow> bytes or_err"
  ie_EncodeAccount :: "bytes \<Rightarrow> string or_err"

section \<open>The connection\<close>

definition NewChainClient ::
  "('a, 'm, 'k, 'e, 'w) ink_env \<Rightarrow> 'w \<Rightarrow> string \<Rightarrow> string \<Rightarrow> string \<Rightarrow> int \<Rightarrow> ('a, 'm, 'k) chainClient or_err \<times> 'w" where
  "NewChainClient E w rpcAddr secret incomeAcc t =
     (case ie_NewSubstrateAPI E w rpcAddr of
        (Inl err, w1) \<Rightarrow> (Inl err, w1)
      | (Inr api, w1) \<Rightarrow>
          ((case ie_GetMetadataLatest E w1 api of
              Inl err \<Rightarrow> Inl err
            | Inr md \<Rightarrow>
                (case ie_GetBlockHash E w1 api 0 of
                   Inl err \<Rightarrow> Inl err
                 | Inr gen \<Rightarrow>
                     (case ie_GetRuntimeVersionLatest E w1 api of
                        Inl err \<Rightarrow> Inl err
                      | Inr rv \<Rightarrow>
                          (case ie_CreateStorageKey E md ''System'' ''Events'' [] of
                             Inl err \<Rightarrow> Inl err
                           | Inr key \<Rightarrow>
                               (case (if secret \<noteq> '''' then map_sum id Some (ie_KeyringPairFromSecret E secret) else Inr None) of
                                  Inl err \<Rightarrow> Inl err
                                | Inr kr \<Rightarrow>
                                    Inr \<lparr>cc_api = Some api, cc_chainState = True, cc_metadata = md, cc_runtimeVersion = rv,
                                         cc_keyEvents = key, cc_genesisHash = gen, cc_keyring = kr, cc_rpcAddr = rpcAddr,
                                         cc_IncomeAcc = incomeAcc, cc_timeForBlockOut = t\<rparr>))))), w1))"

text \<open>The package variable \<open>cli\<close> takes the result also when it is an error, that is, it becomes \<open>nil\<close>.\<close>

definition InitChainClient ::
  "('a, 'm, 'k, 'e, 'w) ink_env \<Rightarrow> 'w \<Rightarrow> string \<Rightarrow> string \<Rightarrow> string \<Rightarrow> goerr option \<times> ('a, 'm, 'k) chainClient option \<times> 'w" where
  "InitChainClient E w rpcAddr accountSeed accountID =
     (case NewChainClient E w rpcAddr accountSeed accountID (15 * 1000000000) of
        (Inl err, w1) \<Rightarrow> (Some (Wrapped ''init chain client error'' err), None, w1)
      | (Inr c, w1) \<Rightarrow> (None, Some c, w1))"

definition reconnectChainClient :: "('a, 'm, 'k, 'e, 'w) ink_env \<Rightarrow> 'w \<Rightarrow> string \<Rightarrow> 'a or_err \<times> 'w" where
  "reconnectChainClient E w rpcAddr = ie_NewSubstrateAPI E w rpcAddr"

text \<open>The panic on a \<open>nil\<close> connection is recovered, and the error returned is \<open>nil\<close>.\<close>

definition healthchek :: "('a, 'm, 'k, 'e, 'w) ink_env \<Rightarrow> 'w \<Rightarrow> 'a option \<Rightarrow> goerr option" where
  "healthchek E w a =
     (case a of None \<Rightarrow> None | Some api \<Rightarrow> (case ie_Health E w api of Inl err \<Rightarrow> Some err | Inr _ \<Rightarrow> None))"

definition IsChainClientOk ::
  "('a, 'm, 'k, 'e, 'w) ink_env \<Rightarrow> 'w \<Rightarrow> ('a, 'm, 'k) chainClient \<Rightarrow> bool \<times> ('a, 'm, 'k) chainClient \<times> 'w" where
  "IsChainClientOk E w c =
     (case healthchek E w (cc_api c) of
        None \<Rightarrow> (True, c, w)
      | Some err \<Rightarrow>
          (case reconnectChainClient E w (cc_rpcAddr c) of
             (Inl err, w1) \<Rightarrow> (False, c\<lparr>cc_api := None\<rparr>, w1)
           | (Inr cli, w1) \<Rightarrow> (True, c\<lparr>cc_api := Some cli\<rparr>, w1)))"

definition SetChainState :: "bool \<Rightarrow> ('a, 'm, 'k) chainClient \<Rightarrow> ('a, 'm, 'k) chainClient" where
  "SetChainState state c = c\<lparr>cc_chainState := state\<rparr>"

definition GetChainState :: "('a, 'm, 'k) chainClient \<Rightarrow> bool" where
  "GetChainState c = cc_chainState c"

definition NewAccountId :: "('a, 'm, 'k, 'e, 'w) ink_env \<Rightarrow> bytes \<Rightarrow> bytes" where
  "NewAccountId E pubkey = (case ie_NewAccountID E pubkey of Inl err \<Rightarrow> replicate 32 0 | Inr acc \<Rightarrow> acc)"

section \<open>Reading the chain\<close>

definition ink_GetPublicKey :: "('a, 'm, 'k, 'e, 'w) ink_env \<Rightarrow> ('a, 'm, 'k) chainClient \<Rightarrow> bytes" where
  "ink_GetPublicKey E c = (case cc_keyring c of None \<Rightarrow> [] | Some k \<Rightarrow> ie_PublicKey E k)"

definition GetIncomeAccount :: "('a, 'm, 'k) chainClient \<Rightarrow> string" where
  "GetIncomeAccount c = cc_IncomeAcc c"

definition GetCessAccount :: "('a, 'm, 'k, 'e, 'w) ink_env \<Rightarrow> ('a, 'm, 'k) chainClient \<Rightarrow> string or_err" where
  "GetCessAccount E c = ie_EncodeAccount E (ink_GetPublicKey E c)"

text \<open>\<open>GetSyncStatus\<close> does not recover: a \<open>nil\<close> connection makes it panic.\<close>

definition GetSyncStatus ::
  "('a, 'm, 'k, 'e, 'w) ink_env \<Rightarrow> 'w \<Rightarrow> ('a, 'm, 'k) chainClient \<Rightarrow> ((bool \<times> goerr option) \<times> ('a, 'm, 'k) chainClient \<times> 'w) option" where
  "GetSyncStatus E w c =
     (case IsChainClientOk E w c of
        (False, c1, w1) \<Rightarrow> Some ((False, Some ERR_RPC_CONNECTION), c1, w1)
      | (True, c1, w1) \<Rightarrow>
          (case cc_api c1 of
             None \<Rightarrow> None
           | Some api \<Rightarrow> (case ie_Health E w1 api of
               Inl err \<Rightarrow> Some ((False, Some err), c1, w1)
             | Inr syncing \<Rightarrow> Some ((syncing, None), c1, w1))))"

text \<open>The value read is the nonce of an account, the only one the code reads; it stays zero on an error or a panic.\<close>

definition GetStorageFromChain ::
  "('a, 'm, 'k, 'e, 'w) ink_env \<Rightarrow> 'w \<Rightarrow> ('a, 'm, 'k) chainClient \<Rightarrow> string \<Rightarrow> string \<Rightarrow> bytes list \<Rightarrow>
   (u32 \<times> goerr option) \<times> ('a, 'm, 'k) chainClient \<times> 'w" where
  "GetStorageFromChain E w c prefix method args =
     (let msg = ''get storage from chain error'' in
      case IsChainClientOk E w c of
        (False, c1, w1) \<Rightarrow> ((0, Some ERR_RPC_CONNECTION), SetChainState False c1, w1)
      | (True, c1, w1) \<Rightarrow>
          (let c2 = SetChainState True c1 in
           ((case ie_CreateStorageKey E (cc_metadata c2) prefix method args of
               Inl err \<Rightarrow> (0, Some (Wrapped msg err))
             | Inr key \<Rightarrow>
                 (case cc_api c2 of
                    None \<Rightarrow> (0, None)
                  | Some api \<Rightarrow>
                      (case ie_GetStorageLatest E w1 api key of
                         Inl err \<Rightarrow> (0, Some (Wrapped msg err))
                       | Inr None \<Rightarrow> (0, Some (Wrapped msg (Errorf ERR_Empty)))
                       | Inr (Some v) \<Rightarrow> (v, None)))), c2, w1)))"

definition GetAccountInfo ::
  "('a, 'm, 'k, 'e, 'w) ink_env \<Rightarrow> 'w \<Rightarrow> ('a, 'm, 'k) chainClient \<Rightarrow> (u32 \<times> goerr option) \<times> ('a, 'm, 'k) chainClient \<times> 'w" where
  "GetAccountInfo E w c =
     (case GetStorageFromChain E w c ''System'' ''Account'' [ink_GetPublicKey E c] of
        ((nonce, err), c1, w1) \<Rightarrow> ((nonce, errors_Wrap err ''get account info error''), c1, w1))"

section \<open>Submitting an extrinsic\<close>

definition tx_msg :: string where "tx_msg = ''submit extrinsic error''"

text \<open>The loop that submits again after ``priority is too low'', with the number of attempts left.\<close>

fun resubmit ::
  "('a, 'm, 'k, 'e, 'w) ink_env \<Rightarrow> 'a \<Rightarrow> 'k option \<Rightarrow> SignatureOptions \<Rightarrow> u32 \<Rightarrow> nat \<Rightarrow> goerr \<Rightarrow> 'e \<Rightarrow> 'w \<Rightarrow> tx_event list or_err \<times> 'w" where
  "resubmit E api kr opts nonce 0 err ext w = (Inl err, w)"
| "resubmit E api kr opts nonce (Suc i) err ext w =
     (case ie_Sign E ext kr (opts\<lparr>so_Nonce := ucast (nonce + 1)\<rparr>) of
        Inl err1 \<Rightarrow> (Inl err1, w)
      | Inr ext1 \<Rightarrow>
          (case ie_SubmitAndWatch E w api ext1 of
             (Inl err1, w1) \<Rightarrow> resubmit E api kr opts nonce i err1 ext1 w1
           | (Inr sub, w1) \<Rightarrow> (Inr sub, w1)))"

definition submit_tx ::
  "('a, 'm, 'k, 'e, 'w) ink_env \<Rightarrow> 'a \<Rightarrow> 'k option \<Rightarrow> SignatureOptions \<Rightarrow> u32 \<Rightarrow> 'e \<Rightarrow> 'w \<Rightarrow> tx_event list or_err \<times> 'w" where
  "submit_tx E api kr opts nonce ext w =
     (case ie_SubmitAndWatch E w api ext of
        (Inr sub, w1) \<Rightarrow> (Inr sub, w1)
      | (Inl err, w1) \<Rightarrow>
          (if \<not> strings_Contains (error_text err) ''Priority is too low'' then (Inl err, w1)
           else resubmit E api kr opts nonce 20 err ext w1))"

text \<open>The wait for the block. The timer ends it when nothing decisive was delivered.\<close>

fun watch_tx ::
  "('a, 'm, 'k, 'e, 'w) ink_env \<Rightarrow> 'w \<Rightarrow> 'a \<Rightarrow> bytes \<Rightarrow> (CacheEventRecords \<Rightarrow> bool) \<Rightarrow> tx_event list \<Rightarrow> string \<times> goerr option" where
  "watch_tx E w api keyEvents callback [] = ('''', Some (Wrapped tx_msg ERR_RPC_TIMEOUT))"
| "watch_tx E w api keyEvents callback (TxErr err # evs) = ('''', errors_Wrap err tx_msg)"
| "watch_tx E w api keyEvents callback (TxStatus None # evs) = watch_tx E w api keyEvents callback evs"
| "watch_tx E w api keyEvents callback (TxStatus (Some block) # evs) =
     (let txhash = hex_EncodeToString block in
      case ie_GetStorageRaw E w api keyEvents block of
        Inl err \<Rightarrow> (txhash, Some (Wrapped tx_msg err))
      | Inr events \<Rightarrow> (if callback events then (txhash, None) else (txhash, Some (Wrapped tx_msg ERR_TX_FAILED))))"

text \<open>A \<open>nil\<close> connection makes the submission panic; the panic is recovered: an empty hash and a \<open>nil\<close> error.\<close>

definition SubmitExtrinsic ::
  "('a, 'm, 'k, 'e, 'w) ink_env \<Rightarrow> 'w \<Rightarrow> ('a, 'm, 'k) chainClient \<Rightarrow> string \<Rightarrow> (CacheEventRecords \<Rightarrow> bool) \<Rightarrow> ink_arg list \<Rightarrow>
   (string \<times> goerr option) \<times> ('a, 'm, 'k) chainClient \<times> 'w" where
  "SubmitExtrinsic E w c method callback args =
     (case IsChainClientOk E w c of
        (False, c1, w1) \<Rightarrow> (('''', Some (Wrapped tx_msg ERR_RPC_CONNECTION)), SetChainState False c1, w1)
      | (True, c1, w1) \<Rightarrow>
          (let c2 = SetChainState True c1 in
           case ie_NewCall E (cc_metadata c2) method args of
             Inl err \<Rightarrow> (('''', Some (Wrapped tx_msg err)), c2, w1)
           | Inr ext \<Rightarrow>
               (case GetAccountInfo E w1 c2 of
                  ((nonce, Some err), c3, w2) \<Rightarrow> (('''', Some (Wrapped tx_msg err)), c3, w2)
                | ((nonce, None), c3, w2) \<Rightarrow>
                    (let opts = \<lparr>so_BlockHash = cc_genesisHash c3, so_GenesisHash = cc_genesisHash c3, so_Nonce = ucast nonce,
                                 so_SpecVersion = fst (cc_runtimeVersion c3), so_Tip = 0,
                                 so_TransactionVersion = snd (cc_runtimeVersion c3)\<rparr>
                     in case ie_Sign E ext (cc_keyring c3) opts of
                          Inl err \<Rightarrow> (('''', Some (Wrapped tx_msg err)), c3, w2)
                        | Inr ext1 \<Rightarrow>
                            (case cc_api c3 of
                               None \<Rightarrow> (('''', None), c3, w2)
                             | Some api \<Rightarrow>
                                 (case submit_tx E api (cc_keyring c3) opts nonce ext1 w2 of
                                    (Inl err, w3) \<Rightarrow> (('''', Some (Wrapped tx_msg err)), c3, w3)
                                  | (Inr sub, w3) \<Rightarrow> (watch_tx E w3 api (cc_keyEvents c3) callback sub, c3, w3)))))))"

section \<open>The contract methods\<close>

definition ink_value ::
  "string \<Rightarrow> (int \<Rightarrow> (string \<times> goerr option) \<times> 'c \<times> 'w) \<Rightarrow> 'c \<Rightarrow> 'w \<Rightarrow> (string \<times> goerr option) \<times> 'c \<times> 'w" where
  "ink_value value f c w = (case big_SetString value of None \<Rightarrow> (('''', Some (Errorf ''bad value'')), c, w) | Some v \<Rightarrow> f v)"

definition ink_Staking where
  "ink_Staking E w c nodeAcc tokenAcc tokenId peerId sign value =
     ink_value value (\<lambda>v. SubmitExtrinsic E w c (PROTO_CONTRACT_NAME @ METHOD_STAKING) (\<lambda>ev. length (ev_MintToken ev) > 0)
       [AccountArg nodeAcc, AccountArg tokenAcc, BytesArg tokenId, BytesArg peerId, BytesArg sign, BigArg v]) c w"

definition ink_CacheOrderPayment where
  "ink_CacheOrderPayment E w c nodeAcc value =
     ink_value value (\<lambda>v. SubmitExtrinsic E w c (PROTO_CONTRACT_NAME @ METHOD_CACHE_ORDER_PAYMENT) (\<lambda>ev. length (ev_Staking ev) > 0)
       [AccountArg nodeAcc, BigArg v]) c w"

definition ink_OrderClaim where
  "ink_OrderClaim E w c orderId =
     SubmitExtrinsic E w c (PROTO_CONTRACT_NAME @ METHOD_ORDER_CLAIM) (\<lambda>ev. length (ev_OrderInfo ev) > 0) [BytesArg orderId]"

definition ink_CalimReward where
  "ink_CalimReward E w c = SubmitExtrinsic E w c (PROTO_CONTRACT_NAME @ METHOD_CLAIM_REWARD) (\<lambda>ev. length (ev_Claim ev) > 0) []"

definition ink_Exit where
  "ink_Exit E w c = SubmitExtrinsic E w c (PROTO_CONTRACT_NAME @ METHOD_EXIT) (\<lambda>ev. length (ev_Exit ev) > 0) []"

definition ink_IsTokenOwner where
  "ink_IsTokenOwner E w c acc tokenId =
     SubmitExtrinsic E w c (PROTO_CONTRACT_NAME @ METHOD_IS_TOKEN_OWNER) (\<lambda>ev. length (ev_NodeInfo ev) > 0) [AccountArg acc, BytesArg tokenId]"

definition ink_MintToken where
  "ink_MintToken E w c value =
     ink_value value (\<lambda>v. SubmitExtrinsic E w c (TOKEN_CONTRACT_NAME @ METHOD_MINT_TOKEN) (\<lambda>ev. length (ev_MintToken ev) > 0) [BigArg v]) c w"

definition ink_Withdraw where
  "ink_Withdraw E w c = SubmitExtrinsic E w c (TOKEN_CONTRACT_NAME @ METHOD_WITHDRAW) (\<lambda>ev. True) []"

definition ink_TransferFrom where
  "ink_TransferFrom E w c tokenId dest =
     SubmitExtrinsic E w c (TOKEN_CONTRACT_NAME @ METHOD_WITHDRAW) (\<lambda>ev. True) [BytesArg tokenId, AccountArg dest]"

definition ink_GetOwnerOf where
  "ink_GetOwnerOf E w c tokenId =
     SubmitExtrinsic E w c (TOKEN_CONTRACT_NAME @ METHOD_WITHDRAW) (\<lambda>ev. length (ev_Owner_of ev) > 0) [BytesArg tokenId]"

section \<open>Laws\<close>

lemma resubmit_count:
  assumes "\<And>w a x. cnt (snd (ie_SubmitAndWatch E w a x)) \<le> Suc (cnt w)"
  shows "resubmit E api kr opts nonce k err ext w = (res, w') \<Longrightarrow> cnt w' \<le> cnt w + k"
proof (induction k arbitrary: err ext w)
  case (Suc k)
  show ?case
  proof (cases "ie_Sign E ext kr (opts\<lparr>so_Nonce := ucast (nonce + 1)\<rparr>)")
    case (Inl e)
    then show ?thesis using Suc.prems by simp
  next
    case (Inr ext1)
    obtain r w1 where s: "ie_SubmitAndWatch E w api ext1 = (r, w1)" by fastforce
    then have "cnt w1 \<le> Suc (cnt w)" using assms [of w api ext1] by simp
    then show ?thesis using Suc.prems Suc.IH [of _ ext1 w1] Inr s by (cases r) fastforce+
  qed
qed simp

lemma submit_tx_count:
  assumes "\<And>w a x. cnt (snd (ie_SubmitAndWatch E w a x)) \<le> Suc (cnt w)" and "submit_tx E api kr opts nonce ext w = (res, w')"
  shows "cnt w' \<le> cnt w + 21"
proof -
  obtain r w1 where s: "ie_SubmitAndWatch E w api ext = (r, w1)" by fastforce
  have w1: "cnt w1 \<le> Suc (cnt w)" using assms(1) [of w api ext] s by simp
  consider "w' = w1" | e where "resubmit E api kr opts nonce 20 e ext w1 = (res, w')"
    using assms(2) s by (cases r) (auto simp: submit_tx_def split: if_splits)
  then show ?thesis
  proof cases
    case 2
    then show ?thesis using resubmit_count [of cnt E, OF assms(1) 2] w1 by simp
  qed (use w1 in simp)
qed

text \<open>The connection is the only thing that reading the chain and the health check change.\<close>

lemma IsChainClientOk_count:
  assumes "\<And>w r. cnt (snd (ie_NewSubstrateAPI E w r)) = cnt w" and "IsChainClientOk E w c = (ok, c', w')"
  shows "cnt w' = cnt w"
  using assms(1) [of w "cc_rpcAddr c"] assms(2)
  by (auto simp: IsChainClientOk_def reconnectChainClient_def split: option.splits sum.splits prod.splits)

lemma GetAccountInfo_count:
  assumes "\<And>w r. cnt (snd (ie_NewSubstrateAPI E w r)) = cnt w" and "GetAccountInfo E w c = (r, c', w')"
  shows "cnt w' = cnt w"
proof -
  obtain ok c1 w1 where i: "IsChainClientOk E w c = (ok, c1, w1)" by (metis prod_cases3)
  have "cnt w1 = cnt w" by (rule IsChainClientOk_count [OF assms(1) i])
  moreover have "w' = w1"
    using assms(2) i by (cases ok) (auto simp: GetAccountInfo_def GetStorageFromChain_def Let_def split: prod.splits)
  ultimately show ?thesis by simp
qed

text \<open>A chain in memory: the state counts the submissions; a connection can be unhealthy and the address gone, and
  only two calls, one pallet and one key are known.\<close>

definition mem_ink :: "(bool, unit, string, string, nat) ink_env" where
  "mem_ink = \<lparr>ie_NewSubstrateAPI = (\<lambda>w r. if r = ''gone'' then (Inl (Errorf ''dial''), w) else (Inr True, w)),
     ie_Health = (\<lambda>w a. if a then Inr False else Inl (Errorf ''closed'')), ie_GetMetadataLatest = (\<lambda>w a. Inr ()),
     ie_GetBlockHash = (\<lambda>w a n. Inr [0]), ie_GetRuntimeVersionLatest = (\<lambda>w a. Inr (1, 1)),
     ie_CreateStorageKey = (\<lambda>m p q as. if p = ''System'' then Inr [1] else Inl (Errorf ''unknown module'')), ie_KeyringPairFromSecret = Inr, ie_PublicKey = string_bytes,
     ie_GetStorageLatest = (\<lambda>w a k. Inr (Some 7)), ie_NewCall = (\<lambda>m f as. if f \<in> {''CacheToken.withdraw'', ''CacheProtocol.claim''} then Inr f else Inl (Errorf ''unknown call'')),
     ie_Sign = (\<lambda>x k opts. if k = Some ''k'' then Inr x else Inl (Errorf ''no key'')),
     ie_SubmitAndWatch = (\<lambda>w a x. (Inl (Errorf ''Priority is too low''), w + 1)),
     ie_GetStorageRaw = (\<lambda>w a k b. Inl (Errorf ''none'')), ie_NewAccountID = Inr, ie_EncodeAccount = (\<lambda>b. Inr '''')\<rparr>"

definition mem_ink_client :: "(bool, unit, string) chainClient" where
  "mem_ink_client = \<lparr>cc_api = Some False, cc_chainState = True, cc_metadata = (), cc_runtimeVersion = (1, 1), cc_keyEvents = [],
     cc_genesisHash = [], cc_keyring = Some ''k'', cc_rpcAddr = ''gone'', cc_IncomeAcc = '''', cc_timeForBlockOut = 15\<rparr>"

section \<open>Properties\<close>

text \<open>C35: A client that lost its connection reports success: when the node does not answer the health check and
  cannot be dialled again, the submission that notices it fails with a connection error. From then on every submission
  returns no error, an empty transaction hash and an unchanged chain, because the panic on the missing
  connection is taken for a healthy one and then recovered; this holds of every call that the
  client's metadata know and its key can sign, for an account whose storage key the metadata give.\<close>

theorem ink_lost_connection_succeeds:
  assumes "cc_api c = Some api" and "ie_Health E w api = Inl e" and "ie_NewSubstrateAPI E w (cc_rpcAddr c) = (Inl ed, w1)"
    and "ie_CreateStorageKey E (cc_metadata c) ''System'' ''Account'' [ink_GetPublicKey E c] = Inr k"
  shows "\<exists>c1 c2. SubmitExtrinsic E w c method callback args = (('''', Some (Wrapped tx_msg ERR_RPC_CONNECTION)), c1, w1) \<and>
    (\<forall>w2 method2 callback2 args2 ext ext1. ie_NewCall E (cc_metadata c) method2 args2 = Inr ext \<and>
        ie_Sign E ext (cc_keyring c) \<lparr>so_BlockHash = cc_genesisHash c, so_GenesisHash = cc_genesisHash c, so_Nonce = 0,
          so_SpecVersion = fst (cc_runtimeVersion c), so_Tip = 0, so_TransactionVersion = snd (cc_runtimeVersion c)\<rparr> = Inr ext1 \<longrightarrow>
      SubmitExtrinsic E w2 c1 method2 callback2 args2 = (('''', None), c2, w2) \<and>
      SubmitExtrinsic E w2 c2 method2 callback2 args2 = (('''', None), c2, w2))"
proof -
  let ?c1 = "c\<lparr>cc_api := None, cc_chainState := False\<rparr>" and ?c2 = "c\<lparr>cc_api := None, cc_chainState := True\<rparr>"
  have "SubmitExtrinsic E w c method callback args = (('''', Some (Wrapped tx_msg ERR_RPC_CONNECTION)), ?c1, w1)"
    using assms(1-3) by (simp add: SubmitExtrinsic_def IsChainClientOk_def healthchek_def reconnectChainClient_def SetChainState_def)
  moreover have ok: "IsChainClientOk E w2 d = (True, d, w2)" if "cc_api d = None" for w2 and d :: "('a, 'b, 'c) chainClient"
    using that by (simp add: IsChainClientOk_def healthchek_def)
  have acc: "GetAccountInfo E w2 ?c2 = ((0, None), ?c2, w2)" for w2
    using assms(4) ok [of ?c2 w2] by (simp add: GetAccountInfo_def GetStorageFromChain_def SetChainState_def ink_GetPublicKey_def)
  ultimately show ?thesis
    using ok [of ?c1] ok [of ?c2] by (intro exI [of _ ?c1] exI [of _ ?c2]) (auto simp: SubmitExtrinsic_def SetChainState_def Let_def)
qed

theorem ink_lost_connection_succeeds_witness:
  "\<exists>c1 c2. SubmitExtrinsic mem_ink 0 mem_ink_client ''CacheToken.withdraw'' (\<lambda>ev. True) [] =
      (('''', Some (Wrapped tx_msg ERR_RPC_CONNECTION)), c1, 0) \<and>
    SubmitExtrinsic mem_ink 5 c1 ''CacheProtocol.claim'' (\<lambda>ev. False) [] = (('''', None), c2, 5) \<and>
    SubmitExtrinsic mem_ink 5 c2 ''CacheProtocol.claim'' (\<lambda>ev. False) [] = (('''', None), c2, 5)"
proof -
  have "\<exists>ext ext1. ie_NewCall mem_ink (cc_metadata mem_ink_client) ''CacheProtocol.claim'' [] = Inr ext \<and>
      ie_Sign mem_ink ext (cc_keyring mem_ink_client) \<lparr>so_BlockHash = cc_genesisHash mem_ink_client, so_GenesisHash = cc_genesisHash mem_ink_client, so_Nonce = 0,
        so_SpecVersion = fst (cc_runtimeVersion mem_ink_client), so_Tip = 0, so_TransactionVersion = snd (cc_runtimeVersion mem_ink_client)\<rparr> = Inr ext1"
    by (simp add: mem_ink_def mem_ink_client_def)
  moreover have "cc_api mem_ink_client = Some False" "ie_Health mem_ink 0 False = Inl (Errorf ''closed'')"
    "ie_NewSubstrateAPI mem_ink 0 (cc_rpcAddr mem_ink_client) = (Inl (Errorf ''dial''), 0)"
    "ie_CreateStorageKey mem_ink (cc_metadata mem_ink_client) ''System'' ''Account'' [ink_GetPublicKey mem_ink mem_ink_client] = Inr [1]"
    by (simp_all add: mem_ink_def mem_ink_client_def)
  note ink_lost_connection_succeeds [OF this, of "''CacheToken.withdraw''" "\<lambda>ev. True" "[]"]
  ultimately show ?thesis by meson
qed

text \<open>One call submits its extrinsic at most 21 times: once, and at most twenty times more when the
  node says that its priority is too low.\<close>

theorem ink_submissions_bounded:
  assumes "\<And>w a x. cnt (snd (ie_SubmitAndWatch E w a x)) \<le> Suc (cnt w)" and "\<And>w r. cnt (snd (ie_NewSubstrateAPI E w r)) = cnt w"
    and "SubmitExtrinsic E w c method callback args = (res, c', w')"
  shows "cnt w' \<le> cnt w + 21"
proof -
  obtain ok c1 w1 where i: "IsChainClientOk E w c = (ok, c1, w1)" by (metis prod_cases3)
  obtain r c3 w2 where g: "GetAccountInfo E w1 (SetChainState True c1) = (r, c3, w2)" by (metis prod_cases3)
  obtain nonce err where r: "r = (nonce, err)" by fastforce
  have n: "cnt w1 = cnt w" "cnt w2 = cnt w1"
    by (rule IsChainClientOk_count [OF assms(2) i], rule GetAccountInfo_count [OF assms(2) g])
  let ?opts = "\<lparr>so_BlockHash = cc_genesisHash c3, so_GenesisHash = cc_genesisHash c3, so_Nonce = ucast nonce,
     so_SpecVersion = fst (cc_runtimeVersion c3), so_Tip = 0, so_TransactionVersion = snd (cc_runtimeVersion c3)\<rparr>"
  consider "w' = w1" | "w' = w2" | api x res where "submit_tx E api (cc_keyring c3) ?opts nonce x w2 = (res, w')"
  proof (cases ok; cases "ie_NewCall E (cc_metadata (SetChainState True c1)) method args"; cases err)
    fix ext assume 1: "ok" "ie_NewCall E (cc_metadata (SetChainState True c1)) method args = Inr ext" "err = None"
    show thesis
    proof (cases "ie_Sign E ext (cc_keyring c3) ?opts"; cases "cc_api c3")
      fix x api assume 2: "ie_Sign E ext (cc_keyring c3) ?opts = Inr x" "cc_api c3 = Some api"
      obtain sub w3 where s: "submit_tx E api (cc_keyring c3) ?opts nonce x w2 = (sub, w3)" by fastforce
      then have "w' = w3" using assms(3) i g r 1 2 by (cases sub) (simp_all add: SubmitExtrinsic_def Let_def)
      then show thesis using s that(3) by blast
    qed (use assms(3) i g r 1 that(2) in \<open>simp_all add: SubmitExtrinsic_def Let_def\<close>)
  qed (use assms(3) i g r that(1,2) in \<open>simp_all add: SubmitExtrinsic_def Let_def\<close>)
  then show ?thesis
  proof cases
    case 3
    then show ?thesis using submit_tx_count [of cnt E, OF assms(1) 3] n by simp
  qed (use n in simp_all)
qed

theorem ink_submissions_bounded_witness:
  "\<exists>res c' w'. SubmitExtrinsic mem_ink 0 (mem_ink_client\<lparr>cc_api := Some True\<rparr>) ''CacheProtocol.claim'' (\<lambda>ev. True) [] = (res, c', w') \<and> w' \<le> 21"
proof -
  obtain res c' w' where r: "SubmitExtrinsic mem_ink 0 (mem_ink_client\<lparr>cc_api := Some True\<rparr>) ''CacheProtocol.claim'' (\<lambda>ev. True) [] = (res, c', w')"
    by (metis prod_cases3)
  have "id w' \<le> id 0 + 21" by (rule ink_submissions_bounded [OF _ _ r]) (simp_all add: mem_ink_def)
  then show ?thesis using r by simp
qed

end
