(* ===== verification/Node_Config.thy ===== *)
theory Node_Config
  imports Cdn_Io
begin

text \<open>
  \<open>cd2n-lib/config/config.go\<close>: the configuration of a cache node, its defaults, and the directories it
  creates. The package variables \<open>_default\<close> and \<open>TempDir\<close> are the state. The viper library is
  a parameter: reading a file, and decoding it into a configuration that keeps the fields the file does
  not mention.
\<close>

section \<open>Data\<close>

definition DEFAULT_CONFIG_PATH :: string where "DEFAULT_CONFIG_PATH = ''./config.yaml''"
definition DEFAULT_CACHE_PATH :: string where "DEFAULT_CACHE_PATH = ''./cache/''"
definition DEFAULT_P2P_WORKSPACE :: string where "DEFAULT_P2P_WORKSPACE = ''./cdn_node/cache_p2p''"
definition DEFAULT_CACHE_PRICE :: string where "DEFAULT_CACHE_PRICE = ''10000000000000000''"
definition DEFAULT_DOWNLOAD_POINT :: int where "DEFAULT_DOWNLOAD_POINT = 4"

record CessChainConfig =
  cg_Rpc :: "string list"
  cg_Network :: string
  cg_Mnemonic :: string

record P2PConfig =
  pg_Boots :: "string list"
  pg_P2PPort :: int
  pg_WorkSpace :: string

record CacherConfig =
  kg_CachePrice :: string
  kg_CacheDir :: string
  kg_Expiration :: i64
  kg_CacheSize :: i64
  kg_FreeDownloads :: int

record CdnProtoConfig =
  tg_ChainId :: i64
  tg_Staking :: string
  tg_GasFreeCap :: i64
  tg_GasLimit :: u64
  tg_TokenContract :: string
  tg_ProtoContract :: string
  tg_NodeTokenId :: string
  tg_NodeAccPrivateKey :: string
  tg_TokenAccAddress :: string
  tg_TokenAccSign :: string

record DefaultConfig =
  df_Chain :: CessChainConfig
  df_ResrcP2P :: P2PConfig
  df_CacheP2P :: P2PConfig
  df_Cacher :: CacherConfig
  df_Proto :: CdnProtoConfig
  df_NodeWorkSpace :: string
  df_ActorSvcPort :: int

text \<open>The package variables.\<close>

record config_state =
  cs_default :: DefaultConfig
  cs_TempDir :: string

definition config_init :: config_state where
  "config_init = \<lparr>cs_default = \<lparr>df_Chain = \<lparr>cg_Rpc = [], cg_Network = '''', cg_Mnemonic = ''''\<rparr>,
      df_ResrcP2P = \<lparr>pg_Boots = [], pg_P2PPort = 0, pg_WorkSpace = ''''\<rparr>,
      df_CacheP2P = \<lparr>pg_Boots = [], pg_P2PPort = 0, pg_WorkSpace = ''''\<rparr>,
      df_Cacher = \<lparr>kg_CachePrice = '''', kg_CacheDir = '''', kg_Expiration = 0, kg_CacheSize = 0, kg_FreeDownloads = 0\<rparr>,
      df_Proto = \<lparr>tg_ChainId = 0, tg_Staking = '''', tg_GasFreeCap = 0, tg_GasLimit = 0, tg_TokenContract = '''',
        tg_ProtoContract = '''', tg_NodeTokenId = '''', tg_NodeAccPrivateKey = '''', tg_TokenAccAddress = '''', tg_TokenAccSign = ''''\<rparr>,
      df_NodeWorkSpace = '''', df_ActorSvcPort = 0\<rparr>, cs_TempDir = ''./cdn_node/temp/''\<rparr>"

record 'c viper =
  vp_ReadInConfig :: "string \<Rightarrow> string \<Rightarrow> goerr option"
  vp_Unmarshal :: "string \<Rightarrow> string \<Rightarrow> 'c \<Rightarrow> 'c \<times> goerr option"

definition GetConfig :: "config_state \<Rightarrow> DefaultConfig" where
  "GetConfig s = cs_default s"

section \<open>Parsing\<close>

definition ParseCommonConfig :: "'c viper \<Rightarrow> string \<Rightarrow> string \<Rightarrow> 'c \<Rightarrow> 'c \<times> goerr option" where
  "ParseCommonConfig V fpath ctype config =
     (let fpath1 = (if fpath = '''' then DEFAULT_CONFIG_PATH else fpath); msg = ''parse config file error'' in
      case vp_ReadInConfig V fpath1 ctype of
        Some err \<Rightarrow> (config, Some (Wrapped msg err))
      | None \<Rightarrow> (case vp_Unmarshal V fpath1 ctype config of (config1, err) \<Rightarrow> (config1, errors_Wrap err msg)))"

text \<open>The assignments of defaults, in the order of the code.\<close>

definition fix_cacher :: "CacherConfig \<Rightarrow> CacherConfig" where
  "fix_cacher k =
     (let size = 32 * 1024 * 1024 * 1024;
          k1 = (if kg_CacheSize k \<le>s size then k\<lparr>kg_CacheSize := size\<rparr> else k)
      in if kg_Expiration k1 \<le>s 0 \<or> 7 * 24 * 60 <s kg_Expiration k1 then k1\<lparr>kg_Expiration := 3 * 60\<rparr> else k1)"

definition fix_workspaces :: "config_state \<Rightarrow> config_state" where
  "fix_workspaces s =
     (let d = cs_default s;
          s1 = (if df_NodeWorkSpace d = '''' then s\<lparr>cs_default := d\<lparr>df_NodeWorkSpace := DEFAULT_CACHE_PATH\<rparr>\<rparr>
                else s\<lparr>cs_TempDir := path_Join [df_NodeWorkSpace d, ''temp'']\<rparr>);
          d1 = cs_default s1; ws = df_NodeWorkSpace d1;
          k = df_Cacher d1; k1 = (if kg_CacheDir k = '''' then k\<lparr>kg_CacheDir := DEFAULT_CACHE_PATH\<rparr> else k);
          k2 = k1\<lparr>kg_CacheDir := path_Join [ws, kg_CacheDir k1]\<rparr>;
          p = df_CacheP2P d1; p1 = (if pg_WorkSpace p = '''' then p\<lparr>pg_WorkSpace := DEFAULT_P2P_WORKSPACE\<rparr> else p);
          p2 = p1\<lparr>pg_WorkSpace := path_Join [ws, pg_WorkSpace p1]\<rparr>;
          r = df_ResrcP2P d1; r1 = (if pg_WorkSpace r = '''' then r\<lparr>pg_WorkSpace := ''./resource_p2p''\<rparr> else r);
          r2 = r1\<lparr>pg_WorkSpace := path_Join [ws, pg_WorkSpace r1]\<rparr>
      in s1\<lparr>cs_default := d1\<lparr>df_Cacher := k2, df_CacheP2P := p2, df_ResrcP2P := r2\<rparr>\<rparr>)"

definition fix_service :: "DefaultConfig \<Rightarrow> DefaultConfig" where
  "fix_service d =
     (let k = df_Cacher d; k1 = (if kg_CachePrice k = '''' then k\<lparr>kg_CachePrice := DEFAULT_CACHE_PRICE\<rparr> else k);
          k2 = (if kg_FreeDownloads k1 = 0 then k1\<lparr>kg_FreeDownloads := DEFAULT_DOWNLOAD_POINT\<rparr> else k1);
          d1 = d\<lparr>df_Cacher := k2\<rparr>
      in if df_ActorSvcPort d1 = 0 then d1\<lparr>df_ActorSvcPort := 8080\<rparr> else d1)"

fun make_dirs :: "io_oracle \<Rightarrow> fs \<Rightarrow> string list \<Rightarrow> fs \<times> goerr option" where
  "make_dirs io fs [] = (fs, None)"
| "make_dirs io fs (p # ps) =
     (case os_Stat io fs p of
        Inr _ \<Rightarrow> make_dirs io fs ps
      | Inl err \<Rightarrow>
          (case os_MkdirAll io fs p of
             (fs1, Some err) \<Rightarrow> (fs1, Some (Wrapped ''parse default config file error'' err))
           | (fs1, None) \<Rightarrow> make_dirs io fs1 ps))"

definition ParseDefaultConfig ::
  "DefaultConfig viper \<Rightarrow> io_oracle \<Rightarrow> config_state \<Rightarrow> fs \<Rightarrow> string \<Rightarrow> goerr option \<times> config_state \<times> fs" where
  "ParseDefaultConfig V io s fs fpath =
     (case ParseCommonConfig V fpath ''yaml'' (cs_default s) of
        (d, Some err) \<Rightarrow> (Some err, s\<lparr>cs_default := d\<rparr>, fs)
      | (d, None) \<Rightarrow>
          (let s1 = s\<lparr>cs_default := d\<lparr>df_Cacher := fix_cacher (df_Cacher d)\<rparr>\<rparr>;
               s2 = fix_workspaces s1;
               s3 = s2\<lparr>cs_default := fix_service (cs_default s2)\<rparr>; d3 = cs_default s3
           in case make_dirs io fs [kg_CacheDir (df_Cacher d3), pg_WorkSpace (df_CacheP2P d3),
                                    pg_WorkSpace (df_ResrcP2P d3), cs_TempDir s3] of
                (fs1, err) \<Rightarrow> (err, s3, fs1)))"

section \<open>Laws\<close>

text \<open>Exactly the missing paths become directories.\<close>

lemma make_dirs_exact: "make_dirs io fs ps = (fs', None) \<Longrightarrow> fs' q = (if q \<in> set ps \<and> fs q = None then Some Dir else fs q)"
proof (induction io fs ps arbitrary: fs' rule: make_dirs.induct)
  case (2 io fs p ps)
  show ?case
  proof (cases "os_Stat io fs p")
    case (Inr x)
    then have "fs p \<noteq> None" by (auto simp: os_Stat_def split: option.splits)
    moreover have "fs' q = (if q \<in> set ps \<and> fs q = None then Some Dir else fs q)"
      by (rule 2(2) [OF Inr]) (use 2(3) Inr in simp)
    ultimately show ?thesis by auto
  next
    case (Inl e)
    obtain fs1 r where m: "os_MkdirAll io fs p = (fs1, r)" by fastforce
    then have r: "r = None" using 2(3) Inl by (cases r) auto
    then have "fs1 q = (if q = p \<and> fs q = None then Some Dir else fs q)"
      using m by (auto simp: os_MkdirAll_def split: option.splits inode.splits)
    moreover have "fs' q = (if q \<in> set ps \<and> fs1 q = None then Some Dir else fs1 q)"
      by (rule 2(1) [OF Inl, of fs1 None]) (use 2(3) Inl m r in simp_all)
    ultimately show ?thesis by auto
  qed
qed simp

lemma make_dirs_ok: "\<forall>p bs. fs p \<noteq> Some (File bs) \<Longrightarrow> \<exists>fs'. make_dirs (\<lambda>op p. None) fs ps = (fs', None)"
proof (induction ps arbitrary: fs)
  case (Cons p ps)
  show ?case
  proof (cases "fs p")
    case None
    have "\<exists>fs'. make_dirs (\<lambda>op p. None) (fs(p \<mapsto> Dir)) ps = (fs', None)"
      by (rule Cons.IH) (use Cons.prems in simp)
    then show ?thesis using None by (simp add: os_Stat_def os_MkdirAll_def)
  next
    case (Some x)
    then show ?thesis using Cons.IH [OF Cons.prems] by (simp add: os_Stat_def)
  qed
qed simp

lemma fix_cacher_values:
  "sint (kg_CacheSize (fix_cacher k)) = max (32 * 2 ^ 30) (sint (kg_CacheSize k))"
  "sint (kg_Expiration (fix_cacher k)) = (if 0 < sint (kg_Expiration k) \<and> sint (kg_Expiration k) \<le> 10080 then sint (kg_Expiration k) else 180)"
  by (auto simp: fix_cacher_def Let_def word_sle_eq word_sless_alt)

text \<open>The fields that the defaults of the directories and of the service set, and those they leave.\<close>

lemma workspace_fields:
  "cs_TempDir (fix_workspaces s) = (if df_NodeWorkSpace (cs_default s) = '''' then cs_TempDir s else path_Join [df_NodeWorkSpace (cs_default s), ''temp''])"
  "df_NodeWorkSpace (cs_default (fix_workspaces s)) = (if df_NodeWorkSpace (cs_default s) = '''' then DEFAULT_CACHE_PATH else df_NodeWorkSpace (cs_default s))"
  "kg_CacheDir (df_Cacher (cs_default (fix_workspaces s))) =
     path_Join [df_NodeWorkSpace (cs_default (fix_workspaces s)),
       if kg_CacheDir (df_Cacher (cs_default s)) = '''' then DEFAULT_CACHE_PATH else kg_CacheDir (df_Cacher (cs_default s))]"
  "pg_WorkSpace (df_CacheP2P (cs_default (fix_workspaces s))) =
     path_Join [df_NodeWorkSpace (cs_default (fix_workspaces s)),
       if pg_WorkSpace (df_CacheP2P (cs_default s)) = '''' then DEFAULT_P2P_WORKSPACE else pg_WorkSpace (df_CacheP2P (cs_default s))]"
  "pg_WorkSpace (df_ResrcP2P (cs_default (fix_workspaces s))) =
     path_Join [df_NodeWorkSpace (cs_default (fix_workspaces s)),
       if pg_WorkSpace (df_ResrcP2P (cs_default s)) = '''' then ''./resource_p2p'' else pg_WorkSpace (df_ResrcP2P (cs_default s))]"
  "pg_Boots (df_CacheP2P (cs_default (fix_workspaces s))) = pg_Boots (df_CacheP2P (cs_default s))"
  "df_Chain (cs_default (fix_workspaces s)) = df_Chain (cs_default s)" "df_Proto (cs_default (fix_workspaces s)) = df_Proto (cs_default s)"
  by (simp_all add: fix_workspaces_def Let_def)

lemma service_fields:
  "kg_CacheDir (df_Cacher (fix_service d)) = kg_CacheDir (df_Cacher d)" "df_CacheP2P (fix_service d) = df_CacheP2P d"
  "df_ResrcP2P (fix_service d) = df_ResrcP2P d" "df_Chain (fix_service d) = df_Chain d" "df_Proto (fix_service d) = df_Proto d"
  by (simp_all add: fix_service_def Let_def)

text \<open>A node in memory for the witness.\<close>

definition mem_viper :: "DefaultConfig viper" where
  "mem_viper = \<lparr>vp_ReadInConfig = (\<lambda>p t. None), vp_Unmarshal = (\<lambda>p t c. (c\<lparr>df_NodeWorkSpace := ''/w''\<rparr>, None))\<rparr>"

section \<open>Properties\<close>



end
