(* ===== verification/Node_P2p.thy ===== *)
theory Node_P2p
  imports Cdn_Lib
begin

text \<open>
  \<open>cd2n-lib/p2p\<close> (\<open>p2p.go\<close>, \<open>discovery.go\<close>) and the two \<open>RunDiscovery\<close> functions that use it: the identity of a
  node, the addresses of its boot nodes, joining the network, and the flow of discovered peers into the
  peer selectors of the resource actor and of the client.

  libp2p, DNS and JSON are parameters. A discovery loop is a function of the events that its \<open>select\<close>
  sees; it delivers peers to a channel, and what it has delivered is a list.
\<close>

section \<open>Parameters\<close>

text \<open>
  The options of a host that the programs choose: the identity and the addresses to listen on. \<open>pn_NewHost\<close> is \<open>libp2p.New\<close> with the
  protocol version and these options; the transports and the security of \<open>NewPeerNode\<close> are always the same.
\<close>

datatype 'k host_option = Identity 'k | ListenAddrStrings string

text \<open>The listen address that the programs make of a port.\<close>

definition listen_addr :: "int \<Rightarrow> string" where
  "listen_addr port = ''/ip4/0.0.0.0/tcp/'' @ big_String port"

record ('m, 'i, 'k, 'h, 'd) p2p_env =
  pn_NewMultiaddr :: "string \<Rightarrow> 'm or_err"
  pn_AddrInfoFromP2pAddr :: "'m \<Rightarrow> 'i or_err"
  pn_LookupTXT :: "string \<Rightarrow> string list or_err"
  pn_GenerateKey :: "nat \<Rightarrow> 'k or_err"
  pn_Raw :: "'k \<Rightarrow> bytes or_err"
  pn_UnmarshalKey :: "bytes \<Rightarrow> 'k or_err"
  pn_NewHost :: "string \<Rightarrow> 'k host_option list \<Rightarrow> 'h or_err"
  pn_Connect :: "'h \<Rightarrow> 'i \<Rightarrow> 'h"
  pn_NewDHT :: "'h \<Rightarrow> string \<Rightarrow> string \<Rightarrow> 'i list \<Rightarrow> 'd or_err"
  pn_Bootstrap :: "'d \<Rightarrow> goerr option"

section \<open>Joining the network\<close>

definition dns_addr :: "string \<Rightarrow> bool" where
  "dns_addr v = (strings_Contains v ''ip4'' \<and> strings_Contains v ''tcp'')"

text \<open>The loop that collects the names to resolve: the first component of each record that contains the domain.\<close>

fun real_dns :: "string \<Rightarrow> string list \<Rightarrow> string list" where
  "real_dns domainname [] = []"
| "real_dns domainname (v # vs) =
     (case find (\<lambda>vv. strings_Contains vv domainname) (split_on (CHR ''/'') v) of
        None \<Rightarrow> real_dns domainname vs
      | Some vv \<Rightarrow> vv # real_dns domainname vs)"

fun resolve_dns :: "(string \<Rightarrow> string list or_err) \<Rightarrow> string list \<Rightarrow> string list" where
  "resolve_dns lookup [] = []"
| "resolve_dns lookup (v # vs) =
     (case lookup (''_dnsaddr.'' @ v) of
        Inl err \<Rightarrow> resolve_dns lookup vs
      | Inr dnses \<Rightarrow>
          map (\<lambda>d. strings_TrimPrefix d ''dnsaddr='') (filter (\<lambda>d. dns_addr d \<and> count_list d (CHR ''='') = 1) dnses)
            @ resolve_dns lookup vs)"

text \<open>A name without a dot that resolves makes the index of its last but one label negative: a panic.\<close>

definition ParseMultiaddrs ::
  "('m, 'i, 'k, 'h, 'd) p2p_env \<Rightarrow> string \<Rightarrow> (string list \<times> goerr option) option" where
  "ParseMultiaddrs N domain =
     (let direct = (case pn_NewMultiaddr N domain of
                      Inl err \<Rightarrow> False
                    | Inr addr \<Rightarrow> (case pn_AddrInfoFromP2pAddr N addr of Inl err \<Rightarrow> False | Inr i \<Rightarrow> True))
      in if direct then Some ([domain], None)
         else (case pn_LookupTXT N domain of
            Inl err \<Rightarrow> Some ([], Some err)
          | Inr dnsnames \<Rightarrow>
              (let result = map (\<lambda>v. strings_TrimPrefix v ''dnsaddr='') (filter dns_addr dnsnames);
                   trims = split_on (CHR ''.'') domain
               in if length trims < 2 then None
                  else let domainname = trims ! (length trims - 2) @ ''.'' @ trims ! (length trims - 1)
                       in Some (result @ resolve_dns (pn_LookupTXT N) (real_dns domainname dnsnames), None))))"

fun boot_addrs ::
  "('m, 'i, 'k, 'h, 'd) p2p_env \<Rightarrow> 'h \<times> 'i list \<Rightarrow> string list \<Rightarrow> 'h \<times> 'i list" where
  "boot_addrs N st [] = st"
| "boot_addrs N (h, useful) (addr # addrs) =
     (case pn_NewMultiaddr N addr of
        Inl err \<Rightarrow> boot_addrs N (h, useful) addrs
      | Inr multiaddr \<Rightarrow>
          (case pn_AddrInfoFromP2pAddr N multiaddr of
             Inl err \<Rightarrow> boot_addrs N (h, useful) addrs
           | Inr addrInfo \<Rightarrow> boot_addrs N (pn_Connect N h addrInfo, useful @ [addrInfo]) addrs))"

fun boot_loop ::
  "('m, 'i, 'k, 'h, 'd) p2p_env \<Rightarrow> 'h \<times> 'i list \<Rightarrow> string list \<Rightarrow> ('h \<times> 'i list) option" where
  "boot_loop N st [] = Some st"
| "boot_loop N st (boot # boots) =
     (case ParseMultiaddrs N boot of
        None \<Rightarrow> None
      | Some (addrs, Some err) \<Rightarrow> boot_loop N st boots
      | Some (addrs, None) \<Rightarrow> boot_loop N (boot_addrs N st addrs) boots)"

definition NewPeerNode ::
  "('m, 'i, 'k, 'h, 'd) p2p_env \<Rightarrow> string \<Rightarrow> string \<Rightarrow> string list \<Rightarrow> 'k host_option list \<Rightarrow> ('h \<times> 'd) or_err option" where
  "NewPeerNode N network version boots opts =
     (let msg = ''new peer node error'' in
      case pn_NewHost N (network @ ''/protoco/'' @ version) opts of
        Inl err \<Rightarrow> Some (Inl (Wrapped msg err))
      | Inr host \<Rightarrow>
          (case boot_loop N (host, []) boots of
             None \<Rightarrow> None
           | Some (host1, usefulBoots) \<Rightarrow>
               (case pn_NewDHT N host1 network (''/dht/'' @ version) usefulBoots of
                  Inl err \<Rightarrow> Some (Inl (Wrapped msg err))
                | Inr ipfsDHT \<Rightarrow>
                    (case pn_Bootstrap N ipfsDHT of
                       Some err \<Rightarrow> Some (Inl (Wrapped msg err))
                     | None \<Rightarrow> Some (Inr (host1, ipfsDHT))))))"

text \<open>The key file: \<open>seed\<close> stands for what the random source delivers.\<close>

definition Identification ::
  "('m, 'i, 'k, 'h, 'd) p2p_env \<Rightarrow> io_oracle \<Rightarrow> nat \<Rightarrow> fs \<Rightarrow> string \<Rightarrow> 'k or_err \<times> fs" where
  "Identification N io seed fs fpath =
     (let make = (case pn_GenerateKey N seed of
             Inl err \<Rightarrow> (Inl err, fs)
           | Inr prvKey \<Rightarrow>
               (case pn_Raw N prvKey of
                  Inl err \<Rightarrow> (Inl err, fs)
                | Inr b \<Rightarrow>
                    (case os_Create io fs fpath of
                       (fs1, Some err) \<Rightarrow> (Inl err, fs1)
                     | (fs1, None) \<Rightarrow>
                         (case io ''write'' fpath of
                            Some err \<Rightarrow> (Inl err, fs1)
                          | None \<Rightarrow>
                              (let fs2 = file_Write io fs1 fpath b in
                               case io ''sync'' fpath of Some err \<Rightarrow> (Inl err, fs2) | None \<Rightarrow> (Inr prvKey, fs2))))))
      in case os_Stat io fs fpath of
           Inl err \<Rightarrow> make
         | Inr _ \<Rightarrow>
             (case os_ReadFile io fs fpath of
                Inl err \<Rightarrow> (Inl err, fs)
              | Inr content \<Rightarrow> (if length content > 0 then (pn_UnmarshalKey N content, fs) else make)))"

section \<open>Discovery\<close>

definition DISCOVERY_SERVICE_TAG :: string where "DISCOVERY_SERVICE_TAG = ''cess-cdn-pubsub''"
definition DISCOVERY_RENDEZVOUS :: string where "DISCOVERY_RENDEZVOUS = ''cess-cdn-cacher''"

definition HandlePeerFound :: "'i list \<Rightarrow> 'i \<Rightarrow> 'i list" where
  "HandlePeerFound sent info = sent @ [info]"

text \<open>What the loop of \<open>StartDiscoveryFromDHT\<close> sees: a tick with the peers found, or the end of the context. A run that has not ended has no result yet.\<close>

datatype 'i dht_event = DhtTick "'i list or_err" | DhtDone

fun dht_loop :: "('i \<Rightarrow> bool) \<Rightarrow> 'i list \<Rightarrow> 'i dht_event list \<Rightarrow> 'i list \<times> goerr option option" where
  "dht_loop self sent [] = (sent, None)"
| "dht_loop self sent (DhtDone # evs) = (sent, Some None)"
| "dht_loop self sent (DhtTick (Inl err) # evs) = (sent, Some (Some err))"
| "dht_loop self sent (DhtTick (Inr peers) # evs) = dht_loop self (sent @ filter (\<lambda>p. \<not> self p) peers) evs"

definition StartDiscoveryFromDHT :: "('i \<Rightarrow> bool) \<Rightarrow> 'i dht_event list \<Rightarrow> 'i list \<times> goerr option option" where
  "StartDiscoveryFromDHT self evs = dht_loop self [] evs"

text \<open>
  \<open>Subscribe\<close>: the errors of starting, joining and subscribing are wrapped and dropped; a missing
  topic or subscriber is then a \<open>nil\<close> pointer. A message updates the same variable each time.
\<close>

datatype 'b gossip_event = GossipTick "(string \<times> 'b) or_err" | GossipDone

record ('i, 'b) gossip_env =
  gs_NewGossipSub :: "goerr option"
  gs_Start :: "goerr option"
  gs_Join :: "goerr option"
  gs_SubscribeTopic :: "goerr option"
  gs_Self :: string
  gs_Unmarshal :: "'b \<Rightarrow> 'i \<Rightarrow> 'i \<times> goerr option"
  gs_HasID :: "'i \<Rightarrow> bool"

fun gossip_loop :: "('i, 'b) gossip_env \<Rightarrow> 'i \<Rightarrow> 'i list \<Rightarrow> 'b gossip_event list \<Rightarrow> 'i list \<times> goerr option option" where
  "gossip_loop G fpeer sent [] = (sent, None)"
| "gossip_loop G fpeer sent (GossipDone # evs) = (sent, Some None)"
| "gossip_loop G fpeer sent (GossipTick (Inl err) # evs) = gossip_loop G fpeer sent evs"
| "gossip_loop G fpeer sent (GossipTick (Inr (sender, data)) # evs) =
     (if sender = gs_Self G then gossip_loop G fpeer sent evs
      else (case gs_Unmarshal G data fpeer of
         (fpeer1, err) \<Rightarrow>
           (if err \<noteq> None \<or> \<not> gs_HasID G fpeer1 then gossip_loop G fpeer1 sent evs
            else gossip_loop G fpeer1 (sent @ [fpeer1]) evs)))"

definition Subscribe ::
  "('i, 'b) gossip_env \<Rightarrow> 'i \<Rightarrow> bool \<Rightarrow> 'b gossip_event list \<Rightarrow> ('i list \<times> goerr option option) option" where
  "Subscribe G zero recv_nil evs =
     (let msg = ''subscribe peer node error'' in
      if recv_nil then Some ([], Some (Some (Wrapped msg (Errorf ''empty receive channel''))))
      else (case gs_NewGossipSub G of
         Some err \<Rightarrow> Some ([], Some (Some (Wrapped msg err)))
       | None \<Rightarrow>
           (if gs_Join G \<noteq> None \<or> gs_SubscribeTopic G \<noteq> None then None
            else Some (gossip_loop G zero [] evs))))"

section \<open>Peers into the selectors\<close>

text \<open>The selector (\<open>scheduler.Selector\<close>) is a parameter; \<open>'s\<close> is its state. A flush may call the function it is given.\<close>

record ('s, 'n) selector =
  sr_Number :: "'s \<Rightarrow> nat"
  sr_Flush :: "'s \<Rightarrow> 'n \<Rightarrow> int \<Rightarrow> ('n \<Rightarrow> bool \<times> 'n) option \<Rightarrow> string \<Rightarrow> 's \<times> 'n"

definition dial_ok :: "'n net_env \<Rightarrow> string \<Rightarrow> 'n \<Rightarrow> bool \<times> 'n" where
  "dial_ok N p n = (case DailCacheNode N n p of ((resp, err), n1) \<Rightarrow> (err = None, n1))"

text \<open>The goroutine of the resource actor: one peer from the channel. An empty peer id is skipped.\<close>

definition resource_peer :: "('s, 'n) selector \<Rightarrow> 'n net_env \<Rightarrow> 's \<times> 'n \<Rightarrow> string \<Rightarrow> 's \<times> 'n" where
  "resource_peer R N st p =
     (case st of (s, n) \<Rightarrow> if length p = 0 then (s, n) else sr_Flush R s n (5 * 1000000000) (Some (dial_ok N p)) p)"

definition Resource_RunDiscovery ::
  "('s, 'n) selector \<Rightarrow> 'n net_env \<Rightarrow> 's \<times> 'n \<Rightarrow> (string \<Rightarrow> bool) \<Rightarrow> string dht_event list \<Rightarrow> goerr option option \<times> 's \<times> 'n" where
  "Resource_RunDiscovery R N st self evs =
     (case StartDiscoveryFromDHT self evs of
        (sent, res) \<Rightarrow> (map_option (\<lambda>err. errors_Wrap err ''run discovery service error'') res, foldl (resource_peer R N) st sent))"

text \<open>The goroutine of the client: storage peers and cache peers.\<close>

datatype found_peer = StoragePeer string | CachePeer string

record 'n cache_cli =
  ck_Connect :: "'n \<Rightarrow> string \<Rightarrow> goerr option \<times> 'n"
  ck_net :: "'n net_env"
  ck_MaxCacheNodeNum :: nat

definition client_peer ::
  "('s, 'n) selector \<Rightarrow> 'n cache_cli \<Rightarrow> ('s \<times> 's \<times> 'n) \<Rightarrow> found_peer \<Rightarrow> 's \<times> 's \<times> 'n" where
  "client_peer R K st found =
     (case st of (storages, cachers, n) \<Rightarrow>
      case found of
        StoragePeer p \<Rightarrow>
          (if length p = 0 then st
           else (case sr_Flush R storages n (5 * 1000000000) None p of (storages1, n1) \<Rightarrow> (storages1, cachers, n1)))
      | CachePeer p \<Rightarrow>
          (if length p = 0 then st
           else if sr_Number R cachers \<ge> ck_MaxCacheNodeNum K then st
           else (case ck_Connect K n p of
              (Some err, n1) \<Rightarrow> (storages, cachers, n1)
            | (None, n1) \<Rightarrow>
                (case sr_Flush R cachers n1 (15 * 1000000000) (Some (dial_ok (ck_net K) p)) p of
                   (cachers1, n2) \<Rightarrow> (storages, cachers1, n2)))))"

definition Client_RunDiscovery ::
  "('s, 'n) selector \<Rightarrow> 'n cache_cli \<Rightarrow> 's \<times> 's \<times> 'n \<Rightarrow> found_peer list \<Rightarrow> 's \<times> 's \<times> 'n" where
  "Client_RunDiscovery R K st founds = foldl (client_peer R K) st founds"

section \<open>Laws\<close>

lemma boot_addrs_app:
  "boot_addrs N (h, useful) addrs =
     (let is = concat (map (\<lambda>a. case pn_NewMultiaddr N a of Inl err \<Rightarrow> [] | Inr m \<Rightarrow>
                  (case pn_AddrInfoFromP2pAddr N m of Inl err \<Rightarrow> [] | Inr i \<Rightarrow> [i])) addrs)
      in (foldl (pn_Connect N) h is, useful @ is))"
  by (induction addrs arbitrary: h useful) (auto simp: Let_def split: sum.splits)

lemma boot_loop_connects:
  "boot_loop N (h, useful) boots = Some (h', useful') \<Longrightarrow> \<exists>is. useful' = useful @ is \<and> h' = foldl (pn_Connect N) h is"
proof (induction boots arbitrary: h useful)
  case (Cons b boots)
  then show ?case
    by (auto simp: boot_addrs_app Let_def split: option.splits) (metis append.assoc foldl_append)
qed simp

text \<open>Networks in memory for the witnesses.\<close>

definition mem_p2p :: "(string, string, string, string list, string list) p2p_env" where
  "mem_p2p = \<lparr>pn_NewMultiaddr = (\<lambda>s. if has_prefix s ''/ip4'' then Inr s else Inl (Errorf ''bad'')), pn_AddrInfoFromP2pAddr = Inr,
     pn_LookupTXT = (\<lambda>d. Inr []), pn_GenerateKey = (\<lambda>n. Inr ''key''), pn_Raw = (\<lambda>k. Inr [1, 2]), pn_UnmarshalKey = (\<lambda>b. Inr ''key''),
     pn_NewHost = (\<lambda>v opts. Inr []), pn_Connect = (\<lambda>h i. h @ [i]), pn_NewDHT = (\<lambda>h p v is. Inr is), pn_Bootstrap = (\<lambda>d. None)\<rparr>"

definition mem_selector :: "(nat, unit) selector" where
  "mem_selector = \<lparr>sr_Number = (\<lambda>s. s), sr_Flush = (\<lambda>s n t d p. (Suc s, n))\<rparr>"

text \<open>A key that was found or made is found again, and nothing but the key file changes.\<close>

lemma Identification_again:
  assumes "Identification N io seed fs fpath = (Inr key, fs1)" and "io ''stat'' fpath = None"
    and "io ''read'' fpath = None" and "\<And>k b. pn_Raw N k = Inr b \<Longrightarrow> b \<noteq> [] \<and> pn_UnmarshalKey N b = Inr k"
    and "pn_UnmarshalKey N2 = pn_UnmarshalKey N"
  shows "Identification N2 io seed2 fs1 fpath = (Inr key, fs1)"
proof -
  consider b where "pn_Raw N key = Inr b" "fs1 fpath = Some (File b)"
    | b where "fs1 fpath = Some (File b)" "b \<noteq> []" "pn_UnmarshalKey N b = Inr key"
    using assms(1-3)
    by (auto simp: Identification_def Let_def os_Stat_def os_ReadFile_def os_Create_def file_Write_def
        split: sum.splits option.splits prod.splits inode.splits if_splits)
  then obtain b where "fs1 fpath = Some (File b)" "b \<noteq> []" "pn_UnmarshalKey N b = Inr key"
    using assms(4) by metis
  then show ?thesis using assms(2,3,5) by (simp add: Identification_def os_Stat_def os_ReadFile_def Let_def)
qed

lemma Identification_frame:
  "Identification N io seed fs fpath = (Inr key, fs1) \<Longrightarrow> fs1 fpath \<noteq> None \<and> (\<forall>p. p \<noteq> fpath \<longrightarrow> fs1 p = fs p)"
  by (auto simp: Identification_def Let_def os_Stat_def os_ReadFile_def os_Create_def file_Write_def
      split: sum.splits option.splits prod.splits inode.splits if_splits)

section \<open>Properties\<close>

text \<open>The identity of a node persists: the key that a start generates and stores or finds is the key that
  every later start reads back, whatever the random source delivers then, and the key file stays as it is.\<close>

theorem Identification_persists:
  assumes "Identification N io seed fs fpath = (Inr key, fs1)" and "io ''stat'' fpath = None"
    and "io ''read'' fpath = None" and "\<And>k b. pn_Raw N k = Inr b \<Longrightarrow> b \<noteq> [] \<and> pn_UnmarshalKey N b = Inr k"
  shows "Identification N io seed2 fs1 fpath = (Inr key, fs1)"
  by (rule Identification_again [OF assms refl])

theorem Identification_persists_witness:
  "Identification mem_p2p (\<lambda>op p. None) 9 [''/k'' \<mapsto> File [1, 2]] ''/k'' = (Inr ''key'', [''/k'' \<mapsto> File [1, 2]])"
proof -
  have first: "Identification (mem_p2p\<lparr>pn_Raw := \<lambda>k. if k = ''key'' then Inr [1, 2] else Inl (Errorf ''none'')\<rparr>) (\<lambda>op p. None) 5 Map.empty ''/k'' =
      (Inr ''key'', [''/k'' \<mapsto> File [1, 2]])"
    by (simp add: Identification_def mem_p2p_def os_Stat_def os_Create_def file_Write_def)
  have "Identification (mem_p2p\<lparr>pn_Raw := \<lambda>k. if k = ''key'' then Inr [1, 2] else Inl (Errorf ''none'')\<rparr>) (\<lambda>op p. None) 9 [''/k'' \<mapsto> File [1, 2]] ''/k'' =
      (Inr ''key'', [''/k'' \<mapsto> File [1, 2]])"
    by (rule Identification_persists [OF first]) (auto simp: mem_p2p_def split: if_splits)
  then show ?thesis by (simp add: Identification_def mem_p2p_def os_Stat_def os_ReadFile_def)
qed

text \<open>The client never takes up more cache nodes than its limit: however many peers are discovered, in
  whatever order, the selector of cache nodes holds at most the limit, if it did before and a flush
  adds at most one node.\<close>

theorem client_cachers_bounded:
  assumes "Client_RunDiscovery R K (storages, cachers, n) founds = (storages', cachers', n')"
    and "sr_Number R cachers \<le> ck_MaxCacheNodeNum K" and "\<And>s n t d p. sr_Number R (fst (sr_Flush R s n t d p)) \<le> Suc (sr_Number R s)"
  shows "sr_Number R cachers' \<le> ck_MaxCacheNodeNum K"
  using assms(1,2) unfolding Client_RunDiscovery_def
proof (induction founds arbitrary: storages cachers n)
  case (Cons f founds)
  obtain s1 c1 n1 where f: "client_peer R K (storages, cachers, n) f = (s1, c1, n1)" by (metis prod_cases3)
  have "c1 = cachers \<or> (sr_Number R cachers < ck_MaxCacheNodeNum K \<and> (\<exists>m t d p m2. sr_Flush R cachers m t d p = (c1, m2)))"
  proof (cases f)
    case (StoragePeer p)
    then show ?thesis using f by (cases "sr_Flush R storages n (5 * 1000000000) None p") (auto simp: client_peer_def split: if_splits)
  next
    case (CachePeer p)
    obtain e m where "ck_Connect K n p = (e, m)" by fastforce
    moreover obtain c2 m2 where "sr_Flush R cachers m (15 * 1000000000) (Some (dial_ok (ck_net K) p)) p = (c2, m2)" by fastforce
    ultimately show ?thesis using f CachePeer by (cases e) (auto simp: client_peer_def not_le split: if_splits)
  qed
  then have "sr_Number R c1 \<le> ck_MaxCacheNodeNum K"
    using Cons.prems(2) assms(3) by (metis Suc_leI fst_conv le_trans)
  then show ?case using Cons f by simp
qed simp

theorem client_cachers_bounded_witness:
  "\<exists>s c n. Client_RunDiscovery mem_selector \<lparr>ck_Connect = \<lambda>n p. (None, n), ck_net = mem_net [], ck_MaxCacheNodeNum = 1\<rparr> (0, 0, ())
      [CachePeer ''a'', CachePeer ''b''] = (s, c, n) \<and> sr_Number mem_selector c \<le> 1"
proof -
  let ?K = "\<lparr>ck_Connect = \<lambda>n p. (None, n), ck_net = mem_net [], ck_MaxCacheNodeNum = 1\<rparr>"
  obtain s c n where r: "Client_RunDiscovery mem_selector ?K (0, 0, ()) [CachePeer ''a'', CachePeer ''b''] = (s, c, n)" by (metis prod_cases3)
  have "sr_Number mem_selector c \<le> ck_MaxCacheNodeNum ?K"
    by (rule client_cachers_bounded [OF r]) (simp_all add: mem_selector_def)
  then show ?thesis using r by simp
qed

text \<open>A node that joins the network connects to exactly the peers it bootstraps from, each once and in the
  order of its boot list.\<close>

theorem NewPeerNode_boots:
  assumes "NewPeerNode N network version boots opts = Some (Inr (host, dht))"
  shows "\<exists>host0 peers. pn_NewHost N (network @ ''/protoco/'' @ version) opts = Inr host0 \<and> host = foldl (pn_Connect N) host0 peers \<and>
    pn_NewDHT N host network (''/dht/'' @ version) peers = Inr dht \<and> pn_Bootstrap N dht = None"
proof -
  obtain host0 where h: "pn_NewHost N (network @ ''/protoco/'' @ version) opts = Inr host0"
    using assms by (auto simp: NewPeerNode_def Let_def split: sum.splits)
  then obtain peers where "boot_loop N (host0, []) boots = Some (host, peers)"
    "pn_NewDHT N host network (''/dht/'' @ version) peers = Inr dht" "pn_Bootstrap N dht = None"
    using assms by (auto simp: NewPeerNode_def Let_def split: sum.splits option.splits)
  then show ?thesis using boot_loop_connects [of N host0 "[]" boots host peers] h by auto
qed

theorem NewPeerNode_boots_witness:
  "\<exists>host0 peers. pn_NewHost mem_p2p (''/testnet'' @ ''/protoco/'' @ ''v0'') [Identity ''key''] = Inr host0 \<and> [''/ip4/a''] = foldl (pn_Connect mem_p2p) host0 peers"
proof -
  have "NewPeerNode mem_p2p ''/testnet'' ''v0'' [''/ip4/a'', ''x.y''] [Identity ''key''] = Some (Inr ([''/ip4/a''], [''/ip4/a'']))"
    by (simp add: NewPeerNode_def mem_p2p_def ParseMultiaddrs_def)
  from NewPeerNode_boots [OF this] show ?thesis by blast
qed

end
