(* ===== verification/Abi_Binding.thy ===== *)
theory Abi_Binding
  imports Evm_Client
begin

text \<open>
  What the contract bindings of \<open>cd2n-lib/protocol/contract\<close> are made of: the values of a contract call, the
  bound contract of go-ethereum, the iterator over past logs and the forwarding of new logs. The two
  generated files repeat these for every method and event; the theories \<open>Proto_Binding\<close> and
  \<open>Token_Binding\<close> hold the methods and events themselves.

  The bound contract (\<open>bind.BoundContract\<close>) is a parameter: the backend \<open>'be\<close>, the chain \<open>'w\<close>, the call options
  \<open>'o\<close>, the filter options \<open>'f\<close> and the logs \<open>'l\<close> are type variables.
\<close>

section \<open>Values and calls\<close>

datatype abi_val = AAddr bytes | AInt int | AFixed bytes | ABytes bytes | ABool bool | AStr string

datatype abi_type = TAddress | TUint256 | TBytesN nat | TBytes | TBool | TString

datatype mutability = MPure | MView | MNonpayable | MPayable

datatype abi_entry =
    AbiConstructor "(string \<times> abi_type) list"
  | AbiError string "(string \<times> abi_type) list"
  | AbiEvent string "(string \<times> abi_type \<times> bool) list"
  | AbiFunction string mutability "(string \<times> abi_type) list" "(string \<times> abi_type) list"

text \<open>\<open>abi.ConvertType\<close> with the type assertion after it: a value of another type panics.\<close>

fun abi_addr :: "abi_val \<Rightarrow> bytes option" where
  "abi_addr (AAddr a) = Some a"
| "abi_addr v = None"

fun abi_int :: "abi_val \<Rightarrow> int option" where
  "abi_int (AInt i) = Some i"
| "abi_int v = None"

fun abi_fixed :: "nat \<Rightarrow> abi_val \<Rightarrow> bytes option" where
  "abi_fixed n (AFixed b) = (if length b = n then Some b else None)"
| "abi_fixed n v = None"

fun abi_bytes :: "abi_val \<Rightarrow> bytes option" where
  "abi_bytes (ABytes b) = Some b"
| "abi_bytes v = None"

fun abi_bool :: "abi_val \<Rightarrow> bool option" where
  "abi_bool (ABool b) = Some b"
| "abi_bool v = None"

fun abi_str :: "abi_val \<Rightarrow> string option" where
  "abi_str (AStr s) = Some s"
| "abi_str v = None"

definition zero_address :: bytes where "zero_address = replicate 20 0"

record 'be BoundContract =
  bd_address :: bytes
  bd_abi :: "abi_entry list"
  bd_caller :: "'be option"
  bd_transactor :: "'be option"
  bd_filterer :: "'be option"

text \<open>
  What a log channel and its subscription deliver, in the order in which the \<open>select\<close> of the reader takes it.
  A new log comes with what the inner \<open>select\<close> takes after it: the sink, the error channel or the end.
\<close>

datatype 'l arrival = ArrLog 'l | ArrErr "goerr option"

datatype watch_send = SendSunk | SendErr "goerr option" | SendQuit

datatype 'l watch_arrival = WatchLog 'l watch_send | WatchErr "goerr option" | WatchQuit

record ('be, 'w, 'o, 'f, 'l) abi_env =
  ab_GetAbi :: "abi_entry list \<Rightarrow> goerr option"
  ab_Call :: "'be BoundContract \<Rightarrow> 'w \<Rightarrow> 'o \<Rightarrow> string \<Rightarrow> abi_val list \<Rightarrow> abi_val list or_err"
  ab_Transact :: "'be BoundContract \<Rightarrow> 'w \<Rightarrow> TransactOpts \<Rightarrow> string \<Rightarrow> abi_val list \<Rightarrow> string or_err \<times> 'w"
  ab_Transfer :: "'be BoundContract \<Rightarrow> 'w \<Rightarrow> TransactOpts \<Rightarrow> string or_err \<times> 'w"
  ab_FilterLogs :: "'be BoundContract \<Rightarrow> 'w \<Rightarrow> 'f \<Rightarrow> string \<Rightarrow> abi_val list list \<Rightarrow> 'l arrival list or_err"
  ab_WatchLogs :: "'be BoundContract \<Rightarrow> 'w \<Rightarrow> 'f \<Rightarrow> string \<Rightarrow> abi_val list list \<Rightarrow> 'l watch_arrival list or_err"

text \<open>
  A call with one result: an error comes with the zero value, a result without a first value or with one of another type
  panics (\<open>None\<close>).
\<close>

definition call_one :: "abi_val list or_err \<Rightarrow> (abi_val \<Rightarrow> 'a option) \<Rightarrow> 'a or_err option" where
  "call_one res conv =
     (case res of
        Inl err \<Rightarrow> Some (Inl err)
      | Inr out \<Rightarrow> (case out of [] \<Rightarrow> None | v # vs \<Rightarrow> map_option Inr (conv v)))"

text \<open>\<open>*abi.ConvertType(out[i], ...).(...)\<close>: an index out of range panics as well.\<close>

definition out_at :: "abi_val list \<Rightarrow> nat \<Rightarrow> (abi_val \<Rightarrow> 'a option) \<Rightarrow> 'a option" where
  "out_at out i conv = (if i < length out then conv (out ! i) else None)"

text \<open>The rule of an indexed argument: its items as interfaces, collected in a loop.\<close>

fun rule_loop :: "('a \<Rightarrow> abi_val) \<Rightarrow> abi_val list \<Rightarrow> 'a list \<Rightarrow> abi_val list" where
  "rule_loop item rule [] = rule"
| "rule_loop item rule (x # xs) = rule_loop item (rule @ [item x]) xs"

section \<open>Events\<close>

text \<open>
  \<open>unpack c name l\<close> is \<open>c.UnpackLog(new(T), name, l)\<close>: the struct as it has been filled in, and the error;
  \<open>raw l ev\<close> is \<open>ev.Raw = l\<close>.
\<close>

definition parse_log ::
  "('be BoundContract \<Rightarrow> string \<Rightarrow> 'l \<Rightarrow> 'ev \<times> goerr option) \<Rightarrow> ('l \<Rightarrow> 'ev \<Rightarrow> 'ev) \<Rightarrow>
   'be BoundContract \<Rightarrow> string \<Rightarrow> 'l \<Rightarrow> 'ev or_err" where
  "parse_log unpack raw c name l =
     (case unpack c name l of (ev, Some err) \<Rightarrow> Inl err | (ev, None) \<Rightarrow> Inr (raw l ev))"

record ('be, 'l, 'ev) log_iterator =
  it_Event :: "'ev option"
  it_contract :: "'be BoundContract"
  it_event :: string
  it_arrivals :: "'l arrival list"
  it_done :: bool
  it_fail :: "goerr option"
  it_subscribed :: bool

definition new_iterator :: "'be BoundContract \<Rightarrow> string \<Rightarrow> 'l arrival list \<Rightarrow> ('be, 'l, 'ev) log_iterator" where
  "new_iterator c name arr =
     \<lparr>it_Event = None, it_contract = c, it_event = name, it_arrivals = arr, it_done = False, it_fail = None,
      it_subscribed = True\<rparr>"

definition take_log ::
  "('be BoundContract \<Rightarrow> string \<Rightarrow> 'l \<Rightarrow> 'ev \<times> goerr option) \<Rightarrow> ('l \<Rightarrow> 'ev \<Rightarrow> 'ev) \<Rightarrow>
   ('be, 'l, 'ev) log_iterator \<Rightarrow> 'l \<Rightarrow> 'l arrival list \<Rightarrow> bool \<times> ('be, 'l, 'ev) log_iterator" where
  "take_log unpack raw it l rest =
     (case unpack (it_contract it) (it_event it) l of
        (ev, Some err) \<Rightarrow> (False, it\<lparr>it_Event := Some ev, it_arrivals := rest, it_fail := Some err\<rparr>)
      | (ev, None) \<Rightarrow> (True, it\<lparr>it_Event := Some (raw l ev), it_arrivals := rest\<rparr>))"

text \<open>
  \<open>Next\<close>; \<open>None\<close> waits forever. After the subscription has ended it takes what is available; the call of itself on
  that end is such a call.
\<close>

definition next_done ::
  "('be BoundContract \<Rightarrow> string \<Rightarrow> 'l \<Rightarrow> 'ev \<times> goerr option) \<Rightarrow> ('l \<Rightarrow> 'ev \<Rightarrow> 'ev) \<Rightarrow>
   ('be, 'l, 'ev) log_iterator \<Rightarrow> bool \<times> ('be, 'l, 'ev) log_iterator" where
  "next_done unpack raw it =
     (if it_fail it \<noteq> None then (False, it)
      else (case it_arrivals it of ArrLog l # rest \<Rightarrow> take_log unpack raw it l rest | _ \<Rightarrow> (False, it)))"

definition it_Next ::
  "('be BoundContract \<Rightarrow> string \<Rightarrow> 'l \<Rightarrow> 'ev \<times> goerr option) \<Rightarrow> ('l \<Rightarrow> 'ev \<Rightarrow> 'ev) \<Rightarrow>
   ('be, 'l, 'ev) log_iterator \<Rightarrow> (bool \<times> ('be, 'l, 'ev) log_iterator) option" where
  "it_Next unpack raw it =
     (if it_fail it \<noteq> None then Some (False, it)
      else if it_done it then Some (next_done unpack raw it)
      else (case it_arrivals it of
         [] \<Rightarrow> None
       | ArrLog l # rest \<Rightarrow> Some (take_log unpack raw it l rest)
       | ArrErr err # rest \<Rightarrow> Some (next_done unpack raw (it\<lparr>it_done := True, it_fail := err, it_arrivals := rest\<rparr>))))"

definition it_Error :: "('be, 'l, 'ev) log_iterator \<Rightarrow> goerr option" where
  "it_Error it = it_fail it"

definition it_Close :: "('be, 'l, 'ev) log_iterator \<Rightarrow> goerr option \<times> ('be, 'l, 'ev) log_iterator" where
  "it_Close it = (None, it\<lparr>it_subscribed := False\<rparr>)"

text \<open>
  The function of a subscription: the events sent to the sink and, when it has returned, its error.
\<close>

fun watch_loop :: "('l \<Rightarrow> 'ev or_err) \<Rightarrow> 'ev list \<Rightarrow> 'l watch_arrival list \<Rightarrow> 'ev list \<times> goerr option option" where
  "watch_loop parse sunk [] = (sunk, None)"
| "watch_loop parse sunk (WatchErr err # arr) = (sunk, Some err)"
| "watch_loop parse sunk (WatchQuit # arr) = (sunk, Some None)"
| "watch_loop parse sunk (WatchLog l send # arr) =
     (case parse l of
        Inl err \<Rightarrow> (sunk, Some (Some err))
      | Inr ev \<Rightarrow>
          (case send of
             SendSunk \<Rightarrow> watch_loop parse (sunk @ [ev]) arr
           | SendErr err \<Rightarrow> (sunk, Some err)
           | SendQuit \<Rightarrow> (sunk, Some None)))"

section \<open>Laws\<close>

lemma rule_loop_map [simp]: "rule_loop item rule xs = rule @ map item xs"
  by (induction xs arbitrary: rule) auto

text \<open>
  The loop of a caller, \<open>for it.Next() { ... it.Event ... }\<close>: the events and the iterator at the end. The loop
  takes one arrival in a round, so more fuel than arrivals is enough (\<open>event_iterator.drains\<close>).
\<close>

primrec drain ::
  "nat \<Rightarrow> (('be, 'l, 'ev) log_iterator \<Rightarrow> (bool \<times> ('be, 'l, 'ev) log_iterator) option) \<Rightarrow>
   ('be, 'l, 'ev) log_iterator \<Rightarrow> ('ev option list \<times> ('be, 'l, 'ev) log_iterator) option" where
  "drain 0 Next it = None"
| "drain (Suc fuel) Next it =
     (case Next it of
        None \<Rightarrow> None
      | Some (hasNext, it1) \<Rightarrow>
          (if hasNext then map_option (\<lambda>(evs, it2). (it_Event it1 # evs, it2)) (drain fuel Next it1) else Some ([], it1)))"

text \<open>
  The reference: the logs that a reader is shown, and the error with which the subscription ends. The
  logs after the end are shown only when it carries no error.
\<close>

fun leading_logs :: "'l arrival list \<Rightarrow> 'l list" where
  "leading_logs (ArrLog l # arr) = l # leading_logs arr"
| "leading_logs arr = []"

fun shown_logs :: "'l arrival list \<Rightarrow> ('l list \<times> goerr option) option" where
  "shown_logs [] = None"
| "shown_logs (ArrLog l # arr) = map_option (\<lambda>(ls, err). (l # ls, err)) (shown_logs arr)"
| "shown_logs (ArrErr (Some err) # arr) = Some ([], Some err)"
| "shown_logs (ArrErr None # arr) = Some (leading_logs arr, None)"

text \<open>Decoding stops at the first log that cannot be parsed, with its error.\<close>

fun decode_logs :: "('l \<Rightarrow> 'ev or_err) \<Rightarrow> goerr option \<Rightarrow> 'l list \<Rightarrow> 'ev list \<times> goerr option" where
  "decode_logs parse fin [] = ([], fin)"
| "decode_logs parse fin (l # ls) =
     (case parse l of
        Inl err \<Rightarrow> ([], Some err)
      | Inr ev \<Rightarrow> (let (evs, err) = decode_logs parse fin ls in (ev # evs, err)))"


definition outcome :: "('ev option list \<times> ('be, 'l, 'ev) log_iterator) option \<Rightarrow> ('ev option list \<times> goerr option) option" where
  "outcome = map_option (\<lambda>(evs, it'). (evs, it_fail it'))"

text \<open>
  The contract of an iterator for the events called \<open>name\<close> of the contract \<open>c\<close>, against the function
  that parses one log.
\<close>

locale event_iterator =
  fixes Next :: "('be, 'l, 'ev) log_iterator \<Rightarrow> (bool \<times> ('be, 'l, 'ev) log_iterator) option"
    and Parse :: "'l \<Rightarrow> 'ev or_err"
    and c :: "'be BoundContract"
    and name :: string
  assumes Next_failed: "it_fail it \<noteq> None \<Longrightarrow> Next it = Some (False, it)"
    and Next_log: "\<lbrakk>it_contract it = c; it_event it = name; it_fail it = None; it_arrivals it = ArrLog l # rest; Parse l = Inr ev\<rbrakk>
      \<Longrightarrow> Next it = Some (True, it\<lparr>it_Event := Some ev, it_arrivals := rest\<rparr>)"
    and Next_bad: "\<lbrakk>it_contract it = c; it_event it = name; it_fail it = None; it_arrivals it = ArrLog l # rest; Parse l = Inl err\<rbrakk>
      \<Longrightarrow> \<exists>ev. Next it = Some (False, it\<lparr>it_Event := Some ev, it_arrivals := rest, it_fail := Some err\<rparr>)"
    and Next_end: "\<lbrakk>\<not> it_done it; it_fail it = None; it_arrivals it = ArrErr fin # rest\<rbrakk>
      \<Longrightarrow> Next it = Next (it\<lparr>it_done := True, it_fail := fin, it_arrivals := rest\<rparr>)"
    and Next_empty: "\<lbrakk>it_done it; it_fail it = None; leading_logs (it_arrivals it) = []\<rbrakk> \<Longrightarrow> Next it = Some (False, it)"
begin

lemma outcome_log:
  assumes "it_contract it = c" "it_event it = name" "it_fail it = None" "it_arrivals it = ArrLog l # rest"
    and rest: "outcome (drain fuel Next (it\<lparr>it_Event := Some ev, it_arrivals := rest\<rparr>)) =
      (case decode_logs Parse fin ls of (ds, err) \<Rightarrow> Some (map Some ds, err)) \<or> Parse l \<noteq> Inr ev"
    and ev: "\<forall>ev'. Parse l = Inr ev' \<longrightarrow> ev' = ev"
  shows "outcome (drain (Suc fuel) Next it) =
    (case decode_logs Parse fin (l # ls) of (ds, err) \<Rightarrow> Some (map Some ds, err))"
proof (cases "Parse l")
  case (Inl err)
  then show ?thesis using Next_bad[OF assms(1-4) Inl] by (auto simp: outcome_def)
next
  case (Inr ev')
  with ev have Inr: "Parse l = Inr ev" by simp
  then show ?thesis using Next_log[OF assms(1-4) Inr] rest by (auto simp: outcome_def split: prod.splits)
qed

lemma drains_done:
  "\<lbrakk>it_contract it = c; it_event it = name; it_done it; it_fail it = None; length (it_arrivals it) < fuel\<rbrakk> \<Longrightarrow>
   outcome (drain fuel Next it) =
     (case decode_logs Parse None (leading_logs (it_arrivals it)) of (ds, err) \<Rightarrow> Some (map Some ds, err))"
proof (induction "it_arrivals it" arbitrary: it fuel rule: leading_logs.induct)
  case (1 l arr)
  obtain f where f: "fuel = Suc f" "length arr < f" using 1(7) by (cases fuel) (auto simp flip: 1(2))
  let ?it = "it\<lparr>it_Event := Some (projr (Parse l)), it_arrivals := arr\<rparr>"
  show ?case
    using outcome_log[OF 1(3,4,6) 1(2) [symmetric], of f "projr (Parse l)" None "leading_logs arr"]
      1(1)[of ?it f] 1(2-6) f by (auto simp flip: 1(2))
next
  case "2_1"
  then show ?case by (cases fuel) (auto simp: Next_empty outcome_def simp flip: "2_1"(1))
next
  case "2_2"
  then show ?case by (cases fuel) (auto simp: Next_empty outcome_def simp flip: "2_2"(1))
qed

lemma drains:
  "\<lbrakk>it_contract it = c; it_event it = name; \<not> it_done it; it_fail it = None; shown_logs (it_arrivals it) = Some (ls, fin);
    length (it_arrivals it) < fuel\<rbrakk> \<Longrightarrow>
   outcome (drain fuel Next it) = (case decode_logs Parse fin ls of (ds, err) \<Rightarrow> Some (map Some ds, err))"
proof (induction "it_arrivals it" arbitrary: it ls fuel rule: shown_logs.induct)
  case (2 l arr)
  obtain f where f: "fuel = Suc f" "length arr < f" using 2(8) by (cases fuel) (auto simp flip: 2(2))
  obtain ls' where ls: "ls = l # ls'" "shown_logs arr = Some (ls', fin)" using 2(7) by (simp flip: 2(2)) blast
  let ?it = "it\<lparr>it_Event := Some (projr (Parse l)), it_arrivals := arr\<rparr>"
  show ?case
    using outcome_log[OF 2(3,4,6) 2(2) [symmetric], of f "projr (Parse l)" fin ls']
      2(1)[of ?it ls' f] 2(3-6) f ls by auto
next
  case (3 err arr)
  then obtain f where "fuel = Suc f" by (cases fuel) auto
  with 3 show ?case using Next_end[OF 3(4,5) 3(1) [symmetric]] by (auto simp: Next_failed outcome_def simp flip: 3(1))
next
  case (4 arr)
  let ?it = "it\<lparr>it_done := True, it_fail := None, it_arrivals := arr\<rparr>"
  obtain f where f: "fuel = Suc f" "length arr < fuel" using 4(7) by (cases fuel) (auto simp flip: 4(1))
  have "drain fuel Next it = drain fuel Next ?it" using Next_end[OF 4(4,5) 4(1) [symmetric]] f by simp
  with drains_done[of ?it fuel] 4 f show ?case by (auto simp flip: 4(1))
qed simp

end

text \<open>The generated iterator keeps that contract, whatever the event.\<close>

lemma generated_iterator: "event_iterator (it_Next unpack raw) (parse_log unpack raw c name) c name"
  by unfold_locales
    (auto simp: it_Next_def next_done_def take_log_def parse_log_def
      split: prod.splits option.splits list.splits arrival.splits)

text \<open>A subscription forwards the decoded logs in order, up to the first one the sink did not take.\<close>

fun leading_sunk :: "'l watch_arrival list \<Rightarrow> 'l list" where
  "leading_sunk (WatchLog l SendSunk # arr) = l # leading_sunk arr"
| "leading_sunk arr = []"

lemma watch_loop_forwards:
  "fst (watch_loop parse sunk arr) = sunk @ fst (decode_logs parse None (leading_sunk arr))"
proof (induction parse sunk arr rule: watch_loop.induct)
  case (4 parse sunk l send arr)
  then show ?case by (cases send) (auto split: sum.split prod.split)
qed auto

section \<open>The interface description as a contract\<close>

text \<open>
  What go-ethereum makes of an interface description: a function is called by its name, the second of a name that is
  overloaded by the name with a number; the arguments of a call are checked against the description, and
  the values of its result have the types of the description.
\<close>

fun fits :: "abi_val \<Rightarrow> abi_type \<Rightarrow> bool" where
  "fits (AAddr a) t = (t = TAddress)"
| "fits (AInt i) t = (t = TUint256)"
| "fits (AFixed b) t = (t = TBytesN (length b))"
| "fits (ABytes b) t = (t = TBytes)"
| "fits (ABool b) t = (t = TBool)"
| "fits (AStr s) t = (t = TString)"

fun free_name :: "string list \<Rightarrow> string \<Rightarrow> nat \<Rightarrow> nat \<Rightarrow> string" where
  "free_name used n i 0 = n"
| "free_name used n i (Suc fuel) =
     (let n' = n @ nat_dec i in if n' \<in> set used then free_name used n (i + 1) fuel else n')"

fun abi_methods :: "string list \<Rightarrow> abi_entry list \<Rightarrow> (string \<times> mutability \<times> abi_type list \<times> abi_type list) list" where
  "abi_methods used [] = []"
| "abi_methods used (AbiFunction n mu ins outs # es) =
     (let n' = (if n \<in> set used then free_name used n 0 (length used) else n)
      in (n', mu, map snd ins, map snd outs) # abi_methods (n' # used) es)"
| "abi_methods used (e # es) = abi_methods used es"

definition abi_lookup :: "abi_entry list \<Rightarrow> string \<Rightarrow> (mutability \<times> abi_type list \<times> abi_type list) option" where
  "abi_lookup abi m = map_of (abi_methods [] abi) m"

definition packs :: "abi_entry list \<Rightarrow> mutability list \<Rightarrow> string \<Rightarrow> abi_val list \<Rightarrow> bool" where
  "packs abi mus m args =
     (case abi_lookup abi m of None \<Rightarrow> False | Some (mu, ins, outs) \<Rightarrow> mu \<in> set mus \<and> list_all2 fits args ins)"

text \<open>
  The same environment with the check written out: a call of a function that only reads, or a transaction of one that
  does not, with fitting arguments goes through; another one is an error and sends nothing.
\<close>

definition abi_checked :: "('be, 'w, 'o, 'f, 'l, 'm) abi_env_scheme \<Rightarrow> ('be, 'w, 'o, 'f, 'l, 'm) abi_env_scheme" where
  "abi_checked A = A\<lparr>
     ab_Call := (\<lambda>c w opts m args. if packs (bd_abi c) [MPure, MView] m args then ab_Call A c w opts m args else Inl (Errorf ''abi'')),
     ab_Transact := (\<lambda>c w opts m args. if packs (bd_abi c) [MNonpayable, MPayable] m args then ab_Transact A c w opts m args
                                    else (Inl (Errorf ''abi''), w))\<rparr>"

definition abi_decodes :: "('be, 'w, 'o, 'f, 'l, 'm) abi_env_scheme \<Rightarrow> abi_entry list \<Rightarrow> bool" where
  "abi_decodes A abi \<longleftrightarrow>
     (\<forall>c w opts m args out mu ins outs. bd_abi c = abi \<longrightarrow> ab_Call A c w opts m args = Inr out \<longrightarrow>
        abi_lookup abi m = Some (mu, ins, outs) \<longrightarrow> list_all2 fits out outs)"

lemma abi_checked_simps [simp]:
  "ab_Call (abi_checked A) c w opts m args =
     (if packs (bd_abi c) [MPure, MView] m args then ab_Call A c w opts m args else Inl (Errorf ''abi''))"
  "ab_Transact (abi_checked A) c w tos m args =
     (if packs (bd_abi c) [MNonpayable, MPayable] m args then ab_Transact A c w tos m args else (Inl (Errorf ''abi''), w))"
  by (simp_all add: abi_checked_def)

lemma fits_conversions [simp]:
  "fits v TAddress \<longleftrightarrow> (\<exists>a. v = AAddr a)"
  "fits v TUint256 \<longleftrightarrow> (\<exists>i. v = AInt i)"
  "fits v (TBytesN n) \<longleftrightarrow> (\<exists>b. v = AFixed b \<and> length b = n)"
  "fits v TBytes \<longleftrightarrow> (\<exists>b. v = ABytes b)"
  "fits v TBool \<longleftrightarrow> (\<exists>b. v = ABool b)"
  "fits v TString \<longleftrightarrow> (\<exists>s. v = AStr s)"
  by (cases v; auto)+

lemma conversions_total:
  "fits v TAddress \<Longrightarrow> abi_addr v \<noteq> None"
  "fits v TUint256 \<Longrightarrow> abi_int v \<noteq> None"
  "fits v (TBytesN n) \<Longrightarrow> abi_fixed n v \<noteq> None"
  "fits v TBytes \<Longrightarrow> abi_bytes v \<noteq> None"
  "fits v TBool \<Longrightarrow> abi_bool v \<noteq> None"
  "fits v TString \<Longrightarrow> abi_str v \<noteq> None"
  by auto

lemma decoded_output:
  assumes "abi_decodes A abi" "bd_abi c = abi" "abi_lookup abi m = Some (mu, ins, outs)" "ab_Call A c w opts m args = Inr out"
  shows "list_all2 fits out outs"
  using assms unfolding abi_decodes_def by blast

lemma call_one_total:
  assumes "abi_decodes A abi" "bd_abi c = abi" "abi_lookup abi m = Some (mu, ins, [t])"
    and "\<And>v. fits v t \<Longrightarrow> conv v \<noteq> None"
  shows "call_one (ab_Call A c w opts m args) conv \<noteq> None"
  using decoded_output[OF assms(1-3), of w opts args] assms(4)
  by (auto simp: call_one_def list_all2_Cons2 split: sum.split list.split)

section \<open>Transactions sent\<close>

text \<open>
  \<open>tr\<close> reads the transactions sent off the chain: \<open>Transact\<close> adds one unless it reports an error.
\<close>

type_synonym sent_tx = "bytes \<times> string \<times> abi_val list"

definition records_txs :: "('be, 'w, 'o, 'f, 'l, 'm) abi_env_scheme \<Rightarrow> ('w \<Rightarrow> sent_tx list) \<Rightarrow> bool" where
  "records_txs A tr \<longleftrightarrow>
     (\<forall>c w opts m args res w'. ab_Transact A c w opts m args = (res, w') \<longrightarrow>
        tr w' = (case res of Inl err \<Rightarrow> tr w | Inr tx \<Rightarrow> tr w @ [(bd_address c, m, args)]))"

lemma recorded:
  assumes "records_txs A tr" "ab_Transact A c w opts m args = (res, w')"
  shows "tr w' = (case res of Inl err \<Rightarrow> tr w | Inr tx \<Rightarrow> tr w @ [(bd_address c, m, args)])"
  using assms unfolding records_txs_def by blast

text \<open>An operation sends nothing or this one transaction.\<close>

definition sends :: "('w \<Rightarrow> sent_tx list) \<Rightarrow> 'w \<Rightarrow> 'w \<Rightarrow> sent_tx \<Rightarrow> bool" where
  "sends tr w w' tx \<longleftrightarrow> tr w' = tr w \<or> tr w' = tr w @ [tx]"

lemma sends_refl [simp]: "sends tr w w tx"
  by (simp add: sends_def)

lemma recorded_sends:
  assumes "records_txs A tr" "ab_Transact A c w opts m args = (res, w')"
  shows "sends tr w w' (bd_address c, m, args)"
  using recorded [OF assms] by (simp add: sends_def split: sum.splits)

text \<open>Values of a type, for the chains in memory of the witnesses.\<close>

fun zero_val :: "abi_type \<Rightarrow> abi_val" where
  "zero_val TAddress = AAddr zero_address"
| "zero_val TUint256 = AInt 0"
| "zero_val (TBytesN n) = AFixed (replicate n 0)"
| "zero_val TBytes = ABytes []"
| "zero_val TBool = ABool False"
| "zero_val TString = AStr ''''"

lemma fits_zero_val: "fits (zero_val t) t"
  by (cases t) (simp_all del: fits_conversions)

end
