(* ===== verification/Proto_Binding.thy ===== *)
theory Proto_Binding
  imports Abi_Binding Cache_Proto
begin

text \<open>
  \<open>cd2n-lib/protocol/contract/cache_proto.go\<close>: the binding of the cache protocol contract. One definition for
  every method of the binding: the calls, the transactions, the same through a session with options
  set beforehand, the raw access, and for each event its iterator, filter, subscription and parser.

  A result of type \<open>option\<close> is \<open>None\<close> when the conversion of a value panics. The struct of \<open>Node\<close> and \<open>Order\<close> is
  the record of \<open>Cache_Proto\<close>.
\<close>

section \<open>Interface and types\<close>

text \<open>The interface description: the entries of the JSON text, in its order.\<close>

definition CacheProtoMetaData :: "abi_entry list" where
  "CacheProtoMetaData =
    [AbiConstructor [(''peerid'', TAddress)],
     AbiError ''ECDSAInvalidSignature'' [],
     AbiError ''ECDSAInvalidSignatureLength'' [(''length'', TUint256)],
     AbiError ''ECDSAInvalidSignatureS'' [(''s'', TBytesN 32)],
     AbiEvent ''Claim'' [(''nodeAcc'', TAddress, True), (''reward'', TUint256, False)],
     AbiEvent ''Exit'' [(''nodeAcc'', TAddress, True)],
     AbiEvent ''OrderPayment'' [(''orderId'', TBytesN 32, True), (''nodeAcc'', TAddress, True)],
     AbiEvent ''Staking'' [(''nodeAcc'', TAddress, True), (''tokenId'', TUint256, True)],
     AbiFunction ''CacheReward'' MView [('''', TAddress)] [('''', TUint256)],
     AbiFunction ''Node'' MView [('''', TAddress)] [(''created'', TBool), (''collerate'', TUint256), (''tokenId'', TUint256), (''peerId'', TBytes)],
     AbiFunction ''Order'' MView [('''', TBytesN 32)] [(''value'', TUint256), (''creater'', TAddress), (''node'', TAddress), (''term'', TUint256)],
     AbiFunction ''OrderNum'' MView [('''', TAddress)] [('''', TUint256)],
     AbiFunction ''RewardRecord'' MView [('''', TAddress)] [('''', TUint256)],
     AbiFunction ''TermTotalOrder'' MView [('''', TUint256)] [('''', TUint256)],
     AbiFunction ''TokenBonded'' MView [('''', TUint256)] [('''', TBool)],
     AbiFunction ''cacheOrderPayment'' MPayable [(''nodeAcc'', TAddress)] [],
     AbiFunction ''claim'' MNonpayable [] [],
     AbiFunction ''exit'' MNonpayable [] [],
     AbiFunction ''getCurrencyTerm'' MView [] [('''', TUint256)],
     AbiFunction ''getMessageHash'' MPure [(''_account'', TAddress), (''_tokenId'', TUint256)] [('''', TBytesN 32)],
     AbiFunction ''isTokenOwner'' MView [(''acc'', TAddress), (''tokenId'', TUint256)] [('''', TBool)],
     AbiFunction ''openRecover'' MView [(''_msgHash'', TBytesN 32), (''_signature'', TBytes)] [('''', TAddress)],
     AbiFunction ''orderClaim'' MNonpayable [(''orderId'', TBytesN 32)] [],
     AbiFunction ''recoverSigner'' MPure [(''_msgHash'', TBytesN 32), (''_signature'', TBytes)] [('''', TAddress)],
     AbiFunction ''staking'' MPayable [(''nodeAcc'', TAddress), (''tokenAcc'', TAddress), (''tokenId'', TUint256), (''_peerId'', TBytes), (''_signature'', TBytes)] [],
     AbiFunction ''toEthSignedMessageHash'' MPure [(''hash'', TBytesN 32)] [('''', TBytesN 32)],
     AbiFunction ''verify'' MPure [(''_msgHash'', TBytesN 32), (''_signature'', TBytes), (''_signer'', TAddress)] [('''', TBool)]]"

definition CacheProtoABI :: "abi_entry list" where
  "CacheProtoABI = CacheProtoMetaData"

record 'be CacheProtoCaller =
  pbc_contract :: "'be BoundContract"

record 'be CacheProtoTransactor =
  pbt_contract :: "'be BoundContract"

record 'be CacheProtoFilterer =
  pbf_contract :: "'be BoundContract"

text \<open>The three embedded bindings; a method of an embedded one is promoted.\<close>

record 'be CacheProto =
  pb_Caller :: "'be CacheProtoCaller"
  pb_Transactor :: "'be CacheProtoTransactor"
  pb_Filterer :: "'be CacheProtoFilterer"

record ('be, 'o) CacheProtoSession =
  pbs_Contract :: "'be CacheProto"
  pbs_CallOpts :: 'o
  pbs_TransactOpts :: TransactOpts

record ('be, 'o) CacheProtoCallerSession =
  pbcs_Contract :: "'be CacheProtoCaller"
  pbcs_CallOpts :: 'o

record 'be CacheProtoTransactorSession =
  pbts_Contract :: "'be CacheProtoTransactor"
  pbts_TransactOpts :: TransactOpts

record 'be CacheProtoRaw =
  pbr_Contract :: "'be CacheProto"

record 'be CacheProtoCallerRaw =
  pbcr_Contract :: "'be CacheProtoCaller"

record 'be CacheProtoTransactorRaw =
  pbtr_Contract :: "'be CacheProtoTransactor"

record 'l CacheProtoClaim =
  CacheProtoClaim_NodeAcc :: "bytes"
  CacheProtoClaim_Reward :: "int option"
  CacheProtoClaim_Raw :: "'l option"

definition new_CacheProtoClaim :: "'l CacheProtoClaim" where
  "new_CacheProtoClaim = \<lparr>CacheProtoClaim_NodeAcc = zero_address, CacheProtoClaim_Reward = None, CacheProtoClaim_Raw = None\<rparr>"

record 'l CacheProtoExit =
  CacheProtoExit_NodeAcc :: "bytes"
  CacheProtoExit_Raw :: "'l option"

definition new_CacheProtoExit :: "'l CacheProtoExit" where
  "new_CacheProtoExit = \<lparr>CacheProtoExit_NodeAcc = zero_address, CacheProtoExit_Raw = None\<rparr>"

record 'l CacheProtoOrderPayment =
  CacheProtoOrderPayment_OrderId :: "bytes"
  CacheProtoOrderPayment_NodeAcc :: "bytes"
  CacheProtoOrderPayment_Raw :: "'l option"

definition new_CacheProtoOrderPayment :: "'l CacheProtoOrderPayment" where
  "new_CacheProtoOrderPayment = \<lparr>CacheProtoOrderPayment_OrderId = replicate 32 0, CacheProtoOrderPayment_NodeAcc = zero_address, CacheProtoOrderPayment_Raw = None\<rparr>"

record 'l CacheProtoStaking =
  CacheProtoStaking_NodeAcc :: "bytes"
  CacheProtoStaking_TokenId :: "int option"
  CacheProtoStaking_Raw :: "'l option"

definition new_CacheProtoStaking :: "'l CacheProtoStaking" where
  "new_CacheProtoStaking = \<lparr>CacheProtoStaking_NodeAcc = zero_address, CacheProtoStaking_TokenId = None, CacheProtoStaking_Raw = None\<rparr>"

text \<open>\<open>UnpackLog\<close> fills in a struct of each of the event types.\<close>

record ('be, 'w, 'o, 'f, 'l) proto_abi = "('be, 'w, 'o, 'f, 'l) abi_env" +
  pb_UnpackClaim :: "'be BoundContract \<Rightarrow> string \<Rightarrow> 'l \<Rightarrow> 'l CacheProtoClaim \<Rightarrow> 'l CacheProtoClaim \<times> goerr option"
  pb_UnpackExit :: "'be BoundContract \<Rightarrow> string \<Rightarrow> 'l \<Rightarrow> 'l CacheProtoExit \<Rightarrow> 'l CacheProtoExit \<times> goerr option"
  pb_UnpackOrderPayment :: "'be BoundContract \<Rightarrow> string \<Rightarrow> 'l \<Rightarrow> 'l CacheProtoOrderPayment \<Rightarrow> 'l CacheProtoOrderPayment \<times> goerr option"
  pb_UnpackStaking :: "'be BoundContract \<Rightarrow> string \<Rightarrow> 'l \<Rightarrow> 'l CacheProtoStaking \<Rightarrow> 'l CacheProtoStaking \<times> goerr option"

text \<open>The zero values of the two result structs; their \<open>nil\<close> integers are 0, as in the records of the caller.\<close>

definition NodeInfo_zero :: NodeInfo where
  "NodeInfo_zero = \<lparr>ni_Created = False, ni_Collerate = 0, ni_TokenId = 0, ni_PeerId = []\<rparr>"

definition Order_zero :: Order where
  "Order_zero = \<lparr>od_Value = 0, od_Creater = zero_address, od_Node = zero_address, od_Term = 0\<rparr>"

section \<open>Binding\<close>

definition bindCacheProto ::
  "('be, 'w, 'o, 'f, 'l) proto_abi \<Rightarrow> bytes \<Rightarrow> 'be option \<Rightarrow> 'be option \<Rightarrow> 'be option \<Rightarrow> 'be BoundContract or_err" where
  "bindCacheProto A address caller transactor filterer =
     (case ab_GetAbi A CacheProtoMetaData of
        Some err \<Rightarrow> Inl err
      | None \<Rightarrow> Inr \<lparr>bd_address = address, bd_abi = CacheProtoMetaData, bd_caller = caller, bd_transactor = transactor,
                         bd_filterer = filterer\<rparr>)"

definition NewCacheProto ::
  "('be, 'w, 'o, 'f, 'l) proto_abi \<Rightarrow> bytes \<Rightarrow> 'be \<Rightarrow> 'be CacheProto or_err" where
  "NewCacheProto A address backend =
     (case bindCacheProto A address (Some backend) (Some backend) (Some backend) of
        Inl err \<Rightarrow> Inl err
      | Inr contract \<Rightarrow> Inr \<lparr>pb_Caller = \<lparr>pbc_contract = contract\<rparr>, pb_Transactor = \<lparr>pbt_contract = contract\<rparr>,
                            pb_Filterer = \<lparr>pbf_contract = contract\<rparr>\<rparr>)"

definition NewCacheProtoCaller ::
  "('be, 'w, 'o, 'f, 'l) proto_abi \<Rightarrow> bytes \<Rightarrow> 'be \<Rightarrow> 'be CacheProtoCaller or_err" where
  "NewCacheProtoCaller A address backend =
     (case bindCacheProto A address (Some backend) None None of
        Inl err \<Rightarrow> Inl err
      | Inr contract \<Rightarrow> Inr \<lparr>pbc_contract = contract\<rparr>)"

definition NewCacheProtoTransactor ::
  "('be, 'w, 'o, 'f, 'l) proto_abi \<Rightarrow> bytes \<Rightarrow> 'be \<Rightarrow> 'be CacheProtoTransactor or_err" where
  "NewCacheProtoTransactor A address backend =
     (case bindCacheProto A address None (Some backend) None of
        Inl err \<Rightarrow> Inl err
      | Inr contract \<Rightarrow> Inr \<lparr>pbt_contract = contract\<rparr>)"

definition NewCacheProtoFilterer ::
  "('be, 'w, 'o, 'f, 'l) proto_abi \<Rightarrow> bytes \<Rightarrow> 'be \<Rightarrow> 'be CacheProtoFilterer or_err" where
  "NewCacheProtoFilterer A address backend =
     (case bindCacheProto A address None None (Some backend) of
        Inl err \<Rightarrow> Inl err
      | Inr contract \<Rightarrow> Inr \<lparr>pbf_contract = contract\<rparr>)"

definition CacheProtoRaw_Call ::
  "('be, 'w, 'o, 'f, 'l) proto_abi \<Rightarrow> 'be CacheProtoRaw \<Rightarrow> 'w \<Rightarrow> 'o \<Rightarrow> string \<Rightarrow> abi_val list \<Rightarrow> abi_val list or_err" where
  "CacheProtoRaw_Call A r w opts method params = ab_Call A (pbc_contract (pb_Caller (pbr_Contract r))) w opts method params"

definition CacheProtoRaw_Transfer ::
  "('be, 'w, 'o, 'f, 'l) proto_abi \<Rightarrow> 'be CacheProtoRaw \<Rightarrow> 'w \<Rightarrow> TransactOpts \<Rightarrow> string or_err \<times> 'w" where
  "CacheProtoRaw_Transfer A r w opts = ab_Transfer A (pbt_contract (pb_Transactor (pbr_Contract r))) w opts"

definition CacheProtoRaw_Transact ::
  "('be, 'w, 'o, 'f, 'l) proto_abi \<Rightarrow> 'be CacheProtoRaw \<Rightarrow> 'w \<Rightarrow> TransactOpts \<Rightarrow> string \<Rightarrow> abi_val list \<Rightarrow> string or_err \<times> 'w" where
  "CacheProtoRaw_Transact A r w opts method params = ab_Transact A (pbt_contract (pb_Transactor (pbr_Contract r))) w opts method params"

definition CacheProtoCallerRaw_Call ::
  "('be, 'w, 'o, 'f, 'l) proto_abi \<Rightarrow> 'be CacheProtoCallerRaw \<Rightarrow> 'w \<Rightarrow> 'o \<Rightarrow> string \<Rightarrow> abi_val list \<Rightarrow> abi_val list or_err" where
  "CacheProtoCallerRaw_Call A r w opts method params = ab_Call A (pbc_contract (pbcr_Contract r)) w opts method params"

definition CacheProtoTransactorRaw_Transfer ::
  "('be, 'w, 'o, 'f, 'l) proto_abi \<Rightarrow> 'be CacheProtoTransactorRaw \<Rightarrow> 'w \<Rightarrow> TransactOpts \<Rightarrow> string or_err \<times> 'w" where
  "CacheProtoTransactorRaw_Transfer A r w opts = ab_Transfer A (pbt_contract (pbtr_Contract r)) w opts"

definition CacheProtoTransactorRaw_Transact ::
  "('be, 'w, 'o, 'f, 'l) proto_abi \<Rightarrow> 'be CacheProtoTransactorRaw \<Rightarrow> 'w \<Rightarrow> TransactOpts \<Rightarrow> string \<Rightarrow> abi_val list \<Rightarrow> string or_err \<times> 'w" where
  "CacheProtoTransactorRaw_Transact A r w opts method params = ab_Transact A (pbt_contract (pbtr_Contract r)) w opts method params"

section \<open>Methods\<close>

definition CacheProtoCaller_CacheReward ::
  "('be, 'w, 'o, 'f, 'l) proto_abi \<Rightarrow> 'be CacheProtoCaller \<Rightarrow> 'w \<Rightarrow> 'o \<Rightarrow> bytes \<Rightarrow> int or_err option" where
  "CacheProtoCaller_CacheReward A cc w opts arg0 =
     call_one (ab_Call A (pbc_contract cc) w opts ''CacheReward'' [AAddr arg0]) abi_int"

definition CacheProtoSession_CacheReward ::
  "('be, 'w, 'o, 'f, 'l) proto_abi \<Rightarrow> ('be, 'o) CacheProtoSession \<Rightarrow> 'w \<Rightarrow> bytes \<Rightarrow> int or_err option" where
  "CacheProtoSession_CacheReward A s w arg0 =
     CacheProtoCaller_CacheReward A (pb_Caller (pbs_Contract s)) w (pbs_CallOpts s) arg0"

definition CacheProtoCallerSession_CacheReward ::
  "('be, 'w, 'o, 'f, 'l) proto_abi \<Rightarrow> ('be, 'o) CacheProtoCallerSession \<Rightarrow> 'w \<Rightarrow> bytes \<Rightarrow> int or_err option" where
  "CacheProtoCallerSession_CacheReward A s w arg0 =
     CacheProtoCaller_CacheReward A (pbcs_Contract s) w (pbcs_CallOpts s) arg0"

definition CacheProtoCaller_Node ::
  "('be, 'w, 'o, 'f, 'l) proto_abi \<Rightarrow> 'be CacheProtoCaller \<Rightarrow> 'w \<Rightarrow> 'o \<Rightarrow> bytes \<Rightarrow> (NodeInfo \<times> goerr option) option" where
  "CacheProtoCaller_Node A cc w opts arg0 =
     (case ab_Call A (pbc_contract cc) w opts ''Node'' [AAddr arg0] of
        Inl err \<Rightarrow> Some (NodeInfo_zero, Some err)
      | Inr out \<Rightarrow>
          (case out_at out 0 abi_bool of None \<Rightarrow> None | Some v0 \<Rightarrow>
           (case out_at out 1 abi_int of None \<Rightarrow> None | Some v1 \<Rightarrow>
            (case out_at out 2 abi_int of None \<Rightarrow> None | Some v2 \<Rightarrow>
             (case out_at out 3 abi_bytes of None \<Rightarrow> None | Some v3 \<Rightarrow>
              Some (\<lparr>ni_Created = v0, ni_Collerate = v1, ni_TokenId = v2, ni_PeerId = v3\<rparr>, None))))))"

definition CacheProtoSession_Node ::
  "('be, 'w, 'o, 'f, 'l) proto_abi \<Rightarrow> ('be, 'o) CacheProtoSession \<Rightarrow> 'w \<Rightarrow> bytes \<Rightarrow> (NodeInfo \<times> goerr option) option" where
  "CacheProtoSession_Node A s w arg0 =
     CacheProtoCaller_Node A (pb_Caller (pbs_Contract s)) w (pbs_CallOpts s) arg0"

definition CacheProtoCallerSession_Node ::
  "('be, 'w, 'o, 'f, 'l) proto_abi \<Rightarrow> ('be, 'o) CacheProtoCallerSession \<Rightarrow> 'w \<Rightarrow> bytes \<Rightarrow> (NodeInfo \<times> goerr option) option" where
  "CacheProtoCallerSession_Node A s w arg0 =
     CacheProtoCaller_Node A (pbcs_Contract s) w (pbcs_CallOpts s) arg0"

definition CacheProtoCaller_Order ::
  "('be, 'w, 'o, 'f, 'l) proto_abi \<Rightarrow> 'be CacheProtoCaller \<Rightarrow> 'w \<Rightarrow> 'o \<Rightarrow> bytes \<Rightarrow> (Order \<times> goerr option) option" where
  "CacheProtoCaller_Order A cc w opts arg0 =
     (case ab_Call A (pbc_contract cc) w opts ''Order'' [AFixed arg0] of
        Inl err \<Rightarrow> Some (Order_zero, Some err)
      | Inr out \<Rightarrow>
          (case out_at out 0 abi_int of None \<Rightarrow> None | Some v0 \<Rightarrow>
           (case out_at out 1 abi_addr of None \<Rightarrow> None | Some v1 \<Rightarrow>
            (case out_at out 2 abi_addr of None \<Rightarrow> None | Some v2 \<Rightarrow>
             (case out_at out 3 abi_int of None \<Rightarrow> None | Some v3 \<Rightarrow>
              Some (\<lparr>od_Value = v0, od_Creater = v1, od_Node = v2, od_Term = v3\<rparr>, None))))))"

definition CacheProtoSession_Order ::
  "('be, 'w, 'o, 'f, 'l) proto_abi \<Rightarrow> ('be, 'o) CacheProtoSession \<Rightarrow> 'w \<Rightarrow> bytes \<Rightarrow> (Order \<times> goerr option) option" where
  "CacheProtoSession_Order A s w arg0 =
     CacheProtoCaller_Order A (pb_Caller (pbs_Contract s)) w (pbs_CallOpts s) arg0"

definition CacheProtoCallerSession_Order ::
  "('be, 'w, 'o, 'f, 'l) proto_abi \<Rightarrow> ('be, 'o) CacheProtoCallerSession \<Rightarrow> 'w \<Rightarrow> bytes \<Rightarrow> (Order \<times> goerr option) option" where
  "CacheProtoCallerSession_Order A s w arg0 =
     CacheProtoCaller_Order A (pbcs_Contract s) w (pbcs_CallOpts s) arg0"

definition CacheProtoCaller_OrderNum ::
  "('be, 'w, 'o, 'f, 'l) proto_abi \<Rightarrow> 'be CacheProtoCaller \<Rightarrow> 'w \<Rightarrow> 'o \<Rightarrow> bytes \<Rightarrow> int or_err option" where
  "CacheProtoCaller_OrderNum A cc w opts arg0 =
     call_one (ab_Call A (pbc_contract cc) w opts ''OrderNum'' [AAddr arg0]) abi_int"

definition CacheProtoSession_OrderNum ::
  "('be, 'w, 'o, 'f, 'l) proto_abi \<Rightarrow> ('be, 'o) CacheProtoSession \<Rightarrow> 'w \<Rightarrow> bytes \<Rightarrow> int or_err option" where
  "CacheProtoSession_OrderNum A s w arg0 =
     CacheProtoCaller_OrderNum A (pb_Caller (pbs_Contract s)) w (pbs_CallOpts s) arg0"

definition CacheProtoCallerSession_OrderNum ::
  "('be, 'w, 'o, 'f, 'l) proto_abi \<Rightarrow> ('be, 'o) CacheProtoCallerSession \<Rightarrow> 'w \<Rightarrow> bytes \<Rightarrow> int or_err option" where
  "CacheProtoCallerSession_OrderNum A s w arg0 =
     CacheProtoCaller_OrderNum A (pbcs_Contract s) w (pbcs_CallOpts s) arg0"

definition CacheProtoCaller_RewardRecord ::
  "('be, 'w, 'o, 'f, 'l) proto_abi \<Rightarrow> 'be CacheProtoCaller \<Rightarrow> 'w \<Rightarrow> 'o \<Rightarrow> bytes \<Rightarrow> int or_err option" where
  "CacheProtoCaller_RewardRecord A cc w opts arg0 =
     call_one (ab_Call A (pbc_contract cc) w opts ''RewardRecord'' [AAddr arg0]) abi_int"

definition CacheProtoSession_RewardRecord ::
  "('be, 'w, 'o, 'f, 'l) proto_abi \<Rightarrow> ('be, 'o) CacheProtoSession \<Rightarrow> 'w \<Rightarrow> bytes \<Rightarrow> int or_err option" where
  "CacheProtoSession_RewardRecord A s w arg0 =
     CacheProtoCaller_RewardRecord A (pb_Caller (pbs_Contract s)) w (pbs_CallOpts s) arg0"

definition CacheProtoCallerSession_RewardRecord ::
  "('be, 'w, 'o, 'f, 'l) proto_abi \<Rightarrow> ('be, 'o) CacheProtoCallerSession \<Rightarrow> 'w \<Rightarrow> bytes \<Rightarrow> int or_err option" where
  "CacheProtoCallerSession_RewardRecord A s w arg0 =
     CacheProtoCaller_RewardRecord A (pbcs_Contract s) w (pbcs_CallOpts s) arg0"

definition CacheProtoCaller_TermTotalOrder ::
  "('be, 'w, 'o, 'f, 'l) proto_abi \<Rightarrow> 'be CacheProtoCaller \<Rightarrow> 'w \<Rightarrow> 'o \<Rightarrow> int \<Rightarrow> int or_err option" where
  "CacheProtoCaller_TermTotalOrder A cc w opts arg0 =
     call_one (ab_Call A (pbc_contract cc) w opts ''TermTotalOrder'' [AInt arg0]) abi_int"

definition CacheProtoSession_TermTotalOrder ::
  "('be, 'w, 'o, 'f, 'l) proto_abi \<Rightarrow> ('be, 'o) CacheProtoSession \<Rightarrow> 'w \<Rightarrow> int \<Rightarrow> int or_err option" where
  "CacheProtoSession_TermTotalOrder A s w arg0 =
     CacheProtoCaller_TermTotalOrder A (pb_Caller (pbs_Contract s)) w (pbs_CallOpts s) arg0"

definition CacheProtoCallerSession_TermTotalOrder ::
  "('be, 'w, 'o, 'f, 'l) proto_abi \<Rightarrow> ('be, 'o) CacheProtoCallerSession \<Rightarrow> 'w \<Rightarrow> int \<Rightarrow> int or_err option" where
  "CacheProtoCallerSession_TermTotalOrder A s w arg0 =
     CacheProtoCaller_TermTotalOrder A (pbcs_Contract s) w (pbcs_CallOpts s) arg0"

definition CacheProtoCaller_TokenBonded ::
  "('be, 'w, 'o, 'f, 'l) proto_abi \<Rightarrow> 'be CacheProtoCaller \<Rightarrow> 'w \<Rightarrow> 'o \<Rightarrow> int \<Rightarrow> bool or_err option" where
  "CacheProtoCaller_TokenBonded A cc w opts arg0 =
     call_one (ab_Call A (pbc_contract cc) w opts ''TokenBonded'' [AInt arg0]) abi_bool"

definition CacheProtoSession_TokenBonded ::
  "('be, 'w, 'o, 'f, 'l) proto_abi \<Rightarrow> ('be, 'o) CacheProtoSession \<Rightarrow> 'w \<Rightarrow> int \<Rightarrow> bool or_err option" where
  "CacheProtoSession_TokenBonded A s w arg0 =
     CacheProtoCaller_TokenBonded A (pb_Caller (pbs_Contract s)) w (pbs_CallOpts s) arg0"

definition CacheProtoCallerSession_TokenBonded ::
  "('be, 'w, 'o, 'f, 'l) proto_abi \<Rightarrow> ('be, 'o) CacheProtoCallerSession \<Rightarrow> 'w \<Rightarrow> int \<Rightarrow> bool or_err option" where
  "CacheProtoCallerSession_TokenBonded A s w arg0 =
     CacheProtoCaller_TokenBonded A (pbcs_Contract s) w (pbcs_CallOpts s) arg0"

definition CacheProtoCaller_GetCurrencyTerm ::
  "('be, 'w, 'o, 'f, 'l) proto_abi \<Rightarrow> 'be CacheProtoCaller \<Rightarrow> 'w \<Rightarrow> 'o \<Rightarrow> int or_err option" where
  "CacheProtoCaller_GetCurrencyTerm A cc w opts =
     call_one (ab_Call A (pbc_contract cc) w opts ''getCurrencyTerm'' []) abi_int"

definition CacheProtoSession_GetCurrencyTerm ::
  "('be, 'w, 'o, 'f, 'l) proto_abi \<Rightarrow> ('be, 'o) CacheProtoSession \<Rightarrow> 'w \<Rightarrow> int or_err option" where
  "CacheProtoSession_GetCurrencyTerm A s w =
     CacheProtoCaller_GetCurrencyTerm A (pb_Caller (pbs_Contract s)) w (pbs_CallOpts s)"

definition CacheProtoCallerSession_GetCurrencyTerm ::
  "('be, 'w, 'o, 'f, 'l) proto_abi \<Rightarrow> ('be, 'o) CacheProtoCallerSession \<Rightarrow> 'w \<Rightarrow> int or_err option" where
  "CacheProtoCallerSession_GetCurrencyTerm A s w =
     CacheProtoCaller_GetCurrencyTerm A (pbcs_Contract s) w (pbcs_CallOpts s)"

definition CacheProtoCaller_GetMessageHash ::
  "('be, 'w, 'o, 'f, 'l) proto_abi \<Rightarrow> 'be CacheProtoCaller \<Rightarrow> 'w \<Rightarrow> 'o \<Rightarrow> bytes \<Rightarrow> int \<Rightarrow> bytes or_err option" where
  "CacheProtoCaller_GetMessageHash A cc w opts account tokenId =
     call_one (ab_Call A (pbc_contract cc) w opts ''getMessageHash'' [AAddr account, AInt tokenId]) (abi_fixed 32)"

definition CacheProtoSession_GetMessageHash ::
  "('be, 'w, 'o, 'f, 'l) proto_abi \<Rightarrow> ('be, 'o) CacheProtoSession \<Rightarrow> 'w \<Rightarrow> bytes \<Rightarrow> int \<Rightarrow> bytes or_err option" where
  "CacheProtoSession_GetMessageHash A s w account tokenId =
     CacheProtoCaller_GetMessageHash A (pb_Caller (pbs_Contract s)) w (pbs_CallOpts s) account tokenId"

definition CacheProtoCallerSession_GetMessageHash ::
  "('be, 'w, 'o, 'f, 'l) proto_abi \<Rightarrow> ('be, 'o) CacheProtoCallerSession \<Rightarrow> 'w \<Rightarrow> bytes \<Rightarrow> int \<Rightarrow> bytes or_err option" where
  "CacheProtoCallerSession_GetMessageHash A s w account tokenId =
     CacheProtoCaller_GetMessageHash A (pbcs_Contract s) w (pbcs_CallOpts s) account tokenId"

definition CacheProtoCaller_IsTokenOwner ::
  "('be, 'w, 'o, 'f, 'l) proto_abi \<Rightarrow> 'be CacheProtoCaller \<Rightarrow> 'w \<Rightarrow> 'o \<Rightarrow> bytes \<Rightarrow> int \<Rightarrow> bool or_err option" where
  "CacheProtoCaller_IsTokenOwner A cc w opts acc tokenId =
     call_one (ab_Call A (pbc_contract cc) w opts ''isTokenOwner'' [AAddr acc, AInt tokenId]) abi_bool"

definition CacheProtoSession_IsTokenOwner ::
  "('be, 'w, 'o, 'f, 'l) proto_abi \<Rightarrow> ('be, 'o) CacheProtoSession \<Rightarrow> 'w \<Rightarrow> bytes \<Rightarrow> int \<Rightarrow> bool or_err option" where
  "CacheProtoSession_IsTokenOwner A s w acc tokenId =
     CacheProtoCaller_IsTokenOwner A (pb_Caller (pbs_Contract s)) w (pbs_CallOpts s) acc tokenId"

definition CacheProtoCallerSession_IsTokenOwner ::
  "('be, 'w, 'o, 'f, 'l) proto_abi \<Rightarrow> ('be, 'o) CacheProtoCallerSession \<Rightarrow> 'w \<Rightarrow> bytes \<Rightarrow> int \<Rightarrow> bool or_err option" where
  "CacheProtoCallerSession_IsTokenOwner A s w acc tokenId =
     CacheProtoCaller_IsTokenOwner A (pbcs_Contract s) w (pbcs_CallOpts s) acc tokenId"

definition CacheProtoCaller_OpenRecover ::
  "('be, 'w, 'o, 'f, 'l) proto_abi \<Rightarrow> 'be CacheProtoCaller \<Rightarrow> 'w \<Rightarrow> 'o \<Rightarrow> bytes \<Rightarrow> bytes \<Rightarrow> bytes or_err option" where
  "CacheProtoCaller_OpenRecover A cc w opts msgHash signature =
     call_one (ab_Call A (pbc_contract cc) w opts ''openRecover'' [AFixed msgHash, ABytes signature]) abi_addr"

definition CacheProtoSession_OpenRecover ::
  "('be, 'w, 'o, 'f, 'l) proto_abi \<Rightarrow> ('be, 'o) CacheProtoSession \<Rightarrow> 'w \<Rightarrow> bytes \<Rightarrow> bytes \<Rightarrow> bytes or_err option" where
  "CacheProtoSession_OpenRecover A s w msgHash signature =
     CacheProtoCaller_OpenRecover A (pb_Caller (pbs_Contract s)) w (pbs_CallOpts s) msgHash signature"

definition CacheProtoCallerSession_OpenRecover ::
  "('be, 'w, 'o, 'f, 'l) proto_abi \<Rightarrow> ('be, 'o) CacheProtoCallerSession \<Rightarrow> 'w \<Rightarrow> bytes \<Rightarrow> bytes \<Rightarrow> bytes or_err option" where
  "CacheProtoCallerSession_OpenRecover A s w msgHash signature =
     CacheProtoCaller_OpenRecover A (pbcs_Contract s) w (pbcs_CallOpts s) msgHash signature"

definition CacheProtoCaller_RecoverSigner ::
  "('be, 'w, 'o, 'f, 'l) proto_abi \<Rightarrow> 'be CacheProtoCaller \<Rightarrow> 'w \<Rightarrow> 'o \<Rightarrow> bytes \<Rightarrow> bytes \<Rightarrow> bytes or_err option" where
  "CacheProtoCaller_RecoverSigner A cc w opts msgHash signature =
     call_one (ab_Call A (pbc_contract cc) w opts ''recoverSigner'' [AFixed msgHash, ABytes signature]) abi_addr"

definition CacheProtoSession_RecoverSigner ::
  "('be, 'w, 'o, 'f, 'l) proto_abi \<Rightarrow> ('be, 'o) CacheProtoSession \<Rightarrow> 'w \<Rightarrow> bytes \<Rightarrow> bytes \<Rightarrow> bytes or_err option" where
  "CacheProtoSession_RecoverSigner A s w msgHash signature =
     CacheProtoCaller_RecoverSigner A (pb_Caller (pbs_Contract s)) w (pbs_CallOpts s) msgHash signature"

definition CacheProtoCallerSession_RecoverSigner ::
  "('be, 'w, 'o, 'f, 'l) proto_abi \<Rightarrow> ('be, 'o) CacheProtoCallerSession \<Rightarrow> 'w \<Rightarrow> bytes \<Rightarrow> bytes \<Rightarrow> bytes or_err option" where
  "CacheProtoCallerSession_RecoverSigner A s w msgHash signature =
     CacheProtoCaller_RecoverSigner A (pbcs_Contract s) w (pbcs_CallOpts s) msgHash signature"

definition CacheProtoCaller_ToEthSignedMessageHash ::
  "('be, 'w, 'o, 'f, 'l) proto_abi \<Rightarrow> 'be CacheProtoCaller \<Rightarrow> 'w \<Rightarrow> 'o \<Rightarrow> bytes \<Rightarrow> bytes or_err option" where
  "CacheProtoCaller_ToEthSignedMessageHash A cc w opts hash =
     call_one (ab_Call A (pbc_contract cc) w opts ''toEthSignedMessageHash'' [AFixed hash]) (abi_fixed 32)"

definition CacheProtoSession_ToEthSignedMessageHash ::
  "('be, 'w, 'o, 'f, 'l) proto_abi \<Rightarrow> ('be, 'o) CacheProtoSession \<Rightarrow> 'w \<Rightarrow> bytes \<Rightarrow> bytes or_err option" where
  "CacheProtoSession_ToEthSignedMessageHash A s w hash =
     CacheProtoCaller_ToEthSignedMessageHash A (pb_Caller (pbs_Contract s)) w (pbs_CallOpts s) hash"

definition CacheProtoCallerSession_ToEthSignedMessageHash ::
  "('be, 'w, 'o, 'f, 'l) proto_abi \<Rightarrow> ('be, 'o) CacheProtoCallerSession \<Rightarrow> 'w \<Rightarrow> bytes \<Rightarrow> bytes or_err option" where
  "CacheProtoCallerSession_ToEthSignedMessageHash A s w hash =
     CacheProtoCaller_ToEthSignedMessageHash A (pbcs_Contract s) w (pbcs_CallOpts s) hash"

definition CacheProtoCaller_Verify ::
  "('be, 'w, 'o, 'f, 'l) proto_abi \<Rightarrow> 'be CacheProtoCaller \<Rightarrow> 'w \<Rightarrow> 'o \<Rightarrow> bytes \<Rightarrow> bytes \<Rightarrow> bytes \<Rightarrow> bool or_err option" where
  "CacheProtoCaller_Verify A cc w opts msgHash signature signer =
     call_one (ab_Call A (pbc_contract cc) w opts ''verify'' [AFixed msgHash, ABytes signature, AAddr signer]) abi_bool"

definition CacheProtoSession_Verify ::
  "('be, 'w, 'o, 'f, 'l) proto_abi \<Rightarrow> ('be, 'o) CacheProtoSession \<Rightarrow> 'w \<Rightarrow> bytes \<Rightarrow> bytes \<Rightarrow> bytes \<Rightarrow> bool or_err option" where
  "CacheProtoSession_Verify A s w msgHash signature signer =
     CacheProtoCaller_Verify A (pb_Caller (pbs_Contract s)) w (pbs_CallOpts s) msgHash signature signer"

definition CacheProtoCallerSession_Verify ::
  "('be, 'w, 'o, 'f, 'l) proto_abi \<Rightarrow> ('be, 'o) CacheProtoCallerSession \<Rightarrow> 'w \<Rightarrow> bytes \<Rightarrow> bytes \<Rightarrow> bytes \<Rightarrow> bool or_err option" where
  "CacheProtoCallerSession_Verify A s w msgHash signature signer =
     CacheProtoCaller_Verify A (pbcs_Contract s) w (pbcs_CallOpts s) msgHash signature signer"

definition CacheProtoTransactor_CacheOrderPayment ::
  "('be, 'w, 'o, 'f, 'l) proto_abi \<Rightarrow> 'be CacheProtoTransactor \<Rightarrow> 'w \<Rightarrow> TransactOpts \<Rightarrow> bytes \<Rightarrow> string or_err \<times> 'w" where
  "CacheProtoTransactor_CacheOrderPayment A ct w opts nodeAcc =
     ab_Transact A (pbt_contract ct) w opts ''cacheOrderPayment'' [AAddr nodeAcc]"

definition CacheProtoSession_CacheOrderPayment ::
  "('be, 'w, 'o, 'f, 'l) proto_abi \<Rightarrow> ('be, 'o) CacheProtoSession \<Rightarrow> 'w \<Rightarrow> bytes \<Rightarrow> string or_err \<times> 'w" where
  "CacheProtoSession_CacheOrderPayment A s w nodeAcc =
     CacheProtoTransactor_CacheOrderPayment A (pb_Transactor (pbs_Contract s)) w (pbs_TransactOpts s) nodeAcc"

definition CacheProtoTransactorSession_CacheOrderPayment ::
  "('be, 'w, 'o, 'f, 'l) proto_abi \<Rightarrow> 'be CacheProtoTransactorSession \<Rightarrow> 'w \<Rightarrow> bytes \<Rightarrow> string or_err \<times> 'w" where
  "CacheProtoTransactorSession_CacheOrderPayment A s w nodeAcc =
     CacheProtoTransactor_CacheOrderPayment A (pbts_Contract s) w (pbts_TransactOpts s) nodeAcc"

definition CacheProtoTransactor_Claim ::
  "('be, 'w, 'o, 'f, 'l) proto_abi \<Rightarrow> 'be CacheProtoTransactor \<Rightarrow> 'w \<Rightarrow> TransactOpts \<Rightarrow> string or_err \<times> 'w" where
  "CacheProtoTransactor_Claim A ct w opts =
     ab_Transact A (pbt_contract ct) w opts ''claim'' []"

definition CacheProtoSession_Claim ::
  "('be, 'w, 'o, 'f, 'l) proto_abi \<Rightarrow> ('be, 'o) CacheProtoSession \<Rightarrow> 'w \<Rightarrow> string or_err \<times> 'w" where
  "CacheProtoSession_Claim A s w =
     CacheProtoTransactor_Claim A (pb_Transactor (pbs_Contract s)) w (pbs_TransactOpts s)"

definition CacheProtoTransactorSession_Claim ::
  "('be, 'w, 'o, 'f, 'l) proto_abi \<Rightarrow> 'be CacheProtoTransactorSession \<Rightarrow> 'w \<Rightarrow> string or_err \<times> 'w" where
  "CacheProtoTransactorSession_Claim A s w =
     CacheProtoTransactor_Claim A (pbts_Contract s) w (pbts_TransactOpts s)"

definition CacheProtoTransactor_Exit ::
  "('be, 'w, 'o, 'f, 'l) proto_abi \<Rightarrow> 'be CacheProtoTransactor \<Rightarrow> 'w \<Rightarrow> TransactOpts \<Rightarrow> string or_err \<times> 'w" where
  "CacheProtoTransactor_Exit A ct w opts =
     ab_Transact A (pbt_contract ct) w opts ''exit'' []"

definition CacheProtoSession_Exit ::
  "('be, 'w, 'o, 'f, 'l) proto_abi \<Rightarrow> ('be, 'o) CacheProtoSession \<Rightarrow> 'w \<Rightarrow> string or_err \<times> 'w" where
  "CacheProtoSession_Exit A s w =
     CacheProtoTransactor_Exit A (pb_Transactor (pbs_Contract s)) w (pbs_TransactOpts s)"

definition CacheProtoTransactorSession_Exit ::
  "('be, 'w, 'o, 'f, 'l) proto_abi \<Rightarrow> 'be CacheProtoTransactorSession \<Rightarrow> 'w \<Rightarrow> string or_err \<times> 'w" where
  "CacheProtoTransactorSession_Exit A s w =
     CacheProtoTransactor_Exit A (pbts_Contract s) w (pbts_TransactOpts s)"

definition CacheProtoTransactor_OrderClaim ::
  "('be, 'w, 'o, 'f, 'l) proto_abi \<Rightarrow> 'be CacheProtoTransactor \<Rightarrow> 'w \<Rightarrow> TransactOpts \<Rightarrow> bytes \<Rightarrow> string or_err \<times> 'w" where
  "CacheProtoTransactor_OrderClaim A ct w opts orderId =
     ab_Transact A (pbt_contract ct) w opts ''orderClaim'' [AFixed orderId]"

definition CacheProtoSession_OrderClaim ::
  "('be, 'w, 'o, 'f, 'l) proto_abi \<Rightarrow> ('be, 'o) CacheProtoSession \<Rightarrow> 'w \<Rightarrow> bytes \<Rightarrow> string or_err \<times> 'w" where
  "CacheProtoSession_OrderClaim A s w orderId =
     CacheProtoTransactor_OrderClaim A (pb_Transactor (pbs_Contract s)) w (pbs_TransactOpts s) orderId"

definition CacheProtoTransactorSession_OrderClaim ::
  "('be, 'w, 'o, 'f, 'l) proto_abi \<Rightarrow> 'be CacheProtoTransactorSession \<Rightarrow> 'w \<Rightarrow> bytes \<Rightarrow> string or_err \<times> 'w" where
  "CacheProtoTransactorSession_OrderClaim A s w orderId =
     CacheProtoTransactor_OrderClaim A (pbts_Contract s) w (pbts_TransactOpts s) orderId"

definition CacheProtoTransactor_Staking ::
  "('be, 'w, 'o, 'f, 'l) proto_abi \<Rightarrow> 'be CacheProtoTransactor \<Rightarrow> 'w \<Rightarrow> TransactOpts \<Rightarrow> bytes \<Rightarrow> bytes \<Rightarrow> int \<Rightarrow> bytes \<Rightarrow> bytes \<Rightarrow> string or_err \<times> 'w" where
  "CacheProtoTransactor_Staking A ct w opts nodeAcc tokenAcc tokenId peerId signature =
     ab_Transact A (pbt_contract ct) w opts ''staking'' [AAddr nodeAcc, AAddr tokenAcc, AInt tokenId, ABytes peerId, ABytes signature]"

definition CacheProtoSession_Staking ::
  "('be, 'w, 'o, 'f, 'l) proto_abi \<Rightarrow> ('be, 'o) CacheProtoSession \<Rightarrow> 'w \<Rightarrow> bytes \<Rightarrow> bytes \<Rightarrow> int \<Rightarrow> bytes \<Rightarrow> bytes \<Rightarrow> string or_err \<times> 'w" where
  "CacheProtoSession_Staking A s w nodeAcc tokenAcc tokenId peerId signature =
     CacheProtoTransactor_Staking A (pb_Transactor (pbs_Contract s)) w (pbs_TransactOpts s) nodeAcc tokenAcc tokenId peerId signature"

definition CacheProtoTransactorSession_Staking ::
  "('be, 'w, 'o, 'f, 'l) proto_abi \<Rightarrow> 'be CacheProtoTransactorSession \<Rightarrow> 'w \<Rightarrow> bytes \<Rightarrow> bytes \<Rightarrow> int \<Rightarrow> bytes \<Rightarrow> bytes \<Rightarrow> string or_err \<times> 'w" where
  "CacheProtoTransactorSession_Staking A s w nodeAcc tokenAcc tokenId peerId signature =
     CacheProtoTransactor_Staking A (pbts_Contract s) w (pbts_TransactOpts s) nodeAcc tokenAcc tokenId peerId signature"

section \<open>Logs\<close>

subsection \<open>The event \<open>Claim\<close>\<close>

type_synonym ('be, 'l) CacheProtoClaimIterator = "('be, 'l, 'l CacheProtoClaim) log_iterator"

definition CacheProtoClaimIterator_Next ::
  "('be, 'w, 'o, 'f, 'l) proto_abi \<Rightarrow> ('be, 'l) CacheProtoClaimIterator \<Rightarrow> (bool \<times> ('be, 'l) CacheProtoClaimIterator) option" where
  "CacheProtoClaimIterator_Next A it =
     it_Next (\<lambda>c name l. pb_UnpackClaim A c name l new_CacheProtoClaim) (\<lambda>l ev. ev\<lparr>CacheProtoClaim_Raw := Some l\<rparr>) it"

definition CacheProtoClaimIterator_Error ::
  "('be, 'l) CacheProtoClaimIterator \<Rightarrow> goerr option" where
  "CacheProtoClaimIterator_Error it = it_Error it"

definition CacheProtoClaimIterator_Close ::
  "('be, 'l) CacheProtoClaimIterator \<Rightarrow> goerr option \<times> ('be, 'l) CacheProtoClaimIterator" where
  "CacheProtoClaimIterator_Close it = it_Close it"

definition CacheProtoFilterer_ParseClaim ::
  "('be, 'w, 'o, 'f, 'l) proto_abi \<Rightarrow> 'be CacheProtoFilterer \<Rightarrow> 'l \<Rightarrow> 'l CacheProtoClaim or_err" where
  "CacheProtoFilterer_ParseClaim A f l =
     (case pb_UnpackClaim A (pbf_contract f) ''Claim'' l new_CacheProtoClaim of
        (event, Some err) \<Rightarrow> Inl err
      | (event, None) \<Rightarrow> Inr (event\<lparr>CacheProtoClaim_Raw := Some l\<rparr>))"

definition CacheProtoFilterer_FilterClaim ::
  "('be, 'w, 'o, 'f, 'l) proto_abi \<Rightarrow> 'be CacheProtoFilterer \<Rightarrow> 'w \<Rightarrow> 'f \<Rightarrow> bytes list \<Rightarrow> ('be, 'l) CacheProtoClaimIterator or_err" where
  "CacheProtoFilterer_FilterClaim A f w opts nodeAcc =
     (let nodeAccRule = rule_loop AAddr [] nodeAcc
      in case ab_FilterLogs A (pbf_contract f) w opts ''Claim'' [nodeAccRule] of
        Inl err \<Rightarrow> Inl err
      | Inr arr \<Rightarrow> Inr (new_iterator (pbf_contract f) ''Claim'' arr))"

definition CacheProtoFilterer_WatchClaim ::
  "('be, 'w, 'o, 'f, 'l) proto_abi \<Rightarrow> 'be CacheProtoFilterer \<Rightarrow> 'w \<Rightarrow> 'f \<Rightarrow> bytes list \<Rightarrow> ('l CacheProtoClaim list \<times> goerr option option) or_err" where
  "CacheProtoFilterer_WatchClaim A f w opts nodeAcc =
     (let nodeAccRule = rule_loop AAddr [] nodeAcc
      in case ab_WatchLogs A (pbf_contract f) w opts ''Claim'' [nodeAccRule] of
        Inl err \<Rightarrow> Inl err
      | Inr arr \<Rightarrow> Inr (watch_loop (CacheProtoFilterer_ParseClaim A f) [] arr))"

subsection \<open>The event \<open>Exit\<close>\<close>

type_synonym ('be, 'l) CacheProtoExitIterator = "('be, 'l, 'l CacheProtoExit) log_iterator"

definition CacheProtoExitIterator_Next ::
  "('be, 'w, 'o, 'f, 'l) proto_abi \<Rightarrow> ('be, 'l) CacheProtoExitIterator \<Rightarrow> (bool \<times> ('be, 'l) CacheProtoExitIterator) option" where
  "CacheProtoExitIterator_Next A it =
     it_Next (\<lambda>c name l. pb_UnpackExit A c name l new_CacheProtoExit) (\<lambda>l ev. ev\<lparr>CacheProtoExit_Raw := Some l\<rparr>) it"

definition CacheProtoExitIterator_Error ::
  "('be, 'l) CacheProtoExitIterator \<Rightarrow> goerr option" where
  "CacheProtoExitIterator_Error it = it_Error it"

definition CacheProtoExitIterator_Close ::
  "('be, 'l) CacheProtoExitIterator \<Rightarrow> goerr option \<times> ('be, 'l) CacheProtoExitIterator" where
  "CacheProtoExitIterator_Close it = it_Close it"

definition CacheProtoFilterer_ParseExit ::
  "('be, 'w, 'o, 'f, 'l) proto_abi \<Rightarrow> 'be CacheProtoFilterer \<Rightarrow> 'l \<Rightarrow> 'l CacheProtoExit or_err" where
  "CacheProtoFilterer_ParseExit A f l =
     (case pb_UnpackExit A (pbf_contract f) ''Exit'' l new_CacheProtoExit of
        (event, Some err) \<Rightarrow> Inl err
      | (event, None) \<Rightarrow> Inr (event\<lparr>CacheProtoExit_Raw := Some l\<rparr>))"

definition CacheProtoFilterer_FilterExit ::
  "('be, 'w, 'o, 'f, 'l) proto_abi \<Rightarrow> 'be CacheProtoFilterer \<Rightarrow> 'w \<Rightarrow> 'f \<Rightarrow> bytes list \<Rightarrow> ('be, 'l) CacheProtoExitIterator or_err" where
  "CacheProtoFilterer_FilterExit A f w opts nodeAcc =
     (let nodeAccRule = rule_loop AAddr [] nodeAcc
      in case ab_FilterLogs A (pbf_contract f) w opts ''Exit'' [nodeAccRule] of
        Inl err \<Rightarrow> Inl err
      | Inr arr \<Rightarrow> Inr (new_iterator (pbf_contract f) ''Exit'' arr))"

definition CacheProtoFilterer_WatchExit ::
  "('be, 'w, 'o, 'f, 'l) proto_abi \<Rightarrow> 'be CacheProtoFilterer \<Rightarrow> 'w \<Rightarrow> 'f \<Rightarrow> bytes list \<Rightarrow> ('l CacheProtoExit list \<times> goerr option option) or_err" where
  "CacheProtoFilterer_WatchExit A f w opts nodeAcc =
     (let nodeAccRule = rule_loop AAddr [] nodeAcc
      in case ab_WatchLogs A (pbf_contract f) w opts ''Exit'' [nodeAccRule] of
        Inl err \<Rightarrow> Inl err
      | Inr arr \<Rightarrow> Inr (watch_loop (CacheProtoFilterer_ParseExit A f) [] arr))"

subsection \<open>The event \<open>OrderPayment\<close>\<close>

type_synonym ('be, 'l) CacheProtoOrderPaymentIterator = "('be, 'l, 'l CacheProtoOrderPayment) log_iterator"

definition CacheProtoOrderPaymentIterator_Next ::
  "('be, 'w, 'o, 'f, 'l) proto_abi \<Rightarrow> ('be, 'l) CacheProtoOrderPaymentIterator \<Rightarrow> (bool \<times> ('be, 'l) CacheProtoOrderPaymentIterator) option" where
  "CacheProtoOrderPaymentIterator_Next A it =
     it_Next (\<lambda>c name l. pb_UnpackOrderPayment A c name l new_CacheProtoOrderPayment) (\<lambda>l ev. ev\<lparr>CacheProtoOrderPayment_Raw := Some l\<rparr>) it"

definition CacheProtoOrderPaymentIterator_Error ::
  "('be, 'l) CacheProtoOrderPaymentIterator \<Rightarrow> goerr option" where
  "CacheProtoOrderPaymentIterator_Error it = it_Error it"

definition CacheProtoOrderPaymentIterator_Close ::
  "('be, 'l) CacheProtoOrderPaymentIterator \<Rightarrow> goerr option \<times> ('be, 'l) CacheProtoOrderPaymentIterator" where
  "CacheProtoOrderPaymentIterator_Close it = it_Close it"

definition CacheProtoFilterer_ParseOrderPayment ::
  "('be, 'w, 'o, 'f, 'l) proto_abi \<Rightarrow> 'be CacheProtoFilterer \<Rightarrow> 'l \<Rightarrow> 'l CacheProtoOrderPayment or_err" where
  "CacheProtoFilterer_ParseOrderPayment A f l =
     (case pb_UnpackOrderPayment A (pbf_contract f) ''OrderPayment'' l new_CacheProtoOrderPayment of
        (event, Some err) \<Rightarrow> Inl err
      | (event, None) \<Rightarrow> Inr (event\<lparr>CacheProtoOrderPayment_Raw := Some l\<rparr>))"

definition CacheProtoFilterer_FilterOrderPayment ::
  "('be, 'w, 'o, 'f, 'l) proto_abi \<Rightarrow> 'be CacheProtoFilterer \<Rightarrow> 'w \<Rightarrow> 'f \<Rightarrow> bytes list \<Rightarrow> bytes list \<Rightarrow> ('be, 'l) CacheProtoOrderPaymentIterator or_err" where
  "CacheProtoFilterer_FilterOrderPayment A f w opts orderId nodeAcc =
     (let orderIdRule = rule_loop AFixed [] orderId;
          nodeAccRule = rule_loop AAddr [] nodeAcc
      in case ab_FilterLogs A (pbf_contract f) w opts ''OrderPayment'' [orderIdRule, nodeAccRule] of
        Inl err \<Rightarrow> Inl err
      | Inr arr \<Rightarrow> Inr (new_iterator (pbf_contract f) ''OrderPayment'' arr))"

definition CacheProtoFilterer_WatchOrderPayment ::
  "('be, 'w, 'o, 'f, 'l) proto_abi \<Rightarrow> 'be CacheProtoFilterer \<Rightarrow> 'w \<Rightarrow> 'f \<Rightarrow> bytes list \<Rightarrow> bytes list \<Rightarrow> ('l CacheProtoOrderPayment list \<times> goerr option option) or_err" where
  "CacheProtoFilterer_WatchOrderPayment A f w opts orderId nodeAcc =
     (let orderIdRule = rule_loop AFixed [] orderId;
          nodeAccRule = rule_loop AAddr [] nodeAcc
      in case ab_WatchLogs A (pbf_contract f) w opts ''OrderPayment'' [orderIdRule, nodeAccRule] of
        Inl err \<Rightarrow> Inl err
      | Inr arr \<Rightarrow> Inr (watch_loop (CacheProtoFilterer_ParseOrderPayment A f) [] arr))"

subsection \<open>The event \<open>Staking\<close>\<close>

type_synonym ('be, 'l) CacheProtoStakingIterator = "('be, 'l, 'l CacheProtoStaking) log_iterator"

definition CacheProtoStakingIterator_Next ::
  "('be, 'w, 'o, 'f, 'l) proto_abi \<Rightarrow> ('be, 'l) CacheProtoStakingIterator \<Rightarrow> (bool \<times> ('be, 'l) CacheProtoStakingIterator) option" where
  "CacheProtoStakingIterator_Next A it =
     it_Next (\<lambda>c name l. pb_UnpackStaking A c name l new_CacheProtoStaking) (\<lambda>l ev. ev\<lparr>CacheProtoStaking_Raw := Some l\<rparr>) it"

definition CacheProtoStakingIterator_Error ::
  "('be, 'l) CacheProtoStakingIterator \<Rightarrow> goerr option" where
  "CacheProtoStakingIterator_Error it = it_Error it"

definition CacheProtoStakingIterator_Close ::
  "('be, 'l) CacheProtoStakingIterator \<Rightarrow> goerr option \<times> ('be, 'l) CacheProtoStakingIterator" where
  "CacheProtoStakingIterator_Close it = it_Close it"

definition CacheProtoFilterer_ParseStaking ::
  "('be, 'w, 'o, 'f, 'l) proto_abi \<Rightarrow> 'be CacheProtoFilterer \<Rightarrow> 'l \<Rightarrow> 'l CacheProtoStaking or_err" where
  "CacheProtoFilterer_ParseStaking A f l =
     (case pb_UnpackStaking A (pbf_contract f) ''Staking'' l new_CacheProtoStaking of
        (event, Some err) \<Rightarrow> Inl err
      | (event, None) \<Rightarrow> Inr (event\<lparr>CacheProtoStaking_Raw := Some l\<rparr>))"

definition CacheProtoFilterer_FilterStaking ::
  "('be, 'w, 'o, 'f, 'l) proto_abi \<Rightarrow> 'be CacheProtoFilterer \<Rightarrow> 'w \<Rightarrow> 'f \<Rightarrow> bytes list \<Rightarrow> int list \<Rightarrow> ('be, 'l) CacheProtoStakingIterator or_err" where
  "CacheProtoFilterer_FilterStaking A f w opts nodeAcc tokenId =
     (let nodeAccRule = rule_loop AAddr [] nodeAcc;
          tokenIdRule = rule_loop AInt [] tokenId
      in case ab_FilterLogs A (pbf_contract f) w opts ''Staking'' [nodeAccRule, tokenIdRule] of
        Inl err \<Rightarrow> Inl err
      | Inr arr \<Rightarrow> Inr (new_iterator (pbf_contract f) ''Staking'' arr))"

definition CacheProtoFilterer_WatchStaking ::
  "('be, 'w, 'o, 'f, 'l) proto_abi \<Rightarrow> 'be CacheProtoFilterer \<Rightarrow> 'w \<Rightarrow> 'f \<Rightarrow> bytes list \<Rightarrow> int list \<Rightarrow> ('l CacheProtoStaking list \<times> goerr option option) or_err" where
  "CacheProtoFilterer_WatchStaking A f w opts nodeAcc tokenId =
     (let nodeAccRule = rule_loop AAddr [] nodeAcc;
          tokenIdRule = rule_loop AInt [] tokenId
      in case ab_WatchLogs A (pbf_contract f) w opts ''Staking'' [nodeAccRule, tokenIdRule] of
        Inl err \<Rightarrow> Inl err
      | Inr arr \<Rightarrow> Inr (watch_loop (CacheProtoFilterer_ParseStaking A f) [] arr))"

section \<open>Laws\<close>

lemma proto_lookups [simp]:
  "abi_lookup CacheProtoMetaData ''CacheReward'' = Some (MView, [TAddress], [TUint256])"
  "abi_lookup CacheProtoMetaData ''Node'' = Some (MView, [TAddress], [TBool, TUint256, TUint256, TBytes])"
  "abi_lookup CacheProtoMetaData ''Order'' = Some (MView, [TBytesN 32], [TUint256, TAddress, TAddress, TUint256])"
  "abi_lookup CacheProtoMetaData ''OrderNum'' = Some (MView, [TAddress], [TUint256])"
  "abi_lookup CacheProtoMetaData ''RewardRecord'' = Some (MView, [TAddress], [TUint256])"
  "abi_lookup CacheProtoMetaData ''TermTotalOrder'' = Some (MView, [TUint256], [TUint256])"
  "abi_lookup CacheProtoMetaData ''TokenBonded'' = Some (MView, [TUint256], [TBool])"
  "abi_lookup CacheProtoMetaData ''cacheOrderPayment'' = Some (MPayable, [TAddress], [])"
  "abi_lookup CacheProtoMetaData ''claim'' = Some (MNonpayable, [], [])"
  "abi_lookup CacheProtoMetaData ''exit'' = Some (MNonpayable, [], [])"
  "abi_lookup CacheProtoMetaData ''getCurrencyTerm'' = Some (MView, [], [TUint256])"
  "abi_lookup CacheProtoMetaData ''getMessageHash'' = Some (MPure, [TAddress, TUint256], [TBytesN 32])"
  "abi_lookup CacheProtoMetaData ''isTokenOwner'' = Some (MView, [TAddress, TUint256], [TBool])"
  "abi_lookup CacheProtoMetaData ''openRecover'' = Some (MView, [TBytesN 32, TBytes], [TAddress])"
  "abi_lookup CacheProtoMetaData ''orderClaim'' = Some (MNonpayable, [TBytesN 32], [])"
  "abi_lookup CacheProtoMetaData ''recoverSigner'' = Some (MPure, [TBytesN 32, TBytes], [TAddress])"
  "abi_lookup CacheProtoMetaData ''staking'' = Some (MPayable, [TAddress, TAddress, TUint256, TBytes, TBytes], [])"
  "abi_lookup CacheProtoMetaData ''toEthSignedMessageHash'' = Some (MPure, [TBytesN 32], [TBytesN 32])"
  "abi_lookup CacheProtoMetaData ''verify'' = Some (MPure, [TBytesN 32, TBytes, TAddress], [TBool])"
  by code_simp+

lemmas proto_one_defs =
  CacheProtoCaller_CacheReward_def CacheProtoCaller_OrderNum_def CacheProtoCaller_RewardRecord_def CacheProtoCaller_TermTotalOrder_def
  CacheProtoCaller_TokenBonded_def
  CacheProtoCaller_GetCurrencyTerm_def
  CacheProtoCaller_GetMessageHash_def CacheProtoCaller_IsTokenOwner_def CacheProtoCaller_OpenRecover_def CacheProtoCaller_RecoverSigner_def CacheProtoCaller_ToEthSignedMessageHash_def
  CacheProtoCaller_Verify_def

lemmas proto_caller_defs = proto_one_defs CacheProtoCaller_Node_def CacheProtoCaller_Order_def

lemmas proto_transactor_defs = CacheProtoTransactor_CacheOrderPayment_def CacheProtoTransactor_Claim_def
  CacheProtoTransactor_Exit_def CacheProtoTransactor_OrderClaim_def CacheProtoTransactor_Staking_def

text \<open>The two calls with a struct as their result.\<close>

lemma proto_structs_total:
  assumes "abi_decodes A CacheProtoMetaData" "bd_abi (pbc_contract cc) = CacheProtoMetaData"
  shows "CacheProtoCaller_Node A cc w opts a1 \<noteq> None" and "CacheProtoCaller_Order A cc w opts b32 \<noteq> None"
proof -
  have node: "ab_Call A (pbc_contract cc) w opts ''Node'' args = Inr out \<Longrightarrow> list_all2 fits out [TBool, TUint256, TUint256, TBytes]" for args out
    by (rule decoded_output [OF assms proto_lookups(2)])
  have order: "ab_Call A (pbc_contract cc) w opts ''Order'' args = Inr out \<Longrightarrow> list_all2 fits out [TUint256, TAddress, TAddress, TUint256]" for args out
    by (rule decoded_output [OF assms proto_lookups(3)])
  show "CacheProtoCaller_Node A cc w opts a1 \<noteq> None"
    by (auto simp: CacheProtoCaller_Node_def out_at_def list_all2_Cons2 split: sum.split dest!: node)
  show "CacheProtoCaller_Order A cc w opts b32 \<noteq> None"
    by (auto simp: CacheProtoCaller_Order_def out_at_def list_all2_Cons2 split: sum.split dest!: order)
qed

text \<open>No caller panics on results of the described types.\<close>

lemma proto_callers_total:
  assumes "abi_decodes A CacheProtoMetaData" "bd_abi (pbc_contract cc) = CacheProtoMetaData"
  shows "CacheProtoCaller_CacheReward A cc w opts a1 \<noteq> None"
    "CacheProtoCaller_Node A cc w opts a1 \<noteq> None"
    "CacheProtoCaller_Order A cc w opts b32 \<noteq> None"
    "CacheProtoCaller_OrderNum A cc w opts a1 \<noteq> None"
    "CacheProtoCaller_RewardRecord A cc w opts a1 \<noteq> None"
    "CacheProtoCaller_TermTotalOrder A cc w opts i \<noteq> None"
    "CacheProtoCaller_TokenBonded A cc w opts i \<noteq> None"
    "CacheProtoCaller_GetCurrencyTerm A cc w opts \<noteq> None"
    "CacheProtoCaller_GetMessageHash A cc w opts a1 i \<noteq> None"
    "CacheProtoCaller_IsTokenOwner A cc w opts a1 i \<noteq> None"
    "CacheProtoCaller_OpenRecover A cc w opts b32 b1 \<noteq> None"
    "CacheProtoCaller_RecoverSigner A cc w opts b32 b1 \<noteq> None"
    "CacheProtoCaller_ToEthSignedMessageHash A cc w opts b32 \<noteq> None"
    "CacheProtoCaller_Verify A cc w opts b32 b1 a1 \<noteq> None"
  by (simp_all add: proto_structs_total[OF assms] proto_one_defs proto_lookups(1, 4, 5, 6, 7, 11, 12, 13, 14, 16, 18, 19)[THEN call_one_total[OF assms]] conversions_total del: not_None_eq fits_conversions)

text \<open>Every call and every transaction is one that the interface describes.\<close>

lemma proto_calls_fit:
  assumes "bd_abi (pbc_contract cc) = CacheProtoMetaData" "length b32 = 32"
  shows "CacheProtoCaller_CacheReward (abi_checked A) cc w opts a1 = CacheProtoCaller_CacheReward A cc w opts a1"
    "CacheProtoCaller_Node (abi_checked A) cc w opts a1 = CacheProtoCaller_Node A cc w opts a1"
    "CacheProtoCaller_Order (abi_checked A) cc w opts b32 = CacheProtoCaller_Order A cc w opts b32"
    "CacheProtoCaller_OrderNum (abi_checked A) cc w opts a1 = CacheProtoCaller_OrderNum A cc w opts a1"
    "CacheProtoCaller_RewardRecord (abi_checked A) cc w opts a1 = CacheProtoCaller_RewardRecord A cc w opts a1"
    "CacheProtoCaller_TermTotalOrder (abi_checked A) cc w opts i = CacheProtoCaller_TermTotalOrder A cc w opts i"
    "CacheProtoCaller_TokenBonded (abi_checked A) cc w opts i = CacheProtoCaller_TokenBonded A cc w opts i"
    "CacheProtoCaller_GetCurrencyTerm (abi_checked A) cc w opts = CacheProtoCaller_GetCurrencyTerm A cc w opts"
    "CacheProtoCaller_GetMessageHash (abi_checked A) cc w opts a1 i = CacheProtoCaller_GetMessageHash A cc w opts a1 i"
    "CacheProtoCaller_IsTokenOwner (abi_checked A) cc w opts a1 i = CacheProtoCaller_IsTokenOwner A cc w opts a1 i"
    "CacheProtoCaller_OpenRecover (abi_checked A) cc w opts b32 b1 = CacheProtoCaller_OpenRecover A cc w opts b32 b1"
    "CacheProtoCaller_RecoverSigner (abi_checked A) cc w opts b32 b1 = CacheProtoCaller_RecoverSigner A cc w opts b32 b1"
    "CacheProtoCaller_ToEthSignedMessageHash (abi_checked A) cc w opts b32 = CacheProtoCaller_ToEthSignedMessageHash A cc w opts b32"
    "CacheProtoCaller_Verify (abi_checked A) cc w opts b32 b1 a1 = CacheProtoCaller_Verify A cc w opts b32 b1 a1"
  using assms by (simp_all add: proto_caller_defs packs_def)

lemma proto_transactions_fit:
  assumes "bd_abi (pbt_contract ct) = CacheProtoMetaData" "length b32 = 32"
  shows "CacheProtoTransactor_CacheOrderPayment (abi_checked A) ct w tos a1 = CacheProtoTransactor_CacheOrderPayment A ct w tos a1"
    "CacheProtoTransactor_Claim (abi_checked A) ct w tos = CacheProtoTransactor_Claim A ct w tos"
    "CacheProtoTransactor_Exit (abi_checked A) ct w tos = CacheProtoTransactor_Exit A ct w tos"
    "CacheProtoTransactor_OrderClaim (abi_checked A) ct w tos b32 = CacheProtoTransactor_OrderClaim A ct w tos b32"
    "CacheProtoTransactor_Staking (abi_checked A) ct w tos a1 a2 i b1 b2 = CacheProtoTransactor_Staking A ct w tos a1 a2 i b1 b2"
  using assms by (simp_all add: proto_transactor_defs packs_def)


text \<open>The generated iterators and parsers keep the contract of an event iterator.\<close>

interpretation claim_log: event_iterator "CacheProtoClaimIterator_Next A" "CacheProtoFilterer_ParseClaim A f" "pbf_contract f" "''Claim''" for A f
  using generated_iterator [of "\<lambda>c name l. pb_UnpackClaim A c name l new_CacheProtoClaim" "\<lambda>l ev. ev\<lparr>CacheProtoClaim_Raw := Some l\<rparr>"]
  by (simp add: CacheProtoClaimIterator_Next_def [abs_def] CacheProtoFilterer_ParseClaim_def [abs_def] parse_log_def [abs_def])

interpretation exit_log: event_iterator "CacheProtoExitIterator_Next A" "CacheProtoFilterer_ParseExit A f" "pbf_contract f" "''Exit''" for A f
  using generated_iterator [of "\<lambda>c name l. pb_UnpackExit A c name l new_CacheProtoExit" "\<lambda>l ev. ev\<lparr>CacheProtoExit_Raw := Some l\<rparr>"]
  by (simp add: CacheProtoExitIterator_Next_def [abs_def] CacheProtoFilterer_ParseExit_def [abs_def] parse_log_def [abs_def])

interpretation payment_log: event_iterator "CacheProtoOrderPaymentIterator_Next A" "CacheProtoFilterer_ParseOrderPayment A f" "pbf_contract f" "''OrderPayment''" for A f
  using generated_iterator [of "\<lambda>c name l. pb_UnpackOrderPayment A c name l new_CacheProtoOrderPayment" "\<lambda>l ev. ev\<lparr>CacheProtoOrderPayment_Raw := Some l\<rparr>"]
  by (simp add: CacheProtoOrderPaymentIterator_Next_def [abs_def] CacheProtoFilterer_ParseOrderPayment_def [abs_def] parse_log_def [abs_def])

interpretation staking_log: event_iterator "CacheProtoStakingIterator_Next A" "CacheProtoFilterer_ParseStaking A f" "pbf_contract f" "''Staking''" for A f
  using generated_iterator [of "\<lambda>c name l. pb_UnpackStaking A c name l new_CacheProtoStaking" "\<lambda>l ev. ev\<lparr>CacheProtoStaking_Raw := Some l\<rparr>"]
  by (simp add: CacheProtoStakingIterator_Next_def [abs_def] CacheProtoFilterer_ParseStaking_def [abs_def] parse_log_def [abs_def])

section \<open>The protocol over its binding\<close>

text \<open>
  The environment of \<open>Cache_Proto\<close> with the contract reached through the binding \<open>cp\<close>, as
  \<open>cache_evm_proto.go\<close> does, with empty call options \<open>noOpts\<close>. A panic of a conversion is an error here; by
  \<open>proto_callers_total\<close> there is none.
\<close>

definition panic_err :: goerr where "panic_err = Errorf ''interface conversion''"

definition proto_of ::
  "('be, 'w, 'o, 'f, 'l) proto_abi \<Rightarrow> 'o \<Rightarrow> 'be \<Rightarrow> 'be CacheProto \<Rightarrow> ('w, 'l) proto_env \<Rightarrow> ('w, 'l) proto_env" where
  "proto_of A noOpts cli cp P = P\<lparr>
     pe_Bind := (\<lambda>addr. case NewCacheProto A addr cli of Inl err \<Rightarrow> Some err | Inr _ \<Rightarrow> None),
     pe_NodeCall := (\<lambda>w acc. case CacheProtoCaller_Node A (pb_Caller cp) w noOpts acc of
        None \<Rightarrow> (NodeInfo_zero, Some panic_err) | Some res \<Rightarrow> res),
     pe_OrderCall := (\<lambda>w oid. case CacheProtoCaller_Order A (pb_Caller cp) w noOpts oid of
        None \<Rightarrow> (Order_zero, Some panic_err) | Some res \<Rightarrow> res),
     pe_TermCall := (\<lambda>w. case CacheProtoCaller_GetCurrencyTerm A (pb_Caller cp) w noOpts of
        None \<Rightarrow> Inl panic_err | Some res \<Rightarrow> res),
     pe_Payment := (\<lambda>w opts acc. CacheProtoTransactor_CacheOrderPayment A (pb_Transactor cp) w opts acc),
     pe_Staking := (\<lambda>w opts acc tok tid pid sig. CacheProtoTransactor_Staking A (pb_Transactor cp) w opts acc tok tid pid sig),
     pe_Claim := (\<lambda>w opts. CacheProtoTransactor_Claim A (pb_Transactor cp) w opts),
     pe_Exit := (\<lambda>w opts. CacheProtoTransactor_Exit A (pb_Transactor cp) w opts),
     pe_ParseOrderPayment := (\<lambda>l. map_sum id (\<lambda>ev. (CacheProtoOrderPayment_NodeAcc ev, CacheProtoOrderPayment_OrderId ev))
        (CacheProtoFilterer_ParseOrderPayment A (pb_Filterer cp) l)),
     pe_ParseStaking := (\<lambda>l. map_sum id CacheProtoStaking_NodeAcc (CacheProtoFilterer_ParseStaking A (pb_Filterer cp) l)),
     pe_ParseClaim := (\<lambda>l. map_sum id (\<lambda>ev. (CacheProtoClaim_NodeAcc ev, case CacheProtoClaim_Reward ev of None \<Rightarrow> 0 | Some r \<Rightarrow> r))
        (CacheProtoFilterer_ParseClaim A (pb_Filterer cp) l))\<rparr>"

text \<open>The steps of the operations that send transactions, with any arguments.\<close>

inductive proto_step :: "('w, 'l) proto_env \<Rightarrow> CacheProtoContract \<Rightarrow> 'w \<Rightarrow> 'w \<Rightarrow> bool" for P pc where
  step_order: "CreateCacheOrder P w acc v = Some (res, w') \<Longrightarrow> proto_step P pc w w'"
| step_register: "RegisterNode P w acc tok pid tid v sig = Some (err, w') \<Longrightarrow> proto_step P pc w w'"
| step_claim: "ClaimOrder P w oid = (err, w') \<Longrightarrow> proto_step P pc w w'"
| step_reward: "ClaimWorkReward P w acc = Some (res, w') \<Longrightarrow> proto_step P pc w w'"
| step_exit: "ExitNetwork P w acc = Some (err, w') \<Longrightarrow> proto_step P pc w w'"
| step_create_credit: "CreateCreditOrder P w key nid v = Some (out, w') \<Longrightarrow> proto_step P pc w w'"
| step_check_credit: "CheckCreditOrder P pc w pk data sig = Some (out2, w') \<Longrightarrow> proto_step P pc w w'"

lemma proto_of_txs [simp]:
  "pe_Payment (proto_of A no cli cp P) w opts acc = ab_Transact A (pbt_contract (pb_Transactor cp)) w opts ''cacheOrderPayment'' [AAddr acc]"
  "pe_Staking (proto_of A no cli cp P) w opts acc tok tid pid sig =
     ab_Transact A (pbt_contract (pb_Transactor cp)) w opts ''staking'' [AAddr acc, AAddr tok, AInt tid, ABytes pid, ABytes sig]"
  "pe_Claim (proto_of A no cli cp P) w opts = ab_Transact A (pbt_contract (pb_Transactor cp)) w opts ''claim'' []"
  "pe_Exit (proto_of A no cli cp P) w opts = ab_Transact A (pbt_contract (pb_Transactor cp)) w opts ''exit'' []"
  by (simp_all add: proto_of_def proto_transactor_defs)


text \<open>What each operation sends: nothing, or the one transaction that it is for.\<close>

lemma operation_sends:
  fixes A :: "('be, 'w, 'o, 'f, 'l) proto_abi" and no :: 'o and cli :: 'be and cp :: "'be CacheProto" and P :: "('w, 'l) proto_env"
  assumes "records_txs A tr"
  defines "Q \<equiv> proto_of A no cli cp P" and "addr \<equiv> bd_address (pbt_contract (pb_Transactor cp))"
  shows "CreateCacheOrder Q w acc v = Some (res, w') \<Longrightarrow> sends tr w w' (addr, ''cacheOrderPayment'', [AAddr acc])"
    and "RegisterNode Q w acc tok pid tid v sig = Some (err, w') \<Longrightarrow>
      \<exists>i pb. sends tr w w' (addr, ''staking'', [AAddr acc, AAddr tok, AInt i, ABytes pb, ABytes sig])"
    and "ClaimOrder Q w oid = (err, w') \<Longrightarrow> sends tr w w' (addr, ''claim'', [])"
    and "ClaimWorkReward Q w acc = Some (rew, w') \<Longrightarrow> sends tr w w' (addr, ''claim'', [])"
    and "ExitNetwork Q w acc = Some (err, w') \<Longrightarrow> sends tr w w' (addr, ''exit'', [])"
proof -
  note rec = recorded_sends [OF assms(1), of "pbt_contract (pb_Transactor cp)"]
  show "CreateCacheOrder Q w acc v = Some (res, w') \<Longrightarrow> sends tr w w' (addr, ''cacheOrderPayment'', [AAddr acc])"
    by (auto simp: CreateCacheOrder_def Q_def addr_def Let_def split: sum.splits prod.splits option.splits dest: rec)
  show "RegisterNode Q w acc tok pid tid v sig = Some (err, w') \<Longrightarrow>
      \<exists>i pb. sends tr w w' (addr, ''staking'', [AAddr acc, AAddr tok, AInt i, ABytes pb, ABytes sig])"
    by (auto simp: RegisterNode_def Q_def addr_def Let_def simp del: big_SetString.simps split: sum.splits prod.splits option.splits dest: rec)
  show "ClaimOrder Q w oid = (err, w') \<Longrightarrow> sends tr w w' (addr, ''claim'', [])"
    by (auto simp: ClaimOrder_def Q_def addr_def Let_def split: sum.splits prod.splits option.splits dest: rec)
  show "ClaimWorkReward Q w acc = Some (rew, w') \<Longrightarrow> sends tr w w' (addr, ''claim'', [])"
    by (auto simp: ClaimWorkReward_def Q_def addr_def Let_def split: sum.splits prod.splits option.splits dest: rec)
  show "ExitNetwork Q w acc = Some (err, w') \<Longrightarrow> sends tr w w' (addr, ''exit'', [])"
    by (auto simp: ExitNetwork_def Q_def addr_def Let_def split: sum.splits prod.splits option.splits dest: rec)
qed

lemma CreateCreditOrder_chain:
  "CreateCreditOrder P w key nid v = Some (out, w') \<Longrightarrow>
   w' = w \<or> (\<exists>res. CreateCacheOrder P w (pe_HexToAddress P key) v = Some (res, w'))"
  by (auto simp: CreateCreditOrder_def Let_def split: sum.splits prod.splits option.splits if_splits)

lemma CheckCreditOrder_chain:
  "CheckCreditOrder P pc w pk data sig = Some (out, w') \<Longrightarrow>
   w' = w \<or> (\<exists>oid err. ClaimOrder P w oid = (err, w'))"
  by (auto simp: CheckCreditOrder_def Let_def split: sum.splits prod.splits option.splits if_splits)

text \<open>The transactions of a step are the ones that the node means to send.\<close>

definition node_methods :: "string set" where
  "node_methods = {''cacheOrderPayment'', ''staking'', ''claim'', ''exit''}"

lemma node_methods_sent:
  "''cacheOrderPayment'' \<in> node_methods" "''staking'' \<in> node_methods" "''claim'' \<in> node_methods" "''exit'' \<in> node_methods"
  by (simp_all add: node_methods_def)

lemma proto_step_sends:
  assumes "records_txs A tr" and "proto_step (proto_of A no cli cp P) pc w w'"
  shows "\<exists>m args. sends tr w w' (bd_address (pbt_contract (pb_Transactor cp)), m, args) \<and> m \<in> node_methods"
  using assms(2)
proof cases
  case step_create_credit
  from CreateCreditOrder_chain [OF this] show ?thesis using operation_sends(1) [OF assms(1)] node_methods_sent(1) sends_refl by metis
next
  case step_check_credit
  from CheckCreditOrder_chain [OF this] show ?thesis using operation_sends(3) [OF assms(1)] node_methods_sent(3) sends_refl by metis
next
  case step_order
  from operation_sends(1) [OF assms(1) this] show ?thesis using node_methods_sent(1) by blast
next
  case step_register
  from operation_sends(2) [OF assms(1) this] show ?thesis using node_methods_sent(2) by blast
next
  case step_claim
  from operation_sends(3) [OF assms(1) this] show ?thesis using node_methods_sent(3) by blast
next
  case step_reward
  from operation_sends(4) [OF assms(1) this] show ?thesis using node_methods_sent(3) by blast
next
  case step_exit
  from operation_sends(5) [OF assms(1) this] show ?thesis using node_methods_sent(4) by blast
qed

lemma proto_steps_send:
  assumes "records_txs A tr" and "(proto_step (proto_of A no cli cp P) pc)\<^sup>*\<^sup>* w w'"
  shows "\<exists>new. tr w' = tr w @ new \<and>
    (\<forall>tx \<in> set new. fst tx = bd_address (pbt_contract (pb_Transactor cp)) \<and> fst (snd tx) \<in> node_methods)"
  using assms(2)
proof (induction rule: rtranclp_induct)
  case (step y z)
  then obtain new m args where "tr y = tr w @ new"
    "\<forall>tx \<in> set new. fst tx = bd_address (pbt_contract (pb_Transactor cp)) \<and> fst (snd tx) \<in> node_methods"
    "sends tr y z (bd_address (pbt_contract (pb_Transactor cp)), m, args)" "m \<in> node_methods"
    using proto_step_sends [OF assms(1)] by blast
  then show ?case
    by (auto simp: sends_def intro: exI [of _ new] exI [of _ "new @ [(bd_address (pbt_contract (pb_Transactor cp)), m, args)]"])
qed simp



text \<open>A chain in memory, for the witnesses: its state is the list of the transactions sent, and a call returns
  zero values of the described types. A log is the node it is about; one byte is no address and does not parse.\<close>

definition mem_proto_abi :: "(unit, sent_tx list, unit, unit, bytes) proto_abi" where
  "mem_proto_abi = \<lparr>ab_GetAbi = (\<lambda>abi. None),
     ab_Call = (\<lambda>c w opts m args. case abi_lookup (bd_abi c) m of None \<Rightarrow> Inl (Errorf ''method'') | Some (mu, ins, outs) \<Rightarrow> Inr (map zero_val outs)),
     ab_Transact = (\<lambda>c w opts m args. (Inr ''0xaa'', w @ [(bd_address c, m, args)])), ab_Transfer = (\<lambda>c w opts. (Inr ''0xbb'', w)),
     ab_FilterLogs = (\<lambda>c w opts name rules. Inr [ArrLog [1, 1], ArrErr None, ArrLog [2, 2], ArrLog [3], ArrLog [4, 4]]),
     ab_WatchLogs = (\<lambda>c w opts name rules. Inr [WatchQuit]),
     pb_UnpackClaim = (\<lambda>c name l ev. (ev\<lparr>CacheProtoClaim_NodeAcc := l\<rparr>, None)),
     pb_UnpackExit = (\<lambda>c name l ev. (ev\<lparr>CacheProtoExit_NodeAcc := l\<rparr>, None)),
     pb_UnpackOrderPayment = (\<lambda>c name l ev. (ev\<lparr>CacheProtoOrderPayment_NodeAcc := l\<rparr>, if length l = 1 then Some (Errorf ''topics'') else None)),
     pb_UnpackStaking = (\<lambda>c name l ev. (ev\<lparr>CacheProtoStaking_NodeAcc := l\<rparr>, None))\<rparr>"

definition mem_bound :: "unit CacheProto" where
  "mem_bound = (let c = \<lparr>bd_address = [9], bd_abi = CacheProtoMetaData, bd_caller = Some (), bd_transactor = Some (), bd_filterer = Some ()\<rparr>
     in \<lparr>pb_Caller = \<lparr>pbc_contract = c\<rparr>, pb_Transactor = \<lparr>pbt_contract = c\<rparr>, pb_Filterer = \<lparr>pbf_contract = c\<rparr>\<rparr>)"

definition mem_opts :: TransactOpts where
  "mem_opts = \<lparr>to_ChainID = 11330, to_GasTipCap = None, to_GasFeeCap = None, to_GasLimit = 0, to_Value = None\<rparr>"

text \<open>The rest of the environment, taken over the chain of \<open>mem_proto\<close> at its start.\<close>

definition mem_over :: "(sent_tx list, bytes) proto_env" where
  "mem_over = (let M = mem_proto [] in
     \<lparr>pe_NewOption = (\<lambda>w v. Inr mem_opts), pe_Bind = pe_Bind M, pe_NodeCall = (\<lambda>w. pe_NodeCall M 0), pe_OrderCall = (\<lambda>w. pe_OrderCall M 0),
      pe_TermCall = (\<lambda>w. pe_TermCall M 0), pe_Payment = (\<lambda>w opts a. (Inr '''', w)), pe_Staking = (\<lambda>w opts a b i p s. (Inr '''', w)),
      pe_Claim = (\<lambda>w opts. (Inr '''', w)), pe_Exit = (\<lambda>w opts. (Inr '''', w)), pe_Logs = (\<lambda>w. pe_Logs M 0),
      pe_ParseOrderPayment = pe_ParseOrderPayment M, pe_ParseStaking = pe_ParseStaking M, pe_ParseClaim = pe_ParseClaim M,
      pe_HexToAddress = pe_HexToAddress M, pe_Encode58 = pe_Encode58 M, pe_Decode58 = pe_Decode58 M,
      pe_VerifySignature = pe_VerifySignature M, pe_Keccak256 = pe_Keccak256 M\<rparr>)"

lemma mem_bound_New: "NewCacheProto mem_proto_abi [9] () = Inr mem_bound"
  by (simp add: NewCacheProto_def bindCacheProto_def mem_proto_abi_def mem_bound_def Let_def)

lemma mem_env [simp]:
  "ab_Transact mem_proto_abi c w opts m args = (Inr ''0xaa'', w @ [(bd_address c, m, args)])"
  "ab_Call mem_proto_abi c w opts2 m args =
     (case abi_lookup (bd_abi c) m of None \<Rightarrow> Inl (Errorf ''method'') | Some (mu, ins, outs) \<Rightarrow> Inr (map zero_val outs))"
  "bd_abi (pbc_contract (pb_Caller mem_bound)) = CacheProtoMetaData" "bd_address (pbt_contract (pb_Transactor mem_bound)) = [9]"
  by (simp_all add: mem_proto_abi_def mem_bound_def Let_def)

lemma mem_decodes: "abi_decodes mem_proto_abi abi"
  by (auto simp: abi_decodes_def mem_proto_abi_def list_all2_map1 list.rel_refl fits_zero_val split: option.splits)

lemma mem_records: "records_txs mem_proto_abi (\<lambda>w. w)"
  by (auto simp: records_txs_def mem_proto_abi_def)

lemma NewCacheProto_bound:
  assumes "NewCacheProto A address backend = Inr cp"
  shows "bd_abi (pbc_contract (pb_Caller cp)) = CacheProtoMetaData" "bd_abi (pbt_contract (pb_Transactor cp)) = CacheProtoMetaData"
    "pbf_contract (pb_Filterer cp) = pbc_contract (pb_Caller cp)" "bd_address (pbt_contract (pb_Transactor cp)) = address"
  using assms by (auto simp: NewCacheProto_def bindCacheProto_def split: sum.splits option.splits)

section \<open>Properties\<close>

text \<open>C20: The binding of the cache protocol contract agrees with the interface description it is bound to: every call and
  every transaction names a function that the description has, of the right mutability and with arguments of its
  types, so that checking them changes nothing; and, when results are decoded by the description, no conversion of a result panics.\<close>

theorem proto_binding_typed:
  assumes "NewCacheProto A address backend = Inr cp" and "abi_decodes A CacheProtoMetaData" and "length b32 = 32"
    and "cc = pb_Caller cp" and "ct = pb_Transactor cp"
  shows "CacheProtoCaller_CacheReward A cc w opts a1 \<noteq> None \<and>
    CacheProtoCaller_Node A cc w opts a1 \<noteq> None \<and>
    CacheProtoCaller_Order A cc w opts b32 \<noteq> None \<and>
    CacheProtoCaller_OrderNum A cc w opts a1 \<noteq> None \<and>
    CacheProtoCaller_RewardRecord A cc w opts a1 \<noteq> None \<and>
    CacheProtoCaller_TermTotalOrder A cc w opts i \<noteq> None \<and>
    CacheProtoCaller_TokenBonded A cc w opts i \<noteq> None \<and>
    CacheProtoCaller_GetCurrencyTerm A cc w opts \<noteq> None \<and>
    CacheProtoCaller_GetMessageHash A cc w opts a1 i \<noteq> None \<and>
    CacheProtoCaller_IsTokenOwner A cc w opts a1 i \<noteq> None \<and>
    CacheProtoCaller_OpenRecover A cc w opts b32 b1 \<noteq> None \<and>
    CacheProtoCaller_RecoverSigner A cc w opts b32 b1 \<noteq> None \<and>
    CacheProtoCaller_ToEthSignedMessageHash A cc w opts b32 \<noteq> None \<and>
    CacheProtoCaller_Verify A cc w opts b32 b1 a1 \<noteq> None \<and>
    CacheProtoCaller_CacheReward (abi_checked A) cc w opts a1 = CacheProtoCaller_CacheReward A cc w opts a1 \<and>
    CacheProtoCaller_Node (abi_checked A) cc w opts a1 = CacheProtoCaller_Node A cc w opts a1 \<and>
    CacheProtoCaller_Order (abi_checked A) cc w opts b32 = CacheProtoCaller_Order A cc w opts b32 \<and>
    CacheProtoCaller_OrderNum (abi_checked A) cc w opts a1 = CacheProtoCaller_OrderNum A cc w opts a1 \<and>
    CacheProtoCaller_RewardRecord (abi_checked A) cc w opts a1 = CacheProtoCaller_RewardRecord A cc w opts a1 \<and>
    CacheProtoCaller_TermTotalOrder (abi_checked A) cc w opts i = CacheProtoCaller_TermTotalOrder A cc w opts i \<and>
    CacheProtoCaller_TokenBonded (abi_checked A) cc w opts i = CacheProtoCaller_TokenBonded A cc w opts i \<and>
    CacheProtoCaller_GetCurrencyTerm (abi_checked A) cc w opts = CacheProtoCaller_GetCurrencyTerm A cc w opts \<and>
    CacheProtoCaller_GetMessageHash (abi_checked A) cc w opts a1 i = CacheProtoCaller_GetMessageHash A cc w opts a1 i \<and>
    CacheProtoCaller_IsTokenOwner (abi_checked A) cc w opts a1 i = CacheProtoCaller_IsTokenOwner A cc w opts a1 i \<and>
    CacheProtoCaller_OpenRecover (abi_checked A) cc w opts b32 b1 = CacheProtoCaller_OpenRecover A cc w opts b32 b1 \<and>
    CacheProtoCaller_RecoverSigner (abi_checked A) cc w opts b32 b1 = CacheProtoCaller_RecoverSigner A cc w opts b32 b1 \<and>
    CacheProtoCaller_ToEthSignedMessageHash (abi_checked A) cc w opts b32 = CacheProtoCaller_ToEthSignedMessageHash A cc w opts b32 \<and>
    CacheProtoCaller_Verify (abi_checked A) cc w opts b32 b1 a1 = CacheProtoCaller_Verify A cc w opts b32 b1 a1 \<and>
    CacheProtoTransactor_CacheOrderPayment (abi_checked A) ct w tos a1 = CacheProtoTransactor_CacheOrderPayment A ct w tos a1 \<and>
    CacheProtoTransactor_Claim (abi_checked A) ct w tos = CacheProtoTransactor_Claim A ct w tos \<and>
    CacheProtoTransactor_Exit (abi_checked A) ct w tos = CacheProtoTransactor_Exit A ct w tos \<and>
    CacheProtoTransactor_OrderClaim (abi_checked A) ct w tos b32 = CacheProtoTransactor_OrderClaim A ct w tos b32 \<and>
    CacheProtoTransactor_Staking (abi_checked A) ct w tos a1 a2 i b1 b2 = CacheProtoTransactor_Staking A ct w tos a1 a2 i b1 b2"
  using assms(3) NewCacheProto_bound [OF assms(1)]
  by (simp only: assms(4,5) proto_callers_total [OF assms(2)] proto_calls_fit proto_transactions_fit simp_thms)

theorem proto_binding_typed_witness:
  "CacheProtoCaller_Node mem_proto_abi (pb_Caller mem_bound) [] () [1] \<noteq> None \<and>
   CacheProtoTransactor_OrderClaim (abi_checked mem_proto_abi) (pb_Transactor mem_bound) [] mem_opts (replicate 32 7) =
     (Inr ''0xaa'', [([9], ''orderClaim'', [AFixed (replicate 32 7)])])"
proof
  note typed = proto_binding_typed [OF mem_bound_New mem_decodes, of "replicate 32 7" "pb_Caller mem_bound" "pb_Transactor mem_bound"]
  show "CacheProtoCaller_Node mem_proto_abi (pb_Caller mem_bound) [] () [1] \<noteq> None" using typed by simp
  have "CacheProtoTransactor_OrderClaim (abi_checked mem_proto_abi) (pb_Transactor mem_bound) [] mem_opts (replicate 32 7) =
      CacheProtoTransactor_OrderClaim mem_proto_abi (pb_Transactor mem_bound) [] mem_opts (replicate 32 7)" using typed by simp
  then show "CacheProtoTransactor_OrderClaim (abi_checked mem_proto_abi) (pb_Transactor mem_bound) [] mem_opts (replicate 32 7) =
      (Inr ''0xaa'', [([9], ''orderClaim'', [AFixed (replicate 32 7)])])"
    by (simp add: CacheProtoTransactor_OrderClaim_def [of mem_proto_abi])
qed

text \<open>C19: Reading the payments of cache orders through a filter delivers exactly the logs that parse: the loop over the
  iterator ends, with the parsed events of the logs shown, in order, up to the first one that does not parse, and the
  error is that of this log or of the subscription. The logs after an end without an error are still shown, those
  after an end with one are not.\<close>

theorem payment_filter_delivers:
  assumes "ab_FilterLogs A (pbf_contract f) w opts ''OrderPayment'' [map AFixed orderId, map AAddr nodeAcc] = Inr arr"
    and "shown_logs arr = Some (ls, fin)" and "length arr < fuel"
    and "decode_logs (CacheProtoFilterer_ParseOrderPayment A f) fin ls = (events, err)"
  shows "\<exists>it it'. CacheProtoFilterer_FilterOrderPayment A f w opts orderId nodeAcc = Inr it \<and>
    drain fuel (CacheProtoOrderPaymentIterator_Next A) it = Some (map Some events, it') \<and>
    CacheProtoOrderPaymentIterator_Error it' = err"
proof -
  let ?it = "new_iterator (pbf_contract f) ''OrderPayment'' arr"
  have "CacheProtoFilterer_FilterOrderPayment A f w opts orderId nodeAcc = Inr ?it"
    using assms(1) by (simp add: CacheProtoFilterer_FilterOrderPayment_def)
  moreover have "outcome (drain fuel (CacheProtoOrderPaymentIterator_Next A) ?it) = Some (map Some events, err)"
    using payment_log.drains [of ?it f ls fin fuel A] assms(2-4) by (simp add: new_iterator_def)
  ultimately show ?thesis by (auto simp: outcome_def CacheProtoOrderPaymentIterator_Error_def it_Error_def)
qed

theorem payment_filter_delivers_witness:
  "\<exists>it it'. CacheProtoFilterer_FilterOrderPayment mem_proto_abi (pb_Filterer mem_bound) [] () [] [[1]] = Inr it \<and>
    drain 6 (CacheProtoOrderPaymentIterator_Next mem_proto_abi) it =
      Some (map Some [new_CacheProtoOrderPayment\<lparr>CacheProtoOrderPayment_NodeAcc := [1, 1], CacheProtoOrderPayment_Raw := Some [1, 1]\<rparr>,
             new_CacheProtoOrderPayment\<lparr>CacheProtoOrderPayment_NodeAcc := [2, 2], CacheProtoOrderPayment_Raw := Some [2, 2]\<rparr>], it') \<and>
    CacheProtoOrderPaymentIterator_Error it' = Some (Errorf ''topics'')"
proof (rule payment_filter_delivers)
  show "shown_logs [ArrLog [1, 1], ArrErr None, ArrLog [2, 2], ArrLog [3], ArrLog [4, 4]] = Some ([[1, 1], [2, 2], [3], [4, 4]] :: bytes list, None)"
    by simp
qed (simp_all add: mem_proto_abi_def mem_bound_def CacheProtoFilterer_ParseOrderPayment_def new_CacheProtoOrderPayment_def)

text \<open>C18: Whatever the node does with the contract, no order is ever claimed: the transactions that any sequence of its
  operations sends go to the contract and are payments, stakings, exits and claims of the work reward; in
  particular a credit order that has been accepted has sent a claim without the order in it.\<close>

theorem orders_never_claimed:
  fixes A :: "('be, 'w, 'o, 'f, 'l) proto_abi"
  assumes "records_txs A tr" and "NewCacheProto A address backend = Inr cp"
  shows "((proto_step (proto_of A no cli cp P) pc)\<^sup>*\<^sup>* w w' \<longrightarrow>
      (\<exists>new. tr w' = tr w @ new \<and>
        (\<forall>tx \<in> set new. fst tx = address \<and> fst (snd tx) \<in> {''cacheOrderPayment'', ''staking'', ''claim'', ''exit''}))) \<and>
    (CheckCreditOrder (proto_of A no cli cp P) pc w pk orderId sig = Some ((v, None), w') \<and> v \<noteq> '''' \<longrightarrow>
      tr w' = tr w @ [(address, ''claim'', [])])"
proof (intro conjI impI)
  show "\<exists>new. tr w' = tr w @ new \<and>
      (\<forall>tx \<in> set new. fst tx = address \<and> fst (snd tx) \<in> {''cacheOrderPayment'', ''staking'', ''claim'', ''exit''})"
    if "(proto_step (proto_of A no cli cp P) pc)\<^sup>*\<^sup>* w w'"
    using proto_steps_send [OF assms(1) that] unfolding NewCacheProto_bound(4) [OF assms(2)] node_methods_def .
next
  assume "CheckCreditOrder (proto_of A no cli cp P) pc w pk orderId sig = Some ((v, None), w') \<and> v \<noteq> ''''"
  then obtain oid where "ClaimOrder (proto_of A no cli cp P) w oid = (None, w')"
    by (auto simp: CheckCreditOrder_def Let_def errors_Wrap_def split: sum.splits prod.splits option.splits if_splits)
  then obtain opts tx where "ab_Transact A (pbt_contract (pb_Transactor cp)) w opts ''claim'' [] = (Inr tx, w')"
    by (auto simp: ClaimOrder_def split: sum.splits prod.splits)
  from recorded [OF assms(1) this] show "tr w' = tr w @ [(address, ''claim'', [])]"
    by (simp add: NewCacheProto_bound(4) [OF assms(2)])
qed

theorem orders_never_claimed_witness:
  "CheckCreditOrder (proto_of mem_proto_abi () () mem_bound mem_over) \<lparr>pc_Address = [9], pc_Node = zero_address\<rparr> [] [] (replicate 32 7) [] =
     Some ((big_String 0, None), [([9], ''claim'', [])]) \<and>
   fst (snd (last [([9 :: 8 word], ''claim'', [] :: abi_val list)])) \<in> {''cacheOrderPayment'', ''staking'', ''claim'', ''exit''}"
  (is "?check \<and> _")
proof
  show check: ?check
    by (simp add: CheckCreditOrder_def ClaimOrder_def QueryCacheOrder_def QueryCurrencyTerm_def proto_of_def CacheProtoCaller_Order_def
        CacheProtoCaller_GetCurrencyTerm_def call_one_def out_at_def CacheProtoTransactor_Claim_def mem_over_def mem_proto_def
        to_array32_def errors_Wrap_def Let_def)
  have "(proto_step (proto_of mem_proto_abi () () mem_bound mem_over) \<lparr>pc_Address = [9], pc_Node = zero_address\<rparr>)\<^sup>*\<^sup>* [] [([9], ''claim'', [])]"
    using step_check_credit [OF check] by blast
  then show "fst (snd (last [([9 :: 8 word], ''claim'', [] :: abi_val list)])) \<in> {''cacheOrderPayment'', ''staking'', ''claim'', ''exit''}"
    using orders_never_claimed [OF mem_records mem_bound_New] by fastforce
qed

end
