(* ===== verification/Eth_Tools.thy ===== *)
theory Eth_Tools
  imports Evm_Client Node_Config
begin

text \<open>
  \<open>eth-tools\<close>: the command line tool with which the owner of a node buys a token and signs the binding of
  a node account to it. go-ethereum, the generated binding of the token contract and viper are
  parameters; \<open>'w\<close> is the state of the chain, \<open>'l\<close> a log.
\<close>

section \<open>tools/tools.go\<close>

record ToolsConfig =
  tc_ChainId :: i64
  tc_ChainRpcs :: "string list"
  tc_GasFreeCap :: i64
  tc_GasLimit :: u64
  tc_ContractAddress :: string

record ('e, 'k, 'w, 'l) token_env =
  tk_evm :: "('e, 'k) evm_env"
  tk_Bind :: "bytes \<Rightarrow> 'e option \<Rightarrow> goerr option"
  tk_MintToken :: "'w \<Rightarrow> TransactOpts \<Rightarrow> bytes \<Rightarrow> string or_err \<times> 'w"
  tk_Logs :: "'w \<Rightarrow> goerr + 'l sub_event list"
  tk_ParseMintToken :: "'l \<Rightarrow> (bytes \<times> int) or_err"
  tk_ParseTransfer :: "'l \<Rightarrow> (bytes \<times> int) or_err"
  tk_Keccak256 :: "bytes \<Rightarrow> bytes"

definition Keccak256HashWithContractPrefix :: "('e, 'k, 'w, 'l) token_env \<Rightarrow> bytes \<Rightarrow> bytes" where
  "Keccak256HashWithContractPrefix T hash =
     tk_Keccak256 T (0x19 # string_bytes ''Ethereum Signed Message:'' @ [10] @ string_bytes ''32'' @ hash)"

text \<open>The callback: a mint event of the account, or, if the log is none, a transfer to it.\<close>

definition token_callback :: "('e, 'k, 'w, 'l) token_env \<Rightarrow> bytes \<Rightarrow> string \<Rightarrow> 'l \<Rightarrow> bool \<times> string" where
  "token_callback T account tokenId l =
     (case tk_ParseMintToken T l of
        Inl err \<Rightarrow>
          (case tk_ParseTransfer T l of
             Inl err \<Rightarrow> (True, tokenId)
           | Inr (dest, tid) \<Rightarrow> (if dest = account then (False, big_String tid) else (True, tokenId)))
      | Inr (owner, tid) \<Rightarrow> (if owner = account then (False, big_String tid) else (True, tokenId)))"

text \<open>The hash of the transaction is printed before its error is looked at: a failed transaction is \<open>nil\<close> and panics.\<close>

definition BuyCacherToken ::
  "('e, 'k, 'w, 'l) token_env \<Rightarrow> 'w \<Rightarrow> ToolsConfig \<Rightarrow> string \<Rightarrow> string \<Rightarrow> ((string \<times> goerr option) \<times> 'w) option" where
  "BuyCacherToken T w c sk value =
     (let E = tk_evm T in
      case NewClient E [AccountPrivateKey E sk, ChainID (tc_ChainId c), ConnectionRpcAddresss (tc_ChainRpcs c),
                        EthereumGas (tc_GasFreeCap c) (tc_GasLimit c)] of
        (client, Some err) \<Rightarrow> Some (('''', Some err), w)
      | (client :: ('e, 'k, unit) Client, None) \<Rightarrow>
          (case NewTransactionOption E client value of
             None \<Rightarrow> None
           | Some (Inl err) \<Rightarrow> Some (('''', Some err), w)
           | Some (Inr opts) \<Rightarrow>
               (case tk_Bind T (ee_HexToAddress E (tc_ContractAddress c)) (GetEthClient client) of
                  Some err \<Rightarrow> Some (('''', Some err), w)
                | None \<Rightarrow>
                    (case tk_MintToken T w opts (cl_Account client) of
                       (Inl err, w1) \<Rightarrow> None
                     | (Inr tx, w1) \<Rightarrow>
                         (case SubscribeFilterLogs (tk_Logs T w1) (token_callback T (cl_Account client)) '''' of
                            None \<Rightarrow> None
                          | Some (tokenId, Some err) \<Rightarrow> Some (('''', Some err), w1)
                          | Some (tokenId, None) \<Rightarrow> Some ((tokenId, None), w1))))))"

text \<open>\<open>Bytes()\<close> of a big integer: its absolute value, big-endian, without leading zeros.\<close>

fun nat_bytes :: "nat \<Rightarrow> bytes" where
  "nat_bytes n = (if n = 0 then [] else nat_bytes (n div 256) @ [word_of_nat (n mod 256)])"

declare nat_bytes.simps [simp del]

definition big_Bytes :: "int \<Rightarrow> bytes" where
  "big_Bytes x = nat_bytes (nat \<bar>x\<bar>)"

text \<open>A token id that is no number is \<open>nil\<close>, and its bytes panic.\<close>

definition CacherAuthorizationSign ::
  "('e, 'k, 'w, 'l) token_env \<Rightarrow> string \<Rightarrow> string \<Rightarrow> string \<Rightarrow> bytes or_err option" where
  "CacherAuthorizationSign T tokenAccSk nodeAcc tokenId =
     (case ee_HexToECDSA (tk_evm T) tokenAccSk of
        Inl err \<Rightarrow> Some (Inl err)
      | Inr sk \<Rightarrow>
          (case hex_DecodeString (strings_TrimPrefix nodeAcc ''0x'') of
             Inl err \<Rightarrow> Some (Inl err)
           | Inr byteAcc \<Rightarrow>
               (case big_SetString tokenId of
                  None \<Rightarrow> None
                | Some tid \<Rightarrow>
                    (let hash = Keccak256HashWithContractPrefix T (tk_Keccak256 T (byteAcc @ big_Bytes tid)) in
                     case ee_Sign (tk_evm T) hash (Some sk) of
                       Inl err \<Rightarrow> Some (Inl err)
                     | Inr sign \<Rightarrow>
                         (if length sign \<noteq> 65 then Some (Inl (Errorf ''invalid signature length''))
                          else Some (Inr (sign[64 := sign ! 64 + 27])))))))"

section \<open>eth_tools.go\<close>

definition ParseFlagValue :: "(string \<Rightarrow> string or_err) \<Rightarrow> string \<Rightarrow> string \<Rightarrow> string or_err" where
  "ParseFlagValue flags name shorthand =
     (case flags name of
        Inr value \<Rightarrow>
          (if value \<noteq> '''' then Inr value
           else (case flags shorthand of
              Inr v \<Rightarrow> if v \<noteq> '''' then Inr v else Inl (Errorf ''parse flag value error'')
            | Inl err \<Rightarrow> Inl (Wrapped ''parse flag value error'' err)))
      | Inl err0 \<Rightarrow>
          (case flags shorthand of
             Inr v \<Rightarrow> if v \<noteq> '''' then Inr v else Inl (Errorf ''parse flag value error'')
           | Inl err \<Rightarrow> Inl (Wrapped ''parse flag value error'' err)))"

datatype 'a cmd_outcome = Fatal goerr | Printed 'a

definition ToolsConfig_zero :: ToolsConfig where
  "ToolsConfig_zero = \<lparr>tc_ChainId = 0, tc_ChainRpcs = [], tc_GasFreeCap = 0, tc_GasLimit = 0, tc_ContractAddress = ''''\<rparr>"

text \<open>The bodies of the two commands; \<open>log.Fatal\<close> ends the program.\<close>

definition buyToken_run ::
  "ToolsConfig viper \<Rightarrow> ('e, 'k, 'w, 'l) token_env \<Rightarrow> 'w \<Rightarrow> (string \<Rightarrow> string or_err) \<Rightarrow> (string cmd_outcome \<times> 'w) option" where
  "buyToken_run V T w flags =
     (case ParseFlagValue flags ''config'' ''c'' of
        Inl err \<Rightarrow> Some (Fatal err, w)
      | Inr cpath \<Rightarrow>
          (case ParseFlagValue flags ''screctKey'' ''s'' of
             Inl err \<Rightarrow> Some (Fatal err, w)
           | Inr screctKey \<Rightarrow>
               (case ParseFlagValue flags ''value'' ''v'' of
                  Inl err \<Rightarrow> Some (Fatal err, w)
                | Inr value \<Rightarrow>
                    (let value1 = value @ ''000000000000000000'' in
                     case ParseCommonConfig V cpath ''yaml'' ToolsConfig_zero of
                       (conf, Some err) \<Rightarrow> Some (Fatal err, w)
                     | (conf, None) \<Rightarrow>
                         (case BuyCacherToken T w conf screctKey value1 of
                            None \<Rightarrow> None
                          | Some ((tokenId, Some err), w1) \<Rightarrow> Some (Fatal err, w1)
                          | Some ((tokenId, None), w1) \<Rightarrow> Some (Printed tokenId, w1))))))"

definition signNode_run ::
  "('e, 'k, 'w, 'l) token_env \<Rightarrow> (string \<Rightarrow> string or_err) \<Rightarrow> string cmd_outcome option" where
  "signNode_run T flags =
     (case ParseFlagValue flags ''nodeAcc'' ''n'' of
        Inl err \<Rightarrow> Some (Fatal err)
      | Inr nodeAcc \<Rightarrow>
          (case ParseFlagValue flags ''screctKey'' ''s'' of
             Inl err \<Rightarrow> Some (Fatal err)
           | Inr screctKey \<Rightarrow>
               (case ParseFlagValue flags ''tokenId'' ''t'' of
                  Inl err \<Rightarrow> Some (Fatal err)
                | Inr tokenId \<Rightarrow>
                    (case CacherAuthorizationSign T screctKey nodeAcc tokenId of
                       None \<Rightarrow> None
                     | Some (Inl err) \<Rightarrow> Some (Fatal err)
                     | Some (Inr sign) \<Rightarrow> Some (Printed (hex_EncodeToString sign))))))"

section \<open>Laws\<close>

lemma dec_digits_zeros: "dec_digits a (replicate k (CHR ''0'')) = Some (a * 10 ^ k)"
  by (induction k arbitrary: a) (auto simp: dec_value_def)

lemma dec_nat_zeros: "dec_nat s = Some n \<Longrightarrow> dec_nat (s @ replicate k (CHR ''0'')) = Some (n * 10 ^ k)"
  by (auto simp: dec_nat_def dec_digits_append dec_digits_zeros split: if_splits)

text \<open>Appending zeros to a decimal number multiplies it by a power of ten, signs included.\<close>

lemma big_SetString_zeros: "big_SetString s = Some x \<Longrightarrow> big_SetString (s @ replicate k (CHR ''0'')) = Some (x * 10 ^ k)"
proof (cases s)
  case (Cons c cs)
  assume s: "big_SetString s = Some x"
  obtain n where n: "dec_nat (if c = CHR ''-'' \<or> c = CHR ''+'' then cs else c # cs) = Some n" "x = (if c = CHR ''-'' then - int n else int n)"
    using s Cons by (auto split: if_splits)
  then show ?thesis using dec_nat_zeros [OF n(1), of k] Cons by (auto split: if_splits)
qed simp

lemma nat_bytes_value: "foldl (\<lambda>a b. a * 256 + unat b) 0 (nat_bytes n) = n"
proof (induction n rule: nat_bytes.induct)
  case (1 n)
  have "unat (word_of_nat (n mod 256) :: 8 word) = n mod 256" by (simp add: unat_of_nat)
  then show ?case using 1 by (cases "n = 0") (simp_all add: nat_bytes.simps [of n] nat_bytes.simps [of 0])
qed

definition mem_token :: "bytes sub_event list \<Rightarrow> (string, string, nat, bytes) token_env" where
  "mem_token logs = \<lparr>tk_evm = mem_evm\<lparr>ee_Sign := \<lambda>h k. Inr (replicate 64 7 @ [1])\<rparr>, tk_Bind = (\<lambda>a e. None),
     tk_MintToken = (\<lambda>w opts a. (Inr ''0xaa'', w + 1)), tk_Logs = (\<lambda>w. Inr logs),
     tk_ParseMintToken = (\<lambda>l. if l = [9] then Inl (Errorf ''no mint'') else Inr (l, 42)),
     tk_ParseTransfer = (\<lambda>l. Inl (Errorf ''no transfer'')), tk_Keccak256 = (\<lambda>b. b)\<rparr>"

definition token_pick :: "('e, 'k, 'w, 'l) token_env \<Rightarrow> bytes \<Rightarrow> 'l \<Rightarrow> string option" where
  "token_pick T account l =
     (case (case tk_ParseMintToken T l of Inl err \<Rightarrow> tk_ParseTransfer T l | Inr ev \<Rightarrow> Inr ev) of
        Inl err \<Rightarrow> None
      | Inr (owner, tid) \<Rightarrow> (if owner = account then Some (big_String tid) else None))"

interpretation token: first_match "token_callback T account" "token_pick T account" for T account
  by unfold_locales (auto simp: token_callback_def token_pick_def split: sum.split)

lemma NewTransactionOption_zeros:
  assumes "big_SetString value = Some x" and "NewTransactionOption E cli (value @ ''000000000000000000'') = Some (Inr opts)"
  shows "to_Value opts = Some (x * 10 ^ 18)"
proof -
  have "''000000000000000000'' = replicate 18 (CHR ''0'')" by (simp add: numeral_eq_Suc)
  then have "big_SetString (value @ ''000000000000000000'') = Some (x * 10 ^ 18)" using big_SetString_zeros [OF assms(1), of 18] by simp
  then show ?thesis using assms(2) by (auto simp: NewTransactionOption_def Let_def split: option.splits sum.splits if_splits)
qed

lemma BuyCacherToken_bought:
  fixes T :: "('e, 'k, 'w, 'l) token_env"
  assumes "BuyCacherToken T w c sk value = Some ((tokenId, None), w')"
  obtains (bought) client :: "('e, 'k, unit) Client" and opts tx where
    "NewTransactionOption (tk_evm T) client value = Some (Inr opts)" "tk_MintToken T w opts (cl_Account client) = (Inr tx, w')"
    "SubscribeFilterLogs (tk_Logs T w') (token_callback T (cl_Account client)) '''' = Some (tokenId, None)"
  using assms by (auto simp: BuyCacherToken_def Let_def split: prod.splits option.splits sum.splits)

section \<open>Properties\<close>

text \<open>Buying a token pays exactly the amount asked for: when the command prints a token id, one mint transaction
  was sent, its value is the number given on the command line times ten to the eighteenth, and the id printed
  is the one that the first mint or transfer event for the account carries, unless the subscription was closed before.\<close>

theorem buyToken_value:
  fixes T :: "('e, 'k, 'w, 'l) token_env"
  assumes "buyToken_run V T w flags = Some (Printed tokenId, w')"
    and "flags ''value'' = Inr value" and "big_SetString value = Some x"
  shows "\<exists>opts account tx. tk_MintToken T w opts account = (Inr tx, w') \<and> to_Value opts = Some (x * 10 ^ 18) \<and>
    (\<exists>ls rest. (\<forall>l \<in> set ls. token_pick T account l = None) \<and>
      ((\<exists>l. tk_Logs T w' = Inr (map EvLog ls @ EvLog l # rest) \<and> token_pick T account l = Some tokenId) \<or>
       tk_Logs T w' = Inr (map EvLog ls @ EvSubErr None # rest) \<and> tokenId = ''''))"
proof -
  have "ParseFlagValue flags ''value'' ''v'' = Inr value" using assms(2,3) by (cases "value = []") (auto simp: ParseFlagValue_def)
  then obtain conf sk where b: "BuyCacherToken T w conf sk (value @ ''000000000000000000'') = Some ((tokenId, None), w')"
    using assms(1) by (auto simp: buyToken_run_def Let_def split: sum.splits option.splits prod.splits)
  from b show ?thesis
  proof (cases rule: BuyCacherToken_bought)
    case (bought client opts tx)
    obtain evs where e: "tk_Logs T w' = Inr evs" using bought(3) by (cases "tk_Logs T w'") (auto simp: SubscribeFilterLogs_def)
    have "SubscribeFilterLogs (Inr evs) (token_callback T (cl_Account client)) '''' = Some (tokenId, None)" using bought(3) e by simp
    from token.result [OF this] show ?thesis
      unfolding e using NewTransactionOption_zeros [OF assms(3) bought(1)] bought(2) by (intro exI [of _ opts] exI [of _ "cl_Account client"] exI [of _ tx]) simp
  qed
qed

definition mem_tools :: "ToolsConfig viper" where
  "mem_tools = \<lparr>vp_ReadInConfig = (\<lambda>p t. None), vp_Unmarshal = (\<lambda>p t c. (c\<lparr>tc_ChainRpcs := [''ws://up'']\<rparr>, None))\<rparr>"

lemma big_String_42: "big_String 42 = ''42''"
  by code_simp

theorem buyToken_value_witness:
  "\<exists>opts account tx. buyToken_run mem_tools (mem_token [EvLog [107]]) 0 (\<lambda>f. Inr (if f = ''value'' then ''3'' else ''k'')) = Some (Printed ''42'', 1) \<and>
     tk_MintToken (mem_token [EvLog [107]]) 0 opts account = (Inr tx, 1) \<and> to_Value opts = Some (3 * 10 ^ 18)"
proof -
  have three: "big_SetString ''3'' = Some 3" by (simp add: dec_nat_def dec_value_def)
  have r: "buyToken_run mem_tools (mem_token [EvLog [107]]) 0 (\<lambda>f. Inr (if f = ''value'' then ''3'' else ''k'')) = Some (Printed ''42'', 1)"
    using big_String_42 by (simp add: buyToken_run_def BuyCacherToken_def ParseFlagValue_def ParseCommonConfig_def mem_tools_def mem_token_def mem_evm_def
        ToolsConfig_zero_def NewClient_def AccountPrivateKey_def ChainID_def ConnectionRpcAddresss_def EthereumGas_def Client_new_def
        NewTransactionOption_def GetEthClient_def SubscribeFilterLogs_def token_callback_def string_bytes_def Let_def del: big_SetString.simps)
  from buyToken_value [OF r _ three] r show ?thesis by auto
qed

text \<open>A failed mint transaction crashes the tool: with a client, transaction options and a bound contract,
  an error of the transaction is never reported, because the hash of the missing transaction is
  printed first.\<close>

theorem BuyCacherToken_mint_error_panics:
  assumes "NewClient (tk_evm T) [AccountPrivateKey (tk_evm T) sk, ChainID (tc_ChainId c), ConnectionRpcAddresss (tc_ChainRpcs c),
      EthereumGas (tc_GasFreeCap c) (tc_GasLimit c)] = (client :: ('e, 'k, unit) Client, None)"
    and "NewTransactionOption (tk_evm T) client value = Some (Inr opts)"
    and "tk_Bind T (ee_HexToAddress (tk_evm T) (tc_ContractAddress c)) (GetEthClient client) = None"
    and "tk_MintToken T w opts (cl_Account client) = (Inl err, w1)"
  shows "BuyCacherToken T w c sk value = None"
  using assms by (simp add: BuyCacherToken_def Let_def)

text \<open>The authorisation of a node signs the node account followed by the token id: the digest is the prefixed
  hash of the decoded account and the shortest big-endian form of the id, from which the id can be read
  back; the signature keeps its first 64 bytes, and its recovery byte 0 or 1 becomes 27 or 28.\<close>

theorem CacherAuthorizationSign_form:
  assumes "CacherAuthorizationSign T tokenAccSk nodeAcc tokenId = Some (Inr sign)"
    and "\<And>h sk s. ee_Sign (tk_evm T) h sk = Inr s \<Longrightarrow> length s = 65 \<and> s ! 64 \<in> {0, 1}"
  shows "\<exists>sk byteAcc tid tidBytes raw. ee_HexToECDSA (tk_evm T) tokenAccSk = Inr sk \<and>
    hex_DecodeString (strings_TrimPrefix nodeAcc ''0x'') = Inr byteAcc \<and> big_SetString tokenId = Some tid \<and>
    foldl (\<lambda>a b. a * 256 + unat b) 0 tidBytes = nat \<bar>tid\<bar> \<and>
    ee_Sign (tk_evm T) (Keccak256HashWithContractPrefix T (tk_Keccak256 T (byteAcc @ tidBytes))) (Some sk) = Inr raw \<and>
    length sign = 65 \<and> take 64 sign = take 64 raw \<and> (sign ! 64 = 27 \<or> sign ! 64 = 28)"
proof -
  obtain sk byteAcc tid raw where h: "ee_HexToECDSA (tk_evm T) tokenAccSk = Inr sk"
    "hex_DecodeString (strings_TrimPrefix nodeAcc ''0x'') = Inr byteAcc" "big_SetString tokenId = Some tid"
    "ee_Sign (tk_evm T) (Keccak256HashWithContractPrefix T (tk_Keccak256 T (byteAcc @ big_Bytes tid))) (Some sk) = Inr raw"
    "sign = raw[64 := raw ! 64 + 27]"
    using assms(1) by (auto simp: CacherAuthorizationSign_def Let_def split: sum.splits option.splits if_splits)
  moreover have "length raw = 65" "raw ! 64 \<in> {0, 1}" using assms(2) [OF h(4)] by auto
  moreover have "foldl (\<lambda>a b. a * 256 + unat b) 0 (big_Bytes tid) = nat \<bar>tid\<bar>" by (simp add: big_Bytes_def nat_bytes_value)
  ultimately show ?thesis by (intro exI [of _ sk] exI [of _ byteAcc] exI [of _ tid] exI [of _ "big_Bytes tid"] exI [of _ raw]) auto
qed

theorem CacherAuthorizationSign_form_witness:
  "\<exists>sign. CacherAuthorizationSign (mem_token []) ''k'' ''0x0a'' ''300'' = Some (Inr sign) \<and> length sign = 65 \<and> (sign ! 64 = 27 \<or> sign ! 64 = 28)"
proof -
  have "hex_DecodeString (strings_TrimPrefix ''0x0a'' ''0x'') = Inr [10]" by (simp add: strings_TrimPrefix_def hex_value_def)
  moreover have "big_SetString ''300'' = Some 300" by (simp add: dec_nat_def dec_value_def)
  ultimately obtain sign where s: "CacherAuthorizationSign (mem_token []) ''k'' ''0x0a'' ''300'' = Some (Inr sign)"
    by (simp add: CacherAuthorizationSign_def mem_token_def mem_evm_def Let_def)
  from CacherAuthorizationSign_form [OF s] show ?thesis using s by (auto simp: mem_token_def nth_append)
qed

end
