(* ===== verification/Token_Binding.thy ===== *)
theory Token_Binding
  imports Abi_Binding Eth_Tools
begin

text \<open>
  \<open>cd2n-lib/protocol/contract/cache_token.go\<close>: the binding of the token contract, with the same parts as
  that of the cache protocol contract.
\<close>

section \<open>Interface and types\<close>

text \<open>The interface description: the entries of the JSON text, in its order.\<close>

definition TokenMetaData :: "abi_entry list" where
  "TokenMetaData =
    [AbiConstructor [(''name_'', TString), (''symbol_'', TString)],
     AbiError ''ERC721IncorrectOwner'' [(''sender'', TAddress), (''tokenId'', TUint256), (''owner'', TAddress)],
     AbiError ''ERC721InsufficientApproval'' [(''operator'', TAddress), (''tokenId'', TUint256)],
     AbiError ''ERC721InvalidApprover'' [(''approver'', TAddress)],
     AbiError ''ERC721InvalidOperator'' [(''operator'', TAddress)],
     AbiError ''ERC721InvalidOwner'' [(''owner'', TAddress)],
     AbiError ''ERC721InvalidReceiver'' [(''receiver'', TAddress)],
     AbiError ''ERC721InvalidSender'' [(''sender'', TAddress)],
     AbiError ''ERC721NonexistentToken'' [(''tokenId'', TUint256)],
     AbiEvent ''Approval'' [(''owner'', TAddress, True), (''approved'', TAddress, True), (''tokenId'', TUint256, True)],
     AbiEvent ''ApprovalForAll'' [(''owner'', TAddress, True), (''operator'', TAddress, True), (''approved'', TBool, False)],
     AbiEvent ''MintToken'' [(''owner'', TAddress, True), (''tokenId'', TUint256, True)],
     AbiEvent ''Transfer'' [(''from'', TAddress, True), (''to'', TAddress, True), (''tokenId'', TUint256, True)],
     AbiFunction ''approve'' MNonpayable [(''to'', TAddress), (''tokenId'', TUint256)] [],
     AbiFunction ''balanceOf'' MView [(''owner'', TAddress)] [('''', TUint256)],
     AbiFunction ''getApproved'' MView [(''tokenId'', TUint256)] [('''', TAddress)],
     AbiFunction ''isApprovedForAll'' MView [(''owner'', TAddress), (''operator'', TAddress)] [('''', TBool)],
     AbiFunction ''mintToken'' MPayable [(''to'', TAddress)] [],
     AbiFunction ''name'' MView [] [('''', TString)],
     AbiFunction ''ownerOf'' MView [(''tokenId'', TUint256)] [('''', TAddress)],
     AbiFunction ''releaseTime'' MView [('''', TUint256)] [('''', TUint256)],
     AbiFunction ''safeTransferFrom'' MNonpayable [(''from'', TAddress), (''to'', TAddress), (''tokenId'', TUint256)] [],
     AbiFunction ''safeTransferFrom'' MNonpayable [(''from'', TAddress), (''to'', TAddress), (''tokenId'', TUint256), (''data'', TBytes)] [],
     AbiFunction ''setApprovalForAll'' MNonpayable [(''operator'', TAddress), (''approved'', TBool)] [],
     AbiFunction ''supportsInterface'' MView [(''interfaceId'', TBytesN 4)] [('''', TBool)],
     AbiFunction ''symbol'' MView [] [('''', TString)],
     AbiFunction ''tokenURI'' MView [(''tokenId'', TUint256)] [('''', TString)],
     AbiFunction ''transferFrom'' MNonpayable [(''from'', TAddress), (''to'', TAddress), (''tokenId'', TUint256)] [],
     AbiFunction ''withdraw'' MNonpayable [] []]"

definition TokenABI :: "abi_entry list" where
  "TokenABI = TokenMetaData"

record 'be TokenCaller =
  tbc_contract :: "'be BoundContract"

record 'be TokenTransactor =
  tbt_contract :: "'be BoundContract"

record 'be TokenFilterer =
  tbf_contract :: "'be BoundContract"

text \<open>The three embedded bindings; a method of an embedded one is promoted.\<close>

record 'be Token =
  tb_Caller :: "'be TokenCaller"
  tb_Transactor :: "'be TokenTransactor"
  tb_Filterer :: "'be TokenFilterer"

record ('be, 'o) TokenSession =
  tbs_Contract :: "'be Token"
  tbs_CallOpts :: 'o
  tbs_TransactOpts :: TransactOpts

record ('be, 'o) TokenCallerSession =
  tbcs_Contract :: "'be TokenCaller"
  tbcs_CallOpts :: 'o

record 'be TokenTransactorSession =
  tbts_Contract :: "'be TokenTransactor"
  tbts_TransactOpts :: TransactOpts

record 'be TokenRaw =
  tbr_Contract :: "'be Token"

record 'be TokenCallerRaw =
  tbcr_Contract :: "'be TokenCaller"

record 'be TokenTransactorRaw =
  tbtr_Contract :: "'be TokenTransactor"

record 'l TokenApproval =
  TokenApproval_Owner :: "bytes"
  TokenApproval_Approved :: "bytes"
  TokenApproval_TokenId :: "int option"
  TokenApproval_Raw :: "'l option"

definition new_TokenApproval :: "'l TokenApproval" where
  "new_TokenApproval = \<lparr>TokenApproval_Owner = zero_address, TokenApproval_Approved = zero_address, TokenApproval_TokenId = None, TokenApproval_Raw = None\<rparr>"

record 'l TokenApprovalForAll =
  TokenApprovalForAll_Owner :: "bytes"
  TokenApprovalForAll_Operator :: "bytes"
  TokenApprovalForAll_Approved :: "bool"
  TokenApprovalForAll_Raw :: "'l option"

definition new_TokenApprovalForAll :: "'l TokenApprovalForAll" where
  "new_TokenApprovalForAll = \<lparr>TokenApprovalForAll_Owner = zero_address, TokenApprovalForAll_Operator = zero_address, TokenApprovalForAll_Approved = False, TokenApprovalForAll_Raw = None\<rparr>"

record 'l TokenMintToken =
  TokenMintToken_Owner :: "bytes"
  TokenMintToken_TokenId :: "int option"
  TokenMintToken_Raw :: "'l option"

definition new_TokenMintToken :: "'l TokenMintToken" where
  "new_TokenMintToken = \<lparr>TokenMintToken_Owner = zero_address, TokenMintToken_TokenId = None, TokenMintToken_Raw = None\<rparr>"

record 'l TokenTransfer =
  TokenTransfer_From :: "bytes"
  TokenTransfer_To :: "bytes"
  TokenTransfer_TokenId :: "int option"
  TokenTransfer_Raw :: "'l option"

definition new_TokenTransfer :: "'l TokenTransfer" where
  "new_TokenTransfer = \<lparr>TokenTransfer_From = zero_address, TokenTransfer_To = zero_address, TokenTransfer_TokenId = None, TokenTransfer_Raw = None\<rparr>"

text \<open>\<open>UnpackLog\<close> fills in a struct of each of the event types.\<close>

record ('be, 'w, 'o, 'f, 'l) token_abi = "('be, 'w, 'o, 'f, 'l) abi_env" +
  tb_UnpackApproval :: "'be BoundContract \<Rightarrow> string \<Rightarrow> 'l \<Rightarrow> 'l TokenApproval \<Rightarrow> 'l TokenApproval \<times> goerr option"
  tb_UnpackApprovalForAll :: "'be BoundContract \<Rightarrow> string \<Rightarrow> 'l \<Rightarrow> 'l TokenApprovalForAll \<Rightarrow> 'l TokenApprovalForAll \<times> goerr option"
  tb_UnpackMintToken :: "'be BoundContract \<Rightarrow> string \<Rightarrow> 'l \<Rightarrow> 'l TokenMintToken \<Rightarrow> 'l TokenMintToken \<times> goerr option"
  tb_UnpackTransfer :: "'be BoundContract \<Rightarrow> string \<Rightarrow> 'l \<Rightarrow> 'l TokenTransfer \<Rightarrow> 'l TokenTransfer \<times> goerr option"

section \<open>Binding\<close>

definition bindToken ::
  "('be, 'w, 'o, 'f, 'l) token_abi \<Rightarrow> bytes \<Rightarrow> 'be option \<Rightarrow> 'be option \<Rightarrow> 'be option \<Rightarrow> 'be BoundContract or_err" where
  "bindToken A address caller transactor filterer =
     (case ab_GetAbi A TokenMetaData of
        Some err \<Rightarrow> Inl err
      | None \<Rightarrow> Inr \<lparr>bd_address = address, bd_abi = TokenMetaData, bd_caller = caller, bd_transactor = transactor,
                         bd_filterer = filterer\<rparr>)"

definition NewToken ::
  "('be, 'w, 'o, 'f, 'l) token_abi \<Rightarrow> bytes \<Rightarrow> 'be \<Rightarrow> 'be Token or_err" where
  "NewToken A address backend =
     (case bindToken A address (Some backend) (Some backend) (Some backend) of
        Inl err \<Rightarrow> Inl err
      | Inr contract \<Rightarrow> Inr \<lparr>tb_Caller = \<lparr>tbc_contract = contract\<rparr>, tb_Transactor = \<lparr>tbt_contract = contract\<rparr>,
                            tb_Filterer = \<lparr>tbf_contract = contract\<rparr>\<rparr>)"

definition NewTokenCaller ::
  "('be, 'w, 'o, 'f, 'l) token_abi \<Rightarrow> bytes \<Rightarrow> 'be \<Rightarrow> 'be TokenCaller or_err" where
  "NewTokenCaller A address backend =
     (case bindToken A address (Some backend) None None of
        Inl err \<Rightarrow> Inl err
      | Inr contract \<Rightarrow> Inr \<lparr>tbc_contract = contract\<rparr>)"

definition NewTokenTransactor ::
  "('be, 'w, 'o, 'f, 'l) token_abi \<Rightarrow> bytes \<Rightarrow> 'be \<Rightarrow> 'be TokenTransactor or_err" where
  "NewTokenTransactor A address backend =
     (case bindToken A address None (Some backend) None of
        Inl err \<Rightarrow> Inl err
      | Inr contract \<Rightarrow> Inr \<lparr>tbt_contract = contract\<rparr>)"

definition NewTokenFilterer ::
  "('be, 'w, 'o, 'f, 'l) token_abi \<Rightarrow> bytes \<Rightarrow> 'be \<Rightarrow> 'be TokenFilterer or_err" where
  "NewTokenFilterer A address backend =
     (case bindToken A address None None (Some backend) of
        Inl err \<Rightarrow> Inl err
      | Inr contract \<Rightarrow> Inr \<lparr>tbf_contract = contract\<rparr>)"

definition TokenRaw_Call ::
  "('be, 'w, 'o, 'f, 'l) token_abi \<Rightarrow> 'be TokenRaw \<Rightarrow> 'w \<Rightarrow> 'o \<Rightarrow> string \<Rightarrow> abi_val list \<Rightarrow> abi_val list or_err" where
  "TokenRaw_Call A r w opts method params = ab_Call A (tbc_contract (tb_Caller (tbr_Contract r))) w opts method params"

definition TokenRaw_Transfer ::
  "('be, 'w, 'o, 'f, 'l) token_abi \<Rightarrow> 'be TokenRaw \<Rightarrow> 'w \<Rightarrow> TransactOpts \<Rightarrow> string or_err \<times> 'w" where
  "TokenRaw_Transfer A r w opts = ab_Transfer A (tbt_contract (tb_Transactor (tbr_Contract r))) w opts"

definition TokenRaw_Transact ::
  "('be, 'w, 'o, 'f, 'l) token_abi \<Rightarrow> 'be TokenRaw \<Rightarrow> 'w \<Rightarrow> TransactOpts \<Rightarrow> string \<Rightarrow> abi_val list \<Rightarrow> string or_err \<times> 'w" where
  "TokenRaw_Transact A r w opts method params = ab_Transact A (tbt_contract (tb_Transactor (tbr_Contract r))) w opts method params"

definition TokenCallerRaw_Call ::
  "('be, 'w, 'o, 'f, 'l) token_abi \<Rightarrow> 'be TokenCallerRaw \<Rightarrow> 'w \<Rightarrow> 'o \<Rightarrow> string \<Rightarrow> abi_val list \<Rightarrow> abi_val list or_err" where
  "TokenCallerRaw_Call A r w opts method params = ab_Call A (tbc_contract (tbcr_Contract r)) w opts method params"

definition TokenTransactorRaw_Transfer ::
  "('be, 'w, 'o, 'f, 'l) token_abi \<Rightarrow> 'be TokenTransactorRaw \<Rightarrow> 'w \<Rightarrow> TransactOpts \<Rightarrow> string or_err \<times> 'w" where
  "TokenTransactorRaw_Transfer A r w opts = ab_Transfer A (tbt_contract (tbtr_Contract r)) w opts"

definition TokenTransactorRaw_Transact ::
  "('be, 'w, 'o, 'f, 'l) token_abi \<Rightarrow> 'be TokenTransactorRaw \<Rightarrow> 'w \<Rightarrow> TransactOpts \<Rightarrow> string \<Rightarrow> abi_val list \<Rightarrow> string or_err \<times> 'w" where
  "TokenTransactorRaw_Transact A r w opts method params = ab_Transact A (tbt_contract (tbtr_Contract r)) w opts method params"

section \<open>Methods\<close>

definition TokenCaller_BalanceOf ::
  "('be, 'w, 'o, 'f, 'l) token_abi \<Rightarrow> 'be TokenCaller \<Rightarrow> 'w \<Rightarrow> 'o \<Rightarrow> bytes \<Rightarrow> int or_err option" where
  "TokenCaller_BalanceOf A cc w opts owner =
     call_one (ab_Call A (tbc_contract cc) w opts ''balanceOf'' [AAddr owner]) abi_int"

definition TokenSession_BalanceOf ::
  "('be, 'w, 'o, 'f, 'l) token_abi \<Rightarrow> ('be, 'o) TokenSession \<Rightarrow> 'w \<Rightarrow> bytes \<Rightarrow> int or_err option" where
  "TokenSession_BalanceOf A s w owner =
     TokenCaller_BalanceOf A (tb_Caller (tbs_Contract s)) w (tbs_CallOpts s) owner"

definition TokenCallerSession_BalanceOf ::
  "('be, 'w, 'o, 'f, 'l) token_abi \<Rightarrow> ('be, 'o) TokenCallerSession \<Rightarrow> 'w \<Rightarrow> bytes \<Rightarrow> int or_err option" where
  "TokenCallerSession_BalanceOf A s w owner =
     TokenCaller_BalanceOf A (tbcs_Contract s) w (tbcs_CallOpts s) owner"

definition TokenCaller_GetApproved ::
  "('be, 'w, 'o, 'f, 'l) token_abi \<Rightarrow> 'be TokenCaller \<Rightarrow> 'w \<Rightarrow> 'o \<Rightarrow> int \<Rightarrow> bytes or_err option" where
  "TokenCaller_GetApproved A cc w opts tokenId =
     call_one (ab_Call A (tbc_contract cc) w opts ''getApproved'' [AInt tokenId]) abi_addr"

definition TokenSession_GetApproved ::
  "('be, 'w, 'o, 'f, 'l) token_abi \<Rightarrow> ('be, 'o) TokenSession \<Rightarrow> 'w \<Rightarrow> int \<Rightarrow> bytes or_err option" where
  "TokenSession_GetApproved A s w tokenId =
     TokenCaller_GetApproved A (tb_Caller (tbs_Contract s)) w (tbs_CallOpts s) tokenId"

definition TokenCallerSession_GetApproved ::
  "('be, 'w, 'o, 'f, 'l) token_abi \<Rightarrow> ('be, 'o) TokenCallerSession \<Rightarrow> 'w \<Rightarrow> int \<Rightarrow> bytes or_err option" where
  "TokenCallerSession_GetApproved A s w tokenId =
     TokenCaller_GetApproved A (tbcs_Contract s) w (tbcs_CallOpts s) tokenId"

definition TokenCaller_IsApprovedForAll ::
  "('be, 'w, 'o, 'f, 'l) token_abi \<Rightarrow> 'be TokenCaller \<Rightarrow> 'w \<Rightarrow> 'o \<Rightarrow> bytes \<Rightarrow> bytes \<Rightarrow> bool or_err option" where
  "TokenCaller_IsApprovedForAll A cc w opts owner operator =
     call_one (ab_Call A (tbc_contract cc) w opts ''isApprovedForAll'' [AAddr owner, AAddr operator]) abi_bool"

definition TokenSession_IsApprovedForAll ::
  "('be, 'w, 'o, 'f, 'l) token_abi \<Rightarrow> ('be, 'o) TokenSession \<Rightarrow> 'w \<Rightarrow> bytes \<Rightarrow> bytes \<Rightarrow> bool or_err option" where
  "TokenSession_IsApprovedForAll A s w owner operator =
     TokenCaller_IsApprovedForAll A (tb_Caller (tbs_Contract s)) w (tbs_CallOpts s) owner operator"

definition TokenCallerSession_IsApprovedForAll ::
  "('be, 'w, 'o, 'f, 'l) token_abi \<Rightarrow> ('be, 'o) TokenCallerSession \<Rightarrow> 'w \<Rightarrow> bytes \<Rightarrow> bytes \<Rightarrow> bool or_err option" where
  "TokenCallerSession_IsApprovedForAll A s w owner operator =
     TokenCaller_IsApprovedForAll A (tbcs_Contract s) w (tbcs_CallOpts s) owner operator"

definition TokenCaller_Name ::
  "('be, 'w, 'o, 'f, 'l) token_abi \<Rightarrow> 'be TokenCaller \<Rightarrow> 'w \<Rightarrow> 'o \<Rightarrow> string or_err option" where
  "TokenCaller_Name A cc w opts =
     call_one (ab_Call A (tbc_contract cc) w opts ''name'' []) abi_str"

definition TokenSession_Name ::
  "('be, 'w, 'o, 'f, 'l) token_abi \<Rightarrow> ('be, 'o) TokenSession \<Rightarrow> 'w \<Rightarrow> string or_err option" where
  "TokenSession_Name A s w =
     TokenCaller_Name A (tb_Caller (tbs_Contract s)) w (tbs_CallOpts s)"

definition TokenCallerSession_Name ::
  "('be, 'w, 'o, 'f, 'l) token_abi \<Rightarrow> ('be, 'o) TokenCallerSession \<Rightarrow> 'w \<Rightarrow> string or_err option" where
  "TokenCallerSession_Name A s w =
     TokenCaller_Name A (tbcs_Contract s) w (tbcs_CallOpts s)"

definition TokenCaller_OwnerOf ::
  "('be, 'w, 'o, 'f, 'l) token_abi \<Rightarrow> 'be TokenCaller \<Rightarrow> 'w \<Rightarrow> 'o \<Rightarrow> int \<Rightarrow> bytes or_err option" where
  "TokenCaller_OwnerOf A cc w opts tokenId =
     call_one (ab_Call A (tbc_contract cc) w opts ''ownerOf'' [AInt tokenId]) abi_addr"

definition TokenSession_OwnerOf ::
  "('be, 'w, 'o, 'f, 'l) token_abi \<Rightarrow> ('be, 'o) TokenSession \<Rightarrow> 'w \<Rightarrow> int \<Rightarrow> bytes or_err option" where
  "TokenSession_OwnerOf A s w tokenId =
     TokenCaller_OwnerOf A (tb_Caller (tbs_Contract s)) w (tbs_CallOpts s) tokenId"

definition TokenCallerSession_OwnerOf ::
  "('be, 'w, 'o, 'f, 'l) token_abi \<Rightarrow> ('be, 'o) TokenCallerSession \<Rightarrow> 'w \<Rightarrow> int \<Rightarrow> bytes or_err option" where
  "TokenCallerSession_OwnerOf A s w tokenId =
     TokenCaller_OwnerOf A (tbcs_Contract s) w (tbcs_CallOpts s) tokenId"

definition TokenCaller_ReleaseTime ::
  "('be, 'w, 'o, 'f, 'l) token_abi \<Rightarrow> 'be TokenCaller \<Rightarrow> 'w \<Rightarrow> 'o \<Rightarrow> int \<Rightarrow> int or_err option" where
  "TokenCaller_ReleaseTime A cc w opts arg0 =
     call_one (ab_Call A (tbc_contract cc) w opts ''releaseTime'' [AInt arg0]) abi_int"

definition TokenSession_ReleaseTime ::
  "('be, 'w, 'o, 'f, 'l) token_abi \<Rightarrow> ('be, 'o) TokenSession \<Rightarrow> 'w \<Rightarrow> int \<Rightarrow> int or_err option" where
  "TokenSession_ReleaseTime A s w arg0 =
     TokenCaller_ReleaseTime A (tb_Caller (tbs_Contract s)) w (tbs_CallOpts s) arg0"

definition TokenCallerSession_ReleaseTime ::
  "('be, 'w, 'o, 'f, 'l) token_abi \<Rightarrow> ('be, 'o) TokenCallerSession \<Rightarrow> 'w \<Rightarrow> int \<Rightarrow> int or_err option" where
  "TokenCallerSession_ReleaseTime A s w arg0 =
     TokenCaller_ReleaseTime A (tbcs_Contract s) w (tbcs_CallOpts s) arg0"

definition TokenCaller_SupportsInterface ::
  "('be, 'w, 'o, 'f, 'l) token_abi \<Rightarrow> 'be TokenCaller \<Rightarrow> 'w \<Rightarrow> 'o \<Rightarrow> bytes \<Rightarrow> bool or_err option" where
  "TokenCaller_SupportsInterface A cc w opts interfaceId =
     call_one (ab_Call A (tbc_contract cc) w opts ''supportsInterface'' [AFixed interfaceId]) abi_bool"

definition TokenSession_SupportsInterface ::
  "('be, 'w, 'o, 'f, 'l) token_abi \<Rightarrow> ('be, 'o) TokenSession \<Rightarrow> 'w \<Rightarrow> bytes \<Rightarrow> bool or_err option" where
  "TokenSession_SupportsInterface A s w interfaceId =
     TokenCaller_SupportsInterface A (tb_Caller (tbs_Contract s)) w (tbs_CallOpts s) interfaceId"

definition TokenCallerSession_SupportsInterface ::
  "('be, 'w, 'o, 'f, 'l) token_abi \<Rightarrow> ('be, 'o) TokenCallerSession \<Rightarrow> 'w \<Rightarrow> bytes \<Rightarrow> bool or_err option" where
  "TokenCallerSession_SupportsInterface A s w interfaceId =
     TokenCaller_SupportsInterface A (tbcs_Contract s) w (tbcs_CallOpts s) interfaceId"

definition TokenCaller_Symbol ::
  "('be, 'w, 'o, 'f, 'l) token_abi \<Rightarrow> 'be TokenCaller \<Rightarrow> 'w \<Rightarrow> 'o \<Rightarrow> string or_err option" where
  "TokenCaller_Symbol A cc w opts =
     call_one (ab_Call A (tbc_contract cc) w opts ''symbol'' []) abi_str"

definition TokenSession_Symbol ::
  "('be, 'w, 'o, 'f, 'l) token_abi \<Rightarrow> ('be, 'o) TokenSession \<Rightarrow> 'w \<Rightarrow> string or_err option" where
  "TokenSession_Symbol A s w =
     TokenCaller_Symbol A (tb_Caller (tbs_Contract s)) w (tbs_CallOpts s)"

definition TokenCallerSession_Symbol ::
  "('be, 'w, 'o, 'f, 'l) token_abi \<Rightarrow> ('be, 'o) TokenCallerSession \<Rightarrow> 'w \<Rightarrow> string or_err option" where
  "TokenCallerSession_Symbol A s w =
     TokenCaller_Symbol A (tbcs_Contract s) w (tbcs_CallOpts s)"

definition TokenCaller_TokenURI ::
  "('be, 'w, 'o, 'f, 'l) token_abi \<Rightarrow> 'be TokenCaller \<Rightarrow> 'w \<Rightarrow> 'o \<Rightarrow> int \<Rightarrow> string or_err option" where
  "TokenCaller_TokenURI A cc w opts tokenId =
     call_one (ab_Call A (tbc_contract cc) w opts ''tokenURI'' [AInt tokenId]) abi_str"

definition TokenSession_TokenURI ::
  "('be, 'w, 'o, 'f, 'l) token_abi \<Rightarrow> ('be, 'o) TokenSession \<Rightarrow> 'w \<Rightarrow> int \<Rightarrow> string or_err option" where
  "TokenSession_TokenURI A s w tokenId =
     TokenCaller_TokenURI A (tb_Caller (tbs_Contract s)) w (tbs_CallOpts s) tokenId"

definition TokenCallerSession_TokenURI ::
  "('be, 'w, 'o, 'f, 'l) token_abi \<Rightarrow> ('be, 'o) TokenCallerSession \<Rightarrow> 'w \<Rightarrow> int \<Rightarrow> string or_err option" where
  "TokenCallerSession_TokenURI A s w tokenId =
     TokenCaller_TokenURI A (tbcs_Contract s) w (tbcs_CallOpts s) tokenId"

definition TokenTransactor_Approve ::
  "('be, 'w, 'o, 'f, 'l) token_abi \<Rightarrow> 'be TokenTransactor \<Rightarrow> 'w \<Rightarrow> TransactOpts \<Rightarrow> bytes \<Rightarrow> int \<Rightarrow> string or_err \<times> 'w" where
  "TokenTransactor_Approve A ct w opts to tokenId =
     ab_Transact A (tbt_contract ct) w opts ''approve'' [AAddr to, AInt tokenId]"

definition TokenSession_Approve ::
  "('be, 'w, 'o, 'f, 'l) token_abi \<Rightarrow> ('be, 'o) TokenSession \<Rightarrow> 'w \<Rightarrow> bytes \<Rightarrow> int \<Rightarrow> string or_err \<times> 'w" where
  "TokenSession_Approve A s w to tokenId =
     TokenTransactor_Approve A (tb_Transactor (tbs_Contract s)) w (tbs_TransactOpts s) to tokenId"

definition TokenTransactorSession_Approve ::
  "('be, 'w, 'o, 'f, 'l) token_abi \<Rightarrow> 'be TokenTransactorSession \<Rightarrow> 'w \<Rightarrow> bytes \<Rightarrow> int \<Rightarrow> string or_err \<times> 'w" where
  "TokenTransactorSession_Approve A s w to tokenId =
     TokenTransactor_Approve A (tbts_Contract s) w (tbts_TransactOpts s) to tokenId"

definition TokenTransactor_MintToken ::
  "('be, 'w, 'o, 'f, 'l) token_abi \<Rightarrow> 'be TokenTransactor \<Rightarrow> 'w \<Rightarrow> TransactOpts \<Rightarrow> bytes \<Rightarrow> string or_err \<times> 'w" where
  "TokenTransactor_MintToken A ct w opts to =
     ab_Transact A (tbt_contract ct) w opts ''mintToken'' [AAddr to]"

definition TokenSession_MintToken ::
  "('be, 'w, 'o, 'f, 'l) token_abi \<Rightarrow> ('be, 'o) TokenSession \<Rightarrow> 'w \<Rightarrow> bytes \<Rightarrow> string or_err \<times> 'w" where
  "TokenSession_MintToken A s w to =
     TokenTransactor_MintToken A (tb_Transactor (tbs_Contract s)) w (tbs_TransactOpts s) to"

definition TokenTransactorSession_MintToken ::
  "('be, 'w, 'o, 'f, 'l) token_abi \<Rightarrow> 'be TokenTransactorSession \<Rightarrow> 'w \<Rightarrow> bytes \<Rightarrow> string or_err \<times> 'w" where
  "TokenTransactorSession_MintToken A s w to =
     TokenTransactor_MintToken A (tbts_Contract s) w (tbts_TransactOpts s) to"

definition TokenTransactor_SafeTransferFrom ::
  "('be, 'w, 'o, 'f, 'l) token_abi \<Rightarrow> 'be TokenTransactor \<Rightarrow> 'w \<Rightarrow> TransactOpts \<Rightarrow> bytes \<Rightarrow> bytes \<Rightarrow> int \<Rightarrow> string or_err \<times> 'w" where
  "TokenTransactor_SafeTransferFrom A ct w opts from to tokenId =
     ab_Transact A (tbt_contract ct) w opts ''safeTransferFrom'' [AAddr from, AAddr to, AInt tokenId]"

definition TokenSession_SafeTransferFrom ::
  "('be, 'w, 'o, 'f, 'l) token_abi \<Rightarrow> ('be, 'o) TokenSession \<Rightarrow> 'w \<Rightarrow> bytes \<Rightarrow> bytes \<Rightarrow> int \<Rightarrow> string or_err \<times> 'w" where
  "TokenSession_SafeTransferFrom A s w from to tokenId =
     TokenTransactor_SafeTransferFrom A (tb_Transactor (tbs_Contract s)) w (tbs_TransactOpts s) from to tokenId"

definition TokenTransactorSession_SafeTransferFrom ::
  "('be, 'w, 'o, 'f, 'l) token_abi \<Rightarrow> 'be TokenTransactorSession \<Rightarrow> 'w \<Rightarrow> bytes \<Rightarrow> bytes \<Rightarrow> int \<Rightarrow> string or_err \<times> 'w" where
  "TokenTransactorSession_SafeTransferFrom A s w from to tokenId =
     TokenTransactor_SafeTransferFrom A (tbts_Contract s) w (tbts_TransactOpts s) from to tokenId"

definition TokenTransactor_SafeTransferFrom0 ::
  "('be, 'w, 'o, 'f, 'l) token_abi \<Rightarrow> 'be TokenTransactor \<Rightarrow> 'w \<Rightarrow> TransactOpts \<Rightarrow> bytes \<Rightarrow> bytes \<Rightarrow> int \<Rightarrow> bytes \<Rightarrow> string or_err \<times> 'w" where
  "TokenTransactor_SafeTransferFrom0 A ct w opts from to tokenId data =
     ab_Transact A (tbt_contract ct) w opts ''safeTransferFrom0'' [AAddr from, AAddr to, AInt tokenId, ABytes data]"

definition TokenSession_SafeTransferFrom0 ::
  "('be, 'w, 'o, 'f, 'l) token_abi \<Rightarrow> ('be, 'o) TokenSession \<Rightarrow> 'w \<Rightarrow> bytes \<Rightarrow> bytes \<Rightarrow> int \<Rightarrow> bytes \<Rightarrow> string or_err \<times> 'w" where
  "TokenSession_SafeTransferFrom0 A s w from to tokenId data =
     TokenTransactor_SafeTransferFrom0 A (tb_Transactor (tbs_Contract s)) w (tbs_TransactOpts s) from to tokenId data"

definition TokenTransactorSession_SafeTransferFrom0 ::
  "('be, 'w, 'o, 'f, 'l) token_abi \<Rightarrow> 'be TokenTransactorSession \<Rightarrow> 'w \<Rightarrow> bytes \<Rightarrow> bytes \<Rightarrow> int \<Rightarrow> bytes \<Rightarrow> string or_err \<times> 'w" where
  "TokenTransactorSession_SafeTransferFrom0 A s w from to tokenId data =
     TokenTransactor_SafeTransferFrom0 A (tbts_Contract s) w (tbts_TransactOpts s) from to tokenId data"

definition TokenTransactor_SetApprovalForAll ::
  "('be, 'w, 'o, 'f, 'l) token_abi \<Rightarrow> 'be TokenTransactor \<Rightarrow> 'w \<Rightarrow> TransactOpts \<Rightarrow> bytes \<Rightarrow> bool \<Rightarrow> string or_err \<times> 'w" where
  "TokenTransactor_SetApprovalForAll A ct w opts operator approved =
     ab_Transact A (tbt_contract ct) w opts ''setApprovalForAll'' [AAddr operator, ABool approved]"

definition TokenSession_SetApprovalForAll ::
  "('be, 'w, 'o, 'f, 'l) token_abi \<Rightarrow> ('be, 'o) TokenSession \<Rightarrow> 'w \<Rightarrow> bytes \<Rightarrow> bool \<Rightarrow> string or_err \<times> 'w" where
  "TokenSession_SetApprovalForAll A s w operator approved =
     TokenTransactor_SetApprovalForAll A (tb_Transactor (tbs_Contract s)) w (tbs_TransactOpts s) operator approved"

definition TokenTransactorSession_SetApprovalForAll ::
  "('be, 'w, 'o, 'f, 'l) token_abi \<Rightarrow> 'be TokenTransactorSession \<Rightarrow> 'w \<Rightarrow> bytes \<Rightarrow> bool \<Rightarrow> string or_err \<times> 'w" where
  "TokenTransactorSession_SetApprovalForAll A s w operator approved =
     TokenTransactor_SetApprovalForAll A (tbts_Contract s) w (tbts_TransactOpts s) operator approved"

definition TokenTransactor_TransferFrom ::
  "('be, 'w, 'o, 'f, 'l) token_abi \<Rightarrow> 'be TokenTransactor \<Rightarrow> 'w \<Rightarrow> TransactOpts \<Rightarrow> bytes \<Rightarrow> bytes \<Rightarrow> int \<Rightarrow> string or_err \<times> 'w" where
  "TokenTransactor_TransferFrom A ct w opts from to tokenId =
     ab_Transact A (tbt_contract ct) w opts ''transferFrom'' [AAddr from, AAddr to, AInt tokenId]"

definition TokenSession_TransferFrom ::
  "('be, 'w, 'o, 'f, 'l) token_abi \<Rightarrow> ('be, 'o) TokenSession \<Rightarrow> 'w \<Rightarrow> bytes \<Rightarrow> bytes \<Rightarrow> int \<Rightarrow> string or_err \<times> 'w" where
  "TokenSession_TransferFrom A s w from to tokenId =
     TokenTransactor_TransferFrom A (tb_Transactor (tbs_Contract s)) w (tbs_TransactOpts s) from to tokenId"

definition TokenTransactorSession_TransferFrom ::
  "('be, 'w, 'o, 'f, 'l) token_abi \<Rightarrow> 'be TokenTransactorSession \<Rightarrow> 'w \<Rightarrow> bytes \<Rightarrow> bytes \<Rightarrow> int \<Rightarrow> string or_err \<times> 'w" where
  "TokenTransactorSession_TransferFrom A s w from to tokenId =
     TokenTransactor_TransferFrom A (tbts_Contract s) w (tbts_TransactOpts s) from to tokenId"

definition TokenTransactor_Withdraw ::
  "('be, 'w, 'o, 'f, 'l) token_abi \<Rightarrow> 'be TokenTransactor \<Rightarrow> 'w \<Rightarrow> TransactOpts \<Rightarrow> string or_err \<times> 'w" where
  "TokenTransactor_Withdraw A ct w opts =
     ab_Transact A (tbt_contract ct) w opts ''withdraw'' []"

definition TokenSession_Withdraw ::
  "('be, 'w, 'o, 'f, 'l) token_abi \<Rightarrow> ('be, 'o) TokenSession \<Rightarrow> 'w \<Rightarrow> string or_err \<times> 'w" where
  "TokenSession_Withdraw A s w =
     TokenTransactor_Withdraw A (tb_Transactor (tbs_Contract s)) w (tbs_TransactOpts s)"

definition TokenTransactorSession_Withdraw ::
  "('be, 'w, 'o, 'f, 'l) token_abi \<Rightarrow> 'be TokenTransactorSession \<Rightarrow> 'w \<Rightarrow> string or_err \<times> 'w" where
  "TokenTransactorSession_Withdraw A s w =
     TokenTransactor_Withdraw A (tbts_Contract s) w (tbts_TransactOpts s)"

section \<open>Logs\<close>

subsection \<open>The event \<open>Approval\<close>\<close>

type_synonym ('be, 'l) TokenApprovalIterator = "('be, 'l, 'l TokenApproval) log_iterator"

definition TokenApprovalIterator_Next ::
  "('be, 'w, 'o, 'f, 'l) token_abi \<Rightarrow> ('be, 'l) TokenApprovalIterator \<Rightarrow> (bool \<times> ('be, 'l) TokenApprovalIterator) option" where
  "TokenApprovalIterator_Next A it =
     it_Next (\<lambda>c name l. tb_UnpackApproval A c name l new_TokenApproval) (\<lambda>l ev. ev\<lparr>TokenApproval_Raw := Some l\<rparr>) it"

definition TokenApprovalIterator_Error ::
  "('be, 'l) TokenApprovalIterator \<Rightarrow> goerr option" where
  "TokenApprovalIterator_Error it = it_Error it"

definition TokenApprovalIterator_Close ::
  "('be, 'l) TokenApprovalIterator \<Rightarrow> goerr option \<times> ('be, 'l) TokenApprovalIterator" where
  "TokenApprovalIterator_Close it = it_Close it"

definition TokenFilterer_ParseApproval ::
  "('be, 'w, 'o, 'f, 'l) token_abi \<Rightarrow> 'be TokenFilterer \<Rightarrow> 'l \<Rightarrow> 'l TokenApproval or_err" where
  "TokenFilterer_ParseApproval A f l =
     (case tb_UnpackApproval A (tbf_contract f) ''Approval'' l new_TokenApproval of
        (event, Some err) \<Rightarrow> Inl err
      | (event, None) \<Rightarrow> Inr (event\<lparr>TokenApproval_Raw := Some l\<rparr>))"

definition TokenFilterer_FilterApproval ::
  "('be, 'w, 'o, 'f, 'l) token_abi \<Rightarrow> 'be TokenFilterer \<Rightarrow> 'w \<Rightarrow> 'f \<Rightarrow> bytes list \<Rightarrow> bytes list \<Rightarrow> int list \<Rightarrow> ('be, 'l) TokenApprovalIterator or_err" where
  "TokenFilterer_FilterApproval A f w opts owner approved tokenId =
     (let ownerRule = rule_loop AAddr [] owner;
          approvedRule = rule_loop AAddr [] approved;
          tokenIdRule = rule_loop AInt [] tokenId
      in case ab_FilterLogs A (tbf_contract f) w opts ''Approval'' [ownerRule, approvedRule, tokenIdRule] of
        Inl err \<Rightarrow> Inl err
      | Inr arr \<Rightarrow> Inr (new_iterator (tbf_contract f) ''Approval'' arr))"

definition TokenFilterer_WatchApproval ::
  "('be, 'w, 'o, 'f, 'l) token_abi \<Rightarrow> 'be TokenFilterer \<Rightarrow> 'w \<Rightarrow> 'f \<Rightarrow> bytes list \<Rightarrow> bytes list \<Rightarrow> int list \<Rightarrow> ('l TokenApproval list \<times> goerr option option) or_err" where
  "TokenFilterer_WatchApproval A f w opts owner approved tokenId =
     (let ownerRule = rule_loop AAddr [] owner;
          approvedRule = rule_loop AAddr [] approved;
          tokenIdRule = rule_loop AInt [] tokenId
      in case ab_WatchLogs A (tbf_contract f) w opts ''Approval'' [ownerRule, approvedRule, tokenIdRule] of
        Inl err \<Rightarrow> Inl err
      | Inr arr \<Rightarrow> Inr (watch_loop (TokenFilterer_ParseApproval A f) [] arr))"

subsection \<open>The event \<open>ApprovalForAll\<close>\<close>

type_synonym ('be, 'l) TokenApprovalForAllIterator = "('be, 'l, 'l TokenApprovalForAll) log_iterator"

definition TokenApprovalForAllIterator_Next ::
  "('be, 'w, 'o, 'f, 'l) token_abi \<Rightarrow> ('be, 'l) TokenApprovalForAllIterator \<Rightarrow> (bool \<times> ('be, 'l) TokenApprovalForAllIterator) option" where
  "TokenApprovalForAllIterator_Next A it =
     it_Next (\<lambda>c name l. tb_UnpackApprovalForAll A c name l new_TokenApprovalForAll) (\<lambda>l ev. ev\<lparr>TokenApprovalForAll_Raw := Some l\<rparr>) it"

definition TokenApprovalForAllIterator_Error ::
  "('be, 'l) TokenApprovalForAllIterator \<Rightarrow> goerr option" where
  "TokenApprovalForAllIterator_Error it = it_Error it"

definition TokenApprovalForAllIterator_Close ::
  "('be, 'l) TokenApprovalForAllIterator \<Rightarrow> goerr option \<times> ('be, 'l) TokenApprovalForAllIterator" where
  "TokenApprovalForAllIterator_Close it = it_Close it"

definition TokenFilterer_ParseApprovalForAll ::
  "('be, 'w, 'o, 'f, 'l) token_abi \<Rightarrow> 'be TokenFilterer \<Rightarrow> 'l \<Rightarrow> 'l TokenApprovalForAll or_err" where
  "TokenFilterer_ParseApprovalForAll A f l =
     (case tb_UnpackApprovalForAll A (tbf_contract f) ''ApprovalForAll'' l new_TokenApprovalForAll of
        (event, Some err) \<Rightarrow> Inl err
      | (event, None) \<Rightarrow> Inr (event\<lparr>TokenApprovalForAll_Raw := Some l\<rparr>))"

definition TokenFilterer_FilterApprovalForAll ::
  "('be, 'w, 'o, 'f, 'l) token_abi \<Rightarrow> 'be TokenFilterer \<Rightarrow> 'w \<Rightarrow> 'f \<Rightarrow> bytes list \<Rightarrow> bytes list \<Rightarrow> ('be, 'l) TokenApprovalForAllIterator or_err" where
  "TokenFilterer_FilterApprovalForAll A f w opts owner operator =
     (let ownerRule = rule_loop AAddr [] owner;
          operatorRule = rule_loop AAddr [] operator
      in case ab_FilterLogs A (tbf_contract f) w opts ''ApprovalForAll'' [ownerRule, operatorRule] of
        Inl err \<Rightarrow> Inl err
      | Inr arr \<Rightarrow> Inr (new_iterator (tbf_contract f) ''ApprovalForAll'' arr))"

definition TokenFilterer_WatchApprovalForAll ::
  "('be, 'w, 'o, 'f, 'l) token_abi \<Rightarrow> 'be TokenFilterer \<Rightarrow> 'w \<Rightarrow> 'f \<Rightarrow> bytes list \<Rightarrow> bytes list \<Rightarrow> ('l TokenApprovalForAll list \<times> goerr option option) or_err" where
  "TokenFilterer_WatchApprovalForAll A f w opts owner operator =
     (let ownerRule = rule_loop AAddr [] owner;
          operatorRule = rule_loop AAddr [] operator
      in case ab_WatchLogs A (tbf_contract f) w opts ''ApprovalForAll'' [ownerRule, operatorRule] of
        Inl err \<Rightarrow> Inl err
      | Inr arr \<Rightarrow> Inr (watch_loop (TokenFilterer_ParseApprovalForAll A f) [] arr))"

subsection \<open>The event \<open>MintToken\<close>\<close>

type_synonym ('be, 'l) TokenMintTokenIterator = "('be, 'l, 'l TokenMintToken) log_iterator"

definition TokenMintTokenIterator_Next ::
  "('be, 'w, 'o, 'f, 'l) token_abi \<Rightarrow> ('be, 'l) TokenMintTokenIterator \<Rightarrow> (bool \<times> ('be, 'l) TokenMintTokenIterator) option" where
  "TokenMintTokenIterator_Next A it =
     it_Next (\<lambda>c name l. tb_UnpackMintToken A c name l new_TokenMintToken) (\<lambda>l ev. ev\<lparr>TokenMintToken_Raw := Some l\<rparr>) it"

definition TokenMintTokenIterator_Error ::
  "('be, 'l) TokenMintTokenIterator \<Rightarrow> goerr option" where
  "TokenMintTokenIterator_Error it = it_Error it"

definition TokenMintTokenIterator_Close ::
  "('be, 'l) TokenMintTokenIterator \<Rightarrow> goerr option \<times> ('be, 'l) TokenMintTokenIterator" where
  "TokenMintTokenIterator_Close it = it_Close it"

definition TokenFilterer_ParseMintToken ::
  "('be, 'w, 'o, 'f, 'l) token_abi \<Rightarrow> 'be TokenFilterer \<Rightarrow> 'l \<Rightarrow> 'l TokenMintToken or_err" where
  "TokenFilterer_ParseMintToken A f l =
     (case tb_UnpackMintToken A (tbf_contract f) ''MintToken'' l new_TokenMintToken of
        (event, Some err) \<Rightarrow> Inl err
      | (event, None) \<Rightarrow> Inr (event\<lparr>TokenMintToken_Raw := Some l\<rparr>))"

definition TokenFilterer_FilterMintToken ::
  "('be, 'w, 'o, 'f, 'l) token_abi \<Rightarrow> 'be TokenFilterer \<Rightarrow> 'w \<Rightarrow> 'f \<Rightarrow> bytes list \<Rightarrow> int list \<Rightarrow> ('be, 'l) TokenMintTokenIterator or_err" where
  "TokenFilterer_FilterMintToken A f w opts owner tokenId =
     (let ownerRule = rule_loop AAddr [] owner;
          tokenIdRule = rule_loop AInt [] tokenId
      in case ab_FilterLogs A (tbf_contract f) w opts ''MintToken'' [ownerRule, tokenIdRule] of
        Inl err \<Rightarrow> Inl err
      | Inr arr \<Rightarrow> Inr (new_iterator (tbf_contract f) ''MintToken'' arr))"

definition TokenFilterer_WatchMintToken ::
  "('be, 'w, 'o, 'f, 'l) token_abi \<Rightarrow> 'be TokenFilterer \<Rightarrow> 'w \<Rightarrow> 'f \<Rightarrow> bytes list \<Rightarrow> int list \<Rightarrow> ('l TokenMintToken list \<times> goerr option option) or_err" where
  "TokenFilterer_WatchMintToken A f w opts owner tokenId =
     (let ownerRule = rule_loop AAddr [] owner;
          tokenIdRule = rule_loop AInt [] tokenId
      in case ab_WatchLogs A (tbf_contract f) w opts ''MintToken'' [ownerRule, tokenIdRule] of
        Inl err \<Rightarrow> Inl err
      | Inr arr \<Rightarrow> Inr (watch_loop (TokenFilterer_ParseMintToken A f) [] arr))"

subsection \<open>The event \<open>Transfer\<close>\<close>

type_synonym ('be, 'l) TokenTransferIterator = "('be, 'l, 'l TokenTransfer) log_iterator"

definition TokenTransferIterator_Next ::
  "('be, 'w, 'o, 'f, 'l) token_abi \<Rightarrow> ('be, 'l) TokenTransferIterator \<Rightarrow> (bool \<times> ('be, 'l) TokenTransferIterator) option" where
  "TokenTransferIterator_Next A it =
     it_Next (\<lambda>c name l. tb_UnpackTransfer A c name l new_TokenTransfer) (\<lambda>l ev. ev\<lparr>TokenTransfer_Raw := Some l\<rparr>) it"

definition TokenTransferIterator_Error ::
  "('be, 'l) TokenTransferIterator \<Rightarrow> goerr option" where
  "TokenTransferIterator_Error it = it_Error it"

definition TokenTransferIterator_Close ::
  "('be, 'l) TokenTransferIterator \<Rightarrow> goerr option \<times> ('be, 'l) TokenTransferIterator" where
  "TokenTransferIterator_Close it = it_Close it"

definition TokenFilterer_ParseTransfer ::
  "('be, 'w, 'o, 'f, 'l) token_abi \<Rightarrow> 'be TokenFilterer \<Rightarrow> 'l \<Rightarrow> 'l TokenTransfer or_err" where
  "TokenFilterer_ParseTransfer A f l =
     (case tb_UnpackTransfer A (tbf_contract f) ''Transfer'' l new_TokenTransfer of
        (event, Some err) \<Rightarrow> Inl err
      | (event, None) \<Rightarrow> Inr (event\<lparr>TokenTransfer_Raw := Some l\<rparr>))"

definition TokenFilterer_FilterTransfer ::
  "('be, 'w, 'o, 'f, 'l) token_abi \<Rightarrow> 'be TokenFilterer \<Rightarrow> 'w \<Rightarrow> 'f \<Rightarrow> bytes list \<Rightarrow> bytes list \<Rightarrow> int list \<Rightarrow> ('be, 'l) TokenTransferIterator or_err" where
  "TokenFilterer_FilterTransfer A f w opts from to tokenId =
     (let fromRule = rule_loop AAddr [] from;
          toRule = rule_loop AAddr [] to;
          tokenIdRule = rule_loop AInt [] tokenId
      in case ab_FilterLogs A (tbf_contract f) w opts ''Transfer'' [fromRule, toRule, tokenIdRule] of
        Inl err \<Rightarrow> Inl err
      | Inr arr \<Rightarrow> Inr (new_iterator (tbf_contract f) ''Transfer'' arr))"

definition TokenFilterer_WatchTransfer ::
  "('be, 'w, 'o, 'f, 'l) token_abi \<Rightarrow> 'be TokenFilterer \<Rightarrow> 'w \<Rightarrow> 'f \<Rightarrow> bytes list \<Rightarrow> bytes list \<Rightarrow> int list \<Rightarrow> ('l TokenTransfer list \<times> goerr option option) or_err" where
  "TokenFilterer_WatchTransfer A f w opts from to tokenId =
     (let fromRule = rule_loop AAddr [] from;
          toRule = rule_loop AAddr [] to;
          tokenIdRule = rule_loop AInt [] tokenId
      in case ab_WatchLogs A (tbf_contract f) w opts ''Transfer'' [fromRule, toRule, tokenIdRule] of
        Inl err \<Rightarrow> Inl err
      | Inr arr \<Rightarrow> Inr (watch_loop (TokenFilterer_ParseTransfer A f) [] arr))"

section \<open>Laws\<close>

lemma token_lookups [simp]:
  "abi_lookup TokenMetaData ''approve'' = Some (MNonpayable, [TAddress, TUint256], [])"
  "abi_lookup TokenMetaData ''balanceOf'' = Some (MView, [TAddress], [TUint256])"
  "abi_lookup TokenMetaData ''getApproved'' = Some (MView, [TUint256], [TAddress])"
  "abi_lookup TokenMetaData ''isApprovedForAll'' = Some (MView, [TAddress, TAddress], [TBool])"
  "abi_lookup TokenMetaData ''mintToken'' = Some (MPayable, [TAddress], [])"
  "abi_lookup TokenMetaData ''name'' = Some (MView, [], [TString])"
  "abi_lookup TokenMetaData ''ownerOf'' = Some (MView, [TUint256], [TAddress])"
  "abi_lookup TokenMetaData ''releaseTime'' = Some (MView, [TUint256], [TUint256])"
  "abi_lookup TokenMetaData ''safeTransferFrom'' = Some (MNonpayable, [TAddress, TAddress, TUint256], [])"
  "abi_lookup TokenMetaData ''safeTransferFrom0'' = Some (MNonpayable, [TAddress, TAddress, TUint256, TBytes], [])"
  "abi_lookup TokenMetaData ''setApprovalForAll'' = Some (MNonpayable, [TAddress, TBool], [])"
  "abi_lookup TokenMetaData ''supportsInterface'' = Some (MView, [TBytesN 4], [TBool])"
  "abi_lookup TokenMetaData ''symbol'' = Some (MView, [], [TString])"
  "abi_lookup TokenMetaData ''tokenURI'' = Some (MView, [TUint256], [TString])"
  "abi_lookup TokenMetaData ''transferFrom'' = Some (MNonpayable, [TAddress, TAddress, TUint256], [])"
  "abi_lookup TokenMetaData ''withdraw'' = Some (MNonpayable, [], [])"
  by code_simp+

lemmas token_caller_defs = TokenCaller_BalanceOf_def TokenCaller_GetApproved_def TokenCaller_IsApprovedForAll_def
  TokenCaller_Name_def TokenCaller_OwnerOf_def TokenCaller_ReleaseTime_def TokenCaller_SupportsInterface_def
  TokenCaller_Symbol_def TokenCaller_TokenURI_def

lemmas token_transactor_defs = TokenTransactor_Approve_def TokenTransactor_MintToken_def TokenTransactor_SafeTransferFrom_def
  TokenTransactor_SafeTransferFrom0_def TokenTransactor_SetApprovalForAll_def TokenTransactor_TransferFrom_def
  TokenTransactor_Withdraw_def

text \<open>No caller panics on results of the described types.\<close>

lemma token_callers_total:
  assumes "abi_decodes A TokenMetaData" "bd_abi (tbc_contract cc) = TokenMetaData"
  shows "TokenCaller_BalanceOf A cc w opts a1 \<noteq> None"
    "TokenCaller_GetApproved A cc w opts i \<noteq> None"
    "TokenCaller_IsApprovedForAll A cc w opts a1 a2 \<noteq> None"
    "TokenCaller_Name A cc w opts \<noteq> None"
    "TokenCaller_OwnerOf A cc w opts i \<noteq> None"
    "TokenCaller_ReleaseTime A cc w opts i \<noteq> None"
    "TokenCaller_SupportsInterface A cc w opts b4 \<noteq> None"
    "TokenCaller_Symbol A cc w opts \<noteq> None"
    "TokenCaller_TokenURI A cc w opts i \<noteq> None"
  by (simp_all add: token_caller_defs token_lookups(2, 3, 4, 6, 7, 8, 12, 13, 14)[THEN call_one_total[OF assms]] conversions_total del: not_None_eq fits_conversions)

text \<open>Every call and every transaction is one that the interface describes.\<close>

lemma token_calls_fit:
  assumes "bd_abi (tbc_contract cc) = TokenMetaData" "length b4 = 4"
  shows "TokenCaller_BalanceOf (abi_checked A) cc w opts a1 = TokenCaller_BalanceOf A cc w opts a1"
    "TokenCaller_GetApproved (abi_checked A) cc w opts i = TokenCaller_GetApproved A cc w opts i"
    "TokenCaller_IsApprovedForAll (abi_checked A) cc w opts a1 a2 = TokenCaller_IsApprovedForAll A cc w opts a1 a2"
    "TokenCaller_Name (abi_checked A) cc w opts = TokenCaller_Name A cc w opts"
    "TokenCaller_OwnerOf (abi_checked A) cc w opts i = TokenCaller_OwnerOf A cc w opts i"
    "TokenCaller_ReleaseTime (abi_checked A) cc w opts i = TokenCaller_ReleaseTime A cc w opts i"
    "TokenCaller_SupportsInterface (abi_checked A) cc w opts b4 = TokenCaller_SupportsInterface A cc w opts b4"
    "TokenCaller_Symbol (abi_checked A) cc w opts = TokenCaller_Symbol A cc w opts"
    "TokenCaller_TokenURI (abi_checked A) cc w opts i = TokenCaller_TokenURI A cc w opts i"
  using assms by (simp_all add: token_caller_defs packs_def)

lemma token_transactions_fit:
  assumes "bd_abi (tbt_contract ct) = TokenMetaData"
  shows "TokenTransactor_Approve (abi_checked A) ct w tos a1 i = TokenTransactor_Approve A ct w tos a1 i"
    "TokenTransactor_MintToken (abi_checked A) ct w tos a1 = TokenTransactor_MintToken A ct w tos a1"
    "TokenTransactor_SafeTransferFrom (abi_checked A) ct w tos a1 a2 i = TokenTransactor_SafeTransferFrom A ct w tos a1 a2 i"
    "TokenTransactor_SafeTransferFrom0 (abi_checked A) ct w tos a1 a2 i b1 = TokenTransactor_SafeTransferFrom0 A ct w tos a1 a2 i b1"
    "TokenTransactor_SetApprovalForAll (abi_checked A) ct w tos a1 b = TokenTransactor_SetApprovalForAll A ct w tos a1 b"
    "TokenTransactor_TransferFrom (abi_checked A) ct w tos a1 a2 i = TokenTransactor_TransferFrom A ct w tos a1 a2 i"
    "TokenTransactor_Withdraw (abi_checked A) ct w tos = TokenTransactor_Withdraw A ct w tos"
  using assms by (simp_all add: token_transactor_defs packs_def)


text \<open>The generated iterators and parsers keep the contract of an event iterator.\<close>

interpretation approval_log: event_iterator "TokenApprovalIterator_Next A" "TokenFilterer_ParseApproval A f" "tbf_contract f" "''Approval''" for A f
  using generated_iterator [of "\<lambda>c name l. tb_UnpackApproval A c name l new_TokenApproval" "\<lambda>l ev. ev\<lparr>TokenApproval_Raw := Some l\<rparr>"]
  by (simp add: TokenApprovalIterator_Next_def [abs_def] TokenFilterer_ParseApproval_def [abs_def] parse_log_def [abs_def])

interpretation approval_all_log: event_iterator "TokenApprovalForAllIterator_Next A" "TokenFilterer_ParseApprovalForAll A f" "tbf_contract f" "''ApprovalForAll''" for A f
  using generated_iterator [of "\<lambda>c name l. tb_UnpackApprovalForAll A c name l new_TokenApprovalForAll" "\<lambda>l ev. ev\<lparr>TokenApprovalForAll_Raw := Some l\<rparr>"]
  by (simp add: TokenApprovalForAllIterator_Next_def [abs_def] TokenFilterer_ParseApprovalForAll_def [abs_def] parse_log_def [abs_def])

interpretation mint_log: event_iterator "TokenMintTokenIterator_Next A" "TokenFilterer_ParseMintToken A f" "tbf_contract f" "''MintToken''" for A f
  using generated_iterator [of "\<lambda>c name l. tb_UnpackMintToken A c name l new_TokenMintToken" "\<lambda>l ev. ev\<lparr>TokenMintToken_Raw := Some l\<rparr>"]
  by (simp add: TokenMintTokenIterator_Next_def [abs_def] TokenFilterer_ParseMintToken_def [abs_def] parse_log_def [abs_def])

interpretation transfer_log: event_iterator "TokenTransferIterator_Next A" "TokenFilterer_ParseTransfer A f" "tbf_contract f" "''Transfer''" for A f
  using generated_iterator [of "\<lambda>c name l. tb_UnpackTransfer A c name l new_TokenTransfer" "\<lambda>l ev. ev\<lparr>TokenTransfer_Raw := Some l\<rparr>"]
  by (simp add: TokenTransferIterator_Next_def [abs_def] TokenFilterer_ParseTransfer_def [abs_def] parse_log_def [abs_def])


section \<open>The tool over the binding\<close>

text \<open>The environment of \<open>Eth_Tools\<close> with the token contract reached through the binding \<open>tb\<close>.\<close>

definition token_id :: "int option \<Rightarrow> int" where
  "token_id t = (case t of None \<Rightarrow> 0 | Some i \<Rightarrow> i)"

definition token_of ::
  "('e option, 'w, 'o, 'f, 'l) token_abi \<Rightarrow> 'e option Token \<Rightarrow> ('e, 'k, 'w, 'l) token_env \<Rightarrow> ('e, 'k, 'w, 'l) token_env" where
  "token_of A tb T = T\<lparr>
     tk_Bind := (\<lambda>addr cli. case NewToken A addr cli of Inl err \<Rightarrow> Some err | Inr _ \<Rightarrow> None),
     tk_MintToken := (\<lambda>w opts acc. TokenTransactor_MintToken A (tb_Transactor tb) w opts acc),
     tk_ParseMintToken := (\<lambda>l. map_sum id (\<lambda>ev. (TokenMintToken_Owner ev, token_id (TokenMintToken_TokenId ev)))
        (TokenFilterer_ParseMintToken A (tb_Filterer tb) l)),
     tk_ParseTransfer := (\<lambda>l. map_sum id (\<lambda>ev. (TokenTransfer_To ev, token_id (TokenTransfer_TokenId ev)))
        (TokenFilterer_ParseTransfer A (tb_Filterer tb) l))\<rparr>"

lemma NewToken_bound:
  assumes "NewToken A address backend = Inr tb"
  shows "bd_abi (tbc_contract (tb_Caller tb)) = TokenMetaData" "bd_abi (tbt_contract (tb_Transactor tb)) = TokenMetaData"
    "bd_address (tbt_contract (tb_Transactor tb)) = address"
  using assms by (auto simp: NewToken_def bindToken_def split: sum.splits option.splits)

text \<open>A token that has been bought was minted by exactly one transaction to the contract.\<close>

lemma BuyCacherToken_mints:
  fixes A :: "('e option, 'w, 'o, 'f, 'l) token_abi" and T :: "('e, 'k, 'w, 'l) token_env"
  assumes "records_txs A tr" "NewToken A address backend = Inr tb"
    and "BuyCacherToken (token_of A tb T) w c sk v = Some ((tokenId, None), w')"
  shows "\<exists>account. tr w' = tr w @ [(address, ''mintToken'', [AAddr account])]"
  using assms(3)
proof (cases rule: BuyCacherToken_bought)
  case (bought client opts tx)
  then have "ab_Transact A (tbt_contract (tb_Transactor tb)) w opts ''mintToken'' [AAddr (cl_Account client)] = (Inr tx, w')"
    by (simp add: token_of_def TokenTransactor_MintToken_def)
  from recorded [OF assms(1) this] show ?thesis by (simp add: NewToken_bound(3) [OF assms(2)])
qed

section \<open>Properties\<close>

definition mem_token_abi :: "(unit, sent_tx list, unit, unit, bytes) token_abi" where
  "mem_token_abi = \<lparr>ab_GetAbi = (\<lambda>abi. None),
     ab_Call = (\<lambda>c w opts m args. case abi_lookup (bd_abi c) m of None \<Rightarrow> Inl (Errorf ''method'') | Some (mu, ins, outs) \<Rightarrow> Inr (map zero_val outs)),
     ab_Transact = (\<lambda>c w opts m args. (Inr ''0xaa'', w @ [(bd_address c, m, args)])), ab_Transfer = (\<lambda>c w opts. (Inr ''0xbb'', w)),
     ab_FilterLogs = (\<lambda>c w opts name rules. Inr [ArrErr None]), ab_WatchLogs = (\<lambda>c w opts name rules. Inr [WatchQuit]),
     tb_UnpackApproval = (\<lambda>c name l ev. (ev, None)), tb_UnpackApprovalForAll = (\<lambda>c name l ev. (ev, None)),
     tb_UnpackMintToken = (\<lambda>c name l ev. (ev\<lparr>TokenMintToken_Owner := l\<rparr>, None)), tb_UnpackTransfer = (\<lambda>c name l ev. (ev\<lparr>TokenTransfer_To := l\<rparr>, None))\<rparr>"

definition mem_minted :: "unit Token" where
  "mem_minted = (let c = \<lparr>bd_address = [8], bd_abi = TokenMetaData, bd_caller = Some (), bd_transactor = Some (), bd_filterer = Some ()\<rparr>
     in \<lparr>tb_Caller = \<lparr>tbc_contract = c\<rparr>, tb_Transactor = \<lparr>tbt_contract = c\<rparr>, tb_Filterer = \<lparr>tbf_contract = c\<rparr>\<rparr>)"

lemma mem_minted_New: "NewToken mem_token_abi [8] () = Inr mem_minted"
  by (simp add: NewToken_def bindToken_def mem_token_abi_def mem_minted_def Let_def)

lemma mem_token_env [simp]:
  "ab_Transact mem_token_abi c w opts m args = (Inr ''0xaa'', w @ [(bd_address c, m, args)])"
  "bd_address (tbt_contract (tb_Transactor mem_minted)) = [8]"
  by (simp_all add: mem_token_abi_def mem_minted_def Let_def)

lemma mem_token_decodes: "abi_decodes mem_token_abi abi"
  by (auto simp: abi_decodes_def mem_token_abi_def list_all2_map1 list.rel_refl fits_zero_val split: option.splits)

text \<open>C21: The binding of the token contract agrees with the interface description it is bound to, the overloaded
  \<open>safeTransferFrom\<close> included: every call and every transaction names a function that the description has, of the
  right mutability and with arguments of its types; and no conversion of a result that was decoded by the description panics.\<close>

theorem token_binding_typed:
  assumes "NewToken A address backend = Inr tb" and "abi_decodes A TokenMetaData" and "length b4 = 4"
    and "cc = tb_Caller tb" and "ct = tb_Transactor tb"
  shows "TokenCaller_BalanceOf A cc w opts a1 \<noteq> None \<and>
    TokenCaller_GetApproved A cc w opts i \<noteq> None \<and>
    TokenCaller_IsApprovedForAll A cc w opts a1 a2 \<noteq> None \<and>
    TokenCaller_Name A cc w opts \<noteq> None \<and>
    TokenCaller_OwnerOf A cc w opts i \<noteq> None \<and>
    TokenCaller_ReleaseTime A cc w opts i \<noteq> None \<and>
    TokenCaller_SupportsInterface A cc w opts b4 \<noteq> None \<and>
    TokenCaller_Symbol A cc w opts \<noteq> None \<and>
    TokenCaller_TokenURI A cc w opts i \<noteq> None \<and>
    TokenCaller_BalanceOf (abi_checked A) cc w opts a1 = TokenCaller_BalanceOf A cc w opts a1 \<and>
    TokenCaller_GetApproved (abi_checked A) cc w opts i = TokenCaller_GetApproved A cc w opts i \<and>
    TokenCaller_IsApprovedForAll (abi_checked A) cc w opts a1 a2 = TokenCaller_IsApprovedForAll A cc w opts a1 a2 \<and>
    TokenCaller_Name (abi_checked A) cc w opts = TokenCaller_Name A cc w opts \<and>
    TokenCaller_OwnerOf (abi_checked A) cc w opts i = TokenCaller_OwnerOf A cc w opts i \<and>
    TokenCaller_ReleaseTime (abi_checked A) cc w opts i = TokenCaller_ReleaseTime A cc w opts i \<and>
    TokenCaller_SupportsInterface (abi_checked A) cc w opts b4 = TokenCaller_SupportsInterface A cc w opts b4 \<and>
    TokenCaller_Symbol (abi_checked A) cc w opts = TokenCaller_Symbol A cc w opts \<and>
    TokenCaller_TokenURI (abi_checked A) cc w opts i = TokenCaller_TokenURI A cc w opts i \<and>
    TokenTransactor_Approve (abi_checked A) ct w tos a1 i = TokenTransactor_Approve A ct w tos a1 i \<and>
    TokenTransactor_MintToken (abi_checked A) ct w tos a1 = TokenTransactor_MintToken A ct w tos a1 \<and>
    TokenTransactor_SafeTransferFrom (abi_checked A) ct w tos a1 a2 i = TokenTransactor_SafeTransferFrom A ct w tos a1 a2 i \<and>
    TokenTransactor_SafeTransferFrom0 (abi_checked A) ct w tos a1 a2 i b1 = TokenTransactor_SafeTransferFrom0 A ct w tos a1 a2 i b1 \<and>
    TokenTransactor_SetApprovalForAll (abi_checked A) ct w tos a1 b = TokenTransactor_SetApprovalForAll A ct w tos a1 b \<and>
    TokenTransactor_TransferFrom (abi_checked A) ct w tos a1 a2 i = TokenTransactor_TransferFrom A ct w tos a1 a2 i \<and>
    TokenTransactor_Withdraw (abi_checked A) ct w tos = TokenTransactor_Withdraw A ct w tos"
  using assms(3) NewToken_bound [OF assms(1)]
  by (simp only: assms(4,5) token_callers_total [OF assms(2)] token_calls_fit token_transactions_fit simp_thms)

theorem token_binding_typed_witness:
  "TokenCaller_OwnerOf mem_token_abi (tb_Caller mem_minted) [] () 7 \<noteq> None \<and>
   TokenTransactor_SafeTransferFrom0 (abi_checked mem_token_abi) (tb_Transactor mem_minted) []
     \<lparr>to_ChainID = 11330, to_GasTipCap = None, to_GasFeeCap = None, to_GasLimit = 0, to_Value = None\<rparr> [1] [2] 7 [] =
     (Inr ''0xaa'', [([8], ''safeTransferFrom0'', [AAddr [1], AAddr [2], AInt 7, ABytes []])])" (is "_ \<and> ?checked = _")
proof
  note typed = token_binding_typed [OF mem_minted_New mem_token_decodes, of "replicate 4 7" "tb_Caller mem_minted" "tb_Transactor mem_minted"]
  show "TokenCaller_OwnerOf mem_token_abi (tb_Caller mem_minted) [] () 7 \<noteq> None" using typed by simp
  have "?checked = TokenTransactor_SafeTransferFrom0 mem_token_abi (tb_Transactor mem_minted) []
     \<lparr>to_ChainID = 11330, to_GasTipCap = None, to_GasFeeCap = None, to_GasLimit = 0, to_Value = None\<rparr> [1] [2] 7 []" using typed by simp
  then show "?checked = (Inr ''0xaa'', [([8], ''safeTransferFrom0'', [AAddr [1], AAddr [2], AInt 7, ABytes []])])"
    by (simp add: TokenTransactor_SafeTransferFrom0_def [of mem_token_abi])
qed

end
