(* ===== verification/Node_Run.thy ===== *)
theory Node_Run
  imports Resource_Actor Cache_Proto Node_Config Node_P2p
begin

text \<open>
  \<open>cd2n-node/run\<close> (\<open>main.go\<close>, \<open>cmd/cmd.go\<close>) and \<open>logger/logger.go\<close>: the program of a cache node, from the
  command line to the running services. Every early return of \<open>cmd_run_func\<close> and \<open>cmd_exit_func\<close> is an
  outcome. The CESS SDK, p2p-go, the cache module, the peer selector and LevelDB enter as parameters;
  the other components are the definitions of this development.
\<close>

section \<open>Loggers\<close>

definition LOG_NODE :: string where "LOG_NODE = ''node''"
definition LOG_TX :: string where "LOG_TX = ''transaction''"
definition LOG_CACHE :: string where "LOG_CACHE = ''cache''"

datatype log_format = JSONFormatter | TextFormatter

text \<open>A logger: its format and the file it writes to (none is the standard error).\<close>

type_synonym logrus = "log_format \<times> string option"
type_synonym Logger = "string \<rightharpoonup> logrus"

definition InitGlobalLogger :: "Logger option \<Rightarrow> Logger option" where
  "InitGlobalLogger glob = Some Map.empty"

definition GetGlobalLogger :: "Logger option \<Rightarrow> Logger \<times> Logger option" where
  "GetGlobalLogger glob = (case glob of None \<Rightarrow> (Map.empty, Some Map.empty) | Some lg \<Rightarrow> (lg, glob))"

text \<open>\<open>os.OpenFile\<close> for appending, creating the file where there is none.\<close>

definition os_OpenAppend :: "io_oracle \<Rightarrow> fs \<Rightarrow> string \<Rightarrow> fs \<times> goerr option" where
  "os_OpenAppend io fs p =
     (case io ''openfile'' p of
        Some e \<Rightarrow> (fs, Some e)
      | None \<Rightarrow> (case fs p of
          Some Dir \<Rightarrow> (fs, Some (Errorf ''is a directory''))
        | Some (File bs) \<Rightarrow> (fs, None)
        | None \<Rightarrow> (fs(p \<mapsto> File []), None)))"

definition RegisterLogger ::
  "io_oracle \<Rightarrow> Logger \<Rightarrow> fs \<Rightarrow> string \<Rightarrow> string \<Rightarrow> string \<Rightarrow> Logger \<times> fs \<times> logrus or_err" where
  "RegisterLogger io lg fs name fpath formatter =
     (let fmt = (if formatter \<in> {''Json'', ''JSON'', ''json''} then JSONFormatter else TextFormatter) in
      if fpath \<noteq> ''''
      then (case os_OpenAppend io fs fpath of
          (fs1, Some err) \<Rightarrow> (lg, fs1, Inl (Wrapped ''register logger error'' err))
        | (fs1, None) \<Rightarrow> (lg(name \<mapsto> (fmt, Some fpath)), fs1, Inr (fmt, Some fpath)))
      else (lg(name \<mapsto> (fmt, None)), fs, Inr (fmt, None)))"

definition Logger_GetLogger :: "Logger \<Rightarrow> string \<Rightarrow> logrus option" where
  "Logger_GetLogger lg name = lg name"

definition GetLogger :: "Logger option \<Rightarrow> string \<Rightarrow> logrus option" where
  "GetLogger glob name = (case glob of None \<Rightarrow> None | Some lg \<Rightarrow> lg name)"

text \<open>The registrations of \<open>main\<close>; a failure ends the program.\<close>

fun main_loggers :: "io_oracle \<Rightarrow> Logger \<Rightarrow> fs \<Rightarrow> (string \<times> string) list \<Rightarrow> Logger or_err \<times> fs" where
  "main_loggers io lg fs [] = (Inr lg, fs)"
| "main_loggers io lg fs ((name, fpath) # rest) =
     (case RegisterLogger io lg fs name fpath ''json'' of
        (lg1, fs1, Inl err) \<Rightarrow> (Inl err, fs1)
      | (lg1, fs1, Inr l) \<Rightarrow> main_loggers io lg1 fs1 rest)"

definition node_main :: "io_oracle \<Rightarrow> Logger option \<Rightarrow> fs \<Rightarrow> Logger or_err \<times> fs" where
  "node_main io glob fs =
     main_loggers io (fst (GetGlobalLogger (InitGlobalLogger glob))) (fst (os_Mkdir io fs ''logs''))
       [(''node'', ''logs/node.log''), (''transaction'', ''logs/transaction.log''), (''cache'', ''logs/cache.log'')]"

section \<open>Parameters\<close>

definition Ternary :: "i64 \<Rightarrow> i64 \<Rightarrow> i64" where
  "Ternary a b = (if b <s a then b else a)"

record ('db, 'c, 'w, 'l, 'e, 'k, 'm, 'i, 'key, 'h, 'd, 'pid) run_env =
  rn_viper :: "DefaultConfig viper"
  rn_io :: io_oracle
  rn_NewChain :: "string list \<Rightarrow> string \<Rightarrow> goerr option"
  rn_NewP2p :: "int \<Rightarrow> string \<Rightarrow> string list \<Rightarrow> string or_err"
  rn_p2p :: "('m, 'i, 'key, 'h, 'd) p2p_env"
  rn_NewCache :: "i64 \<Rightarrow> i64 \<Rightarrow> string \<Rightarrow> 'c"
  rn_NewSelector :: "goerr option"
  rn_evm :: "('e, 'k) evm_env"
  rn_proto :: "('w, 'l) proto_env"
  rn_AddressHex :: "bytes \<Rightarrow> string"
  rn_OpenDB :: "string \<Rightarrow> 'db or_err"
  rn_Spawn :: "string \<Rightarrow> 'pid option"
  rn_cache_env :: "('db, 'c) cache_env"
  rn_Walk :: "string \<Rightarrow> walk_entry list"
  rn_NumCPU :: nat

text \<open>The command line flags \<open>config\<close> and \<open>c\<close>; an unknown flag reads as the empty string.\<close>

definition config_flag :: "string \<Rightarrow> string \<Rightarrow> string option" where
  "config_flag config c = (if config \<noteq> '''' then Some config else if c \<noteq> '''' then Some c else None)"

text \<open>Waiting for the chain to be synchronised: the states that the node reports, current and highest block. \<open>None\<close> is still waiting; the list of pauses comes with the result.\<close>

fun sync_loop :: "(u32 \<times> u32) or_err list \<Rightarrow> i64 list \<Rightarrow> (bool \<times> i64 list) option" where
  "sync_loop [] pauses = None"
| "sync_loop (Inl err # sts) pauses = Some (False, pauses)"
| "sync_loop (Inr (cur, high) # sts) pauses =
     (if cur = high then Some (True, pauses)
      else sync_loop sts (pauses @ [Ternary (ucast (high - cur) * 6) 30]))"

section \<open>The commands\<close>

definition node_client :: "('e, 'k) evm_env \<Rightarrow> DefaultConfig \<Rightarrow> ('e, 'k, unit) Client \<times> goerr option" where
  "node_client E conf =
     NewClient E [AccountPrivateKey E (tg_NodeAccPrivateKey (df_Proto conf)), ChainID (tg_ChainId (df_Proto conf)),
       ConnectionRpcAddresss (cg_Rpc (df_Chain conf)), EthereumGas (tg_GasFreeCap (df_Proto conf)) (tg_GasLimit (df_Proto conf))]"

datatype exit_outcome = ExitReturned | ExitLogged string | ExitFatal goerr

definition cmd_exit_func ::
  "('db, 'c, 'w, 'l, 'e, 'k, 'm, 'i, 'key, 'h, 'd, 'pid) run_env \<Rightarrow> config_state \<Rightarrow> fs \<Rightarrow> 'w \<Rightarrow> string \<Rightarrow> string \<Rightarrow>
   (exit_outcome \<times> config_state \<times> fs \<times> 'w) option" where
  "cmd_exit_func N s fs w flag_config flag_c =
     (case config_flag flag_config flag_c of
        None \<Rightarrow> Some (ExitLogged ''empty config file path'', s, fs, w)
      | Some cpath \<Rightarrow>
          (case ParseDefaultConfig (rn_viper N) (rn_io N) s fs cpath of
             (Some err, s1, fs1) \<Rightarrow> Some (ExitLogged ''error'', s1, fs1, w)
           | (None, s1, fs1) \<Rightarrow>
               (let conf = GetConfig s1 in
                case node_client (rn_evm N) conf of
                  (cli, Some err) \<Rightarrow> Some (ExitFatal err, s1, fs1, w)
                | (cli, None) \<Rightarrow>
                    (case NewProtoContract (rn_proto N) (tg_ProtoContract (df_Proto conf)) (rn_AddressHex N (cl_Account cli)) of
                       Inl err \<Rightarrow> Some (ExitFatal err, s1, fs1, w)
                     | Inr pc \<Rightarrow>
                         (case ExitNetwork (rn_proto N) w (cl_Account cli) of
                            None \<Rightarrow> None
                          | Some (Some err, w1) \<Rightarrow> Some (ExitFatal err, s1, fs1, w1)
                          | Some (None, w1) \<Rightarrow> Some (ExitReturned, s1, fs1, w1))))))"

text \<open>
  Registration: a node whose registration cannot be read registers itself, with the peer id of its
  storage node. \<open>None\<close> is a call that does not return.
\<close>

definition register_node ::
  "('w, 'l) proto_env \<Rightarrow> 'w \<Rightarrow> bytes \<Rightarrow> CdnProtoConfig \<Rightarrow> string \<Rightarrow> (string option \<times> 'w) option" where
  "register_node P w account conf peerId =
     (case QueryRegisterInfo P w account of
        (info, None) \<Rightarrow> Some (None, w)
      | (info, Some err) \<Rightarrow>
          (case hex_DecodeString (tg_TokenAccSign conf) of
             Inl err \<Rightarrow> Some (Some ''decode sign error'', w)
           | Inr sign \<Rightarrow>
               (case RegisterNode P w account (pe_HexToAddress P (tg_TokenAccAddress conf)) peerId (tg_NodeTokenId conf) (tg_Staking conf) sign of
                  None \<Rightarrow> None
                | Some (Some err, w1) \<Rightarrow> Some (Some ''register node on chain error'', w1)
                | Some (None, w1) \<Rightarrow> Some (None, w1))))"

text \<open>
  A node that serves streams: its cache actor, its registry, the contract handle, its account, the number of
  download threads (zero before the download server runs) and the boot nodes it discovers peers from.
\<close>

record ('db, 'c, 'pid) service =
  sv_cacher :: "('db, 'c) CacheActor"
  sv_actors :: "(unit, 'pid) ActorSystem"
  sv_contract :: CacheProtoContract
  sv_account :: bytes
  sv_threads :: int
  sv_boots :: "string list"

text \<open>
  How the command ends or goes on: a return with a logged reason or an exit code before the stream handler is installed, or with one
  that is installed on a \<open>nil\<close> cache actor; and with a handler on an actor, the node as it was when the handler was installed, a return with a logged reason, the end of the command without
  a download server, or the download server running.
\<close>

datatype ('db, 'c, 'pid) run_outcome =
    RunLogged string
  | RunExit nat
  | RunStopped "('db, 'c, 'pid) service" string
  | RunDone "('db, 'c, 'pid) service"
  | RunServing "('db, 'c, 'pid) service" "('db, 'c, 'pid) service"

text \<open>
  The streams that are served as soon as the handler is installed, by goroutines of their own; a panic of one ends the program
  (\<open>None\<close>). A list holds the streams whose service has ended.
\<close>

fun serve_streams ::
  "('db, 'c) cache_env \<Rightarrow> 'w Order2Credit \<Rightarrow> fs \<Rightarrow> ('db, 'c) CacheActor \<times> 'w \<Rightarrow> stream list \<Rightarrow> (('db, 'c) CacheActor \<times> 'w) option" where
  "serve_streams V H fs (c, w) [] = Some (c, w)"
| "serve_streams V H fs (c, w) (s # ss) =
     (case CacheService V H w c fs s of
        None \<Rightarrow> None
      | Some (c1, w1, s1) \<Rightarrow> serve_streams V H fs (c1, w1) ss)"

text \<open>
  The walk over the cache directory while the handler is installed: \<open>early\<close> lists the streams served before each entry, and what is
  left of it after the last entry is served before the download server runs.
\<close>

fun restore_serving ::
  "('db, 'c) cache_env \<Rightarrow> 'w Order2Credit \<Rightarrow> fs \<Rightarrow> ('db, 'c) CacheActor \<times> 'w \<Rightarrow> walk_entry list \<Rightarrow> stream list list \<Rightarrow>
   ((('db, 'c) CacheActor \<times> 'w) \<times> goerr option) option" where
  "restore_serving V H fs st [] early = map_option (\<lambda>st1. (st1, None)) (serve_streams V H fs st (concat early))"
| "restore_serving V H fs st (e # es) early =
     (case serve_streams V H fs st (concat (take 1 early)) of
        None \<Rightarrow> None
      | Some (c1, w1) \<Rightarrow>
          (case restore_entry V c1 e of
             (c2, Some err) \<Rightarrow> Some ((c2, w1), Some err)
           | (c2, None) \<Rightarrow> restore_serving V H fs (c2, w1) es (drop 1 early)))"

text \<open>
  \<open>NewCacher\<close> returns \<open>nil\<close> when its database does not open, and the code goes on with it: a stream is served only up to the first use of
  the actor, where it panics.
\<close>

definition nil_service_returns :: "('db, 'c) cache_env \<Rightarrow> stream \<Rightarrow> bool" where
  "nil_service_returns V s =
     (case ReadData (s_in s) of
        None \<Rightarrow> False
      | Some (data, Some err) \<Rightarrow> True
      | Some (data, None) \<Rightarrow>
          (case cv_unmarshal V data of
             Inl err \<Rightarrow> True
           | Inr extReq \<Rightarrow>
               (if rq_Option extReq = OPTION_DAIL then False
                else if rq_Option extReq = OPTION_QUERY
                  then (case ce_DecompressPubkey (cv_credit V) (rq_AccountId extReq) of Inl err \<Rightarrow> True | Inr pk \<Rightarrow> False)
                else if rq_Option extReq = OPTION_DOWNLOAD
                  then rq_WantUrl extReq = '''' \<and> length (split_on (CHR ''/'') (rq_WantFile extReq)) < 3
                else True)))"

text \<open>The walk over the cache directory panics (\<open>None\<close>) at the first file to restore or stream that uses the actor, unless it meets an error before.\<close>

fun restore_nil :: "('db, 'c) cache_env \<Rightarrow> walk_entry list \<Rightarrow> stream list list \<Rightarrow> goerr option option" where
  "restore_nil V [] early = (if list_all (nil_service_returns V) (concat early) then Some None else None)"
| "restore_nil V (e # es) early =
     (if \<not> list_all (nil_service_returns V) (concat (take 1 early)) then None
      else (case we_err e of
        Some err \<Rightarrow> Some (Some err)
      | None \<Rightarrow>
          (if we_IsDir e \<or> we_Size e = cv_FragmentSize V \<and> length (split_on (CHR ''/'') (we_path e)) < 4 \<or>
              we_Size e \<noteq> cv_FragmentSize V \<and> we_Size e \<le> 0
           then restore_nil V es (drop 1 early) else None)))"

definition start_actors :: "(string \<Rightarrow> 'pid option) \<Rightarrow> (unit, 'pid) ActorSystem" where
  "start_actors spawn =
     (let sys = fst (GetGlobalActorSystem () (InitGlobalActorSystem () None));
          sys1 = RegisterActor sys CACHE_ACTOR (spawn CACHE_ACTOR);
          sys2 = RegisterActor sys1 P2P_TS_ACTOR (spawn P2P_TS_ACTOR)
      in RegisterActor sys2 RESOURCE_ACTOR (spawn RESOURCE_ACTOR))"

text \<open>
  The actors and the cache, after everything before has succeeded; \<open>None\<close> is a panic. The stream handler is installed before the
  cache is restored and before the download server makes its queue, and the node serves from then on. Where \<open>NewCacher\<close> returned
  \<open>nil\<close>, an error of the walk is logged, and otherwise the download server panics.
\<close>

definition start_services ::
  "('db, 'c, 'w, 'l, 'e, 'k, 'm, 'i, 'key, 'h, 'd, 'pid) run_env \<Rightarrow> DefaultConfig \<Rightarrow> CacheProtoContract \<Rightarrow> bytes \<Rightarrow> fs \<Rightarrow> 'w \<Rightarrow>
   stream list list \<Rightarrow> (('db, 'c, 'pid) run_outcome \<times> 'w) option" where
  "start_services N conf pc account fs w early =
     (case NewCreditManager (rn_OpenDB N) (rn_AddressHex N account) (path_Join [df_NodeWorkSpace conf, ''credit_record''])
             (kg_CachePrice (df_Cacher conf)) 0 of
        Inl err \<Rightarrow> Some (RunLogged ''init ethereum client error'', w)
      | Inr creditModule \<Rightarrow>
          (let sys = start_actors (rn_Spawn N); entries = rn_Walk N (kg_CacheDir (df_Cacher conf)) in
           case NewCacher (rn_OpenDB N)
                  (rn_NewCache N (kg_Expiration (df_Cacher conf) * 60000000000) (kg_CacheSize (df_Cacher conf)) (kg_CacheDir (df_Cacher conf)))
                  creditModule of
             None \<Rightarrow>
               (case restore_nil (rn_cache_env N) entries early of
                  Some (Some err) \<Rightarrow> Some (RunLogged ''restore cache file error'', w)
                | _ \<Rightarrow> None)
           | Some cacher \<Rightarrow>
               (let handler = \<lparr>sv_cacher = cacher, sv_actors = sys, sv_contract = pc, sv_account = account,
                                sv_threads = 0, sv_boots = pg_Boots (df_CacheP2P conf)\<rparr> in
                case restore_serving (rn_cache_env N) (proto_orders (rn_proto N) pc) fs (cacher, w) entries early of
                  None \<Rightarrow> None
                | Some ((cacher1, w1), Some err) \<Rightarrow> Some (RunStopped handler ''restore cache file error'', w1)
                | Some ((cacher1, w1), None) \<Rightarrow>
                    (case RunDownloadServer_start (GetActor sys RESOURCE_ACTOR) (rn_NumCPU N) 0 cacher1 of
                       None \<Rightarrow> Some (RunDone handler, w1)
                     | Some (cacher2, threads) \<Rightarrow>
                         Some (RunServing handler (handler\<lparr>sv_cacher := cacher2, sv_threads := threads\<rparr>), w1)))))"

definition cmd_run_func ::
  "('db, 'c, 'w, 'l, 'e, 'k, 'm, 'i, 'key, 'h, 'd, 'pid) run_env \<Rightarrow> config_state \<Rightarrow> fs \<Rightarrow> 'w \<Rightarrow> nat \<Rightarrow> (u32 \<times> u32) or_err list \<Rightarrow> stream list list \<Rightarrow>
   string \<Rightarrow> string \<Rightarrow> (('db, 'c, 'pid) run_outcome \<times> config_state \<times> fs \<times> 'w) option" where
  "cmd_run_func N s fs w seed syncs early flag_config flag_c =
     (case config_flag flag_config flag_c of
        None \<Rightarrow> Some (RunLogged ''empty config file path'', s, fs, w)
      | Some cpath \<Rightarrow>
      (case ParseDefaultConfig (rn_viper N) (rn_io N) s fs cpath of
        (Some err, s1, fs1) \<Rightarrow> Some (RunLogged ''error'', s1, fs1, w)
      | (None, s1, fs1) \<Rightarrow>
      (let conf = GetConfig s1 in
       case rn_NewChain N (cg_Rpc (df_Chain conf)) (cg_Mnemonic (df_Chain conf)) of
        Some err \<Rightarrow> Some (RunLogged ''init cess chain client error'', s1, fs1, w)
      | None \<Rightarrow>
      (case sync_loop syncs [] of
        None \<Rightarrow> None
      | Some (False, pauses) \<Rightarrow> Some (RunExit 1, s1, fs1, w)
      | Some (True, pauses) \<Rightarrow>
      (case rn_NewP2p N (pg_P2PPort (df_ResrcP2P conf)) (pg_WorkSpace (df_ResrcP2P conf)) (pg_Boots (df_ResrcP2P conf)) of
        Inl err \<Rightarrow> Some (RunLogged ''init Client P2P Node error'', s1, fs1, w)
      | Inr storageId \<Rightarrow>
      (case Identification (rn_p2p N) (rn_io N) seed fs1 (path_Join [pg_WorkSpace (df_CacheP2P conf), ''.key'']) of
        (Inl err, fs2) \<Rightarrow> Some (RunLogged ''init p2p identification error'', s1, fs2, w)
      | (Inr key, fs2) \<Rightarrow>
      (case NewPeerNode (rn_p2p N) (cg_Network (df_Chain conf)) ''v0'' (pg_Boots (df_CacheP2P conf))
              [Identity key, ListenAddrStrings (listen_addr (pg_P2PPort (df_CacheP2P conf)))] of
        None \<Rightarrow> None
      | Some (Inl err) \<Rightarrow> Some (RunLogged ''init Server P2P Node error'', s1, fs2, w)
      | Some (Inr node) \<Rightarrow>
      (case (case os_Stat (rn_io N) fs2 (cs_TempDir s1) of Inr _ \<Rightarrow> (fs2, None) | Inl err \<Rightarrow> os_Mkdir (rn_io N) fs2 (cs_TempDir s1)) of
        (fs3, Some err) \<Rightarrow> Some (RunLogged ''make temp dir error'', s1, fs3, w)
      | (fs3, None) \<Rightarrow>
      (case rn_NewSelector N of
        Some err \<Rightarrow> Some (RunLogged ''init node selector error'', s1, fs3, w)
      | None \<Rightarrow>
      (case node_client (rn_evm N) conf of
        (cli, Some err) \<Rightarrow> Some (RunLogged ''init ethereum client error'', s1, fs3, w)
      | (cli, None) \<Rightarrow>
      (case NewProtoContract (rn_proto N) (tg_ProtoContract (df_Proto conf)) (rn_AddressHex N (cl_Account cli)) of
        Inl err \<Rightarrow> Some (RunLogged ''init ethereum client error'', s1, fs3, w)
      | Inr pc \<Rightarrow>
      (case register_node (rn_proto N) w (cl_Account cli) (df_Proto conf) storageId of
        None \<Rightarrow> None
      | Some (Some entry, w1) \<Rightarrow> Some (RunLogged entry, s1, fs3, w1)
      | Some (None, w1) \<Rightarrow> map_option (\<lambda>(out, w2). (out, s1, fs3, w2)) (start_services N conf pc (cl_Account cli) fs3 w1 early)))))))))))))"

text \<open>
  The three goroutines that can cancel the context of the services: a signal, peer discovery (no boot
  node, or an error) and the reward server (an error). Discovery and the reward server see the
  events of their lists; the services end when the context is cancelled, and the queue goes with them.
\<close>

definition services_stop ::
  "('w, 'l) proto_env \<Rightarrow> ('s, 'n) selector \<Rightarrow> 'n net_env \<Rightarrow> 's \<times> 'n \<Rightarrow> (string \<Rightarrow> bool) \<Rightarrow> string dht_event list \<Rightarrow>
   'w \<Rightarrow> 'w server_event list \<Rightarrow> bool \<Rightarrow> ('db, 'c, 'pid) service \<Rightarrow> bool" where
  "services_stop P R N st self found w ticks signal sv \<longleftrightarrow>
     signal \<or> sv_boots sv = [] \<or>
     (case fst (Resource_RunDiscovery R N st self found) of Some (Some err) \<Rightarrow> True | _ \<Rightarrow> False) \<or>
     (case ClaimWorkRewardServer P w (sv_account sv) ticks of Some (Some err, _) \<Rightarrow> True | _ \<Rightarrow> False)"

definition run_services ::
  "('w, 'l) proto_env \<Rightarrow> ('s, 'n) selector \<Rightarrow> 'n net_env \<Rightarrow> 's \<times> 'n \<Rightarrow> (string \<Rightarrow> bool) \<Rightarrow> string dht_event list \<Rightarrow>
   'w \<Rightarrow> 'w server_event list \<Rightarrow> bool \<Rightarrow> ('db, 'c, 'pid) service \<Rightarrow> ('db, 'c) CacheActor option" where
  "run_services P R N st self found w ticks signal sv =
     (if services_stop P R N st self found w ticks signal sv then Some (RunDownloadServer_stop (sv_cacher sv)) else None)"

section \<open>Laws\<close>

text \<open>Serving a stream changes neither the owner, the price and the limit of the credit manager nor a queue that is not there.\<close>

definition same_credit :: "'db Credit \<Rightarrow> 'db Credit \<Rightarrow> bool" where
  "same_credit a b \<longleftrightarrow> cr_Owner b = cr_Owner a \<and> cr_Price b = cr_Price a \<and> cr_ResourceLimit b = cr_ResourceLimit a"

definition same_setup :: "('db, 'c) CacheActor \<Rightarrow> ('db, 'c) CacheActor \<Rightarrow> bool" where
  "same_setup c c' \<longleftrightarrow> same_credit (ca_creditMg c) (ca_creditMg c') \<and> (ca_dlQueue c = None \<longrightarrow> ca_dlQueue c' = None)"

lemma same_setup_refl [simp]: "same_setup c c"
  by (simp add: same_setup_def same_credit_def)

lemma same_setup_trans: "same_setup a b \<Longrightarrow> same_setup b c \<Longrightarrow> same_setup a c"
  by (simp add: same_setup_def same_credit_def)

lemma same_setup_upd [simp]:
  "same_setup c (c'\<lparr>ca_FileCache := fc\<rparr>) = same_setup c c'" "same_setup c (run_callbacks V c' evs) = same_setup c c'"
  "same_setup c (fst (PutFileRecord V c' k ty n)) = same_setup c c'"
  by (simp_all add: same_setup_def)

lemma same_credit_put: "same_credit c (fst (PutCreditRecord E c k r))"
  by (simp add: same_credit_def)

lemma same_credit_check: "CheckCredit E H w c acc d sg = Some (ok, c', w') \<Longrightarrow> same_credit c c'"
  by (auto simp: CheckCredit_def same_credit_def Let_def split: option.splits prod.splits sum.splits if_splits)

lemma same_credit_add: "AddCreditPoint E c k r = Some c' \<Longrightarrow> same_credit c c'"
  by (auto simp: AddCreditPoint_def same_credit_def Let_def split: option.splits)

lemma same_credit_limited: "IsLimited E c k = (l, c') \<Longrightarrow> same_credit c c'"
  by (auto simp: IsLimited_def same_credit_def split: prod.splits if_splits)

lemma setup_query_resource: "QueryCacheResource V c acc key isUrl = Some (files, c') \<Longrightarrow> same_setup c c'"
  by (auto simp: QueryCacheResource_def enqueue_task_def same_setup_def same_credit_def Let_def
      split: if_splits option.splits prod.splits sum.splits bool.splits)

lemma setup_query: "query_status V H w c req acc = Some (r, c', w') \<Longrightarrow> same_setup c c'"
  by (auto simp: query_status_def Let_def same_setup_def dest!: setup_query_resource same_credit_check
      split: if_splits option.splits prod.splits) (auto simp: same_credit_def)

lemma setup_info: "GetCacheInfo V c acc = (info, c') \<Longrightarrow> same_setup c c'"
  by (auto simp: GetCacheInfo_def GetCacheInfo_reads_def Let_def same_setup_def dest!: same_credit_limited split: prod.splits)

lemma setup_send: "send_cached V c fs req f s = Some (c', s') \<Longrightarrow> same_setup c c'"
  by (auto simp: send_cached_def Let_def same_setup_def dest!: same_credit_add split: option.splits prod.splits sum.splits)
     (auto simp: same_credit_def)

lemma setup_service: "CacheService V H w c fs s = Some (c', w', s') \<Longrightarrow> same_setup c c'"
proof -
  have check: "same_setup c (c\<lparr>ca_creditMg := cm\<rparr>)" if "CheckCredit (cv_credit V) H w (ca_creditMg c) a d g = Some (ok, cm, w1)" for a d g ok cm w1
    using same_credit_check [OF that] by (simp add: same_setup_def)
  show "CacheService V H w c fs s = Some (c', w', s') \<Longrightarrow> same_setup c c'"
    by (auto simp: CacheService_def Let_def split: option.splits prod.splits sum.splits if_splits
        dest!: setup_query setup_info setup_send check intro: same_setup_trans)
qed

lemma setup_restore_entry: "restore_entry V c e = (c', err) \<Longrightarrow> same_setup c c'"
  by (auto simp: restore_entry_def add_cache_record_def Let_def split: prod.splits option.splits if_splits)

lemma serve_streams_steps:
  "serve_streams V H fs (c, w) ss = Some (c', w') \<Longrightarrow> (node_step V H)\<^sup>*\<^sup>* (c, w, fs) (c', w', fs) \<and> same_setup c c'"
proof (induction ss arbitrary: c w)
  case (Cons s ss)
  then obtain c1 w1 s1 where s: "CacheService V H w c fs s = Some (c1, w1, s1)" "serve_streams V H fs (c1, w1) ss = Some (c', w')"
    by (auto split: option.splits)
  then show ?case using Cons.IH [OF s(2)] setup_service [OF s(1)] step_service [OF s(1)]
    by (auto intro: converse_rtranclp_into_rtranclp same_setup_trans)
qed simp

lemma restore_serving_steps:
  "restore_serving V H fs (c, w) es early = Some ((c', w'), err) \<Longrightarrow> (node_step V H)\<^sup>*\<^sup>* (c, w, fs) (c', w', fs) \<and> same_setup c c'"
proof (induction es arbitrary: c w early)
  case Nil
  then show ?case by (auto dest: serve_streams_steps)
next
  case (Cons e es)
  then obtain c1 w1 where s: "serve_streams V H fs (c, w) (concat (take 1 early)) = Some (c1, w1)" by (auto split: option.splits)
  obtain c2 err2 where r: "restore_entry V c1 e = (c2, err2)" by fastforce
  have "RestoreCacheFiles V c1 [e] = (c2, err2)" using r by (auto split: option.splits)
  from rtranclp.rtrancl_into_rtrancl [OF serve_streams_steps [OF s, THEN conjunct1] step_restore [OF this]]
  have "(node_step V H)\<^sup>*\<^sup>* (c, w, fs) (c2, w1, fs)" .
  moreover have "same_setup c c2" using serve_streams_steps [OF s] setup_restore_entry [OF r] by (auto intro: same_setup_trans)
  ultimately show ?case using Cons.prems s r by (auto split: option.splits intro: rtranclp_trans same_setup_trans dest!: Cons.IH)
qed

text \<open>Without streams the walk is the restoration.\<close>

lemma restore_serving_quiet:
  "restore_serving V H fs (c, w) es [] = (case RestoreCacheFiles V c es of (c', err) \<Rightarrow> Some ((c', w), err))"
  by (induction es arbitrary: c) (auto split: prod.splits option.splits)

lemma start_actors_registered:
  assumes "spawn CACHE_ACTOR \<noteq> None" and "spawn P2P_TS_ACTOR \<noteq> None" and "spawn RESOURCE_ACTOR \<noteq> None"
  shows "\<forall>name \<in> {CACHE_ACTOR, P2P_TS_ACTOR, RESOURCE_ACTOR}. GetActor (start_actors spawn) name = spawn name"
  using assms by (simp add: start_actors_def GetActor_Register CACHE_ACTOR_def P2P_TS_ACTOR_def RESOURCE_ACTOR_def Let_def)

text \<open>The node with its handler: what is set up, and what is not yet.\<close>

definition handler_ready ::
  "('db, 'c, 'w, 'l, 'e, 'k, 'm, 'i, 'key, 'h, 'd, 'pid) run_env \<Rightarrow> DefaultConfig \<Rightarrow> ('db, 'c, 'pid) service \<Rightarrow> bool" where
  "handler_ready N conf sv \<longleftrightarrow>
     cr_Owner (ca_creditMg (sv_cacher sv)) = rn_AddressHex N (sv_account sv) \<and>
     cr_Price (ca_creditMg (sv_cacher sv)) = kg_CachePrice (df_Cacher conf) \<and>
     cr_ResourceLimit (ca_creditMg (sv_cacher sv)) = DEFALUT_RESOURCE_LIMIT \<and>
     sv_actors sv = start_actors (rn_Spawn N) \<and> sv_boots sv = pg_Boots (df_CacheP2P conf)"

definition handler_of :: "('db, 'c, 'pid) run_outcome \<Rightarrow> ('db, 'c, 'pid) service option" where
  "handler_of out = (case out of RunStopped h m \<Rightarrow> Some h | RunDone h \<Rightarrow> Some h | RunServing h sv \<Rightarrow> Some h | _ \<Rightarrow> None)"

lemma handler_of_Some: "handler_of out = Some h \<longleftrightarrow> (\<exists>m. out = RunStopped h m) \<or> out = RunDone h \<or> (\<exists>sv. out = RunServing h sv)"
  by (auto simp: handler_of_def split: run_outcome.splits)

lemma start_services_handler:
  assumes "start_services N conf pc account fs w early = Some (out, w')" and "handler_of out = Some h"
  shows "handler_ready N conf h \<and> sv_account h = account \<and> sv_contract h = pc \<and> ca_dlQueue (sv_cacher h) = None \<and> sv_threads h = 0"
  using assms
  by (auto simp: start_services_def handler_of_def handler_ready_def NewCreditManager_def NewCacher_def Let_def
      split: sum.splits option.splits prod.splits if_splits)

lemma start_services_serving:
  assumes "start_services N conf pc account fs w early = Some (RunServing h sv, w')"
  shows "handler_ready N conf sv \<and> sv_account sv = account \<and> sv_contract sv = pc \<and> ca_dlQueue (sv_cacher sv) = Some Map.empty \<and>
    sv_threads sv = int (rn_NumCPU N div 4 + 1) \<and>
    (\<exists>c1. (node_step (rn_cache_env N) (proto_orders (rn_proto N) pc))\<^sup>*\<^sup>* (sv_cacher h, w, fs) (c1, w', fs) \<and>
      ca_dlQueue c1 = None \<and> sv_cacher sv = c1\<lparr>ca_dlQueue := Some Map.empty\<rparr>)"
proof -
  have "\<exists>c1. sv_cacher sv = c1\<lparr>ca_dlQueue := Some Map.empty\<rparr> \<and> sv_threads sv = int (rn_NumCPU N div 4 + 1) \<and>
    sv_account sv = sv_account h \<and> sv_contract sv = sv_contract h \<and> sv_actors sv = sv_actors h \<and> sv_boots sv = sv_boots h \<and>
    (\<exists>es. restore_serving (rn_cache_env N) (proto_orders (rn_proto N) pc) fs (sv_cacher h, w) es early = Some ((c1, w'), None))"
    using assms by (auto simp: start_services_def RunDownloadServer_start_def Let_def split: sum.splits option.splits prod.splits if_splits) blast
  then obtain c1 where c1: "sv_cacher sv = c1\<lparr>ca_dlQueue := Some Map.empty\<rparr>" "sv_threads sv = int (rn_NumCPU N div 4 + 1)"
    "sv_account sv = sv_account h" "sv_contract sv = sv_contract h" "sv_actors sv = sv_actors h" "sv_boots sv = sv_boots h"
    and "\<exists>es. restore_serving (rn_cache_env N) (proto_orders (rn_proto N) pc) fs (sv_cacher h, w) es early = Some ((c1, w'), None)" by blast
  then obtain es where "restore_serving (rn_cache_env N) (proto_orders (rn_proto N) pc) fs (sv_cacher h, w) es early = Some ((c1, w'), None)" by blast
  note steps = restore_serving_steps [OF this]
  show ?thesis
    using start_services_handler [OF assms, of h] c1 steps
    by (auto simp: handler_of_def handler_ready_def same_setup_def same_credit_def)
qed

lemma register_node_done:
  "register_node P w acc conf peerId = Some (None, w') \<Longrightarrow>
     snd (QueryRegisterInfo P w acc) = None \<and> w' = w \<or>
     (\<exists>sign. hex_DecodeString (tg_TokenAccSign conf) = Inr sign \<and>
        RegisterNode P w acc (pe_HexToAddress P (tg_TokenAccAddress conf)) peerId (tg_NodeTokenId conf) (tg_Staking conf) sign = Some (None, w'))"
  by (auto simp: register_node_def split: prod.splits option.splits sum.splits)

lemma node_client_account:
  "node_client E conf = (cli, None) \<Longrightarrow>
     \<exists>sk. ee_HexToECDSA E (tg_NodeAccPrivateKey (df_Proto conf)) = Inr sk \<and> cl_Account cli = ee_KeyAddress E sk \<and> cl_sk cli = Some sk"
  by (auto simp: node_client_def NewClient_def AccountPrivateKey_def ChainID_def ConnectionRpcAddresss_def EthereumGas_def Let_def
      split: prod.splits sum.splits option.splits if_splits)

text \<open>What a run that installs the stream handler has been through.\<close>

lemma cmd_run_func_handler:
  assumes "cmd_run_func N s fs w seed syncs early flag_config flag_c = Some (out, s', fs', w')" and "handler_of out = Some h"
  obtains cli storageId w1 where
    "node_client (rn_evm N) (GetConfig s') = (cli, None)"
    "register_node (rn_proto N) w (cl_Account cli) (df_Proto (GetConfig s')) storageId = Some (None, w1)"
    "start_services N (GetConfig s') (sv_contract h) (cl_Account cli) fs' w1 early = Some (out, w')"
proof -
  obtain cpath where c: "config_flag flag_config flag_c = Some cpath"
    using assms by (auto simp: cmd_run_func_def handler_of_def split: option.splits)
  obtain s1 fs1 where p: "ParseDefaultConfig (rn_viper N) (rn_io N) s fs cpath = (None, s1, fs1)"
    using assms c by (auto simp: cmd_run_func_def handler_of_def split: option.splits prod.splits)
  have *: "sv_contract h = pc" if "start_services N conf pc a f v early = Some (out, v')" for conf pc a f v v'
    using start_services_handler [OF that assms(2)] by simp
  show thesis
    using assms c p * by (auto simp: cmd_run_func_def handler_of_Some Let_def split: option.splits prod.splits sum.splits bool.splits intro: that)
qed

lemma Ternary_min: "sint (Ternary a b) = min (sint a) (sint b)"
  by (simp add: Ternary_def word_sless_alt min_def)

lemma sync_pause:
  assumes "cur \<noteq> (high :: u32)"
  shows "sint (ucast (high - cur) * 6 :: i64) = uint (high - cur) * 6 \<and> uint (high - cur) > 0"
proof -
  have b: "uint (high - cur) < 2 ^ 32" "uint (high - cur) \<ge> 0" using uint_bounded [of "high - cur"] by simp_all
  have u: "uint (ucast (high - cur) :: i64) = uint (high - cur)" using b by (simp add: uint_up_ucast is_up)
  have "uint (ucast (high - cur) * 6 :: i64) = uint (high - cur) * 6" using b u by (simp add: uint_word_ariths)
  then have "sint (ucast (high - cur) * 6 :: i64) = uint (high - cur) * 6" 
    using signed_take_bit_int_eq_self [of 63 "uint (high - cur) * 6"] b by (simp add: sint_uint)
  moreover have "uint (high - cur) \<noteq> 0" using assms by (simp add: uint_0_iff)
  ultimately show ?thesis using b(2) by linarith
qed

lemma sync_loop_pauses:
  "sync_loop sts pauses = Some (ok, pauses') \<Longrightarrow> \<forall>p \<in> set pauses. 6 \<le> sint p \<and> sint p \<le> 30 \<Longrightarrow> \<forall>p \<in> set pauses'. 6 \<le> sint p \<and> sint p \<le> 30"
proof (induction sts pauses rule: sync_loop.induct)
  case (3 cur high sts pauses)
  show ?case
  proof (cases "cur = high")
    case True
    then show ?thesis using 3 by auto
  next
    case False
    have "6 \<le> sint (Ternary (ucast (high - cur) * 6) 30) \<and> sint (Ternary (ucast (high - cur) * 6) 30) \<le> 30"
      unfolding Ternary_min using sync_pause [OF False] by (simp add: min_def)
    then show ?thesis using 3 False by auto
  qed
qed auto

text \<open>A node in memory for the witnesses: a fresh node that finds itself registered.\<close>

definition mem_config :: "DefaultConfig \<Rightarrow> DefaultConfig" where
  "mem_config c = c\<lparr>df_NodeWorkSpace := ''/w'', df_Chain := \<lparr>cg_Rpc = [''ws://up''], cg_Network = ''cess'', cg_Mnemonic = ''m''\<rparr>,
     df_Proto := (df_Proto c)\<lparr>tg_NodeAccPrivateKey := ''k''\<rparr>\<rparr>"

definition mem_run ::
  "(string \<rightharpoonup> bytes, (string \<times> string) list, nat, bytes, string, string, string, string, string, string list, string list, nat) run_env" where
  "mem_run = \<lparr>rn_viper = \<lparr>vp_ReadInConfig = (\<lambda>p t. None), vp_Unmarshal = (\<lambda>p t c. (mem_config c, None))\<rparr>,
     rn_io = (\<lambda>op p. None), rn_NewChain = (\<lambda>rpcs m. None), rn_NewP2p = (\<lambda>port ws boots. Inr ''storage''), rn_p2p = mem_p2p,
     rn_NewCache = (\<lambda>e s d. []), rn_NewSelector = None, rn_evm = mem_evm, rn_proto = mem_proto [], rn_AddressHex = bytes_string,
     rn_OpenDB = (\<lambda>p. Inr Map.empty), rn_Spawn = (\<lambda>name. Some (length name)), rn_cache_env = mem_cache_env,
     rn_Walk = (\<lambda>d. []), rn_NumCPU = 8\<rparr>"

lemma mem_paths:
  "path_Join [''/w'', ''./cache/''] = ''/w/cache''" "path_Join [''/w'', ''./cdn_node/cache_p2p''] = ''/w/cdn_node/cache_p2p''"
  "path_Join [''/w'', ''./resource_p2p''] = ''/w/resource_p2p''" "path_Join [''/w'', ''temp''] = ''/w/temp''"
  "path_Join [''/w/cdn_node/cache_p2p'', ''.key''] = ''/w/cdn_node/cache_p2p/.key''"
  by code_simp+

lemma mem_config_parsed:
  "\<exists>s'. ParseDefaultConfig (rn_viper mem_run) (\<lambda>op p. None) config_init Map.empty ''c'' =
       (None, s', [''/w/cache'' \<mapsto> Dir, ''/w/cdn_node/cache_p2p'' \<mapsto> Dir, ''/w/resource_p2p'' \<mapsto> Dir, ''/w/temp'' \<mapsto> Dir]) \<and>
     cg_Rpc (df_Chain (GetConfig s')) = [''ws://up''] \<and> pg_Boots (df_CacheP2P (GetConfig s')) = [] \<and>
     pg_WorkSpace (df_CacheP2P (GetConfig s')) = ''/w/cdn_node/cache_p2p'' \<and> cs_TempDir s' = ''/w/temp'' \<and>
     tg_NodeAccPrivateKey (df_Proto (GetConfig s')) = ''k''"
proof -
  let ?d = "mem_config (cs_default config_init)"
  define s1 where "s1 = config_init\<lparr>cs_default := ?d\<lparr>df_Cacher := fix_cacher (df_Cacher ?d)\<rparr>\<rparr>"
  have "kg_CacheDir (fix_cacher (df_Cacher ?d)) = ''''" by (simp add: fix_cacher_def mem_config_def config_init_def Let_def)
  then have d: "df_NodeWorkSpace (cs_default s1) = ''/w''" "kg_CacheDir (df_Cacher (cs_default s1)) = ''''"
    "pg_WorkSpace (df_CacheP2P (cs_default s1)) = ''''" "pg_WorkSpace (df_ResrcP2P (cs_default s1)) = ''''"
    "pg_Boots (df_CacheP2P (cs_default s1)) = []" "cg_Rpc (df_Chain (cs_default s1)) = [''ws://up'']"
    "tg_NodeAccPrivateKey (df_Proto (cs_default s1)) = ''k''"
    by (simp_all add: s1_def mem_config_def config_init_def)
  have "ParseCommonConfig (rn_viper mem_run) ''c'' ''yaml'' c = (mem_config c, None)" for c
    by (simp add: ParseCommonConfig_def mem_run_def)
  then show ?thesis
    using d by (simp add: ParseDefaultConfig_def s1_def [symmetric] workspace_fields service_fields GetConfig_def mem_paths
        os_Stat_def os_MkdirAll_def DEFAULT_CACHE_PATH_def DEFAULT_P2P_WORKSPACE_def Let_def)
qed

lemma mem_run_serves:
  "\<exists>h sv s' fs'. cmd_run_func mem_run config_init Map.empty 0 0 [Inr (5, 9), Inr (9, 9)] [] ''c'' '''' = Some (RunServing h sv, s', fs', 0) \<and>
     pg_Boots (df_CacheP2P (GetConfig s')) = []"
proof -
  obtain s' where s': "ParseDefaultConfig (rn_viper mem_run) (rn_io mem_run) config_init Map.empty ''c'' =
       (None, s', [''/w/cache'' \<mapsto> Dir, ''/w/cdn_node/cache_p2p'' \<mapsto> Dir, ''/w/resource_p2p'' \<mapsto> Dir, ''/w/temp'' \<mapsto> Dir])"
    "cg_Rpc (df_Chain (GetConfig s')) = [''ws://up'']" "pg_Boots (df_CacheP2P (GetConfig s')) = []"
    "pg_WorkSpace (df_CacheP2P (GetConfig s')) = ''/w/cdn_node/cache_p2p''" "cs_TempDir s' = ''/w/temp''"
    "tg_NodeAccPrivateKey (df_Proto (GetConfig s')) = ''k''"
    using mem_config_parsed by (auto simp: mem_run_def)
  have "\<exists>cli :: (string, string, unit) Client. node_client (rn_evm mem_run) (GetConfig s') = (cli, None)"
    using s' by (simp add: node_client_def NewClient_def mem_run_def mem_evm_def AccountPrivateKey_def ChainID_def
        ConnectionRpcAddresss_def EthereumGas_def Client_new_def Let_def)
  then obtain cli :: "(string, string, unit) Client" where "node_client (rn_evm mem_run) (GetConfig s') = (cli, None)" by blast
  moreover have "\<exists>h sv. start_services mem_run c pc a f v [] = Some (RunServing h sv, v)" for c pc a f v
    by (simp add: start_services_def NewCreditManager_def NewCacher_def RunDownloadServer_start_def mem_run_def start_actors_def
        GetActor_Register Let_def)
  moreover have "NewPeerNode mem_p2p n v [] opts = Some (Inr ([], []))" for n v opts
    by (simp add: NewPeerNode_def mem_p2p_def)
  ultimately show ?thesis
    using s' by (simp add: cmd_run_func_def config_flag_def mem_run_def mem_paths Identification_def mem_p2p_def os_Stat_def os_Create_def
        file_Write_def NewProtoContract_def register_node_def QueryRegisterInfo_def mem_proto_def Let_def)
qed

section \<open>Properties\<close>

text \<open>C11: A cache node serves streams only for a registered account, but before it is ready: when the stream handler of the run
  command is installed, the account is the one of the configured private key, it was registered already or has just
  been registered, the credit manager charges for this account with the configured price and the default limit and the
  three actors are registered, but there is no download queue. The node serves from then on, while the cache is restored; the
  download server starts only after that, with an empty queue and at least one thread and the credit manager still set up like that.\<close>

theorem node_serves_ready:
  assumes "cmd_run_func N s fs w seed syncs early flag_config flag_c = Some (out, s', fs', w')" and "handler_of out = Some h"
    and "\<And>name. rn_Spawn N name \<noteq> None"
  shows "(\<exists>sk. ee_HexToECDSA (rn_evm N) (tg_NodeAccPrivateKey (df_Proto (GetConfig s'))) = Inr sk \<and> sv_account h = ee_KeyAddress (rn_evm N) sk) \<and>
    handler_ready N (GetConfig s') h \<and>
    (\<forall>name \<in> {CACHE_ACTOR, P2P_TS_ACTOR, RESOURCE_ACTOR}. GetActor (sv_actors h) name = rn_Spawn N name) \<and>
    ca_dlQueue (sv_cacher h) = None \<and>
    (\<exists>w1. (snd (QueryRegisterInfo (rn_proto N) w (sv_account h)) = None \<and> w1 = w \<or>
        (\<exists>token peerId tokenId value sign. RegisterNode (rn_proto N) w (sv_account h) token peerId tokenId value sign = Some (None, w1))) \<and>
      (\<forall>sv. out = RunServing h sv \<longrightarrow>
        handler_ready N (GetConfig s') sv \<and> sv_account sv = sv_account h \<and> ca_dlQueue (sv_cacher sv) = Some Map.empty \<and> 0 < sv_threads sv \<and>
        (\<exists>c1. (node_step (rn_cache_env N) (proto_orders (rn_proto N) (sv_contract h)))\<^sup>*\<^sup>* (sv_cacher h, w1, fs') (c1, w', fs') \<and>
          ca_dlQueue c1 = None \<and> sv_cacher sv = c1\<lparr>ca_dlQueue := Some Map.empty\<rparr>)))"
proof -
  from assms(1,2) obtain cli storageId w1 where
    c: "node_client (rn_evm N) (GetConfig s') = (cli, None)"
    and r: "register_node (rn_proto N) w (cl_Account cli) (df_Proto (GetConfig s')) storageId = Some (None, w1)"
    and v: "start_services N (GetConfig s') (sv_contract h) (cl_Account cli) fs' w1 early = Some (out, w')"
    by (rule cmd_run_func_handler)
  note h = start_services_handler [OF v assms(2)]
  have "GetActor (sv_actors h) name = rn_Spawn N name" if "name \<in> {CACHE_ACTOR, P2P_TS_ACTOR, RESOURCE_ACTOR}" for name
    using h start_actors_registered [OF assms(3) assms(3) assms(3)] that by (auto simp: handler_ready_def)
  moreover have "handler_ready N (GetConfig s') sv \<and> sv_account sv = sv_account h \<and> ca_dlQueue (sv_cacher sv) = Some Map.empty \<and> 0 < sv_threads sv \<and>
      (\<exists>c1. (node_step (rn_cache_env N) (proto_orders (rn_proto N) (sv_contract h)))\<^sup>*\<^sup>* (sv_cacher h, w1, fs') (c1, w', fs') \<and>
        ca_dlQueue c1 = None \<and> sv_cacher sv = c1\<lparr>ca_dlQueue := Some Map.empty\<rparr>)" if "out = RunServing h sv" for sv
    using start_services_serving [OF v [unfolded that]] h by auto
  ultimately show ?thesis using h node_client_account [OF c] register_node_done [OF r]
    by (intro conjI exI [of _ w1]) auto
qed

theorem node_serves_ready_witness:
  "\<exists>h sv s' fs'. cmd_run_func mem_run config_init Map.empty 0 0 [Inr (5, 9), Inr (9, 9)] [] ''c'' '''' = Some (RunServing h sv, s', fs', 0) \<and>
     ca_dlQueue (sv_cacher h) = None \<and> 0 < sv_threads sv \<and> ca_dlQueue (sv_cacher sv) = Some Map.empty"
proof -
  obtain h sv s' fs' where r: "cmd_run_func mem_run config_init Map.empty 0 0 [Inr (5, 9), Inr (9, 9)] [] ''c'' '''' = Some (RunServing h sv, s', fs', 0)"
    using mem_run_serves by blast
  have "\<And>name. rn_Spawn mem_run name \<noteq> None" by (simp add: mem_run_def)
  from node_serves_ready [OF r _ this, of h] r show ?thesis by (auto simp: handler_of_def)
qed

text \<open>While the chain is not synchronised the node waits between 6 and 30 seconds before it asks again, also when
  the node it asks reports a highest block below the current one, and whatever the block numbers are.\<close>

theorem sync_pauses_bounded:
  assumes "sync_loop sts [] = Some (ok, pauses)"
  shows "\<forall>p \<in> set pauses. 6 \<le> sint p \<and> sint p \<le> 30"
  by (rule sync_loop_pauses [OF assms]) simp

theorem sync_pauses_bounded_witness:
  "sync_loop [Inr (3, 9), Inr (8, 9), Inr (9, 9)] [] = Some (True, [30, 6]) \<and> 6 \<le> sint (30 :: i64)"
proof -
  have e: "sync_loop [Inr (3, 9), Inr (8, 9), Inr (9, 9)] [] = Some (True, [30, 6])"
    by (simp add: Ternary_def word_sless_alt)
  from sync_pauses_bounded [OF e] e show ?thesis by simp
qed

text \<open>Whatever happens to the log files, the program of the node starts its commands only with the three
  loggers that its code asks for, each writing JSON to its own file.\<close>

theorem node_main_loggers:
  assumes "node_main io glob fs = (Inr lg, fs')"
  shows "Logger_GetLogger lg LOG_NODE = Some (JSONFormatter, Some ''logs/node.log'') \<and>
    Logger_GetLogger lg LOG_TX = Some (JSONFormatter, Some ''logs/transaction.log'') \<and>
    Logger_GetLogger lg LOG_CACHE = Some (JSONFormatter, Some ''logs/cache.log'')"
  using assms by (auto simp: node_main_def RegisterLogger_def Logger_GetLogger_def LOG_NODE_def LOG_TX_def LOG_CACHE_def Let_def
      split: prod.splits option.splits)

theorem node_main_loggers_witness:
  "\<exists>lg fs'. node_main (\<lambda>op p. None) None Map.empty = (Inr lg, fs') \<and> Logger_GetLogger lg LOG_CACHE = Some (JSONFormatter, Some ''logs/cache.log'')"
proof -
  obtain lg fs' where r: "node_main (\<lambda>op p. None) None Map.empty = (Inr lg, fs')"
    by (simp add: node_main_def RegisterLogger_def os_OpenAppend_def os_Mkdir_def GetGlobalLogger_def InitGlobalLogger_def Let_def)
  from node_main_loggers [OF r] r show ?thesis by blast
qed

text \<open>A node without a boot node of its cache network stops by itself: the services that the run command has started
  end, with the download queue gone, before any signal and whatever discovery and the reward server see.\<close>

theorem node_without_boots_stops:
  assumes "cmd_run_func N s fs w seed syncs early flag_config flag_c = Some (RunServing h sv, s', fs', w')"
    and "pg_Boots (df_CacheP2P (GetConfig s')) = []"
  shows "\<exists>c. run_services P R net st self found w'' ticks signal sv = Some c \<and> ca_dlQueue c = None"
proof -
  have "handler_of (RunServing h sv) = Some h" by (simp add: handler_of_def)
  from cmd_run_func_handler [OF assms(1) this] obtain account w1 where
    "start_services N (GetConfig s') (sv_contract h) account fs' w1 early = Some (RunServing h sv, w')" by blast
  from start_services_serving [OF this] assms(2) show ?thesis
    by (simp add: run_services_def services_stop_def RunDownloadServer_stop_def handler_ready_def)
qed

theorem node_without_boots_stops_witness:
  "\<exists>h sv s' fs' c. cmd_run_func mem_run config_init Map.empty 0 0 [Inr (5, 9), Inr (9, 9)] [] ''c'' '''' = Some (RunServing h sv, s', fs', 0) \<and>
     run_services (mem_proto []) mem_selector (mem_net []) (0, ()) (\<lambda>p. False) [] 0 [] False sv = Some c"
proof -
  obtain h sv s' fs' where r: "cmd_run_func mem_run config_init Map.empty 0 0 [Inr (5, 9), Inr (9, 9)] [] ''c'' '''' = Some (RunServing h sv, s', fs', 0)"
    and b: "pg_Boots (df_CacheP2P (GetConfig s')) = []"
    using mem_run_serves by blast
  from node_without_boots_stops [OF r b, where P = "mem_proto []" and R = mem_selector and net = "mem_net []" and st = "(0, ())"
      and self = "\<lambda>p. False" and found = "[]" and w'' = 0 and ticks = "[]" and signal = False] r
  show ?thesis by blast
qed

end
