(* ===== verification/Boot_Node.thy ===== *)
theory Boot_Node
  imports Node_P2p Node_Config
begin

text \<open>
  \<open>cd2n-boot/bootnode.go\<close>: the boot node, which joins the network without boot nodes of its own and
  serves discovery. The configuration, the identity and the peer node are those of the library; the
  start of the mDNS service is a parameter.
\<close>

section \<open>The program\<close>

record BootConfig =
  bc_WorkSpace :: string
  bc_NetWork :: string
  bc_Port :: int

definition BootConfig_zero :: BootConfig where
  "BootConfig_zero = \<lparr>bc_WorkSpace = '''', bc_NetWork = '''', bc_Port = 0\<rparr>"

text \<open>The notifee of the boot node ignores the peers that mDNS finds.\<close>

definition Boot_HandlePeerFound :: "'s \<Rightarrow> 'i \<Rightarrow> 's" where
  "Boot_HandlePeerFound s info = s"

datatype ('k, 'h, 'd) boot_outcome = BootLogged string | BootServing 'k 'h 'd

text \<open>The directory of the workspace; the error of creating it is not looked at.\<close>

definition boot_workspace :: "io_oracle \<Rightarrow> fs \<Rightarrow> string \<Rightarrow> fs" where
  "boot_workspace io fs ws = (case os_Stat io fs ws of Inr _ \<Rightarrow> fs | Inl err \<Rightarrow> fst (os_MkdirAll io fs ws))"

definition boot_main ::
  "BootConfig viper \<Rightarrow> ('m, 'i, 'k, 'h, 'd) p2p_env \<Rightarrow> io_oracle \<Rightarrow> goerr option \<Rightarrow> nat \<Rightarrow> fs \<Rightarrow> (('k, 'h, 'd) boot_outcome \<times> fs) option" where
  "boot_main V N io mdns seed fs =
     (case ParseCommonConfig V ''./config.yaml'' ''yaml'' BootConfig_zero of
        (conf, Some err) \<Rightarrow> Some (BootLogged ''parse config file error'', fs)
      | (conf, None) \<Rightarrow>
          (case Identification N io seed (boot_workspace io fs (bc_WorkSpace conf)) (path_Join [bc_WorkSpace conf, ''.key'']) of
             (Inl err, fs2) \<Rightarrow> Some (BootLogged ''init p2p identification error'', fs2)
           | (Inr key, fs2) \<Rightarrow>
               (case NewPeerNode N (bc_NetWork conf) ''v0'' [] [Identity key, ListenAddrStrings (listen_addr (bc_Port conf))] of
                  None \<Rightarrow> None
                | Some (Inl err) \<Rightarrow> Some (BootLogged ''init Server P2P Node error'', fs2)
                | Some (Inr (host, ipfsDHT)) \<Rightarrow>
                    (case mdns of
                       Some err \<Rightarrow> Some (BootLogged ''start mdns discovery error'', fs2)
                     | None \<Rightarrow> Some (BootServing key host ipfsDHT, fs2)))))"

section \<open>Laws\<close>

lemma boot_workspace_again:
  assumes "\<And>p. p \<noteq> kp \<Longrightarrow> fs' p = boot_workspace io fs ws p" and "fs' kp \<noteq> None"
  shows "boot_workspace io fs' ws = fs'"
proof (cases "ws = kp")
  case True
  then show ?thesis using assms(2) by (auto simp: boot_workspace_def os_MkdirAll_def split: sum.splits option.splits inode.splits)
next
  case False
  then have "fs' ws = boot_workspace io fs ws ws" using assms(1) by blast
  then show ?thesis
    by (auto simp: boot_workspace_def os_MkdirAll_def os_Stat_def split: sum.splits option.splits inode.splits if_splits)
qed

section \<open>Properties\<close>

text \<open>C39: A boot node keeps its identity over restarts: once it has served, every later start with the same
  configuration serves with the same key, its host made for that key, and leaves the file system as it is, so that the
  addresses configured in the other nodes stay valid; also where the network of a later start is another one, so that the
  host or the mDNS service may fail, it never serves with another key and never changes a file.\<close>

theorem boot_node_restarts:
  assumes "boot_main V N io mdns seed fs = Some (BootServing key host ipfsDHT, fs1)"
    and "ParseCommonConfig V ''./config.yaml'' ''yaml'' BootConfig_zero = (conf, None)"
    and "\<And>op. io op (path_Join [bc_WorkSpace conf, ''.key'']) = None"
    and "\<And>k b. pn_Raw N k = Inr b \<Longrightarrow> b \<noteq> [] \<and> pn_UnmarshalKey N b = Inr k"
  shows "boot_main V N io None seed2 fs1 = Some (BootServing key host ipfsDHT, fs1) \<and>
    (\<forall>N2 mdns2 out fs2. pn_UnmarshalKey N2 = pn_UnmarshalKey N \<and> boot_main V N2 io mdns2 seed2 fs1 = Some (out, fs2) \<longrightarrow>
       fs2 = fs1 \<and> (\<forall>key2 host2 dht2. out = BootServing key2 host2 dht2 \<longrightarrow>
         key2 = key \<and> NewPeerNode N2 (bc_NetWork conf) ''v0'' [] [Identity key, ListenAddrStrings (listen_addr (bc_Port conf))] = Some (Inr (host2, dht2))))"
proof -
  let ?kp = "path_Join [bc_WorkSpace conf, ''.key'']" and ?fs0 = "boot_workspace io fs (bc_WorkSpace conf)"
  have id: "Identification N io seed ?fs0 ?kp = (Inr key, fs1)" and nd: "NewPeerNode N (bc_NetWork conf) ''v0'' [] [Identity key, ListenAddrStrings (listen_addr (bc_Port conf))] = Some (Inr (host, ipfsDHT))"
    using assms(1,2) by (auto simp: boot_main_def split: prod.splits sum.splits option.splits)
  have again: "Identification N io seed2 fs1 ?kp = (Inr key, fs1)"
    by (rule Identification_again [OF id assms(3,3) _ refl]) (rule assms(4))
  have same: "Identification N2 io seed2 fs1 ?kp = (Inr key, fs1)" if "pn_UnmarshalKey N2 = pn_UnmarshalKey N" for N2
    by (rule Identification_again [OF id assms(3,3) _ that]) (rule assms(4))
  have "boot_workspace io fs1 (bc_WorkSpace conf) = fs1"
    by (rule boot_workspace_again [of ?kp]) (use Identification_frame [OF id] in auto)
  then show ?thesis using again assms(2) nd by (auto simp: boot_main_def same split: option.splits sum.splits)
qed

definition mem_boot :: "BootConfig viper" where
  "mem_boot = \<lparr>vp_ReadInConfig = (\<lambda>p t. None), vp_Unmarshal = (\<lambda>p t c. (c\<lparr>bc_WorkSpace := ''/b''\<rparr>, None))\<rparr>"

definition mem_boot_p2p :: "(string, string, string, string list, string list) p2p_env" where
  "mem_boot_p2p = mem_p2p\<lparr>pn_Raw := \<lambda>k. if k = ''key'' then Inr [1, 2] else Inl (Errorf ''none'')\<rparr>"

theorem boot_node_restarts_witness:
  "\<exists>fs1. boot_main mem_boot mem_boot_p2p (\<lambda>op p. None) None 5 Map.empty = Some (BootServing ''key'' [] [], fs1) \<and>
     boot_main mem_boot mem_boot_p2p (\<lambda>op p. None) None 9 fs1 = Some (BootServing ''key'' [] [], fs1)"
proof -
  have path: "path_Join [''/b'', ''.key''] = ''/b/.key''" by code_simp
  have conf: "ParseCommonConfig mem_boot ''./config.yaml'' ''yaml'' BootConfig_zero = (BootConfig_zero\<lparr>bc_WorkSpace := ''/b''\<rparr>, None)"
    by (simp add: ParseCommonConfig_def mem_boot_def)
  obtain fs1 where first: "boot_main mem_boot mem_boot_p2p (\<lambda>op p. None) None 5 Map.empty = Some (BootServing ''key'' [] [], fs1)"
    by (simp add: boot_main_def conf path boot_workspace_def os_Stat_def os_MkdirAll_def Identification_def os_Create_def file_Write_def
        mem_boot_p2p_def mem_p2p_def NewPeerNode_def)
  have "boot_main mem_boot mem_boot_p2p (\<lambda>op p. None) None 9 fs1 = Some (BootServing ''key'' [] [], fs1)"
    by (rule boot_node_restarts [THEN conjunct1, OF first conf]) (auto simp: mem_boot_p2p_def mem_p2p_def split: if_splits)
  then show ?thesis using first by blast
qed

end
