(* ===== verification/Spec2Isabelle.thy ===== *)
theory Spec2Isabelle
  imports Node_System Cache_Proto Client_Download Client_Upload Client_Space Ink_Client Node_Config Node_P2p Proto_Binding Token_Binding Node_Run Boot_Node
begin

text \<open>
  A verification of the CESS decentralised CDN components (\<open>src/\<close>, Go).

  \<^bold>\<open>The program.\<close> A cache node (\<open>cd2n-node\<close>) keeps fragments of files of the CESS storage network and web pages.
  Its cache actor serves queries and downloads on libp2p streams, counts fragments and requests in LevelDB,
  queues what is missing and sends it to the resource actor, which fetches it from neighbouring
  cache nodes, from storage nodes or over HTTP and sends it back. The credit manager keeps what every
  account sent and received. Contracts on an Ethereum or an ink chain register nodes, take
  cache orders and pay rewards. A client (\<open>cd2n-client\<close>) downloads files and segments from cache nodes with the
  storage network as fall-back, settles orders, and uploads files, boxes of files and fragments. A boot node
  (\<open>cd2n-boot\<close>) and command line tools (\<open>eth-tools\<close>) complete it.

  \<^bold>\<open>Which theory models which part.\<close>
  \<^item> \<open>Go_Prelude\<close>: Go's integers, strings, paths, errors, encodings, \<open>math/big\<close>, \<open>sync.Map\<close>, the key-value
    interface \<open>kv_store\<close> and the lemmas that all share. \<open>Cdn_Types\<close>: \<open>cd2n-lib/types\<close>. \<open>Cdn_Io\<close>:
    readers, writers, files and the copy loops of \<open>cd2n-lib/lib.go\<close>.
  \<^item> \<open>Cdn_Lib\<close>: the rest of \<open>cd2n-lib/lib.go\<close>: requests to cache nodes, storage downloads, recovery of files.
  \<^item> \<open>Credit\<close>: \<open>cd2n-lib/credit/credit.go\<close>; locales \<open>credit_ledger\<close> (what a ledger promises) and \<open>credit_db\<close> (a
    database whose writes never fail and a codec that reads back what it wrote: a fault-free environment, which is a restriction and not
    something LevelDB promises), the first a sublocale of the second.
  \<^item> \<open>Actors\<close>, \<open>Cache_Actor\<close>, \<open>Resource_Actor\<close>: \<open>cd2n-node/actors\<close>. The life of a node is the step relation
    \<open>node_step\<close>, in which the cache module may also expire entries at any moment; the concurrent query of the neighbours is \<open>query_step\<close>, and its results are the relation
    \<open>QuerySegmentFromNeighborCacher\<close>. A download runs inside the resource actor's \<open>Receive\<close>, so there the result of a query is a function
    of the state of the network, \<open>re_neighbors\<close>, which is \<open>None\<close> where the query never returns; \<open>queries_neighbors\<close> ties it to the
    relation, and a download that waits for such a query has no result either (\<open>popular_segment_stuck\<close>). \<open>Node_System\<close>: the two actors with their mailboxes, the step relation \<open>system_step\<close>.
  \<^item> \<open>Evm_Client\<close>, \<open>Cache_Proto\<close>, \<open>Ink_Client\<close>: \<open>cd2n-lib/protocol\<close> (\<open>evm_client.go\<close>, \<open>cache_evm_proto.go\<close>, \<open>ink\<close>).
    The locale \<open>first_match\<close> is what a wait for an event asks of its callback; every callback of the
    contract and of the token tool is an interpretation.
  \<^item> \<open>Abi_Binding\<close>, \<open>Proto_Binding\<close>, \<open>Token_Binding\<close>: the generated bindings of \<open>cd2n-lib/protocol/contract\<close>. The first holds what
    both files repeat: the iterator over events, its locale \<open>event_iterator\<close> (interpreted for each of the eight events) and the
    types that the interface description gives to calls and events. \<open>proto_of\<close> and \<open>token_of\<close> build from a binding the environment that
    the contract client and the token tool work on.
  \<^item> \<open>Client_Box\<close>, \<open>Client_Files\<close>, \<open>Client_Upload\<close>, \<open>Client_Space\<close>: \<open>cd2n-client/client\<close>. The concurrent downloads are
    \<open>cachers_step\<close> and \<open>load_step\<close>, with their results \<open>QuerySegmentFromCachers\<close> and \<open>DownloadSegmentFromCachers\<close>; the upload
    server with its channel and callers is \<open>upload_step\<close>. \<open>Client_Download\<close>: the client's downloads over the query they make.
  \<^item> \<open>Node_Config\<close>: \<open>cd2n-lib/config\<close>. \<open>Node_P2p\<close>: \<open>cd2n-lib/p2p\<close> and the two \<open>RunDiscovery\<close> functions. \<open>Node_Run\<close>:
    \<open>cd2n-node/run\<close> and \<open>logger\<close>. \<open>Boot_Node\<close>: \<open>cd2n-boot\<close>. \<open>Eth_Tools\<close>: \<open>eth-tools\<close>.
  \<^item> This theory: a client and a node joined by a stream.

  \<^bold>\<open>How code becomes definitions.\<close> A struct is a record, a method a function of the record that returns the changed record;
  a run-time panic or a call that never returns is \<open>None\<close>; an error is a value of \<open>goerr\<close>. Third-party code (libp2p,
  LevelDB, the CESS SDK, go-ethereum, viper, the file cache) is a
  record of functions; what is assumed of it is a locale or a named hypothesis, and each has an instance
  in memory (\<open>mem_...\<close>) on which the witnesses run. Failures of the file system come from an oracle, so every error branch can be taken.
  Channels and \<open>select\<close> loops are functions of the list of events that arrive; goroutines that interact are
  steps of a relation, in any interleaving.

  \<^bold>\<open>What the lemmas show.\<close>
  \<^item> Credit: postings add up per account (refinement of a ledger), the credit gate never closes, limits wrap.
  \<^item> Cache actor: records stay well formed in every reachable state; all writes of all operations are one of two
    kinds (\<open>record_write\<close>), from which it follows that a segment query never hits; counters follow the
    cache events; downloads deliver and charge. The download server is a sequence of the node's steps and ends when its threads do.
    With the resource actor: every request is answered or has a named reason not to be (\<open>request_acted_on\<close>), and what is
    cached is fetched again. Origins are credited for exactly the fragments that the cache took (\<open>moved\<close>).
  \<^item> Library: files are recovered from segments in order; a segment is restored from exactly the data shards, whose files then
    hold what the storage nodes deliver (\<open>delivers\<close>); what the copy loops return for any pieces of a message.
  \<^item> Resource actor: the neighbour query is bounded, terminates with few hits and hangs with many; the shuffle is fair.
  \<^item> Client: boxes implement greedy packing and what is cut out of them is determined for every file; a segment load counts, returns and
    credits failed downloads too; the upload server keeps peers distinct, finishes exactly when the chain has the file or every
    group, and can deadlock with its callers. A download that returns has used the
    storage network only.
  \<^item> Contracts: which event ends a wait, which order is paid, how many rewards are claimed; the ink client takes
    a lost connection for success. The bindings call the contracts as their interfaces say, the loop over a filter delivers exactly
    the events of the filter, and a node never claims an order.
  \<^item> Programs: the values and directories that parsing a configuration leaves; what a node has set up when its stream handler
    is installed, and that the download queue is not among it; identities persist.
  \<^item> Here: a fragment is transferred and charged between client and node, and clients never pay.

  \<^bold>\<open>Bounds and fuel.\<close> The loops of Go are structural recursions over their input or event lists, or
  functions with a measure (the bytes left to read); the twenty attempts of \<open>SubmitExtrinsic\<close> are counted
  down as in the code. Fuel is used in two places: \<open>drain\<close>, the loop of a caller over an iterator, where one round more than there are
  logs is proved to be enough (\<open>event_iterator\<close>), and the name that go-ethereum gives to an overloaded
  function (\<open>free_name\<close>), which tries as many numbers as there are names in use: the plain name is one of those, so one number is free.
  Event lists are arbitrary, and a list that ends early is a loop that still waits. Integers that wrap are words.

  \<^bold>\<open>Not modelled.\<close> \<open>protocol/cache_ink_proto.go\<close> and \<open>provider_actor.go\<close> hold types without code. The chain data types of
  \<open>ink/pattern.go\<close> are not used. Log output, the cobra command objects, signals and the start of
  mDNS are glue around libraries. Data races on plain fields (an error variable that two goroutines assign) are not represented; one
  call of the stream handler and one round of the download server are each one step, although the handlers of two streams and the
  rounds of two threads may overlap.

  \<^bold>\<open>Plan.\<close> Further compositions: the credit manager over the contract's order handle as a locale, several nodes that fetch from each
  other, and the return of a client's query when no node has the segment.
\<close>

section \<open>A client and a node\<close>

text \<open>
  A stream between a client and a cache node: what the client writes is what the node's service
  reads, and what the service has written when it returns is what the client copies; a reset or a
  panic of the service is an error of the copy. The state of the network is the state of the node, its
  chain and the bytes under way; \<open>enc\<close> is the JSON encoding of a request.
\<close>

definition link ::
  "(CacheRequest \<Rightarrow> bytes) \<Rightarrow> ('db, 'c) cache_env \<Rightarrow> 'w Order2Credit \<Rightarrow> fs \<Rightarrow> (('db, 'c) CacheActor \<times> 'w \<times> bytes) net_env" where
  "link enc V H fs = \<lparr>
     ne_NewStream = (\<lambda>(c, w, b) p. (None, (c, w, []))),
     ne_Write = (\<lambda>(c, w, b) p bs. (None, (c, w, b @ bs))),
     ne_Copy = (\<lambda>(c, w, b) p.
       case CacheService V H w c fs \<lparr>s_in = [RData b], s_out = \<lparr>wr_out = [], wr_script = []\<rparr>, s_reset = False, s_closed = False\<rparr> of
         None \<Rightarrow> (([], Some (Errorf ''stream reset'')), (c, w, []))
       | Some (c', w', s') \<Rightarrow>
           (if s_reset s' then ((wr_out (s_out s'), Some (Errorf ''stream reset'')), (c', w', []))
            else ((wr_out (s_out s'), None), (c', w', [])))),
     ne_MarshalRequest = (\<lambda>req. Inr (enc req)),
     ne_UnmarshalCacheResponse = (\<lambda>bs. (CacheResponse_zero, None)),
     ne_UnmarshalResponse = (\<lambda>bs. Inr AnyOther), ne_UnmarshalQuery = (\<lambda>bs. (CacheResponse_zero, None))\<rparr>"

lemma link_request:
  assumes "CacheService V H w c fs \<lparr>s_in = [RData (enc req)], s_out = \<lparr>wr_out = [], wr_script = []\<rparr>, s_reset = False, s_closed = False\<rparr> =
      Some (c', w', s')" and "\<not> s_reset s'" and "wr_out (s_out s') \<noteq> []"
  shows "SendRequestToCacher (link enc V H fs) (c, w, b) peerId req = ((wr_out (s_out s'), None), (c', w', []))"
  using assms by (simp add: SendRequestToCacher_def link_def)

section \<open>Properties\<close>

text \<open>C2: A fragment that a node has cached reaches the client: the client's download stores exactly the
  bytes of the node's file, and the node charges the client's account exactly their number and
  nobody else; but the download reports success exactly when the number of bytes is no multiple of 1024,
  so for every full fragment it fails although the fragment was delivered and charged.\<close>

theorem fragment_transfer:
  assumes "credit_db (cv_credit V)" and "credit_wf (cv_credit V) (ca_creditMg c)"
    and "cv_unmarshal V (enc (req\<lparr>rq_Option := OPTION_DOWNLOAD\<rparr>)) = Inr (req\<lparr>rq_Option := OPTION_DOWNLOAD\<rparr>)"
    and "\<not> 1024 dvd length (enc (req\<lparr>rq_Option := OPTION_DOWNLOAD\<rparr>))"
    and "rq_WantUrl req = ''''" and "rq_WantFile req = f @ ''/'' @ g @ ''/'' @ h" and "plain f" and "plain g" and "plain h"
    and "fc_GetCacheRecord (cv_cache V) (ca_FileCache c) (f @ ''/'' @ g @ ''/'' @ h) = (Inr p, fc)"
    and "fs p = Some (File bs)" and "\<forall>op. cv_io V op p = None" and "0 < length bs" and "length bs < 2 ^ 63"
    and "ce_DecompressPubkey (cv_credit V) (rq_AccountId req) = Inr pk" and "acc = ce_AddressHex (cv_credit V) pk"
    and "snd (credit_balance (cv_credit V) (ca_creditMg c) acc) \<noteq> - 1"
    and "os_Create io cfs fpath = (cfs1, None)" and "io ''write'' fpath = None"
  shows "\<exists>c'. DownloadFileFromCache (link enc V H fs) io (c, w, []) cfs peerId fpath req =
      Some (if 1024 dvd length bs then Some (Wrapped ''download file error'' io_EOF) else None, cfs1(fpath \<mapsto> File bs), (c', w, [])) \<and>
    credit_balance (cv_credit V) (ca_creditMg c') k =
      (if k = acc then (fst (credit_balance (cv_credit V) (ca_creditMg c) acc) + word_of_nat (length bs),
                        snd (credit_balance (cv_credit V) (ca_creditMg c) acc))
       else credit_balance (cv_credit V) (ca_creditMg c) k)"
proof -
  let ?req = "req\<lparr>rq_Option := OPTION_DOWNLOAD\<rparr>"
  let ?s = "\<lparr>s_in = [RData (enc ?req)], s_out = \<lparr>wr_out = [], wr_script = []\<rparr>, s_reset = False, s_closed = False\<rparr>"
  have read: "ReadData (s_in ?s) = Some (enc ?req, None)"
    using ReadData_message [of "[]" "enc ?req" "[]"] assms(4) by simp
  obtain c' s' where s: "CacheService V H w c fs ?s = Some (c', w, s')" "wr_out (s_out s') = bs" "\<not> s_reset s'"
    and bal: "credit_balance (cv_credit V) (ca_creditMg c') k =
      (if k = acc then (fst (credit_balance (cv_credit V) (ca_creditMg c) acc) + word_of_nat (length bs),
                        snd (credit_balance (cv_credit V) (ca_creditMg c) acc))
       else credit_balance (cv_credit V) (ca_creditMg c) k)"
    using CacheService_download [where V = V and c = c and s = ?s and data = "enc ?req" and req = ?req and f = f and g = g and h = h
        and p = p and fc = fc and fs = fs and bs = bs and pk = pk and acc = acc and H = H and w = w and k = k] assms(1-17) read
    by auto
  have "SendRequestToCacher (link enc V H fs) (c, w, []) peerId ?req = ((bs, None), (c', w, []))"
    using link_request [where enc = enc and req = ?req, OF s(1,3)] s(2) assms(13) by simp
  from DownloadFileFromCache_ok [OF this _ assms(18,19)] assms(13) bal show ?thesis by auto
qed

theorem fragment_transfer_witness:
  "\<exists>c'. DownloadFileFromCache (link (\<lambda>r. [123]) (mem_cache_env\<lparr>cv_unmarshal := \<lambda>bs. Inr (CacheRequest_zero\<lparr>rq_Option := OPTION_DOWNLOAD,
       rq_AccountId := [1], rq_WantFile := ''f/s/g''\<rparr>)\<rparr>) mem_orders [''/cache/g'' \<mapsto> File (replicate 1024 7)]) (\<lambda>op p. None)
     (mem_node\<lparr>ca_FileCache := [(''f/s/g'', ''/cache/g'')]\<rparr>, (), []) Map.empty ''peer'' ''/t/x''
     (CacheRequest_zero\<lparr>rq_AccountId := [1], rq_WantFile := ''f/s/g''\<rparr>) =
       Some (Some (Wrapped ''download file error'' io_EOF), [''/t/x'' \<mapsto> File (replicate 1024 7)], (c', (), [])) \<and>
     credit_balance mem_credit_env (ca_creditMg c') ''01'' = (1024, 0)"
proof -
  let ?req = "CacheRequest_zero\<lparr>rq_AccountId := [1], rq_WantFile := ''f/s/g''\<rparr>"
  let ?V = "mem_cache_env\<lparr>cv_unmarshal := \<lambda>bs. Inr (CacheRequest_zero\<lparr>rq_Option := OPTION_DOWNLOAD, rq_AccountId := [1], rq_WantFile := ''f/s/g''\<rparr>)\<rparr>"
  let ?c = "mem_node\<lparr>ca_FileCache := [(''f/s/g'', ''/cache/g'')]\<rparr>"
  have bal: "credit_balance mem_credit_env mem_credit0 k = (0, 0)" for k
    by (simp add: credit_balance_def mem_empty RecordItem_zero_def)
  have acc: "ce_AddressHex mem_credit_env [1] = ''01''" by (simp add: mem_credit_env_def hex_01 del: hex_EncodeToString.simps)
  have create: "os_Create (\<lambda>op p. None) Map.empty ''/t/x'' = ([''/t/x'' \<mapsto> File []], None)" by (simp add: os_Create_def)
  show ?thesis
    using fragment_transfer [of ?V ?c "\<lambda>r. [123]" ?req "''f''" "''s''" "''g''" "''/cache/g''" "[(''f/s/g'', ''/cache/g'')]"
      "[''/cache/g'' \<mapsto> File (replicate 1024 7)]" "replicate 1024 7" "[1]" "''01''" "\<lambda>op p. None" Map.empty "''/t/x''" "[''/t/x'' \<mapsto> File []]"
      mem_orders "()" "''peer''" "''01''"]
    by (auto simp: bal acc create mem.credit_db_axioms mem_wf mem_node_def mem_file_cache_def plain_def CacheRequest_zero_def)
qed

text \<open>C6: Clients never pay: for answers of nodes whose credit records are as the credit manager keeps them, with any
  debts of any account, the settlement of a client pays nothing, orders nothing on the chain and asks
  no node, as long as the resource limit of the nodes is positive, as it is by default.\<close>

theorem clients_never_pay:
  assumes "credit_db (cv_credit V)"
    and "\<forall>resp \<in> set resps. \<exists>c0 w0 c w acc c'. credit_wf (cv_credit V) c0 \<and> (credit_step (cv_credit V) H')\<^sup>*\<^sup>* (c0, w0) (ca_creditMg c, w) \<and>
      GetCacheInfo V c acc = (rs_Info resp, c') \<and> 0 <s cr_ResourceLimit (ca_creditMg c)"
  shows "PaymentCacheOrder Y E H cl st resps = Some st"
  using assms(2)
proof (induction resps)
  case (Cons resp resps)
  then obtain c0 w0 c w acc c' where r: "credit_wf (cv_credit V) c0" "(credit_step (cv_credit V) H')\<^sup>*\<^sup>* (c0, w0) (ca_creditMg c, w)"
    "GetCacheInfo V c acc = (rs_Info resp, c')" "0 <s cr_ResourceLimit (ca_creditMg c)" by auto
  from GetCacheInfo_wf [OF credit_db.wf_steps [OF assms(1) r(2,1)] r(3)] r(4) have "0 <s ci_CreditLimit (rs_Info resp)" by simp
  then have "pay_response Y E H cl st resp = Some st" by (simp add: pay_response_def Let_def split: prod.split)
  then show ?case using Cons by simp
qed simp

theorem clients_never_pay_witness:
  "\<forall>(Y :: (unit, string) pay_env) cl. PaymentCacheOrder Y mem_credit_env mem_orders cl (mem_credit0, (), ())
     [CacheResponse_zero\<lparr>rs_Info := fst (GetCacheInfo mem_cache_env mem_node ''01'')\<rparr>] = Some (mem_credit0, (), ())"
proof (intro allI)
  fix Y :: "(unit, string) pay_env" and cl :: "string CdnClient"
  have steps: "(credit_step (cv_credit mem_cache_env) mem_orders)\<^sup>*\<^sup>* (mem_credit0, ()) (ca_creditMg mem_node, ())" by (simp add: mem_node_def)
  have limit: "0 <s cr_ResourceLimit (ca_creditMg mem_node)"
    by (simp add: mem_node_def mem_credit0_def DEFALUT_RESOURCE_LIMIT_def word_sless_alt)
  have wf: "credit_wf (cv_credit mem_cache_env) mem_credit0" by (simp add: mem_wf)
  have "\<exists>c0 w0 c w acc c'. credit_wf (cv_credit mem_cache_env) c0 \<and> (credit_step (cv_credit mem_cache_env) mem_orders)\<^sup>*\<^sup>* (c0, w0) (ca_creditMg c, w) \<and>
      GetCacheInfo mem_cache_env c acc = (fst (GetCacheInfo mem_cache_env mem_node ''01''), c') \<and> 0 <s cr_ResourceLimit (ca_creditMg c)"
    using wf steps limit by (metis prod.collapse)
  then show "PaymentCacheOrder Y mem_credit_env mem_orders cl (mem_credit0, (), ())
      [CacheResponse_zero\<lparr>rs_Info := fst (GetCacheInfo mem_cache_env mem_node ''01'')\<rparr>] = Some (mem_credit0, (), ())"
    by (intro clients_never_pay [of mem_cache_env _ mem_orders]) (simp_all add: mem.credit_db_axioms)
qed

end
